(* ===== verification/Prelude.thy ===== *)
theory Prelude
  imports Main "HOL-Library.List_Lexorder" "HOL-Library.Char_ord" "HOL-Library.AList"
    "HOL-Library.Code_Target_Nat"
begin

text \<open>
  Shared vocabulary of the development: Python exceptions as values, the string operations the
  program uses, ordered dictionaries as association lists, sorted sets of keys, and the generic
  lemmas on them. Strings are 8-bit character lists; the model reads program text as ASCII, so
  \<open>str.lower\<close> and \<open>str.strip\<close> act on the ASCII letters and blanks. The order on strings is
  the code-point order of Python (\<open>List_Lexorder\<close> over \<open>Char_ord\<close>).
\<close>

section \<open>Exceptions as values\<close>

datatype exc =
    ValueError string
  | PolicyPlanError string
  | BandwidthRateError string
  | RouterError string
  | ReconciliationError string
  | BackgroundWorkError string
  | ParallelObservationError string
  | ConfigRevisionConflict string
  | KeyError string
  | ApiFault string
  | AuthError string
  | IntegrityError string
  | TypeError string
  | StructError string
  | UnicodeEncodeError string

type_synonym 'a res = "exc + 'a"

definition ebind :: "'a res \<Rightarrow> ('a \<Rightarrow> 'b res) \<Rightarrow> 'b res" where
  "ebind m f = (case m of Inl e \<Rightarrow> Inl e | Inr x \<Rightarrow> f x)"

lemma ebind_simps [simp]:
  "ebind (Inl e) f = Inl e"
  "ebind (Inr x) f = f x"
  by (simp_all add: ebind_def)

lemma ebind_eq_Inr: "ebind m f = Inr y \<longleftrightarrow> (\<exists>x. m = Inr x \<and> f x = Inr y)"
  by (cases m) auto

lemma ebind_eq_Inl: "ebind m f = Inl e \<longleftrightarrow> m = Inl e \<or> (\<exists>x. m = Inr x \<and> f x = Inl e)"
  by (cases m) auto

text \<open>A list comprehension whose body may raise: the first exception wins.\<close>

fun emap :: "('a \<Rightarrow> 'b res) \<Rightarrow> 'a list \<Rightarrow> 'b list res" where
  "emap f [] = Inr []"
| "emap f (x # xs) = ebind (f x) (\<lambda>y. ebind (emap f xs) (\<lambda>ys. Inr (y # ys)))"

lemma emap_Inr_set: "emap f xs = Inr ys \<Longrightarrow> y \<in> set ys \<Longrightarrow> \<exists>x \<in> set xs. f x = Inr y"
  by (induction xs arbitrary: ys) (auto simp: ebind_eq_Inr)

lemma emap_Inr_all: "emap f xs = Inr ys \<Longrightarrow> x \<in> set xs \<Longrightarrow> \<exists>y \<in> set ys. f x = Inr y"
  by (induction xs arbitrary: ys) (auto simp: ebind_eq_Inr)

lemma emap_total: "(\<And>x. x \<in> set xs \<Longrightarrow> f x = Inr (g x)) \<Longrightarrow> emap f xs = Inr (map g xs)"
  by (induction xs) auto

lemma emap_length: "emap f xs = Inr ys \<Longrightarrow> length ys = length xs"
  by (induction xs arbitrary: ys) (auto simp: ebind_eq_Inr)

section \<open>Strings\<close>

definition is_blank :: "char \<Rightarrow> bool" where
  "is_blank c = (c \<in> {CHR 0x09, CHR 0x0A, CHR 0x0B, CHR 0x0C, CHR 0x0D,
                      CHR 0x1C, CHR 0x1D, CHR 0x1E, CHR 0x1F, CHR '' ''})"

definition py_strip :: "string \<Rightarrow> string" where
  "py_strip s = rev (dropWhile is_blank (rev (dropWhile is_blank s)))"

definition lower_char :: "char \<Rightarrow> char" where
  "lower_char c = (if CHR ''A'' \<le> c \<and> c \<le> CHR ''Z'' then char_of ((of_char c :: nat) + 32) else c)"

definition upper_char :: "char \<Rightarrow> char" where
  "upper_char c = (if CHR ''a'' \<le> c \<and> c \<le> CHR ''z'' then char_of ((of_char c :: nat) - 32) else c)"

definition py_lower :: "string \<Rightarrow> string" where
  "py_lower s = map lower_char s"

definition py_upper :: "string \<Rightarrow> string" where
  "py_upper s = map upper_char s"

text \<open>\<open>str(x).strip().lower()\<close>, the normal form of a key.\<close>

definition norm_key :: "string \<Rightarrow> string" where
  "norm_key s = py_lower (py_strip s)"

text \<open>Python's \<open>a or b\<close> on strings.\<close>

definition str_or :: "string \<Rightarrow> string \<Rightarrow> string" where
  "str_or a b = (if a = [] then b else a)"

text \<open>\<open>opt or default\<close> for an optional string: both \<open>None\<close> and the empty string are false.\<close>

definition opt_or :: "string option \<Rightarrow> string \<Rightarrow> string" where
  "opt_or x d = (case x of None \<Rightarrow> d | Some s \<Rightarrow> str_or s d)"

lemma dropWhile_id: "s = [] \<or> \<not> P (hd s) \<Longrightarrow> dropWhile P s = s"
  by (cases s) auto

lemma py_strip_id:
  "s = [] \<or> (\<not> is_blank (hd s) \<and> \<not> is_blank (last s)) \<Longrightarrow> py_strip s = s"
  unfolding py_strip_def by (subst dropWhile_id, force, subst dropWhile_id) (auto simp: hd_rev)

lemma py_strip_ends: "py_strip s = [] \<or> (\<not> is_blank (hd (py_strip s)) \<and> \<not> is_blank (last (py_strip s)))"
proof -
  define t where "t = dropWhile is_blank s"
  define u where "u = dropWhile is_blank (rev t)"
  have t: "t = [] \<or> \<not> is_blank (hd t)"
    unfolding t_def by (metis hd_dropWhile)
  have u: "u = [] \<or> \<not> is_blank (hd u)"
    unfolding u_def by (metis hd_dropWhile)
  obtain w where w: "rev t = w @ u"
    unfolding u_def by (metis takeWhile_dropWhile_id)
  have "u \<noteq> [] \<Longrightarrow> last u = hd t"
    using w by (metis append_is_Nil_conv hd_rev last_appendR rev_is_Nil_conv rev_rev_ident)
  moreover have "py_strip s = rev u"
    by (simp add: py_strip_def t_def u_def)
  ultimately show ?thesis
    using t u w by (auto simp: hd_rev last_rev)
qed

lemma py_strip_idem [simp]: "py_strip (py_strip s) = py_strip s"
  by (rule py_strip_id) (rule py_strip_ends)

text \<open>An interpolated value between single quotes.\<close>

definition sq :: "string \<Rightarrow> string" where
  "sq s = CHR 0x27 # s @ [CHR 0x27]"

fun join_with :: "string \<Rightarrow> string list \<Rightarrow> string" where
  "join_with sep [] = []"
| "join_with sep [x] = x"
| "join_with sep (x # y # ys) = x @ sep @ join_with sep (y # ys)"

fun split_on :: "char \<Rightarrow> string \<Rightarrow> string list" where
  "split_on c [] = [[]]"
| "split_on c (x # xs) =
     (if x = c then [] # split_on c xs
      else (case split_on c xs of [] \<Rightarrow> [[x]] | w # ws \<Rightarrow> (x # w) # ws))"

lemma split_on_nonempty [simp]: "split_on c s \<noteq> []"
  by (induction s) (auto split: list.splits)

lemma split_on_free: "c \<notin> set s \<Longrightarrow> split_on c s = [s]"
  by (induction s) auto

lemma split_on_app: "c \<notin> set s \<Longrightarrow> split_on c (s @ c # t) = s # split_on c t"
  by (induction s) auto

definition starts_with :: "string \<Rightarrow> string \<Rightarrow> bool" where
  "starts_with p s = (take (length p) s = p)"

definition ends_with :: "string \<Rightarrow> string \<Rightarrow> bool" where
  "ends_with p s = (starts_with (rev p) (rev s))"

lemma ends_with_iff: "ends_with p s \<longleftrightarrow> (\<exists>q. s = q @ p)"
proof
  assume "ends_with p s"
  then have "rev s = rev p @ drop (length p) (rev s)"
    unfolding ends_with_def starts_with_def
    by (metis append_take_drop_id length_rev)
  then have "s = rev (drop (length p) (rev s)) @ p"
    by (metis rev_append rev_rev_ident)
  then show "\<exists>q. s = q @ p" by blast
next
  assume "\<exists>q. s = q @ p"
  then show "ends_with p s" by (auto simp: ends_with_def starts_with_def)
qed

subsection \<open>Decimal numerals\<close>

definition digit_char :: "nat \<Rightarrow> char" where
  "digit_char d = char_of (48 + d)"

definition is_digit :: "char \<Rightarrow> bool" where
  "is_digit c = (CHR ''0'' \<le> c \<and> c \<le> CHR ''9'')"

definition digit_val :: "char \<Rightarrow> nat" where
  "digit_val c = of_char c - 48"

fun show_nat :: "nat \<Rightarrow> string" where
  "show_nat n = (if n < 10 then [digit_char n] else show_nat (n div 10) @ [digit_char (n mod 10)])"

declare show_nat.simps [simp del]

definition show_int :: "int \<Rightarrow> string" where
  "show_int i = (if i < 0 then CHR ''-'' # show_nat (nat (- i)) else show_nat (nat i))"

definition pad2 :: "nat \<Rightarrow> string" where
  "pad2 n = (if n < 10 then CHR ''0'' # show_nat n else show_nat n)"

definition val_digits :: "string \<Rightarrow> nat" where
  "val_digits s = foldl (\<lambda>n c. 10 * n + digit_val c) 0 s"

lemma of_char_digit_char: "d < 10 \<Longrightarrow> of_char (digit_char d) = (48 + d :: nat)"
  by (simp add: digit_char_def of_char_of take_bit_eq_mod)

lemma is_digit_iff: "is_digit c \<longleftrightarrow> 48 \<le> (of_char c :: nat) \<and> (of_char c :: nat) \<le> 57"
  by (simp add: is_digit_def less_eq_char_def)

lemma is_digit_digit_char [simp]: "d < 10 \<Longrightarrow> is_digit (digit_char d)"
  by (simp add: is_digit_iff of_char_digit_char)

lemma digit_val_digit_char [simp]: "d < 10 \<Longrightarrow> digit_val (digit_char d) = d"
  by (simp add: digit_val_def of_char_digit_char)

lemma show_nat_digits: "\<forall>c \<in> set (show_nat n). is_digit c"
proof (induction n rule: show_nat.induct)
  case (1 n)
  show ?case
    using 1 by (cases "n < 10") (auto simp: show_nat.simps [of n])
qed

lemma show_nat_nonempty [simp]: "show_nat n \<noteq> []"
  by (subst show_nat.simps) auto

lemma val_digits_snoc: "val_digits (s @ [c]) = 10 * val_digits s + digit_val c"
  by (simp add: val_digits_def)

lemma val_digits_show_nat [simp]: "val_digits (show_nat n) = n"
proof (induction n rule: show_nat.induct)
  case (1 n)
  show ?case
  proof (cases "n < 10")
    case True
    then show ?thesis by (simp add: show_nat.simps [of n] val_digits_def)
  next
    case False
    then show ?thesis
      using 1 by (simp add: show_nat.simps [of n] val_digits_snoc)
  qed
qed

lemma show_nat_inj: "show_nat m = show_nat n \<Longrightarrow> m = n"
  by (metis val_digits_show_nat)

subsection \<open>Values of forms and JSON documents\<close>

text \<open>The dynamically typed values that reach the validators: absent, booleans, integers, strings.\<close>

datatype pyval = PNone | PBool bool | PInt int | PStr string

text \<open>\<open>value in (None, "", 0, "0")\<close>; in Python \<open>False == 0\<close>.\<close>

definition is_zero_form :: "pyval \<Rightarrow> bool" where
  "is_zero_form v = (v \<in> {PNone, PStr [], PInt 0, PBool False, PStr ''0''})"

text \<open>\<open>int(s)\<close> of a string: blanks around it, one sign, digits with single underscores between them.\<close>

fun digits_underscored :: "bool \<Rightarrow> string \<Rightarrow> string option" where
  "digits_underscored prev [] = (if prev then Some [] else None)"
| "digits_underscored prev (c # cs) =
     (if is_digit c then map_option (\<lambda>ds. c # ds) (digits_underscored True cs)
      else if c = CHR ''_'' \<and> prev then digits_underscored False cs
      else None)"

definition py_int :: "string \<Rightarrow> int option" where
  "py_int s =
     (let t = py_strip s;
          (sgn, body) = (case t of
              [] \<Rightarrow> (1, [])
            | c # cs \<Rightarrow> if c = CHR ''-'' then (- 1, cs) else if c = CHR ''+'' then (1, cs) else (1, t))
      in map_option (\<lambda>ds. sgn * int (val_digits ds)) (digits_underscored False body))"

definition pyval_int :: "pyval \<Rightarrow> int option" where
  "pyval_int v = (case v of PNone \<Rightarrow> None | PBool b \<Rightarrow> Some (if b then 1 else 0)
                  | PInt i \<Rightarrow> Some i | PStr s \<Rightarrow> py_int s)"

section \<open>Sorted sets of keys\<close>

text \<open>Python's \<open>sorted(set(xs))\<close>.\<close>

definition sorted_set :: "'a::linorder list \<Rightarrow> 'a list" where
  "sorted_set xs = sort (remdups xs)"

lemma set_sorted_set [simp]: "set (sorted_set xs) = set xs"
  by (simp add: sorted_set_def)

lemma sorted_sorted_set [simp]: "sorted (sorted_set xs)"
  by (simp add: sorted_set_def)

lemma distinct_sorted_set [simp]: "distinct (sorted_set xs)"
  by (simp add: sorted_set_def)

lemma sorted_set_eq_iff: "sorted_set xs = sorted_set ys \<longleftrightarrow> set xs = set ys"
  by (metis distinct_sorted_set set_sorted_set sorted_distinct_set_unique sorted_sorted_set)

lemma sorted_set_idem: "sorted_set (sorted_set xs) = sorted_set xs"
  by (simp add: sorted_set_eq_iff)

lemma sorted_set_id: "sorted xs \<Longrightarrow> distinct xs \<Longrightarrow> sorted_set xs = xs"
  by (simp add: sorted_set_def sorted_sort_id distinct_remdups_id)

section \<open>Ordered dictionaries\<close>

text \<open>
  A Python dictionary whose iteration order matters is an association list. Storing under a key
  that is present keeps its place, a new key goes to the end (\<open>AList.update\<close>).
\<close>

definition dict_keys :: "('k \<times> 'v) list \<Rightarrow> 'k list" where
  "dict_keys d = map fst d"

definition dict_get :: "('k \<times> 'v) list \<Rightarrow> 'k \<Rightarrow> 'v \<Rightarrow> 'v" where
  "dict_get d k v = (case map_of d k of None \<Rightarrow> v | Some w \<Rightarrow> w)"

lemma set_dict_keys: "set (dict_keys d) = dom (map_of d)"
  by (simp add: dict_keys_def dom_map_of_conv_image_fst)

lemma set_dict_update [simp]: "set (dict_keys (AList.update k v d)) = insert k (set (dict_keys d))"
  by (simp add: dict_keys_def dom_update)

lemma distinct_dict_update: "distinct (dict_keys d) \<Longrightarrow> distinct (dict_keys (AList.update k v d))"
  by (simp add: dict_keys_def distinct_update)

section \<open>Selection by extremal key\<close>

text \<open>The items of a non-empty list whose key is largest, as the resolvers compute them.\<close>

definition maxima_by :: "('a \<Rightarrow> 'b::linorder) \<Rightarrow> 'a list \<Rightarrow> 'a list" where
  "maxima_by f xs = filter (\<lambda>x. f x = Max (f ` set xs)) xs"

definition minima_by :: "('a \<Rightarrow> 'b::linorder) \<Rightarrow> 'a list \<Rightarrow> 'a list" where
  "minima_by f xs = filter (\<lambda>x. f x = Min (f ` set xs)) xs"

lemma maxima_by_iff: "x \<in> set (maxima_by f xs) \<longleftrightarrow> x \<in> set xs \<and> (\<forall>y \<in> set xs. f y \<le> f x)"
proof (cases "xs = []")
  case False
  then have "f x = Max (f ` set xs) \<longleftrightarrow> (\<forall>y \<in> set xs. f y \<le> f x)" if "x \<in> set xs"
    using that False by (subst eq_commute, subst Max_eq_iff) auto
  then show ?thesis by (auto simp: maxima_by_def)
qed (simp add: maxima_by_def)

lemma minima_by_iff: "x \<in> set (minima_by f xs) \<longleftrightarrow> x \<in> set xs \<and> (\<forall>y \<in> set xs. f x \<le> f y)"
proof (cases "xs = []")
  case False
  then have "f x = Min (f ` set xs) \<longleftrightarrow> (\<forall>y \<in> set xs. f x \<le> f y)" if "x \<in> set xs"
    using that False by (subst eq_commute, subst Min_eq_iff) auto
  then show ?thesis by (auto simp: minima_by_def)
qed (simp add: minima_by_def)

lemma maxima_by_nonempty: "xs \<noteq> [] \<Longrightarrow> maxima_by f xs \<noteq> []"
proof -
  assume "xs \<noteq> []"
  then have "Max (f ` set xs) \<in> f ` set xs" by (intro Max_in) auto
  then obtain x where "x \<in> set xs" "f x = Max (f ` set xs)" by auto
  then have "x \<in> set (maxima_by f xs)" by (simp add: maxima_by_def)
  then show ?thesis by (metis empty_iff empty_set)
qed

lemma minima_by_nonempty: "xs \<noteq> [] \<Longrightarrow> minima_by f xs \<noteq> []"
proof -
  assume "xs \<noteq> []"
  then have "Min (f ` set xs) \<in> f ` set xs" by (intro Min_in) auto
  then obtain x where "x \<in> set xs" "f x = Min (f ` set xs)" by auto
  then have "x \<in> set (minima_by f xs)" by (simp add: minima_by_def)
  then show ?thesis by (metis empty_iff empty_set)
qed

lemma find_Some_mem: "find P xs = Some x \<Longrightarrow> x \<in> set xs \<and> P x"
  by (induction xs) (auto split: if_splits)

lemma last_sort_key_in: "xs \<noteq> [] \<Longrightarrow> last (sort_key f xs) \<in> set xs"
  by (metis last_in_set set_empty set_sort)

lemma hd_sort_key_in: "xs \<noteq> [] \<Longrightarrow> hd (sort_key f xs) \<in> set xs"
  by (metis hd_in_set set_empty set_sort)

lemma hd_sort_key_min: "x \<in> set xs \<Longrightarrow> f (hd (sort_key f xs)) \<le> f x"
proof -
  assume x: "x \<in> set xs"
  have s: "sorted (map f (sort_key f xs))" by simp
  have "x \<in> set (sort_key f xs)" using x by simp
  then show ?thesis using s by (cases "sort_key f xs") auto
qed

end
