(* ===== verification/ServiceCatalog.thy ===== *)
theory ServiceCatalog
  imports Prelude
begin

text \<open>
  The RouterOS-backed service catalogue (\<open>src/app/service_catalog.py\<close>) and the deterministic
  contracts of explicitly provisioned custom services (\<open>src/app/service_provisioning.py\<close>).
  A catalogue is an ordered dictionary from service keys to contracts.
\<close>

section \<open>Contracts\<close>

record block_rule =
  br_comment :: string
  br_detector_list :: string

record learner_rule =
  ln_comment :: string
  ln_address_list :: string
  ln_tls_host :: string

record service_def =
  sv_name :: string
  sv_source_list :: string
  sv_classification :: string
  sv_coverage_note :: string
  sv_rules :: "block_rule list"
  sv_learners :: "learner_rule list"
  sv_dns_suffixes :: "string list"
  sv_tls_patterns :: "string list"
  sv_category :: string
  sv_managed_custom :: bool

type_synonym catalog = "(string \<times> service_def) list"

text \<open>The constructor of a built-in entry with one detector list.\<close>

definition mk_service ::
  "string \<Rightarrow> string \<Rightarrow> string \<Rightarrow> string \<Rightarrow> (string \<times> string) list \<Rightarrow> string \<Rightarrow> service_def" where
  "mk_service name source_list detector_list block_comment learners coverage_note =
     \<lparr> sv_name = name, sv_source_list = source_list, sv_classification = ''TLS/SNI'',
       sv_coverage_note = coverage_note,
       sv_rules = [\<lparr> br_comment = block_comment, br_detector_list = detector_list \<rparr>],
       sv_learners = map (\<lambda>(c, t). \<lparr> ln_comment = c, ln_address_list = detector_list, ln_tls_host = t \<rparr>) learners,
       sv_dns_suffixes = [], sv_tls_patterns = [], sv_category = [],
       sv_managed_custom = False \<rparr>"

definition youtube_service :: service_def where
  "youtube_service =
     \<lparr> sv_name = ''YouTube'', sv_source_list = ''MC_Block_YouTube'', sv_classification = ''TLS/SNI'',
       sv_coverage_note = ''Uses the existing YouTube and GoogleVideo detector lists.'',
       sv_rules =
         [\<lparr> br_comment = ''RW10 - Block YouTube'', br_detector_list = ''Detected_YouTube'' \<rparr>,
          \<lparr> br_comment = ''RW11 - Block GoogleVideo'', br_detector_list = ''Detected_GoogleVideo'' \<rparr>],
       sv_learners =
         [\<lparr> ln_comment = ''RW03 - Learn YouTube'', ln_address_list = ''Detected_YouTube'',
            ln_tls_host = ''*youtube*'' \<rparr>,
          \<lparr> ln_comment = ''RW04 - Learn GoogleVideo'', ln_address_list = ''Detected_GoogleVideo'',
            ln_tls_host = ''*googlevideo*'' \<rparr>],
       sv_dns_suffixes = [], sv_tls_patterns = [], sv_category = [],
       sv_managed_custom = False \<rparr>"

definition service_enforcement_entries :: catalog where
  "service_enforcement_entries = [
     (''youtube'', youtube_service),
     (''chatgpt'', mk_service ''ChatGPT'' ''MC_Block_ChatGPT'' ''Detected_ChatGPT''
        ''RW12 - Block ChatGPT'' [(''RW06 - Learn ChatGPT'', ''*chatgpt*'')] []),
     (''openai'', mk_service ''OpenAI'' ''MC_Block_OpenAI'' ''Detected_OpenAI''
        ''RW13 - Block OpenAI'' [(''RW05 - Learn OpenAI'', ''*openai*'')] []),
     (''netflix'', mk_service ''Netflix'' ''MC_Block_Netflix'' ''Detected_Netflix''
        ''RW14 - Block Netflix''
        [(''RW30 - Learn Netflix'', ''*netflix*''), (''RW31 - Learn Netflix CDN'', ''*nflx*'')] []),
     (''prime_video'', mk_service ''Prime Video'' ''MC_Block_PrimeVideo'' ''Detected_PrimeVideo''
        ''RW15 - Block Prime Video''
        [(''RW32 - Learn Prime Video'', ''*primevideo*''),
         (''RW33 - Learn Amazon Video'', ''*amazonvideo*''),
         (''RW34 - Learn AIV CDN'', ''*aiv-cdn*'')]
        ''Conservative Prime Video-specific hostnames; shared Amazon infrastructure is not broadly blocked.''),
     (''bbc_iplayer'', mk_service ''BBC iPlayer'' ''MC_Block_BBCiPlayer'' ''Detected_BBCiPlayer''
        ''RW16 - Block BBC iPlayer''
        [(''RW35 - Learn BBC iPlayer'', ''*iplayer*''),
         (''RW36 - Learn BBC iPlayer Format'', ''*bbcfmt*''),
         (''RW37 - Learn BBC iPlayer Media'', ''*bbcmedia*'')]
        ''Conservative iPlayer/media-specific SNI matching; shared BBC/CDN traffic is deliberately not blanket-blocked.''),
     (''tiktok'', mk_service ''TikTok'' ''MC_Block_TikTok'' ''Detected_TikTok''
        ''RW17 - Block TikTok''
        [(''RW38 - Learn TikTok'', ''*tiktok*''),
         (''RW39 - Learn MusicalLy'', ''*musical.ly*''),
         (''RW40 - Learn TikTok Media'', ''*muscdn*'')]
        ''Primary TikTok-owned hostnames only; deliberately avoids broad ByteDance shared-domain matching.''),
     (''discord'', mk_service ''Discord'' ''MC_Block_Discord'' ''Detected_Discord''
        ''RW18 - Block Discord'' [(''RW41 - Learn Discord'', ''*discord*'')] []),
     (''roblox'', mk_service ''Roblox'' ''MC_Block_Roblox'' ''Detected_Roblox''
        ''RW19 - Block Roblox''
        [(''RW42 - Learn Roblox'', ''*roblox*''), (''RW43 - Learn Roblox CDN'', ''*rbxcdn*'')]
        ''Covers Roblox HTTPS/API/CDN endpoints. Experience traffic can also use high UDP ports.''),
     (''steam'', mk_service ''Steam'' ''MC_Block_Steam'' ''Detected_Steam''
        ''RW20 - Block Steam'' [(''RW44 - Learn Steam'', ''*steam*'')]
        ''Covers Steam HTTPS endpoints; Steam/game traffic can also use non-HTTPS TCP/UDP ports.''),
     (''xbox'', mk_service ''Xbox'' ''MC_Block_Xbox'' ''Detected_Xbox''
        ''RW21 - Block Xbox'' [(''RW45 - Learn Xbox'', ''*xbox*'')]
        ''Covers Xbox HTTPS service endpoints; console/game traffic can also use other protocols.''),
     (''playstation'', mk_service ''PlayStation'' ''MC_Block_PlayStation'' ''Detected_PlayStation''
        ''RW22 - Block PlayStation''
        [(''RW46 - Learn PlayStation'', ''*playstation*''),
         (''RW47 - Learn Sony Entertainment Network'', ''*sonyentertainmentnetwork*'')]
        ''Covers PlayStation/PSN HTTPS endpoints; console/game traffic can also use other protocols.'')]"

definition SERVICE_DNS_SUFFIXES :: "(string \<times> string list) list" where
  "SERVICE_DNS_SUFFIXES = [
     (''youtube'', [''youtube.com'', ''youtu.be'', ''googlevideo.com'', ''ytimg.com'', ''youtube-nocookie.com'']),
     (''netflix'', [''netflix.com'', ''netflix.net'', ''nflxvideo.net'', ''nflximg.net'', ''nflxso.net'']),
     (''prime_video'', [''primevideo.com'', ''amazonvideo.com'', ''aiv-cdn.net'', ''aiv-delivery.net'']),
     (''bbc_iplayer'', [''bbc.co.uk'', ''bbc.com'', ''bbci.co.uk'', ''bbcmedia.co.uk'', ''bbcmedia.net'']),
     (''chatgpt'', [''chatgpt.com'', ''oaistatic.com'', ''oaiusercontent.com'']),
     (''openai'', [''openai.com'']),
     (''tiktok'', [''tiktok.com'', ''tiktokcdn.com'', ''tiktokv.com'', ''byteoversea.com'', ''muscdn.com'', ''musical.ly'']),
     (''discord'', [''discord.com'', ''discord.gg'', ''discordapp.com'', ''discordapp.net'']),
     (''roblox'', [''roblox.com'', ''rbxcdn.com'']),
     (''steam'', [''steampowered.com'', ''steamcommunity.com'', ''steamcontent.com'', ''steamstatic.com'']),
     (''xbox'', [''xboxlive.com'', ''xbox.com'', ''xboxservices.com'']),
     (''playstation'', [''playstation.net'', ''playstation.com'', ''sonyentertainmentnetwork.com''])]"

definition SERVICE_CATEGORIES :: "(string \<times> string) list" where
  "SERVICE_CATEGORIES = [
     (''youtube'', ''video''), (''netflix'', ''video''), (''prime_video'', ''video''),
     (''bbc_iplayer'', ''video''), (''chatgpt'', ''ai''), (''openai'', ''ai''),
     (''tiktok'', ''social''), (''discord'', ''social''), (''roblox'', ''gaming''),
     (''steam'', ''gaming''), (''xbox'', ''gaming''), (''playstation'', ''gaming'')]"

text \<open>The module-level loop that completes every entry in place.\<close>

definition complete_service :: "string \<times> service_def \<Rightarrow> string \<times> service_def" where
  "complete_service kd =
     (fst kd, (snd kd)\<lparr> sv_dns_suffixes := dict_get SERVICE_DNS_SUFFIXES (fst kd) [],
                        sv_tls_patterns := filter (\<lambda>t. t \<noteq> []) (map ln_tls_host (sv_learners (snd kd))),
                        sv_category := dict_get SERVICE_CATEGORIES (fst kd) ''other'' \<rparr>)"

definition SERVICE_ENFORCEMENT :: catalog where
  "SERVICE_ENFORCEMENT = map complete_service service_enforcement_entries"

definition SUPPORTED_SERVICE_KEYS :: "string list" where
  "SUPPORTED_SERVICE_KEYS = dict_keys SERVICE_ENFORCEMENT"

record service_metadata =
  sm_key :: string
  sm_name :: string
  sm_category :: string
  sm_dns_suffixes :: "string list"
  sm_tls_patterns :: "string list"
  sm_routeros_managed :: bool
  sm_source_list :: string
  sm_detector_lists :: "string list"
  sm_coverage_note :: string

definition builtin_service_metadata :: "string \<Rightarrow> service_metadata option" where
  "builtin_service_metadata service_key =
     (case map_of SERVICE_ENFORCEMENT service_key of
        None \<Rightarrow> None
      | Some item \<Rightarrow> Some
          \<lparr> sm_key = service_key, sm_name = sv_name item, sm_category = sv_category item,
            sm_dns_suffixes = sv_dns_suffixes item, sm_tls_patterns = sv_tls_patterns item,
            sm_routeros_managed = True, sm_source_list = sv_source_list item,
            sm_detector_lists = map br_detector_list (sv_rules item),
            sm_coverage_note = sv_coverage_note item \<rparr>)"

section \<open>Custom contracts\<close>

text \<open>A row of the \<open>services\<close> table, as \<open>list_services\<close> reads it.\<close>

record service_row =
  sr_key :: string
  sr_name :: string
  sr_builtin :: bool
  sr_category :: string
  sr_dns_suffixes :: "string list"
  sr_tls_patterns :: "string list"
  sr_enforcement_approved :: bool

definition is_key_char :: "char \<Rightarrow> bool" where
  "is_key_char c = ((CHR ''a'' \<le> c \<and> c \<le> CHR ''z'') \<or> is_digit c)"

text \<open>\<open>re.split(r"[^a-z0-9]+", s)\<close> without its empty parts: the maximal runs of key characters.\<close>

fun key_runs :: "string \<Rightarrow> string list" where
  "key_runs [] = []"
| "key_runs (c # cs) =
     (if is_key_char c
      then (case cs of
              [] \<Rightarrow> [[c]]
            | d # ds \<Rightarrow> (if is_key_char d
                then (case key_runs cs of [] \<Rightarrow> [[c]] | w # ws \<Rightarrow> (c # w) # ws)
                else [c] # key_runs cs))
      else key_runs cs)"

definition service_token :: "string \<Rightarrow> string res" where
  "service_token key =
     (let parts = key_runs (py_lower key);
          token = concat (map (\<lambda>part. py_upper (take 1 part) @ drop 1 part) parts)
      in if parts = [] then Inl (ValueError ''Custom service key is required for RouterOS provisioning'')
         else if length token > 48
         then Inl (ValueError ''Custom service key is too long for deterministic RouterOS names'')
         else Inr token)"

definition CUSTOM_SERVICE_COMMENT_PREFIX :: string where
  "CUSTOM_SERVICE_COMMENT_PREFIX = ''MC|SVC|''"

record service_contract = service_def +
  ct_key :: string
  ct_detector_lists :: "string list"
  ct_ownership_prefix :: string
  ct_contract_version :: nat

definition build_custom_service_contract :: "service_row \<Rightarrow> service_contract res" where
  "build_custom_service_contract service =
     (if sr_builtin service then Inl (ValueError ''Only custom services can use managed custom provisioning'')
      else
        let key = norm_key (sr_key service);
            name = py_strip (str_or (sr_name service) key);
            tls_patterns = filter (\<lambda>p. p \<noteq> []) (map norm_key (sr_tls_patterns service))
        in
        if tls_patterns = [] then
          Inl (ValueError (''Custom RouterOS enforcement requires at least one TLS/SNI pattern; ''
                           @ ''DNS-only services remain reporting-only''))
        else if length tls_patterns > 40 then
          Inl (ValueError ''Custom RouterOS enforcement supports at most 40 TLS/SNI patterns'')
        else
          ebind (service_token key) (\<lambda>token.
            let source_list = ''MC_Block_'' @ token;
                detector_list = ''MC_Detected_'' @ token;
                comment_prefix = CUSTOM_SERVICE_COMMENT_PREFIX @ key @ ''|''
            in Inr
              \<lparr> sv_name = name, sv_source_list = source_list, sv_classification = ''TLS/SNI'',
                sv_coverage_note =
                  ''Operator-approved custom TLS/SNI contract. DNS/IPFIX classification remains ''
                  @ ''evidence-led and may have broader coverage than RouterOS TLS enforcement.'',
                sv_rules = [\<lparr> br_comment = comment_prefix @ ''BLOCK|01'', br_detector_list = detector_list \<rparr>],
                sv_learners = map (\<lambda>(index, pattern).
                    \<lparr> ln_comment = comment_prefix @ ''LEARN|'' @ pad2 index,
                      ln_address_list = detector_list, ln_tls_host = pattern \<rparr>)
                  (zip [1..<Suc (length tls_patterns)] tls_patterns),
                sv_dns_suffixes = sr_dns_suffixes service, sv_tls_patterns = tls_patterns,
                sv_category = str_or (sr_category service) ''other'', sv_managed_custom = True,
                ct_key = key, ct_detector_lists = [detector_list],
                ct_ownership_prefix = comment_prefix, ct_contract_version = 1 \<rparr>))"

text \<open>\<open>PolicyStore.routeros_service_catalog\<close>: the built-ins, then every approved custom contract
  that can be built; a contract that cannot be built is left out rather than raised.\<close>

fun add_custom_contracts :: "catalog \<Rightarrow> service_row list \<Rightarrow> catalog" where
  "add_custom_contracts cat [] = cat"
| "add_custom_contracts cat (item # items) =
     (if sr_builtin item \<or> \<not> sr_enforcement_approved item then add_custom_contracts cat items
      else case build_custom_service_contract item of
             Inl _ \<Rightarrow> add_custom_contracts cat items
           | Inr c \<Rightarrow> add_custom_contracts (AList.update (sr_key item) (service_def.truncate c) cat) items)"

definition routeros_service_catalog :: "service_row list \<Rightarrow> catalog" where
  "routeros_service_catalog services = add_custom_contracts SERVICE_ENFORCEMENT services"

section \<open>Facts about the catalogue\<close>

lemma supported_keys_eval:
  "SUPPORTED_SERVICE_KEYS = [''youtube'', ''chatgpt'', ''openai'', ''netflix'', ''prime_video'',
     ''bbc_iplayer'', ''tiktok'', ''discord'', ''roblox'', ''steam'', ''xbox'', ''playstation'']"
  by code_simp

lemma builtin_keys_distinct: "distinct (dict_keys SERVICE_ENFORCEMENT)"
  by code_simp

lemma builtin_source_lists_distinct: "distinct (map (sv_source_list \<circ> snd) SERVICE_ENFORCEMENT)"
  by code_simp

lemma dict_keys_add_custom:
  "distinct (dict_keys cat) \<Longrightarrow> distinct (dict_keys (add_custom_contracts cat items))"
  by (induction cat items rule: add_custom_contracts.induct)
     (auto split: sum.split intro: distinct_dict_update)

lemma catalog_keys_distinct: "distinct (dict_keys (routeros_service_catalog services))"
  unfolding routeros_service_catalog_def by (rule dict_keys_add_custom) (rule builtin_keys_distinct)

lemma add_custom_keeps:
  "k \<in> dom (map_of cat) \<Longrightarrow> k \<in> dom (map_of (add_custom_contracts cat items))"
  by (induction cat items rule: add_custom_contracts.induct)
     (auto split: sum.split simp: update_conv')

lemma add_custom_unapproved:
  "(\<And>item. item \<in> set items \<Longrightarrow> sr_enforcement_approved item \<Longrightarrow> \<not> sr_builtin item \<Longrightarrow> sr_key item \<noteq> k)
   \<Longrightarrow> map_of (add_custom_contracts cat items) k = map_of cat k"
  by (induction cat items rule: add_custom_contracts.induct)
     (auto split: sum.split simp: update_conv')

end
