(* ===== verification/Bandwidth.thy ===== *)
theory Bandwidth
  imports Prelude
begin

text \<open>
  RouterOS rate strings (\<open>src/app/bandwidth.py\<close>). A \<open>Decimal\<close> is a coefficient and a
  non-positive exponent of ten; its product is rounded half-even to the 28 significant digits of
  Python's default context, as the library does.
\<close>

section \<open>Decimal arithmetic\<close>

text \<open>\<open>(c, e)\<close> is \<open>c * 10 ^ e\<close>.\<close>

type_synonym decimal = "nat \<times> int"

definition dec_prec :: nat where "dec_prec = 28"

fun num_digits :: "nat \<Rightarrow> nat" where
  "num_digits n = (if n < 10 then 1 else Suc (num_digits (n div 10)))"

declare num_digits.simps [simp del]

definition round_half_even :: "nat \<Rightarrow> nat \<Rightarrow> nat" where
  "round_half_even n d =
     (let q = n div d; r = n mod d
      in if 2 * r < d then q else if 2 * r > d then q + 1 else if even q then q else q + 1)"

text \<open>Rounding to the context precision. A carry to 29 digits leaves a trailing zero, which does
  not change the value.\<close>

definition dec_round :: "decimal \<Rightarrow> decimal" where
  "dec_round d =
     (let excess = num_digits (fst d) - dec_prec
      in if excess = 0 then d
         else (round_half_even (fst d) (10 ^ excess), snd d + int excess))"

definition dec_mult :: "decimal \<Rightarrow> nat \<Rightarrow> decimal" where
  "dec_mult d factor = dec_round (fst d * factor, snd d)"

text \<open>\<open>bps != bps.to_integral_value()\<close> and \<open>int(bps)\<close>.\<close>

definition dec_integral :: "decimal \<Rightarrow> bool" where
  "dec_integral d = (snd d \<ge> 0 \<or> fst d mod 10 ^ nat (- snd d) = 0)"

definition dec_int :: "decimal \<Rightarrow> int" where
  "dec_int d = (if snd d \<ge> 0 then int (fst d * 10 ^ nat (snd d)) else int (fst d div 10 ^ nat (- snd d)))"

section \<open>Parsing\<close>

text \<open>The groups of \<open>^(?P<number>\d+(?:\.\d+)?)(?P<suffix>[kKmMgG]?)$\<close>: digits before the point,
  digits after it, suffix.\<close>

definition rate_match :: "string \<Rightarrow> (string \<times> string \<times> string) option" where
  "rate_match raw =
     (let whole = takeWhile is_digit raw;
          rest = dropWhile is_digit raw;
          (frac, suffix) =
            (case rest of
               CHR ''.'' # cs \<Rightarrow>
                 if takeWhile is_digit cs \<noteq> [] then (takeWhile is_digit cs, dropWhile is_digit cs)
                 else ([], rest)
             | _ \<Rightarrow> ([], rest))
      in if whole \<noteq> [] \<and> suffix \<in> {[], ''k'', ''K'', ''m'', ''M'', ''g'', ''G''}
         then Some (whole, frac, suffix) else None)"

definition rate_factor :: "string \<Rightarrow> nat" where
  "rate_factor suffix =
     (if suffix = ''k'' then 1000 else if suffix = ''m'' then 1000000
      else if suffix = ''g'' then 1000000000 else 1)"

definition parse_rate_bps :: "string \<Rightarrow> int res" where
  "parse_rate_bps value =
     (let raw = py_strip value in
      case rate_match raw of
        None \<Rightarrow> Inl (BandwidthRateError (''Invalid bandwidth rate '' @ sq raw
                 @ ''. Use values such as 128k, 2M or 100M.''))
      | Some (whole, frac, suffix) \<Rightarrow>
          let number = (val_digits (whole @ frac), - int (length frac)) in
          if fst number = 0 then Inl (BandwidthRateError ''Bandwidth rates must be greater than zero'')
          else
            let bps = dec_mult number (rate_factor (py_lower suffix)) in
            if \<not> dec_integral bps then
              Inl (BandwidthRateError (''Bandwidth rate '' @ sq raw
                     @ '' does not resolve to a whole bit-per-second value''))
            else Inr (dec_int bps))"

definition normalize_rate :: "string \<Rightarrow> string res" where
  "normalize_rate value =
     ebind (parse_rate_bps (py_strip value)) (\<lambda>bps. Inr (
       if bps \<ge> 1000000000 \<and> bps mod 1000000000 = 0 then show_int (bps div 1000000000) @ ''G''
       else if bps \<ge> 1000000 \<and> bps mod 1000000 = 0 then show_int (bps div 1000000) @ ''M''
       else if bps \<ge> 1000 \<and> bps mod 1000 = 0 then show_int (bps div 1000) @ ''k''
       else show_int bps))"

definition build_max_limit :: "string \<Rightarrow> string \<Rightarrow> string res" where
  "build_max_limit upload download =
     ebind (normalize_rate upload) (\<lambda>u. ebind (normalize_rate download) (\<lambda>d. Inr (u @ ''/'' @ d)))"

definition parse_max_limit :: "string \<Rightarrow> (int \<times> int) res" where
  "parse_max_limit value =
     (let raw = py_strip value; parts = split_on (CHR ''/'') raw in
      case parts of
        [u, d] \<Rightarrow> ebind (parse_rate_bps u) (\<lambda>x. ebind (parse_rate_bps d) (\<lambda>y. Inr (x, y)))
      | _ \<Rightarrow> Inl (BandwidthRateError (''Invalid RouterOS max-limit '' @ sq raw @ ''; expected upload/download'')))"

definition opt_falsy :: "string option \<Rightarrow> bool" where
  "opt_falsy x = (x = None \<or> x = Some [])"

definition limits_equal :: "string option \<Rightarrow> string option \<Rightarrow> bool" where
  "limits_equal left right =
     (if opt_falsy left \<or> opt_falsy right then left = right
      else case (parse_max_limit (the left), parse_max_limit (the right)) of
             (Inr l, Inr r) \<Rightarrow> l = r
           | _ \<Rightarrow> False)"

section \<open>Rounding and the precision of the context\<close>

lemma num_digits_bounds: "0 < n \<Longrightarrow> 10 ^ (num_digits n - 1) \<le> n \<and> n < 10 ^ num_digits n"
proof (induction n rule: num_digits.induct)
  case (1 n)
  show ?case
  proof (cases "n < 10")
    case True
    then show ?thesis using 1 by (simp add: num_digits.simps [of n])
  next
    case False
    then have IH: "10 ^ (num_digits (n div 10) - 1) \<le> n div 10" "n div 10 < 10 ^ num_digits (n div 10)"
      using 1 by auto
    have pos: "0 < num_digits (n div 10)" by (subst num_digits.simps) simp
    have "10 ^ num_digits (n div 10) = 10 * (10 ^ (num_digits (n div 10) - 1) :: nat)"
      using pos by (metis Suc_pred' power_Suc)
    also have "\<dots> \<le> 10 * (n div 10)" using IH(1) by simp
    finally have lo: "10 ^ num_digits (n div 10) \<le> n" by simp
    have "n < 10 * 10 ^ num_digits (n div 10)" using IH(2) by simp
    then show ?thesis using False lo by (simp add: num_digits.simps [of n])
  qed
qed

lemma num_digits_pos [simp]: "0 < num_digits n"
  by (subst num_digits.simps) simp

lemma num_digits_le: "n < 10 ^ k \<Longrightarrow> 0 < k \<Longrightarrow> num_digits n \<le> k"
proof -
  assume n: "n < 10 ^ k" and k: "0 < k"
  show ?thesis
  proof (cases "n = 0")
    case True
    then show ?thesis using k by (simp add: num_digits.simps)
  next
    case False
    then have "10 ^ (num_digits n - 1) < (10::nat) ^ k"
      using num_digits_bounds [of n] n by (meson le_less_trans neq0_conv)
    then have "num_digits n - 1 < k" by (rule power_less_imp_less_exp [rotated]) simp
    then show ?thesis using num_digits_pos [of n] by linarith
  qed
qed

lemma round_half_even_exact: "0 < d \<Longrightarrow> d dvd n \<Longrightarrow> round_half_even n d = n div d"
  by (simp add: round_half_even_def Let_def dvd_imp_mod_0)

lemma round_half_even_le: "0 < d \<Longrightarrow> n < m * d \<Longrightarrow> round_half_even n d \<le> m"
proof -
  assume "0 < d" "n < m * d"
  then have "n div d < m" by (simp add: div_less_iff_less_mult)
  then show ?thesis by (simp add: round_half_even_def Let_def)
qed

lemma dec_round_coeff: "fst (dec_round d) \<le> 10 ^ 28"
proof (cases "num_digits (fst d) - dec_prec = 0")
  case True
  have "fst d < 10 ^ num_digits (fst d)"
    using num_digits_bounds [of "fst d"] by (cases "fst d = 0") auto
  also have "\<dots> \<le> 10 ^ 28" using True by (intro power_increasing) (auto simp: dec_prec_def)
  finally show ?thesis using True by (simp add: dec_round_def)
next
  case False
  define ex where "ex = num_digits (fst d) - dec_prec"
  have nd: "num_digits (fst d) = 28 + ex" using False by (simp add: ex_def dec_prec_def)
  have "0 < fst d" using False by (rule contrapos_np) (simp add: num_digits.simps dec_prec_def)
  then have "fst d < 10 ^ 28 * 10 ^ ex"
    using num_digits_bounds [of "fst d"] nd by (simp add: power_add)
  then have "round_half_even (fst d) (10 ^ ex) \<le> 10 ^ 28" by (intro round_half_even_le) auto
  then show ?thesis using False by (simp add: dec_round_def Let_def ex_def)
qed

text \<open>A value produced by rounding is a multiple of the power of ten that a second rounding would
  drop, so it survives another pass unchanged.\<close>

definition dec_stable :: "nat \<Rightarrow> bool" where
  "dec_stable b = (10 ^ (num_digits b - 28) dvd b)"

lemma dec_stable_scaled: "q \<le> 10 ^ 28 \<Longrightarrow> dec_stable (q * 10 ^ e)"
proof -
  assume q: "q \<le> 10 ^ 28"
  show ?thesis
  proof (cases "q = 10 ^ 28")
    case True
    then have "q * 10 ^ e = 10 ^ (28 + e)" by (simp add: power_add)
    moreover have "num_digits (10 ^ (28 + e)) \<le> 29 + e" by (rule num_digits_le) auto
    ultimately show ?thesis unfolding dec_stable_def by (simp only:) (rule le_imp_power_dvd, simp)
  next
    case False
    with q have "q * 10 ^ e < 10 ^ (28 + e)" by (simp add: power_add)
    then have "num_digits (q * 10 ^ e) \<le> 28 + e" by (rule num_digits_le) simp
    then have "(10::nat) ^ (num_digits (q * 10 ^ e) - 28) dvd 10 ^ e" by (intro le_imp_power_dvd) simp
    then show ?thesis unfolding dec_stable_def by (rule dvd_mult)
  qed
qed

lemma dec_int_stable:
  assumes "dec_integral (dec_round d)"
  shows "dec_stable (nat (dec_int (dec_round d)))"
proof (cases "snd (dec_round d) \<ge> 0")
  case True
  then have "dec_int (dec_round d) = int (fst (dec_round d) * 10 ^ nat (snd (dec_round d)))"
    by (simp only: dec_int_def if_True)
  then show ?thesis using dec_stable_scaled [OF dec_round_coeff] by (simp only: nat_int)
next
  case False
  have "fst (dec_round d) div 10 ^ nat (- snd (dec_round d)) \<le> 10 ^ 28"
    using dec_round_coeff by (metis div_le_dividend order_trans)
  then show ?thesis
    using dec_stable_scaled [of _ 0] False by (simp add: dec_int_def)
qed

lemma dec_mult_stable:
  assumes "dec_stable (n * f)"
  shows "dec_integral (dec_mult (n, 0) f) \<and> dec_int (dec_mult (n, 0) f) = int (n * f)"
proof -
  let ?b = "n * f"
  define ex where "ex = num_digits ?b - 28"
  have d: "10 ^ ex dvd ?b" using assms by (simp add: dec_stable_def ex_def)
  then have r: "round_half_even ?b (10 ^ ex) = ?b div 10 ^ ex" by (simp add: round_half_even_exact)
  have "dec_mult (n, 0) f = (?b div 10 ^ ex, int ex)"
    using r by (simp add: dec_mult_def dec_round_def dec_prec_def ex_def [symmetric] Let_def)
  then show ?thesis using d by (simp add: dec_integral_def dec_int_def)
qed

lemma round_half_even_pos: "0 < d \<Longrightarrow> d \<le> n \<Longrightarrow> 0 < round_half_even n d"
  by (simp add: round_half_even_def Let_def div_greater_zero_iff)

lemma dec_round_pos: "0 < fst d \<Longrightarrow> 0 < fst (dec_round d)"
proof -
  assume p: "0 < fst d"
  have "(10::nat) ^ (num_digits (fst d) - dec_prec) \<le> 10 ^ (num_digits (fst d) - 1)"
    by (intro power_increasing) (auto simp: dec_prec_def)
  also have "\<dots> \<le> fst d" using num_digits_bounds p by blast
  finally show ?thesis using p by (simp add: dec_round_def Let_def round_half_even_pos)
qed

lemma dec_int_pos: "0 < fst d \<Longrightarrow> dec_integral d \<Longrightarrow> 0 < dec_int d"
  by (auto simp: dec_integral_def dec_int_def intro!: Nat.gr0I)

section \<open>Canonical rates\<close>

lemma digit_not_blank: "is_digit c \<Longrightarrow> \<not> is_blank c"
  by (auto simp: is_digit_iff is_blank_def)

lemma suffix_strip: "s \<in> {[], ''k'', ''M'', ''G''} \<Longrightarrow> py_strip (show_nat n @ s) = show_nat n @ s"
proof (rule py_strip_id)
  assume s: "s \<in> {[], ''k'', ''M'', ''G''}"
  have d: "is_digit (hd (show_nat n))" "is_digit (last (show_nat n))"
    using show_nat_digits [of n] by (auto simp: hd_in_set)
  have "\<not> is_blank (hd (show_nat n @ s))" using d(1) by (simp add: digit_not_blank)
  moreover have "\<not> is_blank (last (show_nat n @ s))"
    using s digit_not_blank [OF d(2)] by (cases "s = []") (auto simp: is_blank_def)
  ultimately show "show_nat n @ s = [] \<or> \<not> is_blank (hd (show_nat n @ s)) \<and> \<not> is_blank (last (show_nat n @ s))"
    by blast
qed

lemma rate_match_canonical:
  assumes "s \<in> {[], ''k'', ''M'', ''G''}"
  shows "rate_match (show_nat n @ s) = Some (show_nat n, [], s)"
proof -
  have nd: "s = [] \<or> \<not> is_digit (hd s)" using assms by (auto simp: is_digit_iff)
  have tw: "takeWhile is_digit s = []" "dropWhile is_digit s = s"
    using nd by (cases s; auto)+
  have "takeWhile is_digit (show_nat n @ s) = show_nat n" "dropWhile is_digit (show_nat n @ s) = s"
    using show_nat_digits [of n] tw by (auto simp: takeWhile_append2 dropWhile_append2)
  then show ?thesis using assms by (auto simp: rate_match_def)
qed

lemma parse_canonical:
  assumes s: "s \<in> {[], ''k'', ''M'', ''G''}" and n: "0 < n"
    and st: "dec_stable (n * rate_factor (py_lower s))"
  shows "parse_rate_bps (show_nat n @ s) = Inr (int (n * rate_factor (py_lower s)))"
  using n dec_mult_stable [OF st]
  by (simp add: parse_rate_bps_def suffix_strip [OF s] rate_match_canonical [OF s] del: of_nat_mult)

lemma parse_rate_pos: "parse_rate_bps v = Inr b \<Longrightarrow> 0 < b \<and> dec_stable (nat b)"
proof -
  assume "parse_rate_bps v = Inr b"
  then obtain w f s where m: "0 < val_digits (w @ f)"
    and i: "dec_integral (dec_mult (val_digits (w @ f), - int (length f)) (rate_factor (py_lower s)))"
    and b: "b = dec_int (dec_mult (val_digits (w @ f), - int (length f)) (rate_factor (py_lower s)))"
    by (auto simp: parse_rate_bps_def Let_def split: option.splits if_splits)
  have "0 < rate_factor (py_lower s)" by (simp add: rate_factor_def)
  then have "0 < fst (dec_mult (val_digits (w @ f), - int (length f)) (rate_factor (py_lower s)))"
    using m unfolding dec_mult_def by (intro dec_round_pos) simp
  then show ?thesis using i b dec_int_pos dec_int_stable by (auto simp: dec_mult_def)
qed

lemma show_int_pos: "0 \<le> i \<Longrightarrow> show_int i = show_nat (nat i)"
  by (simp add: show_int_def)

lemma parse_scaled:
  assumes b: "0 < b" "dec_stable (nat b)" and s: "s \<in> {[], ''k'', ''M'', ''G''}"
    and k: "k = int (rate_factor (py_lower s))" and d: "k \<le> b" "b mod k = 0"
  shows "parse_rate_bps (show_int (b div k) @ s) = Inr b"
proof -
  have kp: "0 < k" using k by (simp add: rate_factor_def)
  have m: "b div k * k = b" using d(2) by (simp add: mod_eq_0_iff_dvd)
  have q: "0 < b div k" using d(1) kp by (simp add: pos_imp_zdiv_pos_iff)
  have "int (nat (b div k) * rate_factor (py_lower s)) = b" using m q k by simp
  then have e: "nat (b div k) * rate_factor (py_lower s) = nat b" by linarith
  show ?thesis
    using parse_canonical [OF s, of "nat (b div k)"] q b e by (simp add: show_int_pos)
qed

lemma normalize_rate_cases:
  assumes "normalize_rate v = Inr r"
  obtains b k s where "parse_rate_bps v = Inr b" "s \<in> {[], ''k'', ''M'', ''G''}"
    "k = int (rate_factor (py_lower s))" "k \<le> b" "b mod k = 0" "r = show_int (b div k) @ s"
proof -
  have strip: "parse_rate_bps (py_strip v) = parse_rate_bps v"
    by (simp add: parse_rate_bps_def)
  obtain b where b: "parse_rate_bps v = Inr b"
    using assms strip by (auto simp: normalize_rate_def ebind_eq_Inr)
  then have pos: "0 < b" by (simp add: parse_rate_pos)
  have f: "rate_factor (py_lower ''G'') = 1000000000" "rate_factor (py_lower ''M'') = 1000000"
    "rate_factor (py_lower ''k'') = 1000" "rate_factor (py_lower []) = 1"
    by code_simp+
  show ?thesis
  proof (cases "b \<ge> 1000000000 \<and> b mod 1000000000 = 0")
    case True
    then show ?thesis using that [of b "''G''" 1000000000] assms b strip f by (auto simp: normalize_rate_def split: if_splits)
  next
    case g: False
    show ?thesis
    proof (cases "b \<ge> 1000000 \<and> b mod 1000000 = 0")
      case True
      then show ?thesis using that [of b "''M''" 1000000] g assms b strip f by (auto simp: normalize_rate_def split: if_splits)
    next
      case m: False
      show ?thesis
      proof (cases "b \<ge> 1000 \<and> b mod 1000 = 0")
        case True
        then show ?thesis using that [of b "''k''" 1000] g m assms b strip f by (auto simp: normalize_rate_def split: if_splits)
      next
        case False
        then show ?thesis using that [of b "[]" 1] g m assms b strip f pos by (auto simp: normalize_rate_def split: if_splits)
      qed
    qed
  qed
qed

lemma normalize_rate_parse: "normalize_rate v = Inr r \<Longrightarrow> parse_rate_bps r = parse_rate_bps v"
  by (elim normalize_rate_cases) (use parse_rate_pos parse_scaled in auto)

lemma normalize_rate_chars: "normalize_rate v = Inr r \<Longrightarrow> CHR ''/'' \<notin> set r"
proof (elim normalize_rate_cases)
  fix b k s
  assume h: "parse_rate_bps v = Inr b" "s \<in> {[], ''k'', ''M'', ''G''}"
    "k = int (rate_factor (py_lower s))" "k \<le> b" "r = show_int (b div k) @ s"
  then have "0 \<le> b div k" using parse_rate_pos by (simp add: pos_imp_zdiv_nonneg_iff rate_factor_def)
  moreover have "CHR ''/'' \<notin> set (show_nat n)" for n
    using show_nat_digits [of n] by (auto simp: is_digit_iff)
  ultimately show "CHR ''/'' \<notin> set r" using h by (auto simp: show_int_pos)
qed

lemma normalize_rate_strip: "normalize_rate v = Inr r \<Longrightarrow> r \<noteq> [] \<and> \<not> is_blank (hd r) \<and> \<not> is_blank (last r)"
proof (elim normalize_rate_cases)
  fix b k s
  assume h: "parse_rate_bps v = Inr b" "s \<in> {[], ''k'', ''M'', ''G''}"
    "k = int (rate_factor (py_lower s))" "k \<le> b" "r = show_int (b div k) @ s"
  then have "0 \<le> b div k" using parse_rate_pos by (simp add: pos_imp_zdiv_nonneg_iff rate_factor_def)
  then obtain n where r: "r = show_nat n @ s" using h by (auto simp: show_int_pos)
  then have "py_strip r = r" using suffix_strip h(2) by simp
  then show ?thesis using r py_strip_ends [of r] by auto
qed

lemma build_max_limit_parse:
  assumes "build_max_limit u d = Inr m"
  obtains x y where "parse_rate_bps u = Inr x" "parse_rate_bps d = Inr y" "0 < x" "0 < y"
    "parse_max_limit m = Inr (x, y)" "m \<noteq> []"
proof -
  from assms obtain a b where ab: "normalize_rate u = Inr a" "normalize_rate d = Inr b" "m = a @ ''/'' @ b"
    by (auto simp: build_max_limit_def ebind_eq_Inr)
  then obtain x y where xy: "parse_rate_bps u = Inr x" "parse_rate_bps d = Inr y"
    by (meson normalize_rate_cases)
  have "py_strip m = m" using normalize_rate_strip ab by (intro py_strip_id) auto
  moreover have "split_on (CHR ''/'') m = [a, b]"
    using normalize_rate_chars [OF ab(1)] normalize_rate_chars [OF ab(2)]
    by (simp add: ab(3) split_on_app split_on_free)
  ultimately have "parse_max_limit m = Inr (x, y)"
    using ab xy by (simp add: parse_max_limit_def normalize_rate_parse)
  then show ?thesis using that xy parse_rate_pos ab(3) by auto
qed

lemma limits_equal_built: "build_max_limit u d = Inr m \<Longrightarrow> limits_equal (Some m) (Some m)"
  by (erule build_max_limit_parse) (simp add: limits_equal_def)

end
