(* ===== verification/PolicyGroups.thy ===== *)
theory PolicyGroups
  imports ServiceCatalog
begin

text \<open>
  Aggregate policy groups and their expansion into concrete services
  (\<open>src/app/policy_groups.py\<close>). Sets of keys are represented by lists; the observable results
  are sorted, so only the membership of the inputs matters.
\<close>

section \<open>The group catalogue\<close>

record group_def =
  gr_key :: string
  gr_name :: string
  gr_description :: string
  gr_members :: "string list"
  gr_builtin :: bool

type_synonym group_catalog = "(string \<times> group_def) list"

definition POLICY_GROUPS :: group_catalog where
  "POLICY_GROUPS = [
     (''gaming'', \<lparr> gr_key = ''gaming'', gr_name = ''Gaming'',
        gr_description = ''Aggregate policy for the concrete gaming services currently backed ''
          @ ''by RouterOS. It does not claim to block every game or gaming protocol.'',
        gr_members = [''roblox'', ''steam'', ''xbox'', ''playstation''], gr_builtin = True \<rparr>),
     (''social_media'', \<lparr> gr_key = ''social_media'', gr_name = ''Social media'',
        gr_description = ''Conservative social/communications aggregate using the concrete ''
          @ ''TikTok and Discord contracts. Other social platforms can be added ''
          @ ''when they have trusted classifiers.'',
        gr_members = [''tiktok'', ''discord''], gr_builtin = True \<rparr>)]"

definition POLICY_GROUP_KEYS :: "string list" where
  "POLICY_GROUP_KEYS = dict_keys POLICY_GROUPS"

text \<open>The non-empty normal forms of a list of raw keys.\<close>

definition clean_keys :: "string list \<Rightarrow> string list" where
  "clean_keys xs = filter (\<lambda>k. k \<noteq> []) (map norm_key xs)"

definition normalized_group :: "string \<Rightarrow> group_def \<Rightarrow> group_def" where
  "normalized_group key item =
     item\<lparr> gr_key := key, gr_name := str_or (gr_name item) key,
           gr_members := sorted_set (clean_keys (gr_members item)) \<rparr>"

definition add_group :: "string \<times> group_def \<Rightarrow> group_catalog \<Rightarrow> group_catalog" where
  "add_group entry result =
     (let key = norm_key (fst entry) in
      if key = [] then result else AList.update key (normalized_group key (snd entry)) result)"

definition normalized_group_catalog :: "group_catalog option \<Rightarrow> group_catalog" where
  "normalized_group_catalog catalog =
     fold add_group (case catalog of None \<Rightarrow> POLICY_GROUPS | Some c \<Rightarrow> c) []"

definition group_name :: "string \<Rightarrow> group_catalog option \<Rightarrow> string" where
  "group_name key catalog =
     (case map_of (normalized_group_catalog catalog) (norm_key key) of
        None \<Rightarrow> key | Some item \<Rightarrow> gr_name item)"

definition group_members :: "string \<Rightarrow> group_catalog option \<Rightarrow> string list" where
  "group_members key catalog =
     (case map_of (normalized_group_catalog catalog) (norm_key key) of
        None \<Rightarrow> [] | Some item \<Rightarrow> gr_members item)"

section \<open>Expansion\<close>

record expansion =
  ex_requested :: "string list"
  ex_groups :: "string list"
  ex_effective_services :: "string list"
  ex_unsupported :: "string list"
  ex_unsupported_group_members :: "string list"

definition expand_policy_keys ::
  "string list \<Rightarrow> string list \<Rightarrow> group_catalog option \<Rightarrow> expansion" where
  "expand_policy_keys values supported_service_keys policy_groups =
     (let requested = clean_keys values;
          supported = (if supported_service_keys = [] then SUPPORTED_SERVICE_KEYS
                       else supported_service_keys);
          groups_catalog = normalized_group_catalog policy_groups;
          group_keys = dict_keys groups_catalog;
          groups = sorted_set (filter (\<lambda>k. k \<in> set group_keys) requested);
          members = concat (map (\<lambda>key. group_members key (Some groups_catalog)) groups);
          effective = filter (\<lambda>k. k \<in> set supported) requested
                      @ filter (\<lambda>m. m \<in> set supported) members;
          unsupported_members = filter (\<lambda>m. m \<notin> set supported) members;
          unsupported = filter (\<lambda>k. k \<notin> set supported \<and> k \<notin> set group_keys) requested
      in \<lparr> ex_requested = sorted_set requested, ex_groups = groups,
           ex_effective_services = sorted_set effective,
           ex_unsupported = sorted_set unsupported,
           ex_unsupported_group_members = sorted_set unsupported_members \<rparr>)"

record group_state =
  gs_key :: string
  gs_name :: string
  gs_description :: string
  gs_members :: "string list"
  gs_member_names :: "string list"
  gs_requested :: bool
  gs_quota_active :: bool
  gs_blocked_members :: "string list"
  gs_active :: bool
  gs_fully_blocked :: bool
  gs_builtin :: bool

definition policy_group_states ::
  "string list \<Rightarrow> string list \<Rightarrow> string list \<Rightarrow> group_catalog option \<Rightarrow> (string \<times> string) list \<Rightarrow> group_state list" where
  "policy_group_states requested_groups blocked_services quota_active_groups policy_groups service_names =
     map (\<lambda>(key, item).
       let members = gr_members item;
           blocked_members = filter (\<lambda>m. m \<in> set blocked_services) members
       in \<lparr> gs_key = key, gs_name = gr_name item, gs_description = gr_description item,
            gs_members = members,
            gs_member_names = map (\<lambda>m. opt_or (map_of service_names m)
                (opt_or (map_option sv_name (map_of SERVICE_ENFORCEMENT m)) m)) members,
            gs_requested = (key \<in> set requested_groups),
            gs_quota_active = (key \<in> set quota_active_groups),
            gs_blocked_members = blocked_members,
            gs_active = (blocked_members \<noteq> []),
            gs_fully_blocked = (members \<noteq> [] \<and> length blocked_members = length members),
            gs_builtin = gr_builtin item \<rparr>)
       (normalized_group_catalog policy_groups)"

section \<open>Normal forms\<close>

lemma lower_char_idem [simp]: "lower_char (lower_char c) = lower_char c"
proof (cases "CHR ''A'' \<le> c \<and> c \<le> CHR ''Z''")
  case True
  then have b: "65 \<le> (of_char c :: nat)" "(of_char c :: nat) \<le> 90"
    by (auto simp: less_eq_char_def)
  have "(of_char (char_of ((of_char c :: nat) + 32) :: char) :: nat) = of_char c + 32"
    using b by (simp add: of_char_of take_bit_eq_mod)
  then have "\<not> char_of ((of_char c :: nat) + 32) \<le> CHR ''Z''"
    using b by (simp add: less_eq_char_def)
  then show ?thesis using True by (simp add: lower_char_def)
next
  case False
  then have "lower_char c = c" by (simp only: lower_char_def if_False)
  then show ?thesis by simp
qed

lemma lower_char_blank: "is_blank (lower_char c) = is_blank c"
proof (cases "CHR ''A'' \<le> c \<and> c \<le> CHR ''Z''")
  case True
  then have b: "65 \<le> (of_char c :: nat)" "(of_char c :: nat) \<le> 90"
    by (auto simp: less_eq_char_def)
  have "(of_char (char_of ((of_char c :: nat) + 32) :: char) :: nat) = of_char c + 32"
    using b by (simp add: of_char_of take_bit_eq_mod)
  then have "97 \<le> (of_char (lower_char c) :: nat)" using True b by (simp add: lower_char_def)
  moreover have "is_blank d \<Longrightarrow> (of_char d :: nat) \<le> 32" for d
    by (auto simp: is_blank_def)
  ultimately show ?thesis using b by fastforce
next
  case False
  then have "lower_char c = c" by (simp only: lower_char_def if_False)
  then show ?thesis by simp
qed

lemma norm_key_strip: "py_strip (norm_key s) = norm_key s"
proof (rule py_strip_id)
  show "norm_key s = [] \<or> \<not> is_blank (hd (norm_key s)) \<and> \<not> is_blank (last (norm_key s))"
    using py_strip_ends [of s]
    by (auto simp: norm_key_def py_lower_def lower_char_blank hd_map last_map)
qed

lemma norm_key_idem [simp]: "norm_key (norm_key s) = norm_key s"
  by (simp add: norm_key_def [of "norm_key s"] norm_key_strip)
     (simp add: norm_key_def py_lower_def)

lemma clean_keys_idem: "set (clean_keys (clean_keys xs)) = set (clean_keys xs)"
  by (auto simp: clean_keys_def image_iff)

lemma clean_keys_fixed: "k \<in> set (clean_keys xs) \<Longrightarrow> norm_key k = k"
  by (auto simp: clean_keys_def)

text \<open>A normalised catalogue: distinct keys in normal form, members sorted normal forms.\<close>

definition normal_catalog :: "group_catalog \<Rightarrow> bool" where
  "normal_catalog d \<longleftrightarrow>
     distinct (dict_keys d) \<and>
     (\<forall>(k, g) \<in> set d. norm_key k = k \<and> k \<noteq> [] \<and> gr_key g = k \<and> gr_name g \<noteq> []
        \<and> sorted_set (clean_keys (gr_members g)) = gr_members g)"

lemma update_new: "k \<notin> fst ` set d \<Longrightarrow> AList.update k v d = d @ [(k, v)]"
  by (induction d) auto

lemma set_alist_update: "x \<in> set (AList.update k v d) \<Longrightarrow> x = (k, v) \<or> x \<in> set d"
  by (induction d) (auto split: if_splits)

lemma sorted_set_clean_idem:
  "sorted_set (clean_keys (sorted_set (clean_keys xs))) = sorted_set (clean_keys xs)"
proof -
  have "set (clean_keys (sorted_set (clean_keys xs))) = set (clean_keys (clean_keys xs))"
    by (auto simp: clean_keys_def)
  then show ?thesis by (simp add: sorted_set_eq_iff clean_keys_idem)
qed

lemma normal_add_group: "normal_catalog d \<Longrightarrow> normal_catalog (add_group e d)"
proof (cases "norm_key (fst e) = []")
  case False
  assume d: "normal_catalog d"
  define k where "k = norm_key (fst e)"
  have k: "norm_key k = k" "k \<noteq> []" using False by (auto simp: k_def)
  have up: "add_group e d = AList.update k (normalized_group k (snd e)) d"
    using False by (simp add: add_group_def k_def Let_def)
  have new: "gr_key (normalized_group k (snd e)) = k" "gr_name (normalized_group k (snd e)) \<noteq> []"
    "sorted_set (clean_keys (gr_members (normalized_group k (snd e)))) = gr_members (normalized_group k (snd e))"
    using k(2) by (auto simp: normalized_group_def str_or_def sorted_set_clean_idem)
  have "distinct (dict_keys (add_group e d))"
    using d unfolding up normal_catalog_def by (blast intro: distinct_dict_update)
  moreover have "\<forall>(j, g) \<in> set (add_group e d). norm_key j = j \<and> j \<noteq> [] \<and> gr_key g = j \<and> gr_name g \<noteq> []
        \<and> sorted_set (clean_keys (gr_members g)) = gr_members g"
    using d k new unfolding up normal_catalog_def by (fast dest: set_alist_update)
  ultimately show ?thesis unfolding normal_catalog_def by blast
qed (simp add: add_group_def)

lemma normal_fold: "normal_catalog d \<Longrightarrow> normal_catalog (fold add_group es d)"
  by (induction es arbitrary: d) (simp_all add: normal_add_group)

lemma normal_normalized: "normal_catalog (normalized_group_catalog c)"
  unfolding normalized_group_catalog_def
  by (rule normal_fold) (simp add: normal_catalog_def dict_keys_def)

lemma normalized_keys_fixed:
  "k \<in> set (dict_keys (normalized_group_catalog c)) \<Longrightarrow> norm_key k = k \<and> k \<noteq> []"
  using normal_normalized [of c] by (auto simp: normal_catalog_def dict_keys_def)

lemma normalized_keys_distinct: "distinct (dict_keys (normalized_group_catalog c))"
  using normal_normalized by (simp add: normal_catalog_def)

text \<open>Normalisation is idempotent: a normalised catalogue is its own normal form.\<close>

lemma fold_add_group_normal:
  "distinct (dict_keys (acc @ d)) \<Longrightarrow>
   (\<forall>(k, g) \<in> set d. norm_key k = k \<and> k \<noteq> [] \<and> gr_key g = k \<and> gr_name g \<noteq> []
        \<and> sorted_set (clean_keys (gr_members g)) = gr_members g) \<Longrightarrow>
   fold add_group d acc = acc @ d"
proof (induction d arbitrary: acc)
  case (Cons x d)
  obtain k g where x: "x = (k, g)" by force
  have k: "norm_key k = k" "k \<noteq> []" "gr_key g = k" "gr_name g \<noteq> []"
    "sorted_set (clean_keys (gr_members g)) = gr_members g"
    using Cons.prems(2) x by auto
  then have "normalized_group k g = g" by (simp add: normalized_group_def str_or_def)
  moreover have "k \<notin> fst ` set acc" using Cons.prems(1) x by (auto simp: dict_keys_def)
  ultimately have "add_group x acc = acc @ [x]"
    using k by (simp add: add_group_def x Let_def update_new)
  then show ?case using Cons.IH [of "acc @ [x]"] Cons.prems by simp
qed simp

lemma normalized_idem: "normalized_group_catalog (Some (normalized_group_catalog c)) = normalized_group_catalog c"
  using fold_add_group_normal [of "[]" "normalized_group_catalog c"] normal_normalized [of c]
  by (simp add: normalized_group_catalog_def [of "Some _"] normal_catalog_def)

section \<open>What expansion guarantees\<close>

lemma expand_effective_supported:
  "set (ex_effective_services (expand_policy_keys vs supp gs))
     \<subseteq> set (if supp = [] then SUPPORTED_SERVICE_KEYS else supp)"
  by (auto simp: expand_policy_keys_def Let_def)

lemma expand_requested_accounted:
  "set (ex_requested (expand_policy_keys vs supp gs)) \<subseteq>
     set (ex_effective_services (expand_policy_keys vs supp gs))
     \<union> set (ex_groups (expand_policy_keys vs supp gs))
     \<union> set (ex_unsupported (expand_policy_keys vs supp gs))"
  by (auto simp: expand_policy_keys_def Let_def)

lemma expand_mono:
  "set vs \<subseteq> set ws \<Longrightarrow>
   set (ex_effective_services (expand_policy_keys vs supp gs))
     \<subseteq> set (ex_effective_services (expand_policy_keys ws supp gs))"
  by (auto simp: expand_policy_keys_def Let_def clean_keys_def)

lemma expand_set_cong:
  assumes "set vs = set ws"
  shows "expand_policy_keys vs supp gs = expand_policy_keys ws supp gs"
proof -
  have c: "set (clean_keys vs) = set (clean_keys ws)" using assms by (simp add: clean_keys_def)
  then have g: "sorted_set (filter P (clean_keys vs)) = sorted_set (filter P (clean_keys ws))" for P
    by (simp add: sorted_set_eq_iff)
  have "sorted_set (clean_keys vs) = sorted_set (clean_keys ws)" using c by (simp add: sorted_set_eq_iff)
  then show ?thesis
    using c g by (auto simp: expand_policy_keys_def Let_def sorted_set_eq_iff)
qed

end
