(* ===== verification/Quota.thy ===== *)
theory Quota
  imports PolicyGroups
begin

text \<open>
  Data quotas (\<open>src/app/quota.py\<close>): validation of limits, the byte arithmetic and the
  formatted amounts. Percentages are kept in tenths of a percent as integers; Python computes
  them in binary floating point and rounds to one decimal, the model rounds the exact quotient
  half-even. Byte counts below \<open>2^53\<close> are exact in both.
\<close>

definition MIB :: int where "MIB = 1024 * 1024"

definition normalize_quota_mb :: "pyval \<Rightarrow> string \<Rightarrow> int res" where
  "normalize_quota_mb value field =
     (if is_zero_form value then Inr 0
      else case pyval_int value of
             None \<Rightarrow> Inl (ValueError (field @ '' must be a whole number of MiB''))
           | Some number \<Rightarrow>
               if number < 0 \<or> number > 1048576
               then Inl (ValueError (field @ '' must be between 0 and 1048576 MiB''))
               else Inr number)"

definition normalize_quota_action :: "string option \<Rightarrow> string res" where
  "normalize_quota_action value =
     (let v = norm_key (opt_or value ''blocked'') in
      if v \<notin> {''slow'', ''blocked''} then Inl (ValueError ''Daily quota action must be slow or blocked'')
      else Inr v)"

definition quota_key_name :: "string \<Rightarrow> string" where
  "quota_key_name key =
     (case map_of SERVICE_ENFORCEMENT key of
        Some item \<Rightarrow> sv_name item
      | None \<Rightarrow> if key \<in> set POLICY_GROUP_KEYS then group_name key None else key)"

fun service_quotas_loop ::
  "string list \<Rightarrow> (string \<times> pyval) list \<Rightarrow> (string \<times> int) list \<Rightarrow> (string \<times> int) list res" where
  "service_quotas_loop allowed [] result = Inr result"
| "service_quotas_loop allowed ((raw_key, raw) # rest) result =
     (let key = norm_key raw_key in
      if key \<notin> set allowed then
        (if \<not> is_zero_form raw
         then Inl (ValueError (''Service/group quota '' @ sq key @ '' is not backed by a live policy contract''))
         else service_quotas_loop allowed rest result)
      else ebind (normalize_quota_mb raw (quota_key_name key @ '' quota'')) (\<lambda>amount.
             service_quotas_loop allowed rest
               (if amount \<noteq> 0 then AList.update key amount result else result)))"

definition normalize_service_quotas ::
  "(string \<times> pyval) list \<Rightarrow> string list \<Rightarrow> (string \<times> int) list res" where
  "normalize_service_quotas values supported_service_keys =
     (let allowed = (if supported_service_keys = [] then SUPPORTED_SERVICE_KEYS
                     else supported_service_keys) @ POLICY_GROUP_KEYS
      in ebind (service_quotas_loop allowed values []) (\<lambda>result. Inr (sort_key fst result)))"

text \<open>\<open>dict(zip(keys, amounts))\<close>: a repeated key keeps its place and takes the last amount.\<close>

definition py_dict :: "('k \<times> 'v) list \<Rightarrow> ('k \<times> 'v) list" where
  "py_dict ps = fold (\<lambda>(k, v) d. AList.update k v d) ps []"

definition service_quota_pairs ::
  "string list \<Rightarrow> pyval list \<Rightarrow> string list \<Rightarrow> (string \<times> int) list res" where
  "service_quota_pairs keys amounts supported_service_keys =
     (if length keys \<noteq> length amounts then Inl (ValueError ''Service quota form is malformed'')
      else normalize_service_quotas (py_dict (zip keys amounts)) supported_service_keys)"

definition bytes_for_mb :: "int \<Rightarrow> int" where
  "bytes_for_mb value = value * MIB"

text \<open>\<open>round(n / d)\<close> to the nearest integer, ties to even, for a positive divisor.\<close>

definition div_half_even :: "int \<Rightarrow> int \<Rightarrow> int" where
  "div_half_even n d =
     (let q = n div d; r = n mod d
      in if 2 * r < d then q else if 2 * r > d then q + 1 else if even q then q else q + 1)"

text \<open>Tenths of a percent, capped at 999.9 %.\<close>

definition percent_used :: "int \<Rightarrow> int \<Rightarrow> int" where
  "percent_used used_bytes limit_mb =
     (let limit = bytes_for_mb limit_mb in
      if limit = 0 then 0
      else if used_bytes * 1000 \<ge> 9999 * limit then 9999
      else div_half_even (used_bytes * 1000) limit)"

fun format_units :: "int \<Rightarrow> int \<Rightarrow> string list \<Rightarrow> string" where
  "format_units number scale [] = []"
| "format_units number scale (unit # units) =
     (if number < 1024 * scale \<or> units = []
      then (if unit = ''B'' then show_int number @ '' '' @ unit
            else let tenths = div_half_even (number * 10) scale
                 in show_int (tenths div 10) @ ''.'' @ show_int (tenths mod 10) @ '' '' @ unit)
      else format_units number (scale * 1024) units)"

definition format_bytes :: "int \<Rightarrow> string" where
  "format_bytes value = format_units value 1 [''B'', ''KiB'', ''MiB'', ''GiB'', ''TiB'']"

definition telemetry_name_to_key :: "string \<Rightarrow> (string \<times> string) list option \<Rightarrow> string option" where
  "telemetry_name_to_key name service_defs =
     (let wanted = norm_key name;
          custom = (case service_defs of None \<Rightarrow> None
            | Some items \<Rightarrow>
                find (\<lambda>(key, display). key \<noteq> [] \<and> (wanted = key \<or> wanted = display))
                  (map (\<lambda>(k, d). (norm_key k, norm_key d)) items))
      in case custom of
           Some (key, _) \<Rightarrow> Some key
         | None \<Rightarrow> map_option fst (find (\<lambda>(key, item). py_lower (sv_name item) = wanted) SERVICE_ENFORCEMENT))"

section \<open>Bounds\<close>

lemma MIB_pos [simp]: "0 < MIB"
  by (simp add: MIB_def)

lemma normalize_quota_mb_bounds: "normalize_quota_mb v f = Inr n \<Longrightarrow> 0 \<le> n \<and> n \<le> 1048576"
  by (auto simp: normalize_quota_mb_def split: if_splits option.splits)

lemma normalize_quota_mb_idem: "normalize_quota_mb v f = Inr n \<Longrightarrow> normalize_quota_mb (PInt n) f = Inr n"
  using normalize_quota_mb_bounds [of v f n]
  by (auto simp: normalize_quota_mb_def [of "PInt n"] is_zero_form_def pyval_int_def)

lemma service_quotas_loop_inv:
  assumes "service_quotas_loop allowed vs acc = Inr out"
    and "\<forall>(k, n) \<in> set acc. k \<in> set allowed \<and> 0 < n \<and> n \<le> 1048576" and "distinct (dict_keys acc)"
  shows "(\<forall>(k, n) \<in> set out. k \<in> set allowed \<and> 0 < n \<and> n \<le> 1048576) \<and> distinct (dict_keys out)"
  using assms
proof (induction allowed vs acc rule: service_quotas_loop.induct)
  case (2 allowed raw_key raw rest result)
  show ?case
  proof (cases "norm_key raw_key \<in> set allowed")
    case False
    then have r: "is_zero_form raw" "service_quotas_loop allowed rest result = Inr out"
      using "2.prems"(1) by (auto simp: Let_def split: if_splits)
    show ?thesis
      by (rule "2.IH"(1) [OF refl False _ r(2) "2.prems"(2,3)]) (simp add: r(1))
  next
    case True
    then obtain n where n: "normalize_quota_mb raw (quota_key_name (norm_key raw_key) @ '' quota'') = Inr n"
      and r: "service_quotas_loop allowed rest
               (if n \<noteq> 0 then AList.update (norm_key raw_key) n result else result) = Inr out"
      using "2.prems"(1) by (auto simp: Let_def ebind_eq_Inr)
    have "0 \<le> n \<and> n \<le> 1048576" using n by (rule normalize_quota_mb_bounds)
    then have a: "\<forall>(k, m) \<in> set (if n \<noteq> 0 then AList.update (norm_key raw_key) n result else result).
        k \<in> set allowed \<and> 0 < m \<and> m \<le> 1048576"
      using "2.prems"(2) True by (auto dest: set_alist_update)
    have d: "distinct (dict_keys (if n \<noteq> 0 then AList.update (norm_key raw_key) n result else result))"
      using "2.prems"(3) by (simp add: distinct_dict_update)
    show ?thesis using "2.IH"(2) [OF refl _ r a d] True by blast
  qed
qed simp

lemma normalize_service_quotas_wf:
  assumes "normalize_service_quotas vs supp = Inr out"
  shows "(\<forall>(k, n) \<in> set out. k \<in> set ((if supp = [] then SUPPORTED_SERVICE_KEYS else supp) @ POLICY_GROUP_KEYS)
            \<and> 0 < n \<and> n \<le> 1048576)
         \<and> distinct (dict_keys out) \<and> sorted (dict_keys out)"
proof -
  let ?al = "(if supp = [] then SUPPORTED_SERVICE_KEYS else supp) @ POLICY_GROUP_KEYS"
  obtain r where r: "service_quotas_loop ?al vs [] = Inr r" "out = sort_key fst r"
    using assms by (auto simp: normalize_service_quotas_def Let_def ebind_eq_Inr simp del: set_append)
  have w: "(\<forall>(k, n) \<in> set r. k \<in> set ?al \<and> 0 < n \<and> n \<le> 1048576) \<and> distinct (dict_keys r)"
    by (rule service_quotas_loop_inv [OF r(1)]) (auto simp: dict_keys_def)
  then have "distinct (dict_keys out)" by (simp add: r(2) dict_keys_def distinct_map)
  then show ?thesis using w r(2) by (simp add: dict_keys_def del: set_append)
qed

lemma div_half_even_bounds:
  assumes "0 < d" "0 \<le> n" "n \<le> m * d"
  shows "0 \<le> div_half_even n d \<and> div_half_even n d \<le> m"
proof -
  have q: "0 \<le> n div d" using assms by (simp add: pos_imp_zdiv_nonneg_iff)
  show ?thesis
  proof (cases "n mod d = 0")
    case True
    then have "div_half_even n d = n div d" using assms(1) by (simp add: div_half_even_def)
    moreover have "n div d \<le> m * d div d" using assms by (intro zdiv_mono1) auto
    moreover have "m * d div d = m" using assms(1) by simp
    ultimately show ?thesis using q by simp
  next
    case False
    have "n \<noteq> m * d" using False by auto
    then have "n < m * d" using assms(3) by simp
    moreover have "d * (n div d) \<le> n" using assms(1) by (metis mult_div_mod_eq le_add_same_cancel1 pos_mod_sign)
    ultimately have "d * (n div d) < d * m" by (simp add: mult.commute)
    then have "n div d < m" using assms(1) by (simp add: mult_less_cancel_left_pos)
    then show ?thesis using q by (simp add: div_half_even_def Let_def)
  qed
qed

lemma percent_used_bounds:
  "0 \<le> used \<Longrightarrow> 0 \<le> limit \<Longrightarrow> 0 \<le> percent_used used limit \<and> percent_used used limit \<le> 9999"
proof -
  assume u: "0 \<le> used" and l: "0 \<le> limit"
  show ?thesis
  proof (cases "bytes_for_mb limit = 0 \<or> used * 1000 \<ge> 9999 * bytes_for_mb limit")
    case True
    then show ?thesis by (auto simp: percent_used_def Let_def)
  next
    case False
    then have "0 < bytes_for_mb limit" using l by (auto simp: bytes_for_mb_def zero_less_mult_iff)
    then have "0 \<le> div_half_even (used * 1000) (bytes_for_mb limit)
               \<and> div_half_even (used * 1000) (bytes_for_mb limit) \<le> 9999"
      using False u by (intro div_half_even_bounds) auto
    then show ?thesis using False by (simp add: percent_used_def Let_def)
  qed
qed

lemma percent_used_exhausted:
  "0 < limit \<Longrightarrow> bytes_for_mb limit \<le> used \<Longrightarrow> 1000 \<le> percent_used used limit"
proof -
  assume l: "0 < limit" and e: "bytes_for_mb limit \<le> used"
  let ?L = "bytes_for_mb limit"
  have L: "0 < ?L" using l by (simp add: bytes_for_mb_def)
  have "1000 \<le> div_half_even (used * 1000) ?L"
  proof -
    have "1000 * ?L \<le> used * 1000" using e by simp
    then have "1000 * ?L div ?L \<le> used * 1000 div ?L" using L by (rule zdiv_mono1)
    then have "1000 \<le> used * 1000 div ?L" using L by simp
    then show ?thesis by (simp add: div_half_even_def Let_def)
  qed
  then show ?thesis using L by (simp add: percent_used_def Let_def)
qed

end
