(* ===== verification/PolicyTime.thy ===== *)
theory PolicyTime
  imports Prelude
begin

text \<open>
  Household wall-clock time (\<open>src/app/policy_time.py\<close>). A naive local time is the number of
  seconds since the epoch read off the wall clock; a day is its ordinal since 1970-01-01. A
  \<open>ZoneInfo\<close> is its transition table: the offset before the first transition and, for each
  transition, the UTC instant and the offset from then on. \<open>utcoffset\<close> with \<open>fold\<close> and
  \<open>astimezone\<close> are the lookups the standard library makes in that table. The minute-resolution
  ISO strings of the metadata are kept as the wall time and offset they print.
\<close>

section \<open>Zones\<close>

record zone =
  z_key :: string
  z_before :: int
  z_transitions :: "(int \<times> int) list"

text \<open>The offset in force at a UTC instant.\<close>

fun off_utc :: "int \<Rightarrow> (int \<times> int) list \<Rightarrow> int \<Rightarrow> int" where
  "off_utc prev [] u = prev"
| "off_utc prev ((t, off) # ts) u = (if t \<le> u then off_utc off ts u else prev)"

text \<open>The offset of a wall time: transition \<open>i\<close> applies from \<open>t + max\<close> of the offsets around it
  for \<open>fold = 0\<close> and from \<open>t + min\<close> of them for \<open>fold = 1\<close> (PEP 495).\<close>

fun off_wall :: "bool \<Rightarrow> int \<Rightarrow> (int \<times> int) list \<Rightarrow> int \<Rightarrow> int" where
  "off_wall fd prev [] l = prev"
| "off_wall fd prev ((t, off) # ts) l =
     (if t + (if fd then min prev off else max prev off) \<le> l then off_wall fd off ts l else prev)"

text \<open>The fold flag \<open>fromutc\<close> sets: the second pass over a repeated wall time.\<close>

fun fold_utc :: "int \<Rightarrow> (int \<times> int) list \<Rightarrow> int \<Rightarrow> bool" where
  "fold_utc prev [] u = False"
| "fold_utc prev ((t, off) # ts) u =
     (if t \<le> u then (case ts of
          [] \<Rightarrow> prev - off > u - t
        | (t2, _) # _ \<Rightarrow> if t2 \<le> u then fold_utc off ts u else prev - off > u - t)
      else False)"

record aware =
  aw_local :: int
  aw_fold :: bool

definition local_of :: "zone \<Rightarrow> int \<Rightarrow> int" where
  "local_of z u = u + off_utc (z_before z) (z_transitions z) u"

definition from_utc :: "zone \<Rightarrow> int \<Rightarrow> aware" where
  "from_utc z u = \<lparr> aw_local = local_of z u, aw_fold = fold_utc (z_before z) (z_transitions z) u \<rparr>"

definition utc_instant :: "zone \<Rightarrow> aware \<Rightarrow> int" where
  "utc_instant z a = aw_local a - off_wall (aw_fold a) (z_before z) (z_transitions z) (aw_local a)"

section \<open>Resolution of wall times\<close>

fun candidates_loop :: "zone \<Rightarrow> int \<Rightarrow> bool list \<Rightarrow> int list \<Rightarrow> aware list" where
  "candidates_loop z naive [] seen = []"
| "candidates_loop z naive (fd # folds) seen =
     (let a = \<lparr> aw_local = naive, aw_fold = fd \<rparr>;
          instant = utc_instant z a
      in if local_of z instant \<noteq> naive then candidates_loop z naive folds seen
         else if instant \<in> set seen then candidates_loop z naive folds seen
         else a # candidates_loop z naive folds (instant # seen))"

definition valid_wall_candidates :: "zone \<Rightarrow> int \<Rightarrow> aware list" where
  "valid_wall_candidates z naive =
     sort_key (utc_instant z) (candidates_loop z naive [False, True] [])"

record wall_resolution =
  wr_requested_local :: int
  wr_resolved_local :: "int \<times> int"
  wr_adjusted :: bool
  wr_kind :: string
  wr_ambiguous :: bool
  wr_nonexistent :: bool
  wr_shift_minutes :: "int option"

definition iso_aware :: "zone \<Rightarrow> aware \<Rightarrow> int \<times> int" where
  "iso_aware z a = (aw_local a, aw_local a - utc_instant z a)"

text \<open>The proleptic Gregorian date of a day ordinal, as \<open>date.isoformat\<close> prints it, and
  \<open>isoformat(timespec="minutes")\<close> of a naive time.\<close>

definition civil_from_days :: "int \<Rightarrow> int \<times> int \<times> int" where
  "civil_from_days day =
     (let z = day + 719468; era = z div 146097; doe = z mod 146097;
          yoe = (doe - doe div 1460 + doe div 36524 - doe div 146096) div 365;
          doy = doe - (365 * yoe + yoe div 4 - yoe div 100);
          mp = (5 * doy + 2) div 153;
          d = doy - (153 * mp + 2) div 5 + 1;
          m = (if mp < 10 then mp + 3 else mp - 9)
      in (yoe + era * 400 + (if m \<le> 2 then 1 else 0), m, d))"

definition show_date :: "int \<Rightarrow> string" where
  "show_date day = (let (y, m, d) = civil_from_days day; ys = show_int y in
     replicate (4 - length ys) (CHR ''0'') @ ys @ ''-'' @ pad2 (nat m) @ ''-'' @ pad2 (nat d))"

definition show_minutes :: "int \<Rightarrow> string" where
  "show_minutes naive = (let secs = naive mod 86400 in
     show_date (naive div 86400) @ ''T'' @ pad2 (nat (secs div 3600)) @ '':'' @ pad2 (nat (secs mod 3600 div 60)))"

text \<open>The probe loop over \<open>range(1, limit + 1)\<close>, \<open>n\<close> iterations left.\<close>

fun probe_gap :: "zone \<Rightarrow> int \<Rightarrow> int \<Rightarrow> nat \<Rightarrow> (aware \<times> wall_resolution) res" where
  "probe_gap z naive minutes 0 = Inl (ValueError (''Unable to resolve local policy time '' @ show_minutes naive
     @ '' in timezone '' @ z_key z))"
| "probe_gap z naive minutes (Suc n) =
     (case valid_wall_candidates z (naive + 60 * minutes) of
        chosen # _ \<Rightarrow> Inr (chosen,
          \<lparr> wr_requested_local = naive, wr_resolved_local = iso_aware z chosen, wr_adjusted = True,
            wr_kind = ''nonexistent_forward'', wr_ambiguous = False, wr_nonexistent = True,
            wr_shift_minutes = Some minutes \<rparr>)
      | [] \<Rightarrow> probe_gap z naive (minutes + 1) n)"

definition resolve_naive :: "zone \<Rightarrow> int \<Rightarrow> int \<Rightarrow> (aware \<times> wall_resolution) res" where
  "resolve_naive z naive gap_limit_minutes =
     (case valid_wall_candidates z naive of
        chosen # others \<Rightarrow> Inr (chosen,
          \<lparr> wr_requested_local = naive, wr_resolved_local = iso_aware z chosen, wr_adjusted = False,
            wr_kind = (if others \<noteq> [] then ''ambiguous_first'' else ''exact''),
            wr_ambiguous = (others \<noteq> []), wr_nonexistent = False, wr_shift_minutes = None \<rparr>)
      | [] \<Rightarrow> probe_gap z naive 1 (nat (max 1 gap_limit_minutes)))"

definition combine :: "int \<Rightarrow> int \<Rightarrow> int" where
  "combine day clock = 86400 * day + clock"

definition resolve_local_wall_time :: "int \<Rightarrow> int \<Rightarrow> zone \<Rightarrow> (aware \<times> wall_resolution) res" where
  "resolve_local_wall_time day clock z = resolve_naive z (combine day clock) 180"

definition local_midnight :: "int \<Rightarrow> zone \<Rightarrow> (aware \<times> wall_resolution) res" where
  "local_midnight day z = resolve_local_wall_time day 0 z"

text \<open>The argument of \<open>normalize_policy_datetime\<close>: an aware datetime is an instant; a string is
  what \<open>datetime.fromisoformat\<close> reads from it.\<close>

datatype policy_value = NaiveTime int | Instant int | BadIsoText | OtherValue

definition normalize_policy_datetime :: "policy_value \<Rightarrow> zone \<Rightarrow> (aware \<times> wall_resolution) res" where
  "normalize_policy_datetime value z =
     (case value of
        BadIsoText \<Rightarrow> Inl (ValueError ''Policy date/time must be ISO formatted'')
      | OtherValue \<Rightarrow> Inl (ValueError ''Unsupported policy date/time value'')
      | Instant u \<Rightarrow>
          let a = from_utc z u in Inr (a,
            \<lparr> wr_requested_local = aw_local a, wr_resolved_local = iso_aware z a, wr_adjusted = False,
              wr_kind = ''absolute'', wr_ambiguous = aw_fold a, wr_nonexistent = False,
              wr_shift_minutes = None \<rparr>)
      | NaiveTime n \<Rightarrow> resolve_local_wall_time (n div 86400) (n mod 86400) z)"

section \<open>Well-formed zones\<close>

text \<open>Successive transitions touch disjoint stretches of the wall clock, a minute apart at least.\<close>

fun wf_trans :: "int \<Rightarrow> (int \<times> int) list \<Rightarrow> bool" where
  "wf_trans prev ((t, off) # (t2, off2) # ts) =
     (t + max prev off + 60 \<le> t2 + min off off2 \<and> wf_trans off ((t2, off2) # ts))"
| "wf_trans prev _ = True"

definition wf_zone :: "zone \<Rightarrow> bool" where
  "wf_zone z = wf_trans (z_before z) (z_transitions z)"

text \<open>No transition skips more than \<open>m\<close> minutes of wall time.\<close>

fun gaps_within :: "int \<Rightarrow> int \<Rightarrow> (int \<times> int) list \<Rightarrow> bool" where
  "gaps_within m prev [] = True"
| "gaps_within m prev ((t, off) # ts) = (off - prev \<le> 60 * m \<and> gaps_within m off ts)"

lemma wf_trans_tail: "wf_trans prev ((t, off) # ts) \<Longrightarrow> wf_trans off ts"
  by (cases ts) (auto elim: wf_trans.elims)

text \<open>From a transition on, the wall clock stays at or after the time it shows there.\<close>

lemma wall_after:
  "wf_trans prev ((t, off) # ts) \<Longrightarrow> t \<le> u \<Longrightarrow> t + off \<le> u + off_utc off ts u"
proof (induction ts arbitrary: prev t off)
  case (Cons x ts)
  obtain t2 off2 where x: "x = (t2, off2)" by force
  show ?case
  proof (cases "t2 \<le> u")
    case True
    have "t2 + off2 \<le> u + off_utc off2 ts u"
      using Cons.IH [of off t2 off2] Cons.prems True x by auto
    then show ?thesis using Cons.prems True x by auto
  qed (use Cons.prems x in auto)
qed simp

lemma wall_before: "u < t \<Longrightarrow> u + off_utc prev ((t, off) # ts) u < t + prev"
  by simp

text \<open>Completeness of the two folds: an instant that shows a wall time is one of the two readings.\<close>

lemma wall_preimage:
  "wf_trans prev ts \<Longrightarrow> u + off_utc prev ts u = l \<Longrightarrow>
   u = l - off_wall False prev ts l \<or> u = l - off_wall True prev ts l"
proof (induction ts arbitrary: prev)
  case (Cons x ts)
  obtain t off where x: "x = (t, off)" by force
  show ?case
  proof (cases "t \<le> u")
    case True
    then have l: "u + off_utc off ts u = l" using Cons.prems x by simp
    have lo: "t + off \<le> l" using wall_after [of prev t off ts u] Cons.prems True x l by simp
    have IH: "u = l - off_wall False off ts l \<or> u = l - off_wall True off ts l"
      using Cons.IH [OF wf_trans_tail l] Cons.prems x by simp
    show ?thesis
    proof (cases "t + prev \<le> l")
      case True
      then show ?thesis using IH lo x by (auto simp: max_def min_def)
    next
      case False
      have "off_wall True off ts l = off \<and> off_wall False off ts l = off"
      proof (cases ts)
        case (Cons y ts')
        obtain t2 off2 where y: "y = (t2, off2)" by force
        have "l < t2 + min off off2" using Cons.prems(1) False x Cons y by auto
        then show ?thesis using Cons y by auto
      qed simp
      then show ?thesis using IH lo False x by auto
    qed
  next
    case False
    then show ?thesis using Cons.prems x by auto
  qed
qed simp

lemma local_preimage:
  assumes "wf_zone z" "local_of z u = l"
  shows "u = utc_instant z \<lparr>aw_local = l, aw_fold = False\<rparr> \<or> u = utc_instant z \<lparr>aw_local = l, aw_fold = True\<rparr>"
  using wall_preimage assms unfolding wf_zone_def local_of_def utc_instant_def by auto

text \<open>When the clock shows an earlier time later on, it has shown it before.\<close>

lemma wall_repeat:
  "wf_trans prev ts \<Longrightarrow> u2 < u1 \<Longrightarrow> u1 + off_utc prev ts u1 < u2 + off_utc prev ts u2 \<Longrightarrow>
   \<exists>u < u1. u + off_utc prev ts u = u1 + off_utc prev ts u1"
proof (induction ts arbitrary: prev)
  case (Cons x ts)
  obtain t off where x: "x = (t, off)" by force
  let ?n = "u1 + off_utc prev (x # ts) u1"
  show ?case
  proof (cases "t \<le> u1")
    case True
    then have n: "?n = u1 + off_utc off ts u1" "t + off \<le> ?n"
      using wall_after [of prev t off ts u1] Cons.prems(1) x by auto
    show ?thesis
    proof (cases "t \<le> u2")
      case u2: True
      then obtain u where u: "u < u1" "u + off_utc off ts u = ?n"
        using Cons.IH [of off] wf_trans_tail [of prev t off ts] Cons.prems True x n by auto
      have "t \<le> u"
      proof (rule ccontr)
        assume "\<not> t \<le> u"
        then have "off_utc off ts u = off"
          using Cons.prems(1) x by (cases ts) auto
        then show False using u n \<open>\<not> t \<le> u\<close> by simp
      qed
      then show ?thesis using u x True by auto
    next
      case False
      then have "?n - prev < t" using Cons.prems x by auto
      then have "(?n - prev) + off_utc prev (x # ts) (?n - prev) = ?n" using x by simp
      then show ?thesis using \<open>?n - prev < t\<close> True by (intro exI [of _ "?n - prev"]) auto
    qed
  qed (use Cons.prems x in auto)
qed simp

section \<open>Candidates\<close>

lemma candidates_loop_sound:
  "a \<in> set (candidates_loop z n fs seen) \<Longrightarrow> aw_local a = n \<and> local_of z (utc_instant z a) = n"
  by (induction z n fs seen rule: candidates_loop.induct) (auto simp: Let_def split: if_splits)

lemma candidates_loop_complete:
  "f \<in> set fs \<Longrightarrow> local_of z (utc_instant z \<lparr>aw_local = n, aw_fold = f\<rparr>) = n \<Longrightarrow>
   utc_instant z \<lparr>aw_local = n, aw_fold = f\<rparr> \<in> set seen \<union> utc_instant z ` set (candidates_loop z n fs seen)"
  by (induction z n fs seen rule: candidates_loop.induct) (auto simp: Let_def)

declare candidates_loop.simps [simp del]

lemma candidates_instants:
  assumes "wf_zone z"
  shows "utc_instant z ` set (valid_wall_candidates z n) = {u. local_of z u = n}"
proof -
  have "u \<in> utc_instant z ` set (candidates_loop z n [False, True] [])" if "local_of z u = n" for u
    using local_preimage [OF assms that] that candidates_loop_complete [of False "[False, True]" z n "[]"]
      candidates_loop_complete [of True "[False, True]" z n "[]"]
    by auto
  then show ?thesis using candidates_loop_sound by (auto simp: valid_wall_candidates_def)
qed

lemma candidates_empty_iff:
  "wf_zone z \<Longrightarrow> valid_wall_candidates z n = [] \<longleftrightarrow> (\<forall>u. local_of z u \<noteq> n)"
  using candidates_instants [of z n] by auto

lemma candidates_head:
  assumes "wf_zone z" "valid_wall_candidates z n = a # as"
  shows "aw_local a = n" "local_of z (utc_instant z a) = n"
    and "\<And>u. local_of z u = n \<Longrightarrow> utc_instant z a \<le> u"
proof -
  have m: "a \<in> set (valid_wall_candidates z n)" using assms(2) by simp
  then show "aw_local a = n" "local_of z (utc_instant z a) = n"
    using candidates_loop_sound by (auto simp: valid_wall_candidates_def)
  fix u assume "local_of z u = n"
  then obtain b where b: "b \<in> set (a # as)" "u = utc_instant z b"
    using candidates_instants [OF assms(1), of n] assms(2) by auto
  have "sorted (map (utc_instant z) (a # as))"
    unfolding assms(2) [symmetric] valid_wall_candidates_def by simp
  then show "utc_instant z a \<le> u" using b by auto
qed

lemma candidates_head_mono:
  assumes "wf_zone z" "valid_wall_candidates z n = a # as" "valid_wall_candidates z m = b # bs" "n \<le> m"
  shows "utc_instant z a \<le> utc_instant z b"
proof (rule ccontr)
  assume "\<not> ?thesis"
  then have lt: "utc_instant z b < utc_instant z a" by simp
  note a = candidates_head [OF assms(1,2)] and b = candidates_head [OF assms(1,3)]
  have "n \<noteq> m" using assms(2,3) lt by auto
  then have "local_of z (utc_instant z a) < local_of z (utc_instant z b)" using a(2) b(2) assms(4) by simp
  then obtain u where "u < utc_instant z a" "local_of z u = n"
    using wall_repeat [of "z_before z" "z_transitions z"] lt assms(1) a(2)
    unfolding wf_zone_def local_of_def by metis
  then show False using a(3) by fastforce
qed

section \<open>The probe loop\<close>

lemma probe_gap_Inr:
  "probe_gap z n i k = Inr (a, r) \<Longrightarrow>
   \<exists>j as. i \<le> j \<and> j < i + int k \<and> valid_wall_candidates z (n + 60 * j) = a # as \<and>
        (\<forall>i'. i \<le> i' \<and> i' < j \<longrightarrow> valid_wall_candidates z (n + 60 * i') = []) \<and>
        wr_adjusted r \<and> wr_nonexistent r \<and> wr_shift_minutes r = Some j \<and> wr_requested_local r = n"
proof (induction k arbitrary: i)
  case (Suc k)
  show ?case
  proof (cases "valid_wall_candidates z (n + 60 * i)")
    case Nil
    then obtain j as where j: "i + 1 \<le> j" "j < i + 1 + int k" "valid_wall_candidates z (n + 60 * j) = a # as"
      "\<forall>i'. i + 1 \<le> i' \<and> i' < j \<longrightarrow> valid_wall_candidates z (n + 60 * i') = []"
      "wr_adjusted r \<and> wr_nonexistent r \<and> wr_shift_minutes r = Some j \<and> wr_requested_local r = n"
      using Suc.IH [of "i + 1"] Suc.prems by auto
    have "\<forall>i'. i \<le> i' \<and> i' < j \<longrightarrow> valid_wall_candidates z (n + 60 * i') = []"
      using j(4) Nil by (metis add1_zle_eq le_imp_less_or_eq)
    then show ?thesis using j by (intro exI [of _ j] exI [of _ as]) auto
  next
    case (Cons b bs)
    then show ?thesis using Suc.prems by (intro exI [of _ i] exI [of _ bs]) auto
  qed
qed simp

lemma probe_gap_found:
  "valid_wall_candidates z (n + 60 * j) \<noteq> [] \<Longrightarrow> i \<le> j \<Longrightarrow> j < i + int k \<Longrightarrow>
   \<exists>v. probe_gap z n i k = Inr v"
proof (induction k arbitrary: i)
  case (Suc k)
  show ?case
  proof (cases "valid_wall_candidates z (n + 60 * i)")
    case Nil
    then have "i \<noteq> j" using Suc.prems(1) by auto
    then show ?thesis using Suc.IH [of "i + 1"] Suc.prems Nil by simp
  qed simp
qed simp

text \<open>The outcome of a resolution in one statement: the chosen wall time is the first one at or
  after the requested one, in whole minutes, that some instant shows, and the chosen instant is
  the first that shows it.\<close>

lemma resolve_naive_outcome:
  assumes "wf_zone z" "resolve_naive z n lim = Inr (a, r)"
  shows "\<exists>j as. 0 \<le> j \<and> valid_wall_candidates z (n + 60 * j) = a # as
     \<and> (\<forall>i. 0 \<le> i \<and> i < j \<longrightarrow> valid_wall_candidates z (n + 60 * i) = [])
     \<and> (wr_adjusted r \<longleftrightarrow> 0 < j) \<and> (wr_nonexistent r \<longleftrightarrow> 0 < j)"
proof (cases "valid_wall_candidates z n")
  case Nil
  then have "probe_gap z n 1 (nat (max 1 lim)) = Inr (a, r)"
    using assms(2) by (simp add: resolve_naive_def)
  from probe_gap_Inr [OF this] obtain j as where j: "1 \<le> j" "valid_wall_candidates z (n + 60 * j) = a # as"
    "\<forall>i'. 1 \<le> i' \<and> i' < j \<longrightarrow> valid_wall_candidates z (n + 60 * i') = []" "wr_adjusted r" "wr_nonexistent r"
    by blast
  have "\<forall>i. 0 \<le> i \<and> i < j \<longrightarrow> valid_wall_candidates z (n + 60 * i) = []"
  proof (intro allI impI)
    fix i assume "0 \<le> i \<and> i < j"
    then show "valid_wall_candidates z (n + 60 * i) = []" using j(3) Nil by (cases "i = 0") auto
  qed
  then show ?thesis using j by (intro exI [of _ j] exI [of _ as]) auto
next
  case (Cons b bs)
  then show ?thesis using assms(2) by (intro exI [of _ 0] exI [of _ bs]) (auto simp: resolve_naive_def)
qed

text \<open>A wall time that is never shown lies in a gap, and the first whole-minute step past the gap
  is shown.\<close>

lemma wall_next:
  "wf_trans prev ts \<Longrightarrow> gaps_within m prev ts \<Longrightarrow> \<forall>u. u + off_utc prev ts u \<noteq> l \<Longrightarrow>
   \<exists>j u. 1 \<le> j \<and> j \<le> m \<and> u + off_utc prev ts u = l + 60 * j"
proof (induction ts arbitrary: prev)
  case Nil
  then show ?case by (metis diff_add_cancel off_utc.simps(1))
next
  case (Cons x ts)
  obtain t off where x: "x = (t, off)" by force
  have ge: "t + prev \<le> l"
  proof (rule ccontr)
    assume "\<not> ?thesis"
    then have "(l - prev) + off_utc prev (x # ts) (l - prev) = l" using x by simp
    then show False using Cons.prems(3) by blast
  qed
  have tail: "off_utc off ts u = off" if "u < t" for u
    using Cons.prems(1) x that by (cases ts) auto
  show ?case
  proof (cases "l < t + off")
    case True
    define j where "j = (t + off - l + 59) div 60"
    define u where "u = l + 60 * j - off"
    have b: "t + off \<le> l + 60 * j" "l + 60 * j < t + off + 60" unfolding j_def by presburger+
    have "off_utc off ts u = off"
    proof (cases ts)
      case (Cons y ts')
      obtain t2 off2 where y: "y = (t2, off2)" by force
      have "t + max prev off + 60 \<le> t2 + min off off2" using Cons.prems(1) Cons x y by simp
      then have "u < t2" using b(2) unfolding u_def by (simp add: max_def min_def split: if_splits)
      then show ?thesis using Cons y by simp
    qed simp
    then have e: "u + off_utc prev (x # ts) u = l + 60 * j" using b(1) x by (simp add: u_def)
    have "1 \<le> j" using b(1) True by presburger
    moreover have "j \<le> m" using b(2) ge Cons.prems(2) x by simp
    ultimately show ?thesis using e by (intro exI [of _ j] exI [of _ u]) simp
  next
    case False
    have lift: "u + off_utc prev (x # ts) u = k" if "u + off_utc off ts u = k" "l \<le> k" for u k
      using that tail [of u] False x by (cases "u < t") auto
    have "\<forall>u. u + off_utc off ts u \<noteq> l" using lift Cons.prems(3) by blast
    then obtain j u where j: "1 \<le> j" "j \<le> m" "u + off_utc off ts u = l + 60 * j"
      using Cons.IH [of off] wf_trans_tail [of prev t off ts] Cons.prems x by auto
    then have "u + off_utc prev (x # ts) u = l + 60 * j" using lift by simp
    then show ?thesis using j by blast
  qed
qed

lemma resolve_naive_total:
  assumes "wf_zone z" "gaps_within m (z_before z) (z_transitions z)" "m \<le> lim"
  shows "\<exists>v. resolve_naive z n lim = Inr v"
proof (cases "valid_wall_candidates z n")
  case Nil
  then have "\<forall>u. local_of z u \<noteq> n" using candidates_empty_iff assms(1) by blast
  then obtain j u where j: "1 \<le> j" "j \<le> m" "local_of z u = n + 60 * j"
    using wall_next [of "z_before z" "z_transitions z" m n] assms(1,2)
    unfolding wf_zone_def local_of_def by auto
  then have "valid_wall_candidates z (n + 60 * j) \<noteq> []" using candidates_empty_iff assms(1) by blast
  then have "\<exists>v. probe_gap z n 1 (nat (max 1 lim)) = Inr v"
    using j assms(3) by (intro probe_gap_found) auto
  then show ?thesis using Nil by (simp add: resolve_naive_def)
qed (simp add: resolve_naive_def)

text \<open>PEP 495: the fold flag of a converted instant recovers the instant.\<close>

lemma fold_roundtrip:
  "wf_trans prev ts \<Longrightarrow>
   off_wall (fold_utc prev ts u) prev ts (u + off_utc prev ts u) = off_utc prev ts u"
proof (induction ts arbitrary: prev)
  case (Cons x ts)
  obtain t off where x: "x = (t, off)" by force
  show ?case
  proof (cases ts)
    case Nil
    then show ?thesis using x by auto
  next
    case (Cons y ts')
    obtain t2 off2 where y: "y = (t2, off2)" by force
    have sep: "t + max prev off + 60 \<le> t2 + min off off2" "wf_trans off ts"
      using Cons.prems x y Cons by auto
    have "t < t2" using sep(1) by (simp add: max_def min_def split: if_splits)
    show ?thesis
    proof (cases "t2 \<le> u")
      case True
      have "t2 + off2 \<le> u + off_utc off2 ts' u"
        using wall_after [of off t2 off2 ts' u] sep(2) True Cons y by simp
      then have thr: "t + (if fd then min prev off else max prev off) \<le> u + off_utc off ts u" for fd
        using sep(1) True Cons y by (auto simp: max_def min_def split: if_splits)
      have "off_wall (fold_utc off ts u) off ts (u + off_utc off ts u) = off_utc off ts u"
        using Cons.IH [OF sep(2)] .
      then show ?thesis using x Cons y True \<open>t < t2\<close> thr [of "fold_utc off ts u"] by simp
    next
      case False
      then have o: "off_utc off ts u = off" using Cons y by simp
      have "off_wall fd off ts (u + off) = off" if "fd \<Longrightarrow> u + off < t + prev" for fd
        using that False sep(1) Cons y by (cases fd) (auto simp: max_def min_def split: if_splits)
      then show ?thesis using x Cons y False o by (auto simp: max_def min_def)
    qed
  qed
qed simp

lemma utc_from_utc: "wf_zone z \<Longrightarrow> utc_instant z (from_utc z u) = u"
  using fold_roundtrip [of "z_before z" "z_transitions z" u]
  by (simp add: utc_instant_def from_utc_def local_of_def wf_zone_def)

section \<open>Properties\<close>

text \<open>C8: a resolved local time is the first one at or after the requested one, in whole minutes,
  that the wall clock of the zone shows, and of the instants that show it the earliest is chosen;
  the result is marked adjusted exactly when the requested time itself is skipped.\<close>

theorem resolve_first_valid:
  assumes "wf_zone z" "resolve_local_wall_time day clock z = Inr (a, r)"
  shows "\<exists>j \<ge> 0. let l = combine day clock + 60 * j in
       aw_local a = l \<and> local_of z (utc_instant z a) = l
     \<and> (\<forall>u. local_of z u = l \<longrightarrow> utc_instant z a \<le> u)
     \<and> (\<forall>i. 0 \<le> i \<and> i < j \<longrightarrow> (\<forall>u. local_of z u \<noteq> combine day clock + 60 * i))
     \<and> (wr_adjusted r \<longleftrightarrow> 0 < j)"
proof -
  from resolve_naive_outcome [OF assms(1)] assms(2) obtain j as where
    "0 \<le> j" "valid_wall_candidates z (combine day clock + 60 * j) = a # as"
    "\<forall>i. 0 \<le> i \<and> i < j \<longrightarrow> valid_wall_candidates z (combine day clock + 60 * i) = []"
    "wr_adjusted r \<longleftrightarrow> 0 < j"
    unfolding resolve_local_wall_time_def by blast
  then show ?thesis
    using candidates_head [OF assms(1)] candidates_empty_iff [OF assms(1)]
    by (intro exI [of _ j]) (simp add: Let_def)
qed

text \<open>Resolution never reorders: of two wall times a whole number of minutes apart the later
  one is not resolved to an earlier instant, across gaps and repeated hours.\<close>

theorem resolve_monotone:
  assumes "wf_zone z" "resolve_local_wall_time d1 c1 z = Inr (a, ra)"
    "resolve_local_wall_time d2 c2 z = Inr (b, rb)"
    "combine d1 c1 \<le> combine d2 c2" "60 dvd combine d2 c2 - combine d1 c1"
  shows "utc_instant z a \<le> utc_instant z b"
proof -
  obtain j as where j: "0 \<le> j" "valid_wall_candidates z (combine d1 c1 + 60 * j) = a # as"
    "\<forall>i. 0 \<le> i \<and> i < j \<longrightarrow> valid_wall_candidates z (combine d1 c1 + 60 * i) = []"
    using resolve_naive_outcome [OF assms(1)] assms(2) unfolding resolve_local_wall_time_def by blast
  obtain k bs where k: "0 \<le> k" "valid_wall_candidates z (combine d2 c2 + 60 * k) = b # bs"
    using resolve_naive_outcome [OF assms(1)] assms(3) unfolding resolve_local_wall_time_def by blast
  obtain q where q: "combine d2 c2 = combine d1 c1 + 60 * q" using assms(5) by (auto simp: dvd_def algebra_simps)
  have "\<not> q + k < j"
  proof
    assume "q + k < j"
    then have "valid_wall_candidates z (combine d1 c1 + 60 * (q + k)) = []"
      using j(3) [rule_format, of "q + k"] k(1) q assms(4) by simp
    then show False using k(2) q by (simp add: algebra_simps)
  qed
  then show ?thesis using candidates_head_mono [OF assms(1) j(2) k(2)] q by simp
qed

text \<open>C9: in a zone whose clock never skips more than three hours every wall time resolves.\<close>

theorem resolve_total:
  assumes "wf_zone z" "gaps_within 180 (z_before z) (z_transitions z)"
  shows "\<exists>a r. resolve_local_wall_time day clock z = Inr (a, r)"
  using resolve_naive_total [OF assms] unfolding resolve_local_wall_time_def by fastforce

definition london :: zone where
  "london = \<lparr> z_key = ''Europe/London'', z_before = 0,
     z_transitions = [(1743296400, 3600), (1761440400, 0), (1774746000, 3600), (1792890000, 0)] \<rparr>"

lemma london_wf: "wf_zone london" and london_gaps: "gaps_within 180 (z_before london) (z_transitions london)"
  by code_simp+

text \<open>01:30 on 30 March 2025 is skipped; it resolves to 02:00 summer time.\<close>

theorem resolve_first_valid_witness:
  "\<exists>a r. resolve_local_wall_time 20177 5400 london = Inr (a, r) \<and> wr_adjusted r
     \<and> (\<forall>u. local_of london u \<noteq> combine 20177 5400)"
proof -
  have "case resolve_local_wall_time 20177 5400 london of Inr x \<Rightarrow> wr_adjusted (snd x) | Inl _ \<Rightarrow> False"
    by code_simp
  then obtain a r where r: "resolve_local_wall_time 20177 5400 london = Inr (a, r)" "wr_adjusted r"
    by (auto split: sum.splits)
  show ?thesis using resolve_first_valid [OF london_wf r(1)] r by (force simp: Let_def)
qed

theorem resolve_monotone_witness:
  "\<exists>a b ra rb. resolve_local_wall_time 20177 5400 london = Inr (a, ra)
     \<and> resolve_local_wall_time 20177 7200 london = Inr (b, rb) \<and> utc_instant london a \<le> utc_instant london b"
proof -
  have "case (resolve_local_wall_time 20177 5400 london, resolve_local_wall_time 20177 7200 london) of
    (Inr x, Inr y) \<Rightarrow> True | _ \<Rightarrow> False"
    by code_simp
  then obtain a ra b rb where r: "resolve_local_wall_time 20177 5400 london = Inr (a, ra)"
    "resolve_local_wall_time 20177 7200 london = Inr (b, rb)"
    by (auto split: sum.splits)
  show ?thesis using resolve_monotone [OF london_wf r] r by (simp add: combine_def)
qed

theorem resolve_total_witness: "\<exists>a r. resolve_local_wall_time 20177 5400 london = Inr (a, r)"
  by (rule resolve_total [OF london_wf london_gaps])

end
