(* ===== verification/ScheduleResolver.thy ===== *)
theory ScheduleResolver
  imports PolicyTime PolicyGroups "HOL-Library.Product_Lexorder"
begin

text \<open>
  The recurring schedules, schedule templates and date exceptions of \<open>PolicyStore\<close>
  (\<open>src/app/policy_store.py\<close>): which rows target a device, their occurrences around an instant,
  and the choice of the governing one. The store is a record of its tables, each a list in the
  order its \<open>SELECT\<close> returns the rows. Dates are day ordinals (ISO dates compare as strings the
  way their ordinals compare).
\<close>

section \<open>Tables\<close>

record profile =
  pf_id :: int
  pf_name :: string
  pf_desired_mode :: string
  pf_bandwidth_preset :: string
  pf_notes :: string
  pf_blocked_services :: "string list"
  pf_daily_quota_mb :: int
  pf_daily_quota_action :: string
  pf_service_quotas :: "(string \<times> int) list"

record device_row =
  dv_alias :: string
  dv_profile_id :: "int option"
  dv_mode_override :: string
  dv_category :: string

record schedule_plan =
  sp_id :: int
  sp_label :: string
  sp_days :: "string list"
  sp_clock_time :: string
  sp_action_type :: string
  sp_action_value :: string
  sp_target_type :: string
  sp_target_value :: string
  sp_enabled :: bool

record template_entry =
  te_days :: "string list"
  te_time :: string
  te_mode :: string

record schedule_template =
  tp_id :: int
  tp_name :: string
  tp_entries :: "template_entry list"

record date_exception =
  de_id :: int
  de_label :: string
  de_start_date :: int
  de_end_date :: int
  de_target_type :: string
  de_target_value :: string
  de_mode :: string
  de_template_id :: "int option"

record bandwidth_preset =
  bp_key :: string
  bp_name :: string
  bp_upload :: string
  bp_download :: string

record store =
  st_settings :: "(string \<times> string) list"
  st_profiles :: "profile list"
  st_devices :: "(string \<times> device_row) list"
  st_plans :: "schedule_plan list"
  st_templates :: "schedule_template list"
  st_exceptions :: "date_exception list"
  st_groups :: group_catalog
  st_services :: "service_row list"
  st_presets :: "bandwidth_preset list"

definition policy_group_catalog :: "store \<Rightarrow> group_catalog" where
  "policy_group_catalog st = normalized_group_catalog (Some (st_groups st))"

definition policy_group_keys :: "store \<Rightarrow> string list" where
  "policy_group_keys st = dict_keys (policy_group_catalog st)"

definition get_profile :: "store \<Rightarrow> int \<Rightarrow> profile option" where
  "get_profile st pid = find (\<lambda>p. pf_id p = pid) (st_profiles st)"

definition get_bandwidth_preset :: "store \<Rightarrow> string \<Rightarrow> bandwidth_preset option" where
  "get_bandwidth_preset st key = find (\<lambda>p. bp_key p = key) (st_presets st)"

definition routeros_supported_service_keys :: "store \<Rightarrow> string list" where
  "routeros_supported_service_keys st = dict_keys (routeros_service_catalog (st_services st))"

section \<open>Validation and matching\<close>

definition target_specificity :: "string \<Rightarrow> int" where
  "target_specificity t = (if t = ''all'' then 1 else if t = ''profile'' then 2
                           else if t = ''device'' then 3 else 0)"

definition WEEKDAYS :: "string list" where
  "WEEKDAYS = [''mon'', ''tue'', ''wed'', ''thu'', ''fri'', ''sat'', ''sun'']"

text \<open>Day 0 is Thursday, 1 January 1970.\<close>

definition weekday_code :: "int \<Rightarrow> string" where
  "weekday_code day = WEEKDAYS ! nat ((day + 3) mod 7)"

definition validate_mode :: "string \<Rightarrow> bool \<Rightarrow> string res" where
  "validate_mode mode allow_inherit =
     (if mode \<in> {''normal'', ''slow'', ''blocked''} \<or> (allow_inherit \<and> mode = ''inherit'') then Inr mode
      else Inl (ValueError ''Invalid desired mode''))"

text \<open>\<open>s.split(":", 1)\<close> when the separator occurs.\<close>

definition split_once :: "char \<Rightarrow> string \<Rightarrow> (string \<times> string) option" where
  "split_once c s =
     (if c \<in> set s then Some (takeWhile (\<lambda>x. x \<noteq> c) s, tl (dropWhile (\<lambda>x. x \<noteq> c) s)) else None)"

definition state_map :: "(string \<times> string) list" where
  "state_map = [(''block'', ''block''), (''blocked'', ''block''), (''deny'', ''block''),
                (''allow'', ''allow''), (''allowed'', ''allow'')]"

definition normalize_service_schedule_action :: "store \<Rightarrow> string \<Rightarrow> (string \<times> string \<times> string) res" where
  "normalize_service_schedule_action st action_value =
     (case split_once (CHR '':'') (norm_key action_value) of
        None \<Rightarrow> Inl (ValueError ''Service schedule action must use service:block or service:allow'')
      | Some (k, s) \<Rightarrow>
          let service_key = py_strip k; state = py_strip s;
              valid_services = map sr_key (st_services st) @ policy_group_keys st
          in if service_key \<notin> set valid_services
             then Inl (ValueError (''Unknown scheduled service '' @ sq service_key))
             else case map_of state_map state of
                    None \<Rightarrow> Inl (ValueError ''Service schedule state must be block or allow'')
                  | Some ns \<Rightarrow> Inr (service_key @ '':'' @ ns, service_key, ns))"

definition target_matches :: "string \<Rightarrow> string \<Rightarrow> string \<Rightarrow> int option \<Rightarrow> bool" where
  "target_matches target_type target_value ip profile_id =
     (if target_type = ''all'' then True
      else if target_type = ''device'' then target_value = ip
      else if target_type = ''profile'' then
        (case profile_id of None \<Rightarrow> False | Some p \<Rightarrow> target_value = show_int p)
      else False)"

section \<open>Occurrences\<close>

record candidate =
  cd_id :: int
  cd_label :: string
  cd_occurrence :: aware
  cd_specificity :: int
  cd_target_type :: string
  cd_action_type :: string
  cd_value :: string
  cd_service_key :: "string option"
  cd_state :: "string option"
  cd_requested_time :: string
  cd_wall_resolution :: wall_resolution

definition cd_instant :: "zone \<Rightarrow> candidate \<Rightarrow> int" where
  "cd_instant z c = utc_instant z (cd_occurrence c)"

definition parse_clock :: "string \<Rightarrow> (int \<times> int) option" where
  "parse_clock s =
     (case split_once (CHR '':'') s of None \<Rightarrow> None
      | Some (h, m) \<Rightarrow> (case (py_int h, py_int m) of (Some x, Some y) \<Rightarrow> Some (x, y) | _ \<Rightarrow> None))"

text \<open>\<open>dt_time(hour=..., minute=...)\<close> as seconds after midnight.\<close>

definition dt_time :: "int \<Rightarrow> int \<Rightarrow> int res" where
  "dt_time hour minute =
     (if hour < 0 \<or> hour > 23 then Inl (ValueError ''hour must be in 0..23'')
      else if minute < 0 \<or> minute > 59 then Inl (ValueError ''minute must be in 0..59'')
      else Inr (3600 * hour + 60 * minute))"

definition aw_date :: "aware \<Rightarrow> int" where
  "aw_date a = aw_local a div 86400"

text \<open>The inner loop over day offsets: the occurrences on the right side of \<open>at\<close>, with what the
  caller puts in a candidate for an occurrence.\<close>

fun offsets_loop ::
  "zone \<Rightarrow> aware \<Rightarrow> bool \<Rightarrow> (int \<Rightarrow> bool) \<Rightarrow> int \<Rightarrow> int
   \<Rightarrow> (aware \<Rightarrow> wall_resolution \<Rightarrow> candidate) \<Rightarrow> int list \<Rightarrow> candidate list res" where
  "offsets_loop z at future day_ok hour minute mk [] = Inr []"
| "offsets_loop z at future day_ok hour minute mk (offset # rest) =
     (let day = aw_date at + (if future then offset else - offset) in
      if \<not> day_ok day then offsets_loop z at future day_ok hour minute mk rest
      else ebind (dt_time hour minute) (\<lambda>clock.
           ebind (resolve_local_wall_time day clock z) (\<lambda>(occurrence, wall).
             let keep = (if future then utc_instant z at < utc_instant z occurrence
                         else utc_instant z occurrence \<le> utc_instant z at)
             in ebind (offsets_loop z at future day_ok hour minute mk rest) (\<lambda>cs.
                  Inr (if keep then mk occurrence wall # cs else cs)))))"

definition day_offsets :: "int list" where
  "day_offsets = [0, 1, 2, 3, 4, 5, 6, 7]"

definition plan_action :: "store \<Rightarrow> schedule_plan \<Rightarrow> (string \<times> string option \<times> string option) res" where
  "plan_action st plan =
     (if sp_action_type plan = ''mode'' then
        ebind (validate_mode (py_lower (sp_action_value plan)) False) (\<lambda>v. Inr (v, None, None))
      else if sp_action_type plan = ''service'' then
        ebind (normalize_service_schedule_action st (sp_action_value plan))
          (\<lambda>(v, k, s). Inr (v, Some k, Some s))
      else Inl (ValueError (''Schedule '' @ sq (sp_label plan) @ '' has unsupported action type'')))"

definition plan_occurrences ::
  "store \<Rightarrow> zone \<Rightarrow> string \<Rightarrow> int option \<Rightarrow> aware \<Rightarrow> bool \<Rightarrow> schedule_plan \<Rightarrow> candidate list res" where
  "plan_occurrences st z ip profile_id at future plan =
     (if \<not> target_matches (sp_target_type plan) (sp_target_value plan) ip profile_id then Inr []
      else case parse_clock (sp_clock_time plan) of
        None \<Rightarrow> Inl (ValueError (''Schedule '' @ sq (sp_label plan) @ '' has an invalid time''))
      | Some (hour, minute) \<Rightarrow>
          ebind (plan_action st plan) (\<lambda>(value, service_key, state).
            offsets_loop z at future (\<lambda>day. weekday_code day \<in> set (sp_days plan)) hour minute
              (\<lambda>occurrence wall.
                 \<lparr> cd_id = sp_id plan, cd_label = sp_label plan, cd_occurrence = occurrence,
                   cd_specificity = target_specificity (sp_target_type plan),
                   cd_target_type = sp_target_type plan, cd_action_type = sp_action_type plan,
                   cd_value = value, cd_service_key = service_key, cd_state = state,
                   cd_requested_time = sp_clock_time plan, cd_wall_resolution = wall \<rparr>)
              day_offsets))"

definition schedule_occurrences ::
  "store \<Rightarrow> zone \<Rightarrow> string \<Rightarrow> int option \<Rightarrow> aware \<Rightarrow> bool \<Rightarrow> candidate list res" where
  "schedule_occurrences st z ip profile_id at future =
     ebind (emap (plan_occurrences st z ip profile_id at future) (filter sp_enabled (st_plans st)))
       (\<lambda>css. Inr (concat css))"

section \<open>Selection\<close>

text \<open>\<open>strftime("%a %H:%M")\<close>.\<close>

definition show_day_time :: "aware \<Rightarrow> string" where
  "show_day_time a =
     (let name = [''Mon'', ''Tue'', ''Wed'', ''Thu'', ''Fri'', ''Sat'', ''Sun''] ! nat ((aw_date a + 3) mod 7);
          secs = aw_local a mod 86400
      in name @ '' '' @ pad2 (nat (secs div 3600)) @ '':'' @ pad2 (nat (secs mod 3600 div 60)))"

definition select_schedule_candidate ::
  "zone \<Rightarrow> candidate list \<Rightarrow> string \<Rightarrow> candidate option res" where
  "select_schedule_candidate z candidates dimension =
     (if candidates = [] then Inr None
      else
        let latest = maxima_by (cd_instant z) candidates;
            winners = maxima_by cd_specificity latest
        in if length (remdups (map cd_value winners)) > 1
           then Inl (ValueError (''Ambiguous '' @ dimension @ '' schedules at ''
                  @ show_day_time (cd_occurrence (hd latest)) @ '': ''
                  @ join_with '', '' (sorted_set (map cd_label winners))))
           else Inr (Some (last (sort_key cd_id winners))))"

text \<open>\<open>setdefault(key, []).append(item)\<close>.\<close>

definition dict_append :: "'k \<Rightarrow> 'v \<Rightarrow> ('k \<times> 'v list) list \<Rightarrow> ('k \<times> 'v list) list" where
  "dict_append k v d = AList.update k (dict_get d k [] @ [v]) d"

definition group_by_service :: "candidate list \<Rightarrow> (string \<times> candidate list) list" where
  "group_by_service cs =
     fold (\<lambda>c d. if cd_action_type c \<noteq> ''service'' then d
                 else dict_append (case cd_service_key c of None \<Rightarrow> [] | Some k \<Rightarrow> k) c d) cs []"

definition select_services ::
  "zone \<Rightarrow> (string \<times> candidate list) list \<Rightarrow> (string \<times> candidate) list res" where
  "select_services z groups =
     emap (\<lambda>(key, values).
        ebind (select_schedule_candidate z values (key @ '' service'')) (\<lambda>c.
          case c of None \<Rightarrow> Inl (KeyError key) | Some w \<Rightarrow> Inr (key, w))) groups"

definition next_of :: "zone \<Rightarrow> candidate list \<Rightarrow> candidate option" where
  "next_of z future =
     (if future = [] then None
      else Some (hd (sort_key cd_id (maxima_by cd_specificity (minima_by (cd_instant z) future)))))"

definition resolve_regular_schedule ::
  "store \<Rightarrow> zone \<Rightarrow> string \<Rightarrow> int option \<Rightarrow> aware
   \<Rightarrow> (candidate option \<times> (string \<times> candidate) list \<times> candidate option) res" where
  "resolve_regular_schedule st z ip profile_id at =
     ebind (schedule_occurrences st z ip profile_id at False) (\<lambda>past.
     ebind (select_schedule_candidate z (filter (\<lambda>c. cd_action_type c = ''mode'') past) ''mode'') (\<lambda>mode_candidate.
     ebind (select_services z (group_by_service past)) (\<lambda>service_state.
     ebind (schedule_occurrences st z ip profile_id at True) (\<lambda>future.
       Inr (mode_candidate, service_state, next_of z future)))))"

section \<open>Date exceptions and templates\<close>

definition ex_specificity :: "date_exception \<Rightarrow> int" where
  "ex_specificity ex = target_specificity (de_target_type ex)"

definition matching_exception ::
  "store \<Rightarrow> string \<Rightarrow> int \<Rightarrow> int option \<Rightarrow> date_exception option res" where
  "matching_exception st ip date profile_id =
     (let pid = (case profile_id of Some p \<Rightarrow> Some p
                 | None \<Rightarrow> (case map_of (st_devices st) ip of None \<Rightarrow> None | Some d \<Rightarrow> dv_profile_id d));
          matches = filter (\<lambda>ex. de_start_date ex \<le> date \<and> date \<le> de_end_date ex
                       \<and> target_matches (de_target_type ex) (de_target_value ex) ip pid) (st_exceptions st)
      in if matches = [] then Inr None
         else
           let winners = maxima_by ex_specificity matches in
           if length (remdups (map (\<lambda>ex. (de_mode ex, de_template_id ex)) winners)) > 1
           then Inl (ValueError (''Conflicting date exceptions for '' @ ip @ '' on '' @ show_date date @ '': ''
                  @ join_with '', '' (sort (map de_label winners))))
           else Inr (Some (last (sort_key (\<lambda>ex. (de_start_date ex, de_id ex)) winners))))"

definition entry_occurrences ::
  "zone \<Rightarrow> aware \<Rightarrow> int \<Rightarrow> int \<Rightarrow> bool \<Rightarrow> schedule_template \<Rightarrow> int \<times> template_entry \<Rightarrow> candidate list res" where
  "entry_occurrences z at start fin future template ie =
     (case parse_clock (te_time (snd ie)) of
        None \<Rightarrow> Inl (ValueError ''invalid literal for int()'')
      | Some (hour, minute) \<Rightarrow>
          offsets_loop z at future
            (\<lambda>day. start \<le> day \<and> day \<le> fin \<and> weekday_code day \<in> set (te_days (snd ie))) hour minute
            (\<lambda>occurrence wall.
               \<lparr> cd_id = fst ie, cd_label = tp_name template, cd_occurrence = occurrence,
                 cd_specificity = 4, cd_target_type = ''template'', cd_action_type = ''mode'',
                 cd_value = te_mode (snd ie), cd_service_key = None, cd_state = None,
                 cd_requested_time = te_time (snd ie), cd_wall_resolution = wall \<rparr>)
            day_offsets)"

definition template_candidates ::
  "zone \<Rightarrow> schedule_template \<Rightarrow> aware \<Rightarrow> int \<Rightarrow> int \<Rightarrow> bool \<Rightarrow> candidate list res" where
  "template_candidates z template at start_date end_date future =
     ebind (emap (entry_occurrences z at start_date end_date future template)
              (zip (map int [0..<length (tp_entries template)]) (tp_entries template)))
       (\<lambda>css. Inr (concat css))"

definition resolve_exception_template ::
  "store \<Rightarrow> zone \<Rightarrow> date_exception \<Rightarrow> aware
   \<Rightarrow> (schedule_template \<times> candidate option \<times> candidate option) res" where
  "resolve_exception_template st z ex at =
     (case find (\<lambda>t. Some (tp_id t) = de_template_id ex) (st_templates st) of
        None \<Rightarrow> Inl (ValueError (''Date exception '' @ sq (de_label ex) @ '' references a missing template''))
      | Some template \<Rightarrow>
          ebind (template_candidates z template at (de_start_date ex) (de_end_date ex) False) (\<lambda>past.
          ebind (select_schedule_candidate z past ''template mode'') (\<lambda>current.
          ebind (template_candidates z template at (de_start_date ex) (de_end_date ex) True) (\<lambda>future.
            Inr (template, current,
                 if future = [] then None
                 else Some (hd (sort_key cd_id (minima_by (cd_instant z) future))))))))"

section \<open>The governing candidate\<close>

text \<open>What the selection promises: a governing candidate is one that no other follows, and none at
  the same instant targets the device more specifically.\<close>

definition governs :: "zone \<Rightarrow> candidate list \<Rightarrow> candidate \<Rightarrow> bool" where
  "governs z cs c = (c \<in> set cs \<and>
     (\<forall>d \<in> set cs. cd_instant z d < cd_instant z c
        \<or> cd_instant z d = cd_instant z c \<and> cd_specificity d \<le> cd_specificity c))"

lemma winners_iff:
  "c \<in> set (maxima_by cd_specificity (maxima_by (cd_instant z) cs)) \<longleftrightarrow> governs z cs c"
proof
  assume "c \<in> set (maxima_by cd_specificity (maxima_by (cd_instant z) cs))"
  then have c: "c \<in> set cs" "\<forall>y\<in>set cs. cd_instant z y \<le> cd_instant z c"
    and m: "\<forall>y\<in>set (maxima_by (cd_instant z) cs). cd_specificity y \<le> cd_specificity c"
    by (auto simp: maxima_by_iff)
  show "governs z cs c"
    unfolding governs_def
  proof (intro conjI ballI)
    fix d assume d: "d \<in> set cs"
    show "cd_instant z d < cd_instant z c \<or> cd_instant z d = cd_instant z c \<and> cd_specificity d \<le> cd_specificity c"
    proof (cases "cd_instant z d = cd_instant z c")
      case True
      then have "d \<in> set (maxima_by (cd_instant z) cs)" using c d by (auto simp: maxima_by_iff)
      then show ?thesis using True m by simp
    next
      case False
      then show ?thesis using c(2) d by force
    qed
  qed (rule c(1))
next
  assume g: "governs z cs c"
  then have "c \<in> set (maxima_by (cd_instant z) cs)"
    by (auto simp: governs_def maxima_by_iff)
  moreover have "cd_specificity y \<le> cd_specificity c" if "y \<in> set (maxima_by (cd_instant z) cs)" for y
  proof -
    have "y \<in> set cs" "cd_instant z c \<le> cd_instant z y" using that g by (auto simp: maxima_by_iff governs_def)
    then show ?thesis using g by (force simp: governs_def)
  qed
  ultimately show "c \<in> set (maxima_by cd_specificity (maxima_by (cd_instant z) cs))"
    by (simp add: maxima_by_iff [of c cd_specificity])
qed

lemma length_remdups_gt1: "length (remdups xs) > 1 \<longleftrightarrow> (\<exists>x \<in> set xs. \<exists>y \<in> set xs. x \<noteq> y)"
  using card_le_Suc0_iff_eq [of "set xs"] by (auto simp: length_remdups_card_conv not_le [symmetric])

lemma winners_nonempty:
  "cs \<noteq> [] \<Longrightarrow> maxima_by cd_specificity (maxima_by (cd_instant z) cs) \<noteq> []"
  by (intro maxima_by_nonempty)

lemma select_cases:
  "case select_schedule_candidate z cs dim of
     Inl _ \<Rightarrow> \<exists>c d. governs z cs c \<and> governs z cs d \<and> cd_value c \<noteq> cd_value d
   | Inr None \<Rightarrow> cs = []
   | Inr (Some c) \<Rightarrow> governs z cs c \<and> (\<forall>d. governs z cs d \<longrightarrow> cd_value c = cd_value d)"
proof (cases "cs = []")
  case False
  define w where "w = maxima_by cd_specificity (maxima_by (cd_instant z) cs)"
  have n: "w \<noteq> []" unfolding w_def using False by (rule winners_nonempty)
  have w: "c \<in> set w \<longleftrightarrow> governs z cs c" for c unfolding w_def by (rule winners_iff)
  have d: "length (remdups (map cd_value w)) > 1 \<longleftrightarrow> (\<exists>c \<in> set w. \<exists>d \<in> set w. cd_value c \<noteq> cd_value d)"
    unfolding length_remdups_gt1 set_map by blast
  show ?thesis
  proof (cases "\<exists>c \<in> set w. \<exists>d \<in> set w. cd_value c \<noteq> cd_value d")
    case True
    have "\<exists>e. select_schedule_candidate z cs dim = Inl e"
      unfolding select_schedule_candidate_def Let_def w_def [symmetric]
      by (simp only: False d True if_True if_False) blast
    then obtain e where e: "select_schedule_candidate z cs dim = Inl e" by blast
    show ?thesis using True w unfolding e sum.case by blast
  next
    case neg: False
    have s: "select_schedule_candidate z cs dim = Inr (Some (last (sort_key cd_id w)))"
      unfolding select_schedule_candidate_def Let_def w_def [symmetric]
      by (simp only: False d neg if_True if_False)
    have l: "last (sort_key cd_id w) \<in> set w" using n by (rule last_sort_key_in)
    show ?thesis unfolding s sum.case option.case using l neg w by blast
  qed
qed (simp add: select_schedule_candidate_def)

lemma select_Some: "select_schedule_candidate z cs dim = Inr (Some c) \<Longrightarrow>
   governs z cs c \<and> (\<forall>d. governs z cs d \<longrightarrow> cd_value c = cd_value d)"
  using select_cases [of z cs dim] by simp

lemma select_mem: "select_schedule_candidate z cs dim = Inr (Some c) \<Longrightarrow> c \<in> set cs"
  using select_Some by (auto simp: governs_def)

lemma select_None: "select_schedule_candidate z cs dim = Inr None \<Longrightarrow> cs = []"
  using select_cases [of z cs dim] by simp

lemma governs_cong: "set cs = set ds \<Longrightarrow> governs z cs = governs z ds"
  by (simp add: governs_def fun_eq_iff)

lemma select_order:
  assumes "set cs = set ds"
  shows "map_sum (\<lambda>_. ()) (map_option cd_value) (select_schedule_candidate z cs d1)
       = map_sum (\<lambda>_. ()) (map_option cd_value) (select_schedule_candidate z ds d2)"
proof -
  have g: "governs z ds = governs z cs" using governs_cong [OF assms] by simp
  note a = select_cases [of z cs d1] and b = select_cases [of z ds d2, unfolded g]
  consider (err) e where "select_schedule_candidate z cs d1 = Inl e"
    | (none) "select_schedule_candidate z cs d1 = Inr None"
    | (some) c where "select_schedule_candidate z cs d1 = Inr (Some c)"
    by (metis option.exhaust sum.exhaust)
  then show ?thesis
  proof cases
    case err
    then obtain x y where xy: "governs z cs x" "governs z cs y" "cd_value x \<noteq> cd_value y" using a by auto
    then have "ds \<noteq> []" using assms by (auto simp: governs_def)
    then have "\<exists>e. select_schedule_candidate z ds d2 = Inl e"
      using b xy by (cases "select_schedule_candidate z ds d2") (auto split: option.splits, metis)
    then show ?thesis using err by auto
  next
    case none
    then have "ds = []" using a assms by simp
    then show ?thesis using none by (simp add: select_schedule_candidate_def)
  next
    case some
    then have c: "governs z cs c" "\<forall>d. governs z cs d \<longrightarrow> cd_value c = cd_value d" using a by auto
    then have "ds \<noteq> []" using assms by (auto simp: governs_def)
    then obtain d where "select_schedule_candidate z ds d2 = Inr (Some d)" "governs z cs d"
      using b c by (cases "select_schedule_candidate z ds d2") (auto split: option.splits, metis)
    then show ?thesis using some c by simp
  qed
qed

section \<open>Occurrences\<close>

lemma offsets_loop_Inr:
  "offsets_loop z at fut day_ok h m mk os = Inr cs \<Longrightarrow> c \<in> set cs \<Longrightarrow>
   \<exists>o' occ w clock. o' \<in> set os \<and> day_ok (aw_date at + (if fut then o' else - o')) \<and> dt_time h m = Inr clock
     \<and> resolve_local_wall_time (aw_date at + (if fut then o' else - o')) clock z = Inr (occ, w)
     \<and> c = mk occ w
     \<and> (if fut then utc_instant z at < utc_instant z occ else utc_instant z occ \<le> utc_instant z at)"
proof (induction os arbitrary: cs)
  case (Cons o' os)
  show ?case
  proof (cases "day_ok (aw_date at + (if fut then o' else - o'))")
    case False
    then show ?thesis using Cons by (auto simp: Let_def)
  next
    case True
    then obtain clock occ w cs' where r: "dt_time h m = Inr clock"
      "resolve_local_wall_time (aw_date at + (if fut then o' else - o')) clock z = Inr (occ, w)"
      "offsets_loop z at fut day_ok h m mk os = Inr cs'"
      "cs = (if (if fut then utc_instant z at < utc_instant z occ else utc_instant z occ \<le> utc_instant z at)
             then mk occ w # cs' else cs')"
      using Cons.prems(1) by (auto simp: Let_def ebind_eq_Inr)
    show ?thesis
    proof (cases "c \<in> set cs'")
      case True
      then show ?thesis using Cons.IH [OF r(3)] by auto
    next
      case False
      then show ?thesis using r True Cons.prems(2)
        by (intro exI [of _ o'] exI [of _ occ] exI [of _ w] exI [of _ clock]) (auto split: if_splits)
    qed
  qed
qed simp

lemma offsets_loop_complete:
  "offsets_loop z at fut day_ok h m mk os = Inr cs \<Longrightarrow> o' \<in> set os \<Longrightarrow>
   day_ok (aw_date at + (if fut then o' else - o')) \<Longrightarrow>
   \<exists>occ w clock. dt_time h m = Inr clock
     \<and> resolve_local_wall_time (aw_date at + (if fut then o' else - o')) clock z = Inr (occ, w)
     \<and> ((if fut then utc_instant z at < utc_instant z occ else utc_instant z occ \<le> utc_instant z at)
         \<longrightarrow> mk occ w \<in> set cs)"
proof (induction os arbitrary: cs)
  case (Cons p os)
  show ?case
  proof (cases "day_ok (aw_date at + (if fut then p else - p))")
    case False
    then have "offsets_loop z at fut day_ok h m mk os = Inr cs" "o' \<in> set os"
      using Cons.prems by (auto simp: Let_def)
    then show ?thesis using Cons by blast
  next
    case True
    then obtain clock occ w cs' where r: "dt_time h m = Inr clock"
      "resolve_local_wall_time (aw_date at + (if fut then p else - p)) clock z = Inr (occ, w)"
      "offsets_loop z at fut day_ok h m mk os = Inr cs'"
      "cs = (if (if fut then utc_instant z at < utc_instant z occ else utc_instant z occ \<le> utc_instant z at)
             then mk occ w # cs' else cs')"
      using Cons.prems(1) by (auto simp: Let_def ebind_eq_Inr)
    show ?thesis
    proof (cases "o' = p")
      case True
      then show ?thesis using r by auto
    next
      case False
      then have "o' \<in> set os" using Cons.prems by simp
      then have "\<exists>occ w clock. dt_time h m = Inr clock
        \<and> resolve_local_wall_time (aw_date at + (if fut then o' else - o')) clock z = Inr (occ, w)
        \<and> ((if fut then utc_instant z at < utc_instant z occ else utc_instant z occ \<le> utc_instant z at)
         \<longrightarrow> mk occ w \<in> set cs')" using Cons.IH [OF r(3)] Cons.prems(3) by simp
      then show ?thesis unfolding r(4) by (auto split: if_splits)
    qed
  qed
qed simp

text \<open>An occurrence of an enabled plan: the plan targets the device, the day is one of its weekdays
  within the eight-day window, and the wall time of that day resolves to the occurrence.\<close>

definition plan_occurs ::
  "store \<Rightarrow> zone \<Rightarrow> string \<Rightarrow> int option \<Rightarrow> aware \<Rightarrow> bool \<Rightarrow> schedule_plan \<Rightarrow> aware \<Rightarrow> bool" where
  "plan_occurs st z ip pid at future plan occ =
     (plan \<in> set (st_plans st) \<and> sp_enabled plan
      \<and> target_matches (sp_target_type plan) (sp_target_value plan) ip pid
      \<and> (\<exists>off \<in> set day_offsets.
           let day = aw_date at + (if future then off else - off) in
           weekday_code day \<in> set (sp_days plan)
           \<and> (\<exists>h m clock w. parse_clock (sp_clock_time plan) = Some (h, m) \<and> dt_time h m = Inr clock
                \<and> resolve_local_wall_time day clock z = Inr (occ, w)))
      \<and> (if future then utc_instant z at < utc_instant z occ else utc_instant z occ \<le> utc_instant z at))"

lemma plan_occurrences_Inr:
  assumes "plan_occurrences st z ip pid at fut plan = Inr cs" "c \<in> set cs"
    "plan \<in> set (st_plans st)" "sp_enabled plan"
  shows "plan_occurs st z ip pid at fut plan (cd_occurrence c) \<and> cd_id c = sp_id plan
     \<and> cd_label c = sp_label plan \<and> cd_specificity c = target_specificity (sp_target_type plan)
     \<and> cd_action_type c = sp_action_type plan
     \<and> (\<exists>k s. plan_action st plan = Inr (cd_value c, k, s) \<and> cd_service_key c = k \<and> cd_state c = s)"
proof -
  obtain h m where p: "target_matches (sp_target_type plan) (sp_target_value plan) ip pid"
    "parse_clock (sp_clock_time plan) = Some (h, m)"
    using assms(1,2) by (auto simp: plan_occurrences_def split: if_splits option.splits)
  obtain v k s where a: "plan_action st plan = Inr (v, k, s)"
    using assms(1) p by (auto simp: plan_occurrences_def ebind_eq_Inr)
  from assms(1) p a have l: "offsets_loop z at fut (\<lambda>day. weekday_code day \<in> set (sp_days plan)) h m
              (\<lambda>occurrence wall.
                 \<lparr> cd_id = sp_id plan, cd_label = sp_label plan, cd_occurrence = occurrence,
                   cd_specificity = target_specificity (sp_target_type plan),
                   cd_target_type = sp_target_type plan, cd_action_type = sp_action_type plan,
                   cd_value = v, cd_service_key = k, cd_state = s,
                   cd_requested_time = sp_clock_time plan, cd_wall_resolution = wall \<rparr>)
              day_offsets = Inr cs"
    by (simp add: plan_occurrences_def)
  show ?thesis
    using offsets_loop_Inr [OF l assms(2)] assms(3,4) p a by (auto simp: plan_occurs_def Let_def)
qed

lemma plan_occurrences_complete:
  assumes "plan_occurrences st z ip pid at fut plan = Inr cs" "plan_occurs st z ip pid at fut plan occ"
  shows "\<exists>c \<in> set cs. cd_occurrence c = occ \<and> cd_id c = sp_id plan \<and> cd_action_type c = sp_action_type plan"
proof -
  from assms(2) obtain off h m clock w where p: "target_matches (sp_target_type plan) (sp_target_value plan) ip pid"
    "off \<in> set day_offsets" "weekday_code (aw_date at + (if fut then off else - off)) \<in> set (sp_days plan)"
    "parse_clock (sp_clock_time plan) = Some (h, m)" "dt_time h m = Inr clock"
    "resolve_local_wall_time (aw_date at + (if fut then off else - off)) clock z = Inr (occ, w)"
    "if fut then utc_instant z at < utc_instant z occ else utc_instant z occ \<le> utc_instant z at"
    by (auto simp: plan_occurs_def Let_def)
  obtain v k s where a: "plan_action st plan = Inr (v, k, s)"
    using assms(1) p by (auto simp: plan_occurrences_def ebind_eq_Inr)
  from assms(1) p a have l: "offsets_loop z at fut (\<lambda>day. weekday_code day \<in> set (sp_days plan)) h m
              (\<lambda>occurrence wall.
                 \<lparr> cd_id = sp_id plan, cd_label = sp_label plan, cd_occurrence = occurrence,
                   cd_specificity = target_specificity (sp_target_type plan),
                   cd_target_type = sp_target_type plan, cd_action_type = sp_action_type plan,
                   cd_value = v, cd_service_key = k, cd_state = s,
                   cd_requested_time = sp_clock_time plan, cd_wall_resolution = wall \<rparr>)
              day_offsets = Inr cs"
    by (simp add: plan_occurrences_def)
  show ?thesis
    using offsets_loop_complete [OF l p(2,3)] p(5,6,7) by force
qed

lemma schedule_occurrences_sound:
  assumes "schedule_occurrences st z ip pid at fut = Inr cs" "c \<in> set cs"
  shows "\<exists>plan. plan_occurs st z ip pid at fut plan (cd_occurrence c) \<and> cd_id c = sp_id plan
     \<and> cd_label c = sp_label plan \<and> cd_specificity c = target_specificity (sp_target_type plan)
     \<and> cd_action_type c = sp_action_type plan
     \<and> (\<exists>k s. plan_action st plan = Inr (cd_value c, k, s) \<and> cd_service_key c = k \<and> cd_state c = s)"
proof -
  obtain css where css: "emap (plan_occurrences st z ip pid at fut) (filter sp_enabled (st_plans st)) = Inr css"
    "cs = concat css"
    using assms(1) by (auto simp: schedule_occurrences_def ebind_eq_Inr)
  then obtain xs where "xs \<in> set css" "c \<in> set xs" using assms(2) by auto
  moreover then obtain plan where "plan \<in> set (filter sp_enabled (st_plans st))"
    "plan_occurrences st z ip pid at fut plan = Inr xs"
    using emap_Inr_set [OF css(1)] by blast
  ultimately show ?thesis using plan_occurrences_Inr [of st z ip pid at fut plan xs c] by auto
qed

lemma schedule_occurrences_complete:
  assumes "schedule_occurrences st z ip pid at fut = Inr cs" "plan_occurs st z ip pid at fut plan occ"
  shows "\<exists>c \<in> set cs. cd_occurrence c = occ \<and> cd_id c = sp_id plan \<and> cd_action_type c = sp_action_type plan"
proof -
  obtain css where css: "emap (plan_occurrences st z ip pid at fut) (filter sp_enabled (st_plans st)) = Inr css"
    "cs = concat css"
    using assms(1) by (auto simp: schedule_occurrences_def ebind_eq_Inr)
  have "plan \<in> set (filter sp_enabled (st_plans st))" using assms(2) by (simp add: plan_occurs_def)
  then obtain xs where "xs \<in> set css" "plan_occurrences st z ip pid at fut plan = Inr xs"
    using emap_Inr_all [OF css(1)] by blast
  then show ?thesis using plan_occurrences_complete [OF _ assms(2)] css(2) by fastforce
qed

lemma schedule_occurrences_side:
  "schedule_occurrences st z ip pid at fut = Inr cs \<Longrightarrow> c \<in> set cs \<Longrightarrow>
   (if fut then utc_instant z at < cd_instant z c else cd_instant z c \<le> utc_instant z at)"
  using schedule_occurrences_sound [of st z ip pid at fut cs c]
  by (auto simp: plan_occurs_def cd_instant_def split: if_splits)

lemma resolve_regular_schedule_Inr:
  assumes "resolve_regular_schedule st z ip pid at = Inr (mode, services, next)"
  obtains past future where "schedule_occurrences st z ip pid at False = Inr past"
    "select_schedule_candidate z (filter (\<lambda>c. cd_action_type c = ''mode'') past) ''mode'' = Inr mode"
    "select_services z (group_by_service past) = Inr services"
    "schedule_occurrences st z ip pid at True = Inr future" "next = next_of z future"
  using assms by (auto simp: resolve_regular_schedule_def ebind_eq_Inr)

lemma next_of_Some:
  assumes "next_of z cs = Some c"
  shows "c \<in> set cs \<and> (\<forall>d \<in> set cs. cd_instant z c \<le> cd_instant z d)"
proof -
  have "cs \<noteq> []" using assms by (auto simp: next_of_def)
  then have "c \<in> set (maxima_by cd_specificity (minima_by (cd_instant z) cs))"
    using assms hd_sort_key_in [OF maxima_by_nonempty [OF minima_by_nonempty]]
    by (auto simp: next_of_def)
  then show ?thesis by (auto simp: maxima_by_iff minima_by_iff)
qed

text \<open>C7: the mode schedule in force is a past occurrence of an enabled plan of the device, and no
  enabled mode plan of the device has an occurrence between it and the present.\<close>

theorem mode_in_force_is_latest:
  assumes "resolve_regular_schedule st z ip pid at = Inr (Some c, services, next)"
  shows "(\<exists>plan. plan_occurs st z ip pid at False plan (cd_occurrence c) \<and> sp_action_type plan = ''mode''
            \<and> sp_id plan = cd_id c \<and> plan_action st plan = Inr (cd_value c, None, None))
       \<and> (\<forall>plan occ. plan_occurs st z ip pid at False plan occ \<and> sp_action_type plan = ''mode''
            \<longrightarrow> utc_instant z occ \<le> cd_instant z c)"
proof -
  obtain past where p: "schedule_occurrences st z ip pid at False = Inr past"
    and s: "select_schedule_candidate z (filter (\<lambda>c. cd_action_type c = ''mode'') past) ''mode'' = Inr (Some c)"
    by (rule resolve_regular_schedule_Inr [OF assms])
  let ?ms = "filter (\<lambda>c. cd_action_type c = ''mode'') past"
  have g: "governs z ?ms c" using select_Some [OF s] by blast
  then have c: "c \<in> set past" "cd_action_type c = ''mode''" by (auto simp: governs_def)
  have later: "utc_instant z occ \<le> cd_instant z c"
    if o: "plan_occurs st z ip pid at False plan occ" "sp_action_type plan = ''mode''" for plan occ
  proof -
    obtain d where "d \<in> set ?ms" "cd_occurrence d = occ"
      using schedule_occurrences_complete [OF p o(1)] o(2) by auto
    then show ?thesis using g by (auto simp: governs_def cd_instant_def)
  qed
  obtain plan where "plan_occurs st z ip pid at False plan (cd_occurrence c)" "cd_id c = sp_id plan"
     "cd_action_type c = sp_action_type plan" "\<exists>k s. plan_action st plan = Inr (cd_value c, k, s)"
    using schedule_occurrences_sound [OF p c(1)] by blast
  then show ?thesis using later c(2) by (auto simp: plan_action_def ebind_eq_Inr)
qed

text \<open>The next action lies strictly in the future, belongs to an enabled plan of the device,
  and no enabled plan of the device acts before it.\<close>

theorem next_action_is_earliest:
  assumes "resolve_regular_schedule st z ip pid at = Inr (mode, services, next)"
  shows "case next of
      None \<Rightarrow> \<forall>plan occ. \<not> plan_occurs st z ip pid at True plan occ
    | Some n \<Rightarrow> utc_instant z at < cd_instant z n
        \<and> (\<exists>plan. plan_occurs st z ip pid at True plan (cd_occurrence n) \<and> sp_id plan = cd_id n)
        \<and> (\<forall>plan occ. plan_occurs st z ip pid at True plan occ \<longrightarrow> cd_instant z n \<le> utc_instant z occ)"
proof -
  obtain future where f: "schedule_occurrences st z ip pid at True = Inr future" "next = next_of z future"
    by (rule resolve_regular_schedule_Inr [OF assms])
  note complete = schedule_occurrences_complete [OF f(1)] and sound = schedule_occurrences_sound [OF f(1)]
  show ?thesis
  proof (cases "next")
    case None
    then have "future = []" using f(2) by (auto simp: next_of_def split: if_splits)
    then show ?thesis using None complete by fastforce
  next
    case (Some n)
    then have n: "n \<in> set future" "\<forall>d \<in> set future. cd_instant z n \<le> cd_instant z d"
      using next_of_Some f(2) by auto
    have "cd_instant z n \<le> utc_instant z occ" if "plan_occurs st z ip pid at True plan occ" for plan occ
      using complete [OF that] n(2) by (auto simp: cd_instant_def)
    moreover obtain plan where "plan_occurs st z ip pid at True plan (cd_occurrence n)" "cd_id n = sp_id plan"
      using sound [OF n(1)] by blast
    moreover have "utc_instant z at < cd_instant z n"
      using schedule_occurrences_side [OF f(1) n(1)] by simp
    ultimately show ?thesis unfolding Some option.case by metis
  qed
qed

section \<open>A sample household\<close>

definition sample_plan :: "int \<Rightarrow> string \<Rightarrow> string \<Rightarrow> string \<Rightarrow> string \<Rightarrow> string \<Rightarrow> string \<Rightarrow> schedule_plan" where
  "sample_plan i label clock action_type action target_type target =
     \<lparr> sp_id = i, sp_label = label, sp_days = WEEKDAYS, sp_clock_time = clock,
       sp_action_type = action_type, sp_action_value = action, sp_target_type = target_type,
       sp_target_value = target, sp_enabled = True \<rparr>"

definition sample_service :: "string \<Rightarrow> string \<Rightarrow> service_row" where
  "sample_service key name =
     \<lparr> sr_key = key, sr_name = name, sr_builtin = True, sr_category = ''other'', sr_dns_suffixes = [],
       sr_tls_patterns = [], sr_enforcement_approved = False \<rparr>"

definition sample_store :: store where
  "sample_store =
     \<lparr> st_settings = [(''policy_timezone'', ''Europe/London''), (''quota_engine_enabled'', ''1'')],
       st_profiles =
         [\<lparr> pf_id = 1, pf_name = ''Kids'', pf_desired_mode = ''normal'', pf_bandwidth_preset = ''normal'',
            pf_notes = [], pf_blocked_services = [''gaming''], pf_daily_quota_mb = 100,
            pf_daily_quota_action = ''blocked'', pf_service_quotas = [(''youtube'', 10)] \<rparr>],
       st_devices =
         [(''10.0.0.2'', \<lparr> dv_alias = ''Tablet'', dv_profile_id = Some 1, dv_mode_override = ''inherit'',
             dv_category = ''tablet'' \<rparr>)],
       st_plans =
         [sample_plan 1 ''Bedtime'' ''21:00'' ''mode'' ''blocked'' ''all'' [],
          sample_plan 2 ''Morning'' ''07:00'' ''mode'' ''normal'' ''all'' [],
          sample_plan 3 ''Homework'' ''15:30'' ''mode'' ''slow'' ''profile'' ''1'',
          sample_plan 4 ''Roblox hour'' ''16:00'' ''service'' ''roblox:allow'' ''device'' ''10.0.0.2''],
       st_templates = [],
       st_exceptions =
         [\<lparr> de_id = 1, de_label = ''Holiday'', de_start_date = 20270, de_end_date = 20272,
            de_target_type = ''profile'', de_target_value = ''1'', de_mode = ''normal'',
            de_template_id = None \<rparr>],
       st_groups = POLICY_GROUPS, st_services = [sample_service ''roblox'' ''Roblox'', sample_service ''youtube'' ''YouTube''],
       st_presets = [\<lparr> bp_key = ''normal'', bp_name = ''Normal'', bp_upload = ''Unlimited'',
                        bp_download = ''Unlimited'' \<rparr>] \<rparr>"

definition sample_at :: aware where
  "sample_at = from_utc london 1750000000"


lemma sample_schedule:
  "\<exists>c services n. resolve_regular_schedule sample_store london ''10.0.0.2'' (Some 1) sample_at = Inr (Some c, services, Some n)
     \<and> cd_id c = 3 \<and> cd_id n = 1"
proof -
  have "case resolve_regular_schedule sample_store london ''10.0.0.2'' (Some 1) sample_at of
     Inr r \<Rightarrow> (case fst r of Some c \<Rightarrow> cd_id c = 3 | None \<Rightarrow> False)
            \<and> (case snd (snd r) of Some n \<Rightarrow> cd_id n = 1 | None \<Rightarrow> False)
   | Inl _ \<Rightarrow> False"
    by code_simp
  then show ?thesis by (auto split: sum.splits option.splits)
qed

theorem mode_in_force_is_latest_witness:
  "\<exists>c. cd_id c = 3 \<and> (\<forall>plan occ. plan_occurs sample_store london ''10.0.0.2'' (Some 1) sample_at False plan occ
       \<and> sp_action_type plan = ''mode'' \<longrightarrow> utc_instant london occ \<le> cd_instant london c)"
proof -
  obtain c services n where r:
    "resolve_regular_schedule sample_store london ''10.0.0.2'' (Some 1) sample_at = Inr (Some c, services, Some n)"
    "cd_id c = 3"
    using sample_schedule by blast
  show ?thesis using mode_in_force_is_latest [OF r(1)] r(2) by blast
qed

theorem next_action_is_earliest_witness:
  "\<exists>n. cd_id n = 1 \<and> utc_instant london sample_at < cd_instant london n"
proof -
  obtain c services n where r:
    "resolve_regular_schedule sample_store london ''10.0.0.2'' (Some 1) sample_at = Inr (Some c, services, Some n)"
    "cd_id n = 1"
    using sample_schedule by blast
  show ?thesis using next_action_is_earliest [OF r(1)] r(2) by auto
qed

end
