(* ===== verification/EffectivePolicy.thy ===== *)
theory EffectivePolicy
  imports ScheduleResolver Quota
begin

text \<open>
  The effective policy of a device (\<open>src/app/policy_store.py\<close>,
  \<open>_compute_effective_policy_from_context\<close> with its quota evaluation, and its callers
  \<open>compute_effective_policy\<close> and \<open>simulate_effective_policy\<close>). The function of the source is
  cut at its phases: base policy, mode (schedule, exception, template), service schedules, next
  action, expansion with concrete overrides, quota. The clock, the time-zone database and the
  quota usage reported by telemetry are arguments.
\<close>

section \<open>The policy clock\<close>

record clock_env =
  ce_zones :: "string \<Rightarrow> zone option"
  ce_default_timezone :: string
  ce_now :: int

definition get_setting :: "store \<Rightarrow> string \<Rightarrow> string option" where
  "get_setting st key = map_of (st_settings st) key"

definition policy_datetime_details ::
  "store \<Rightarrow> clock_env \<Rightarrow> policy_value option \<Rightarrow> (aware \<times> zone \<times> string \<times> wall_resolution) res" where
  "policy_datetime_details st env at =
     (let timezone_name = opt_or (get_setting st ''policy_timezone'') (ce_default_timezone env) in
      case ce_zones env timezone_name of
        None \<Rightarrow> Inl (ValueError (''Policy timezone '' @ sq timezone_name @ '' is not available''))
      | Some z \<Rightarrow>
          (case at of
             None \<Rightarrow>
               let value = from_utc z (ce_now env) in
               Inr (value, z, timezone_name,
                 \<lparr> wr_requested_local = aw_local value, wr_resolved_local = iso_aware z value,
                   wr_adjusted = False, wr_kind = ''current'', wr_ambiguous = aw_fold value,
                   wr_nonexistent = False, wr_shift_minutes = None \<rparr>)
           | Some v \<Rightarrow> ebind (normalize_policy_datetime v z) (\<lambda>(value, resolution).
               Inr (value, z, timezone_name, resolution))))"

section \<open>The next action\<close>

record policy_action =
  pa_at :: "int \<times> int"
  pa_date :: int
  pa_time :: string
  pa_type :: string
  pa_value :: string
  pa_mode :: "string option"
  pa_service :: "string option"
  pa_state :: "string option"
  pa_label :: string
  pa_requested_time :: string
  pa_wall_resolution :: wall_resolution

definition show_time :: "aware \<Rightarrow> string" where
  "show_time a = (let secs = aw_local a mod 86400
                  in pad2 (nat (secs div 3600)) @ '':'' @ pad2 (nat (secs mod 3600 div 60)))"

definition format_policy_action :: "zone \<Rightarrow> candidate option \<Rightarrow> policy_action option" where
  "format_policy_action z candidate =
     (case candidate of None \<Rightarrow> None
      | Some c \<Rightarrow>
          let summary = (if cd_action_type c = ''service''
                         then opt_or (cd_service_key c) ''None'' @ '':'' @ opt_or (cd_state c) ''None''
                         else cd_value c)
          in Some \<lparr> pa_at = iso_aware z (cd_occurrence c), pa_date = aw_date (cd_occurrence c),
                    pa_time = show_time (cd_occurrence c), pa_type = cd_action_type c,
                    pa_value = summary,
                    pa_mode = (if cd_action_type c = ''mode'' then Some (cd_value c) else None),
                    pa_service = cd_service_key c, pa_state = cd_state c, pa_label = cd_label c,
                    pa_requested_time = cd_requested_time c,
                    pa_wall_resolution = cd_wall_resolution c \<rparr>)"

section \<open>Quota\<close>

record quota_usage =
  qu_available :: bool
  qu_error :: "string option"
  qu_day :: "string option"
  qu_timezone :: "string option"
  qu_total_bytes :: int
  qu_service_bytes :: "(string \<times> int) list"

record quota_config =
  qc_configured :: bool
  qc_engine_enabled :: bool
  qc_warning_percent :: int
  qc_profile_id :: "int option"
  qc_profile_name :: "string option"
  qc_daily_quota_mb :: int
  qc_daily_quota_action :: string
  qc_service_quotas :: "(string \<times> int) list"

record quota_daily =
  qd_limit_mb :: int
  qd_limit_bytes :: int
  qd_action :: string
  qd_used_bytes :: int
  qd_used_human :: string
  qd_percent :: int
  qd_warning :: bool
  qd_exhausted :: bool

record quota_service =
  qs_key :: string
  qs_kind :: string
  qs_name :: string
  qs_members :: "string list"
  qs_limit_mb :: int
  qs_limit_bytes :: int
  qs_used_bytes :: int
  qs_used_human :: string
  qs_percent :: int
  qs_warning :: bool
  qs_exhausted :: bool

record quota_state =
  qt_configured :: bool
  qt_enabled :: bool
  qt_available :: bool
  qt_profile_name :: "string option"
  qt_day :: "string option"
  qt_timezone :: "string option"
  qt_warning_percent :: int
  qt_active :: bool
  qt_mode_active :: bool
  qt_service_active :: bool
  qt_telemetry_error :: "string option"
  qt_daily :: quota_daily
  qt_services :: "quota_service list"
  qt_active_service_blocks :: "string list"
  qt_mode_before_quota :: string
  qt_mode_source_before_quota :: string

definition truthy_profile_id :: "int option \<Rightarrow> int option" where
  "truthy_profile_id pid = (case pid of Some p \<Rightarrow> if p = 0 then None else Some p | None \<Rightarrow> None)"

definition profile_of :: "store \<Rightarrow> int option \<Rightarrow> profile option" where
  "profile_of st pid = (case truthy_profile_id pid of None \<Rightarrow> None | Some p \<Rightarrow> get_profile st p)"

definition get_device_quota_config :: "store \<Rightarrow> string \<Rightarrow> quota_config res" where
  "get_device_quota_config st ip =
     (let profile = (case map_of (st_devices st) ip of None \<Rightarrow> None | Some d \<Rightarrow> profile_of st (dv_profile_id d));
          service_quotas = (case profile of None \<Rightarrow> [] | Some p \<Rightarrow> pf_service_quotas p);
          daily_quota_mb = (case profile of None \<Rightarrow> 0 | Some p \<Rightarrow> pf_daily_quota_mb p)
      in case py_int (opt_or (get_setting st ''quota_warning_percent'') ''80'') of
           None \<Rightarrow> Inl (ValueError ''invalid literal for int()'')
         | Some warning \<Rightarrow>
             Inr \<lparr> qc_configured = (daily_quota_mb \<noteq> 0 \<or> service_quotas \<noteq> []),
                   qc_engine_enabled = (get_setting st ''quota_engine_enabled'' = Some ''1''),
                   qc_warning_percent = warning,
                   qc_profile_id = map_option pf_id profile,
                   qc_profile_name = map_option pf_name profile,
                   qc_daily_quota_mb = daily_quota_mb,
                   qc_daily_quota_action = (case profile of None \<Rightarrow> ''blocked'' | Some p \<Rightarrow> pf_daily_quota_action p),
                   qc_service_quotas = service_quotas \<rparr>)"

definition quota_mode_rank :: "string \<Rightarrow> nat" where
  "quota_mode_rank mode = (let m = str_or mode ''normal'' in
     if m = ''slow'' then 1 else if m = ''blocked'' then 2 else 0)"

definition quota_warning_percent :: "store \<Rightarrow> int" where
  "quota_warning_percent st =
     (let w = (case py_int (opt_or (get_setting st ''quota_warning_percent'') ''80'') of
                 None \<Rightarrow> 80 | Some n \<Rightarrow> n)
      in max 50 (min w 95))"

definition empty_daily :: "int \<Rightarrow> string \<Rightarrow> quota_daily" where
  "empty_daily limit_mb action =
     \<lparr> qd_limit_mb = limit_mb, qd_limit_bytes = bytes_for_mb limit_mb, qd_action = action,
       qd_used_bytes = 0, qd_used_human = format_bytes 0, qd_percent = 0,
       qd_warning = False, qd_exhausted = False \<rparr>"

definition daily_usage :: "quota_daily \<Rightarrow> int \<Rightarrow> int \<Rightarrow> quota_daily" where
  "daily_usage daily total_used warning_percent =
     (let limit = qd_limit_mb daily; pct = percent_used total_used limit in
      daily\<lparr> qd_used_bytes := total_used, qd_used_human := format_bytes total_used, qd_percent := pct,
             qd_warning := (limit \<noteq> 0 \<and> pct \<ge> 10 * warning_percent),
             qd_exhausted := (limit \<noteq> 0 \<and> total_used \<ge> bytes_for_mb limit) \<rparr>)"

definition quota_service_entry ::
  "group_catalog \<Rightarrow> (string \<times> int) list \<Rightarrow> int \<Rightarrow> string \<times> int \<Rightarrow> quota_service" where
  "quota_service_entry groups service_used warning_percent = (\<lambda>(service_key, limit_mb).
     let item = map_of groups service_key;
         members = (if item \<noteq> None then group_members service_key (Some groups) else [service_key]);
         used = sum_list (map (\<lambda>m. dict_get service_used m 0) members);
         pct = percent_used used limit_mb
     in \<lparr> qs_key = service_key, qs_kind = (if item \<noteq> None then ''group'' else ''service''),
          qs_name = (case item of Some g \<Rightarrow> gr_name g | None \<Rightarrow> service_key),
          qs_members = members, qs_limit_mb = limit_mb, qs_limit_bytes = bytes_for_mb limit_mb,
          qs_used_bytes = used, qs_used_human = format_bytes used, qs_percent = pct,
          qs_warning = (pct \<ge> 10 * warning_percent),
          qs_exhausted = (used \<ge> bytes_for_mb limit_mb) \<rparr>)"

text \<open>\<open>_evaluate_quota_state\<close>: the quota state, the mode, the blocked services and the source of
  the mode when the quota sets it.\<close>

definition evaluate_quota_state ::
  "store \<Rightarrow> profile option \<Rightarrow> string \<Rightarrow> string list \<Rightarrow> quota_usage option \<Rightarrow> group_catalog
   \<Rightarrow> quota_state \<times> string \<times> string list \<times> string option" where
  "evaluate_quota_state st profile desired_mode blocked usage policy_groups =
     (let groups = normalized_group_catalog (Some policy_groups);
          enabled = (get_setting st ''quota_engine_enabled'' = Some ''1'');
          warning = quota_warning_percent st;
          daily_limit = (case profile of None \<Rightarrow> 0 | Some p \<Rightarrow> pf_daily_quota_mb p);
          service_limits = (case profile of None \<Rightarrow> [] | Some p \<Rightarrow> pf_service_quotas p);
          configured = (daily_limit \<noteq> 0 \<or> service_limits \<noteq> []);
          action = (case profile of None \<Rightarrow> ''blocked'' | Some p \<Rightarrow> pf_daily_quota_action p);
          state = \<lparr> qt_configured = configured, qt_enabled = enabled, qt_available = True,
            qt_profile_name = map_option pf_name profile, qt_day = None, qt_timezone = None,
            qt_warning_percent = warning, qt_active = False, qt_mode_active = False,
            qt_service_active = False, qt_telemetry_error = None,
            qt_daily = empty_daily daily_limit action, qt_services = [],
            qt_active_service_blocks = [], qt_mode_before_quota = [], qt_mode_source_before_quota = [] \<rparr>
      in if \<not> configured then (state, desired_mode, blocked, None)
         else if \<not> enabled then
           (state\<lparr> qt_available := False, qt_telemetry_error := Some ''Quota engine is disabled in Settings'' \<rparr>,
            desired_mode, blocked, None)
         else case (case usage of Some u \<Rightarrow> if qu_available u then Some u else None | None \<Rightarrow> None) of
           None \<Rightarrow>
             (state\<lparr> qt_available := False,
                qt_telemetry_error := Some (case (case usage of None \<Rightarrow> None | Some u \<Rightarrow> qu_error u) of
                   Some e \<Rightarrow> e | None \<Rightarrow> ''Telemetry usage is unavailable; quota policy is fail-open'') \<rparr>,
              desired_mode, blocked, None)
         | Some u \<Rightarrow>
             let daily = daily_usage (qt_daily state) (qu_total_bytes u) warning;
                 raises = (qd_exhausted daily \<and> quota_mode_rank action > quota_mode_rank desired_mode);
                 services = map (quota_service_entry groups (qu_service_bytes u) warning)
                              (filter (\<lambda>kv. snd kv \<noteq> 0) (sort_key fst service_limits));
                 hit = filter qs_exhausted services
             in (state\<lparr> qt_day := qu_day u, qt_timezone := qu_timezone u, qt_daily := daily,
                        qt_mode_active := qd_exhausted daily,
                        qt_active := (qd_exhausted daily \<or> hit \<noteq> []),
                        qt_services := services,
                        qt_active_service_blocks := map qs_key hit,
                        qt_service_active := (hit \<noteq> []) \<rparr>,
                 (if raises then action else desired_mode),
                 blocked @ concat (map qs_members hit),
                 (if raises then Some (''daily quota: '' @ opt_or (map_option pf_name profile) ''profile'') else None)))"


section \<open>Phases of the resolution\<close>

definition device_mode_override :: "device_row option \<Rightarrow> string" where
  "device_mode_override cfg = (case cfg of None \<Rightarrow> ''inherit'' | Some d \<Rightarrow> dv_mode_override d)"

definition base_policy :: "device_row option \<Rightarrow> profile option \<Rightarrow> string \<times> string" where
  "base_policy cfg profile =
     (let base_mode = device_mode_override cfg in
      if base_mode = ''inherit'' then
        (case profile of Some p \<Rightarrow> (pf_desired_mode p, ''profile: '' @ pf_name p)
         | None \<Rightarrow> (''normal'', ''default''))
      else (base_mode, ''device override''))"

definition policy_conflicts :: "device_row option \<Rightarrow> profile option \<Rightarrow> string list" where
  "policy_conflicts cfg profile =
     (case (cfg, profile) of
        (Some d, Some p) \<Rightarrow>
          if dv_mode_override d \<notin> {[], ''inherit''} \<and> dv_mode_override d \<noteq> pf_desired_mode p
          then [''Device override '' @ py_upper (dv_mode_override d) @ '' overrides profile ''
                @ py_upper (pf_desired_mode p)]
          else []
      | _ \<Rightarrow> [])"

text \<open>The transition at the local midnight after the last day of an exception, when still ahead.\<close>

definition exception_end :: "zone \<Rightarrow> aware \<Rightarrow> date_exception \<Rightarrow> candidate option res" where
  "exception_end z policy_at ex =
     ebind (local_midnight (de_end_date ex + 1) z) (\<lambda>(end_transition, end_resolution).
       Inr (if utc_instant z end_transition > utc_instant z policy_at
            then Some \<lparr> cd_id = 0, cd_label = de_label ex @ '' ends'', cd_occurrence = end_transition,
                   cd_specificity = 4, cd_target_type = ''exception'', cd_action_type = ''mode'',
                   cd_value = ''re-evaluate'', cd_service_key = None, cd_state = None,
                   cd_requested_time = ''00:00'', cd_wall_resolution = end_resolution \<rparr>
            else None))"

text \<open>Mode, source, schedule reason and next candidate under the exception, the template or the
  schedule that governs the mode.\<close>

definition mode_phase ::
  "store \<Rightarrow> zone \<Rightarrow> aware \<Rightarrow> string \<Rightarrow> string \<Rightarrow> candidate option \<Rightarrow> candidate option
   \<Rightarrow> date_exception option \<Rightarrow> (string \<times> string \<times> string option \<times> candidate option) res" where
  "mode_phase st z policy_at base_mode base_source mode_schedule next_regular exception =
     (case exception of
        Some ex \<Rightarrow>
          if de_mode ex \<in> {''normal'', ''slow'', ''blocked''} then
            ebind (exception_end z policy_at ex) (\<lambda>fin.
              let source = ''date exception: '' @ de_label ex in
              Inr (de_mode ex, source, Some source, case fin of Some c \<Rightarrow> Some c | None \<Rightarrow> next_regular))
          else if de_mode ex = ''template'' then
            ebind (resolve_exception_template st z ex policy_at) (\<lambda>(template, current, template_next).
              let reason = ''date exception template: '' @ de_label ex;
                  (mode, source) = (case current of
                     Some c \<Rightarrow> (cd_value c, reason)
                   | None \<Rightarrow> (base_mode, base_source @ ''; awaiting '' @ tp_name template))
              in case template_next of
                   Some c \<Rightarrow> Inr (mode, source, Some reason, Some c)
                 | None \<Rightarrow> ebind (exception_end z policy_at ex) (\<lambda>fin. Inr (mode, source, Some reason, fin)))
          else Inr (base_mode, base_source, None, next_regular)
      | None \<Rightarrow>
          (case mode_schedule of
             Some c \<Rightarrow> let source = ''schedule: '' @ cd_label c in
               Inr (cd_value c, source, Some source, next_regular)
           | None \<Rightarrow> Inr (base_mode, base_source, None, next_regular)))"

definition set_add :: "'a \<Rightarrow> 'a list \<Rightarrow> 'a list" where
  "set_add x xs = (if x \<in> set xs then xs else xs @ [x])"

definition set_discard :: "'a \<Rightarrow> 'a list \<Rightarrow> 'a list" where
  "set_discard x xs = filter (\<lambda>y. y \<noteq> x) xs"

definition apply_state :: "string \<Rightarrow> string \<Rightarrow> string list \<Rightarrow> string list" where
  "apply_state key state xs = (if state = ''block'' then set_add key xs else set_discard key xs)"

definition cand_state :: "candidate \<Rightarrow> string" where
  "cand_state c = opt_or (cd_state c) []"

text \<open>The loop over the sorted service schedules and the later loop over the concrete ones.\<close>

definition apply_service_schedules ::
  "(string \<times> candidate) list \<Rightarrow> string list \<Rightarrow> string list" where
  "apply_service_schedules scheds requested =
     fold (\<lambda>(key, c). apply_state key (cand_state c)) (sort_key fst scheds) requested"

definition concrete_overrides :: "string list \<Rightarrow> (string \<times> candidate) list \<Rightarrow> (string \<times> string) list" where
  "concrete_overrides group_keys scheds =
     map (\<lambda>(key, c). (key, cand_state c)) (filter (\<lambda>kc. fst kc \<notin> set group_keys) (sort_key fst scheds))"

definition apply_overrides :: "(string \<times> string) list \<Rightarrow> string list \<Rightarrow> string list" where
  "apply_overrides ovs blocked = fold (\<lambda>(key, state). apply_state key state) ovs blocked"

record service_override =
  so_service :: string
  so_state :: string
  so_label :: string
  so_at :: "int \<times> int"
  so_policy_group :: bool

definition service_overrides :: "zone \<Rightarrow> string list \<Rightarrow> (string \<times> candidate) list \<Rightarrow> service_override list" where
  "service_overrides z group_keys scheds =
     map (\<lambda>(key, c). \<lparr> so_service = key, so_state = cand_state c, so_label = cd_label c,
            so_at = iso_aware z (cd_occurrence c), so_policy_group = (key \<in> set group_keys) \<rparr>)
         (sort_key fst scheds)"

text \<open>While an exception owns the mode, the first future service transition is the next action when
  it comes before the transition of the mode.\<close>

definition next_with_services ::
  "zone \<Rightarrow> date_exception option \<Rightarrow> candidate list res \<Rightarrow> candidate option \<Rightarrow> candidate option res" where
  "next_with_services z exception future next =
     (if exception = None then Inr next
      else ebind future (\<lambda>cs.
        let future_services = filter (\<lambda>c. cd_action_type c = ''service'') cs in
        if future_services = [] then Inr next
        else let service_next = hd (minima_by (cd_instant z) future_services) in
             Inr (case next of
                    None \<Rightarrow> Some service_next
                  | Some n \<Rightarrow> if cd_instant z service_next < cd_instant z n then Some service_next else Some n)))"

section \<open>The effective policy\<close>

record effective_policy =
  ep_mode :: string
  ep_mode_source :: string
  ep_base_mode :: string
  ep_base_mode_source :: string
  ep_bandwidth_preset :: string
  ep_bandwidth_name :: string
  ep_bandwidth_upload :: string
  ep_bandwidth_download :: string
  ep_blocked_services :: "string list"
  ep_requested_blocked_services :: "string list"
  ep_blocked_policy_groups :: "string list"
  ep_policy_group_states :: "group_state list"
  ep_unsupported_policy_keys :: "string list"
  ep_unsupported_policy_group_members :: "string list"
  ep_base_blocked_services :: "string list"
  ep_scheduled_service_overrides :: "service_override list"
  ep_schedule_active :: bool
  ep_schedule_reason :: "string option"
  ep_active_date_exception :: "date_exception option"
  ep_next_policy_action :: "policy_action option"
  ep_policy_timezone :: string
  ep_policy_at :: "int \<times> int"
  ep_policy_time_resolution :: wall_resolution
  ep_quota_state :: quota_state
  ep_quota_active :: bool
  ep_conflicts :: "string list"

text \<open>The last phase: expansion, concrete overrides, quota, and the record that is returned.\<close>

definition assemble_policy ::
  "store \<Rightarrow> zone \<Rightarrow> device_row option \<Rightarrow> profile option \<Rightarrow> bandwidth_preset \<Rightarrow> string
   \<Rightarrow> aware \<Rightarrow> string \<Rightarrow> wall_resolution \<Rightarrow> candidate option \<Rightarrow> (string \<times> candidate) list
   \<Rightarrow> date_exception option \<Rightarrow> string \<times> string \<times> string option \<Rightarrow> candidate option
   \<Rightarrow> quota_usage option \<Rightarrow> string list \<Rightarrow> effective_policy" where
  "assemble_policy st z cfg profile details bandwidth policy_at timezone_name time_resolution
     mode_schedule service_schedules exception mode_info next_candidate usage supported =
     (let (desired_mode, source, schedule_reason) = mode_info;
          policy_groups = policy_group_catalog st;
          group_keys = dict_keys policy_groups;
          (base_mode, base_source) = base_policy cfg profile;
          base_blocked = sorted_set (case profile of None \<Rightarrow> [] | Some p \<Rightarrow> pf_blocked_services p);
          requested = apply_service_schedules service_schedules base_blocked;
          expanded = expand_policy_keys requested supported (Some policy_groups);
          blocked = apply_overrides (concrete_overrides group_keys service_schedules)
                      (ex_effective_services expanded);
          (quota, mode, blocked, quota_source) =
            evaluate_quota_state st profile desired_mode blocked usage policy_groups;
          overrides = service_overrides z group_keys service_schedules
      in \<lparr> ep_mode = mode,
           ep_mode_source = (case quota_source of Some s \<Rightarrow> s | None \<Rightarrow> source),
           ep_base_mode = base_mode, ep_base_mode_source = base_source,
           ep_bandwidth_preset = bandwidth, ep_bandwidth_name = bp_name details,
           ep_bandwidth_upload = bp_upload details, ep_bandwidth_download = bp_download details,
           ep_blocked_services = sorted_set blocked,
           ep_requested_blocked_services = ex_requested expanded,
           ep_blocked_policy_groups = ex_groups expanded,
           ep_policy_group_states = policy_group_states (ex_groups expanded) blocked
             (filter (\<lambda>k. k \<in> set group_keys) (qt_active_service_blocks quota))
             (Some policy_groups) (map (\<lambda>r. (sr_key r, sr_name r)) (st_services st)),
           ep_unsupported_policy_keys = ex_unsupported expanded,
           ep_unsupported_policy_group_members = ex_unsupported_group_members expanded,
           ep_base_blocked_services = base_blocked,
           ep_scheduled_service_overrides = overrides,
           ep_schedule_active = (exception \<noteq> None \<or> mode_schedule \<noteq> None \<or> overrides \<noteq> []),
           ep_schedule_reason = schedule_reason,
           ep_active_date_exception = exception,
           ep_next_policy_action = format_policy_action z next_candidate,
           ep_policy_timezone = timezone_name,
           ep_policy_at = iso_aware z policy_at,
           ep_policy_time_resolution = time_resolution,
           ep_quota_state = quota\<lparr> qt_mode_before_quota := desired_mode,
                                    qt_mode_source_before_quota := source \<rparr>,
           ep_quota_active = qt_active quota,
           ep_conflicts = policy_conflicts cfg profile \<rparr>)"

definition compute_effective_policy_from_context ::
  "store \<Rightarrow> clock_env \<Rightarrow> string \<Rightarrow> device_row option \<Rightarrow> profile option \<Rightarrow> int option
   \<Rightarrow> policy_value option \<Rightarrow> quota_usage option \<Rightarrow> string list option \<Rightarrow> effective_policy res" where
  "compute_effective_policy_from_context st env ip cfg profile profile_id at usage supported =
     (let (base_mode, base_source) = base_policy cfg profile;
          bandwidth = (case profile of None \<Rightarrow> ''normal'' | Some p \<Rightarrow> pf_bandwidth_preset p)
      in case get_bandwidth_preset st bandwidth of
           None \<Rightarrow> Inl (ValueError (''Bandwidth preset '' @ sq bandwidth @ '' referenced by '' @ ip
                        @ '' does not exist''))
         | Some details \<Rightarrow>
     ebind (policy_datetime_details st env at) (\<lambda>(policy_at, z, timezone_name, time_resolution).
     ebind (resolve_regular_schedule st z ip profile_id policy_at)
       (\<lambda>(mode_schedule, service_schedules, next_regular).
     ebind (matching_exception st ip (aw_date policy_at) profile_id) (\<lambda>exception.
     ebind (mode_phase st z policy_at base_mode base_source mode_schedule next_regular exception)
       (\<lambda>(desired_mode, source, schedule_reason, next).
     ebind (next_with_services z exception (schedule_occurrences st z ip profile_id policy_at True) next)
       (\<lambda>next_candidate.
       Inr (assemble_policy st z cfg profile details bandwidth policy_at timezone_name time_resolution
              mode_schedule service_schedules exception (desired_mode, source, schedule_reason)
              next_candidate usage
              (case supported of Some ks \<Rightarrow> ks | None \<Rightarrow> routeros_supported_service_keys st))))))))"

definition compute_effective_policy ::
  "store \<Rightarrow> clock_env \<Rightarrow> string \<Rightarrow> policy_value option \<Rightarrow> quota_usage option \<Rightarrow> string list option
   \<Rightarrow> effective_policy res" where
  "compute_effective_policy st env ip at usage supported =
     (let cfg = map_of (st_devices st) ip;
          profile_id = (case cfg of None \<Rightarrow> None | Some d \<Rightarrow> dv_profile_id d);
          profile = profile_of st profile_id
      in compute_effective_policy_from_context st env ip cfg profile profile_id at usage supported)"

section \<open>Simulation\<close>

definition validate_services :: "store \<Rightarrow> string list \<Rightarrow> string list" where
  "validate_services st values =
     (let allowed = map sr_key (st_services st) @ policy_group_keys st
      in sorted_set (filter (\<lambda>k. k \<in> set allowed) (map norm_key values)))"

definition validate_preset :: "store \<Rightarrow> string \<Rightarrow> string res" where
  "validate_preset st value =
     (if value \<in> set (map bp_key (st_presets st)) then Inr value
      else Inl (ValueError ''Invalid bandwidth preset''))"

definition build_profile_candidate ::
  "store \<Rightarrow> int \<Rightarrow> string \<Rightarrow> string \<Rightarrow> string \<Rightarrow> string \<Rightarrow> string list \<Rightarrow> pyval \<Rightarrow> string option
   \<Rightarrow> (string \<times> pyval) list \<Rightarrow> profile res" where
  "build_profile_candidate st profile_id name desired_mode preset notes blocked quota_mb quota_action quotas =
     (case get_profile st profile_id of
        None \<Rightarrow> Inl (ValueError ''Profile not found'')
      | Some current \<Rightarrow>
          let name = py_strip name in
          if name = [] \<or> length name > 50 then Inl (ValueError ''Profile name must be 1-50 characters'')
          else
            ebind (validate_mode desired_mode False) (\<lambda>mode.
            ebind (validate_preset st preset) (\<lambda>preset.
            ebind (normalize_quota_mb quota_mb ''Daily data quota'') (\<lambda>daily.
            ebind (normalize_quota_action quota_action) (\<lambda>action.
            ebind (normalize_service_quotas quotas
                     (routeros_supported_service_keys st @ policy_group_keys st)) (\<lambda>service_quotas.
              Inr (current\<lparr> pf_id := profile_id, pf_name := name, pf_desired_mode := mode,
                            pf_bandwidth_preset := preset, pf_notes := take 250 (py_strip notes),
                            pf_blocked_services := validate_services st blocked,
                            pf_daily_quota_mb := daily, pf_daily_quota_action := action,
                            pf_service_quotas := service_quotas \<rparr>)))))))"

definition empty_device :: device_row where
  "empty_device = \<lparr> dv_alias = [], dv_profile_id = None, dv_mode_override = ''inherit'', dv_category = [] \<rparr>"

definition simulated_device ::
  "store \<Rightarrow> device_row option \<Rightarrow> pyval \<Rightarrow> string \<Rightarrow> bool \<Rightarrow> bool \<Rightarrow> device_row option res" where
  "simulated_device st cfg profile_id mode_override keep_profile keep_mode =
     ebind (if keep_profile then Inr cfg
            else
              let row = (case cfg of None \<Rightarrow> empty_device | Some d \<Rightarrow> d) in
              if is_zero_form profile_id then Inr (Some (row\<lparr> dv_profile_id := None \<rparr>))
              else case pyval_int profile_id of
                     None \<Rightarrow> Inl (ValueError ''invalid literal for int()'')
                   | Some pid \<Rightarrow>
                       if get_profile st pid = None then Inl (ValueError ''Selected profile does not exist'')
                       else Inr (Some (row\<lparr> dv_profile_id := Some pid \<rparr>))) (\<lambda>cfg.
     if keep_mode then Inr cfg
     else
       ebind (if mode_override = ''inherit'' then Inr ''inherit'' else validate_mode mode_override False) (\<lambda>m.
         let row = (case cfg of None \<Rightarrow> empty_device | Some d \<Rightarrow> d)
         in Inr (Some (row\<lparr> dv_mode_override := m \<rparr>))))"

definition simulate_effective_policy ::
  "store \<Rightarrow> clock_env \<Rightarrow> string \<Rightarrow> policy_value option \<Rightarrow> pyval \<Rightarrow> string \<Rightarrow> profile option
   \<Rightarrow> quota_usage option \<Rightarrow> string list option \<Rightarrow> bool \<Rightarrow> bool \<Rightarrow> effective_policy res" where
  "simulate_effective_policy st env ip at profile_id mode_override profile_candidate usage supported
     keep_profile keep_mode =
     ebind (simulated_device st (map_of (st_devices st) ip) profile_id mode_override keep_profile keep_mode)
       (\<lambda>cfg.
        let pid = (case cfg of None \<Rightarrow> None | Some d \<Rightarrow> dv_profile_id d);
            profile = (case truthy_profile_id pid of
                None \<Rightarrow> None
              | Some p \<Rightarrow> (case profile_candidate of
                    Some c \<Rightarrow> if pf_id c = p then Some c else get_profile st p
                  | None \<Rightarrow> get_profile st p))
        in compute_effective_policy_from_context st env ip cfg profile pid at usage supported)"

section \<open>The parts of a result\<close>

lemma policy_from_context_Inr:
  assumes "compute_effective_policy_from_context st env ip cfg profile pid at usage supported = Inr p"
  obtains details policy_at z tz res ms ss nr ex mode source reason nxt nc bandwidth where
    "get_bandwidth_preset st bandwidth = Some details"
    "bandwidth = (case profile of None \<Rightarrow> ''normal'' | Some q \<Rightarrow> pf_bandwidth_preset q)"
    "policy_datetime_details st env at = Inr (policy_at, z, tz, res)"
    "resolve_regular_schedule st z ip pid policy_at = Inr (ms, ss, nr)"
    "matching_exception st ip (aw_date policy_at) pid = Inr ex"
    "mode_phase st z policy_at (fst (base_policy cfg profile)) (snd (base_policy cfg profile)) ms nr ex
       = Inr (mode, source, reason, nxt)"
    "p = assemble_policy st z cfg profile details bandwidth policy_at tz res ms ss ex (mode, source, reason) nc usage
           (case supported of Some ks \<Rightarrow> ks | None \<Rightarrow> routeros_supported_service_keys st)"
  using assms
  by (auto simp: compute_effective_policy_from_context_def Let_def ebind_eq_Inr split: prod.splits option.splits)

lemma set_add_iff [simp]: "x \<in> set (set_add y xs) \<longleftrightarrow> x = y \<or> x \<in> set xs"
  by (auto simp: set_add_def)

lemma set_discard_iff [simp]: "x \<in> set (set_discard y xs) \<longleftrightarrow> x \<noteq> y \<and> x \<in> set xs"
  by (auto simp: set_discard_def)

lemma apply_state_iff:
  "x \<in> set (apply_state k s xs) \<longleftrightarrow> (if x = k then s = ''block'' else x \<in> set xs)"
  by (auto simp: apply_state_def)

lemma apply_overrides_iff:
  "distinct (map fst ovs) \<Longrightarrow>
   x \<in> set (apply_overrides ovs xs) \<longleftrightarrow>
     (case map_of ovs x of Some s \<Rightarrow> s = ''block'' | None \<Rightarrow> x \<in> set xs)"
proof (induction ovs arbitrary: xs)
  case (Cons kv ovs)
  then have n: "map_of ovs (fst kv) = None" by (simp add: map_of_eq_None_iff)
  have "x \<in> set (apply_overrides (kv # ovs) xs) \<longleftrightarrow> x \<in> set (apply_overrides ovs (apply_state (fst kv) (snd kv) xs))"
    by (simp add: apply_overrides_def case_prod_beta)
  also have "\<dots> \<longleftrightarrow> (case map_of (kv # ovs) x of Some s \<Rightarrow> s = ''block'' | None \<Rightarrow> x \<in> set xs)"
    using Cons n by (auto simp: apply_state_iff split: option.splits)
  finally show ?case .
qed (simp add: apply_overrides_def)

section \<open>Grouping of service candidates\<close>

lemma dict_append_keys: "distinct (dict_keys d) \<Longrightarrow> distinct (dict_keys (dict_append k v d))"
  by (simp add: dict_append_def distinct_dict_update)

lemma group_by_service_distinct: "distinct (dict_keys (group_by_service cs))"
proof -
  have "distinct (dict_keys d) \<Longrightarrow> distinct (dict_keys (fold (\<lambda>c d. if cd_action_type c \<noteq> ''service'' then d
                 else dict_append (case cd_service_key c of None \<Rightarrow> [] | Some k \<Rightarrow> k) c d) cs d))" for d
    by (induction cs arbitrary: d) (auto simp: dict_append_keys)
  then show ?thesis by (simp add: group_by_service_def dict_keys_def)
qed

lemma select_services_keys: "select_services z groups = Inr ss \<Longrightarrow> map fst ss = map fst groups"
  unfolding select_services_def
  by (induction groups arbitrary: ss) (auto simp: ebind_eq_Inr split: option.splits)

lemma regular_services_distinct:
  "resolve_regular_schedule st z ip pid at = Inr (m, ss, n) \<Longrightarrow> distinct (map fst ss)"
  using group_by_service_distinct
  by (auto simp: resolve_regular_schedule_def ebind_eq_Inr dict_keys_def dest!: select_services_keys)

section \<open>Quota\<close>

lemma rank_le_2: "quota_mode_rank m \<le> 2"
  by (simp add: quota_mode_rank_def Let_def)

text \<open>Either the quota does not apply, and nothing changes, or it applies with live usage.\<close>

lemma evaluate_quota_shape:
  assumes "evaluate_quota_state st profile m blocked usage groups = (q, m', b', src)"
  shows "(m' = m \<and> b' = blocked \<and> \<not> qt_active q \<and> \<not> qt_mode_active q \<and> qt_services q = []
           \<and> qt_active_service_blocks q = [] \<and> \<not> qd_exhausted (qt_daily q)
           \<and> \<not> (qt_configured q \<and> qt_enabled q \<and> qt_available q))
       \<or> (qt_configured q \<and> qt_enabled q \<and> qt_available q
           \<and> qt_mode_active q = qd_exhausted (qt_daily q)
           \<and> qt_active_service_blocks q = map qs_key (filter qs_exhausted (qt_services q))
           \<and> qt_active q = (qd_exhausted (qt_daily q) \<or> filter qs_exhausted (qt_services q) \<noteq> [])
           \<and> b' = blocked @ concat (map qs_members (filter qs_exhausted (qt_services q)))
           \<and> m' = (if qd_exhausted (qt_daily q) \<and> quota_mode_rank (qd_action (qt_daily q)) > quota_mode_rank m
                   then qd_action (qt_daily q) else m))"
proof -
  let ?limit = "case profile of None \<Rightarrow> 0 | Some p \<Rightarrow> pf_daily_quota_mb p"
  let ?limits = "case profile of None \<Rightarrow> [] | Some p \<Rightarrow> pf_service_quotas p"
  let ?live = "case usage of Some u \<Rightarrow> if qu_available u then Some u else None | None \<Rightarrow> None"
  consider (off) "\<not> (?limit \<noteq> 0 \<or> ?limits \<noteq> [])"
    | (disabled) "?limit \<noteq> 0 \<or> ?limits \<noteq> []" "get_setting st ''quota_engine_enabled'' \<noteq> Some ''1''"
    | (missing) "?limit \<noteq> 0 \<or> ?limits \<noteq> []" "get_setting st ''quota_engine_enabled'' = Some ''1''" "?live = None"
    | (live) u where "?limit \<noteq> 0 \<or> ?limits \<noteq> []" "get_setting st ''quota_engine_enabled'' = Some ''1''" "?live = Some u"
    by (cases ?live) blast+
  then show ?thesis
  proof cases
    case off
    then show ?thesis
      using assms by (intro disjI1, cases profile) (auto simp: evaluate_quota_state_def Let_def empty_daily_def)
  next
    case disabled
    then show ?thesis
      using assms by (intro disjI1, cases profile) (auto simp: evaluate_quota_state_def Let_def empty_daily_def)
  next
    case missing
    then show ?thesis
      using assms by (intro disjI1, cases profile) (auto simp: evaluate_quota_state_def Let_def empty_daily_def)
  next
    case live
    then obtain pr where pr: "profile = Some pr" by (cases profile) auto
    have n: "(pf_daily_quota_mb pr = 0 \<and> pf_service_quotas pr = []) = False" using live(1) pr by auto
    show ?thesis
      using assms live(2,3) n unfolding pr
      by (intro disjI2, clarsimp simp: evaluate_quota_state_def Let_def empty_daily_def daily_usage_def split del: if_split) simp
  qed
qed

lemma quota_blocked:
  assumes "evaluate_quota_state st profile m blocked usage groups = (q, m', b', src)"
  shows "set b' = set blocked \<union> {k. \<exists>s \<in> set (qt_services q). qs_exhausted s \<and> k \<in> set (qs_members s)}"
  using evaluate_quota_shape [OF assms] by (elim disjE) auto

section \<open>Shape of the result\<close>

text \<open>The quota phase of a result, with the mode and blocked services it starts from.\<close>

lemma assemble_quota:
  assumes "p = assemble_policy st z cfg profile details bandwidth policy_at tz res ms ss ex (mode, source, reason) nc usage supported"
  obtains q m' b' src where
    "evaluate_quota_state st profile mode
       (apply_overrides (concrete_overrides (policy_group_keys st) ss)
         (ex_effective_services (expand_policy_keys
            (apply_service_schedules ss (sorted_set (case profile of None \<Rightarrow> [] | Some p \<Rightarrow> pf_blocked_services p)))
            supported (Some (policy_group_catalog st)))))
       usage (policy_group_catalog st) = (q, m', b', src)"
    "ep_mode p = m'" "ep_blocked_services p = sorted_set b'"
    "ep_quota_state p = q\<lparr> qt_mode_before_quota := mode, qt_mode_source_before_quota := source \<rparr>"
    "ep_scheduled_service_overrides p = service_overrides z (policy_group_keys st) ss"
    "ep_active_date_exception p = ex" "ep_policy_at p = iso_aware z policy_at"
    "ep_base_mode p = fst (base_policy cfg profile)"
    "ep_quota_active p = qt_active q"
    "ep_bandwidth_preset p = bandwidth" "ep_bandwidth_upload p = bp_upload details"
    "ep_bandwidth_download p = bp_download details"
  using assms
  by (auto simp: assemble_policy_def Let_def policy_group_keys_def split: prod.splits)

lemma compute_Inr:
  assumes "compute_effective_policy st env ip at usage supported = Inr p"
  shows "compute_effective_policy_from_context st env ip (map_of (st_devices st) ip)
    (profile_of st (case map_of (st_devices st) ip of None \<Rightarrow> None | Some d \<Rightarrow> dv_profile_id d))
    (case map_of (st_devices st) ip of None \<Rightarrow> None | Some d \<Rightarrow> dv_profile_id d) at usage supported = Inr p"
  using assms by (simp add: compute_effective_policy_def Let_def)

section \<open>Properties\<close>


text \<open>C3: a schedule for a concrete service is decisive for it. Whatever the profile or an aggregate
  group says, the service is blocked exactly when its schedule blocks it or an exhausted quota
  covers it.\<close>

theorem concrete_schedule_decides:
  assumes "compute_effective_policy st env ip at usage supported = Inr p"
    and "so \<in> set (ep_scheduled_service_overrides p)" "\<not> so_policy_group so"
  shows "so_service so \<in> set (ep_blocked_services p) \<longleftrightarrow>
    so_state so = ''block'' \<or> (\<exists>s \<in> set (qt_services (ep_quota_state p)). qs_exhausted s \<and> so_service so \<in> set (qs_members s))"
proof -
  let ?prof = "profile_of st (case map_of (st_devices st) ip of None \<Rightarrow> None | Some d \<Rightarrow> dv_profile_id d)"
  obtain details policy_at z tz res ms ss nr ex mode source reason nxt nc bandwidth pid where p:
    "p = assemble_policy st z (map_of (st_devices st) ip) ?prof
      details bandwidth policy_at tz res ms ss ex (mode, source, reason) nc usage
           (case supported of Some ks \<Rightarrow> ks | None \<Rightarrow> routeros_supported_service_keys st)"
    and rr: "resolve_regular_schedule st z ip pid policy_at = Inr (ms, ss, nr)"
    by (rule policy_from_context_Inr [OF compute_Inr [OF assms(1)]])
  obtain q m' b' src eff where e: "evaluate_quota_state st ?prof
      mode (apply_overrides (concrete_overrides (policy_group_keys st) ss) eff) usage (policy_group_catalog st)
        = (q, m', b', src)"
    and r: "ep_blocked_services p = sorted_set b'"
    "ep_quota_state p = q\<lparr> qt_mode_before_quota := mode, qt_mode_source_before_quota := source \<rparr>"
    "ep_scheduled_service_overrides p = service_overrides z (policy_group_keys st) ss"
    by (rule assemble_quota [OF p])
  have d: "distinct (map fst ss)" by (rule regular_services_distinct [OF rr])
  let ?ovs = "concrete_overrides (policy_group_keys st) ss"
  obtain k c where kc: "(k, c) \<in> set ss" "so_service so = k" "so_state so = cand_state c" "k \<notin> set (policy_group_keys st)"
    using assms(2,3) r(3) by (auto simp: service_overrides_def)
  have do: "distinct (map fst ?ovs)"
  proof -
    have "map fst ?ovs = filter (\<lambda>k. k \<notin> set (policy_group_keys st)) (map fst (sort_key fst ss))"
      by (simp add: concrete_overrides_def filter_map o_def case_prod_beta)
    moreover have "distinct (map fst (sort_key fst ss))"
      using d by (metis distinct_map distinct_sort set_sort)
    ultimately show ?thesis by simp
  qed
  have "(k, cand_state c) \<in> set ?ovs" using kc by (force simp: concrete_overrides_def)
  then have m: "map_of ?ovs k = Some (cand_state c)" using do by (simp add: map_of_is_SomeI)
  have b: "k \<in> set (apply_overrides ?ovs eff) \<longleftrightarrow> cand_state c = ''block''"
    using apply_overrides_iff [OF do, of k eff] m by simp
  have "set b' = set (apply_overrides ?ovs eff) \<union> {k. \<exists>s \<in> set (qt_services q). qs_exhausted s \<and> k \<in> set (qs_members s)}"
    by (rule quota_blocked [OF e])
  then show ?thesis using b kc r by auto
qed

section \<open>Date exceptions\<close>

definition covers :: "store \<Rightarrow> string \<Rightarrow> int option \<Rightarrow> int \<Rightarrow> date_exception \<Rightarrow> bool" where
  "covers st ip pid date ex = (ex \<in> set (st_exceptions st) \<and> de_start_date ex \<le> date \<and> date \<le> de_end_date ex
     \<and> target_matches (de_target_type ex) (de_target_value ex) ip pid)"

definition assigned_profile :: "store \<Rightarrow> string \<Rightarrow> int option" where
  "assigned_profile st ip = (case map_of (st_devices st) ip of None \<Rightarrow> None | Some d \<Rightarrow> dv_profile_id d)"

lemma matching_exception_cases:
  assumes "matching_exception st ip date pid = Inr r"
  shows "let pid' = (case pid of None \<Rightarrow> assigned_profile st ip | Some p \<Rightarrow> Some p) in
    case r of None \<Rightarrow> \<forall>ex. \<not> covers st ip pid' date ex
    | Some ex \<Rightarrow> covers st ip pid' date ex
        \<and> (\<forall>ex'. covers st ip pid' date ex' \<longrightarrow> ex_specificity ex' \<le> ex_specificity ex)
        \<and> (\<forall>ex'. covers st ip pid' date ex' \<and> ex_specificity ex' = ex_specificity ex
              \<longrightarrow> de_mode ex = de_mode ex' \<and> de_template_id ex = de_template_id ex')"
proof -
  define pid' where "pid' = (case pid of None \<Rightarrow> assigned_profile st ip | Some p \<Rightarrow> Some p)"
  define ms where "ms = filter (\<lambda>ex. de_start_date ex \<le> date \<and> date \<le> de_end_date ex
                       \<and> target_matches (de_target_type ex) (de_target_value ex) ip pid') (st_exceptions st)"
  have c: "covers st ip pid' date ex \<longleftrightarrow> ex \<in> set ms" for ex by (auto simp: covers_def ms_def)
  have d: "matching_exception st ip date pid =
      (if ms = [] then Inr None
       else let winners = maxima_by ex_specificity ms in
           if length (remdups (map (\<lambda>ex. (de_mode ex, de_template_id ex)) winners)) > 1
           then Inl (ValueError (''Conflicting date exceptions for '' @ ip @ '' on '' @ show_date date @ '': ''
                  @ join_with '', '' (sort (map de_label winners))))
           else Inr (Some (last (sort_key (\<lambda>ex. (de_start_date ex, de_id ex)) winners))))"
    by (cases pid) (simp_all only: matching_exception_def ms_def pid'_def assigned_profile_def Let_def option.case)
  show ?thesis
  proof (cases "ms = []")
    case True
    then have "r = None" using assms unfolding d by (simp only: refl if_True sum.inject)
    then show ?thesis using c True unfolding Let_def pid'_def [symmetric] by simp
  next
    case False
    define w where "w = maxima_by ex_specificity ms"
    let ?w = w
    have wi: "e \<in> set w \<longleftrightarrow> e \<in> set ms \<and> (\<forall>y \<in> set ms. ex_specificity y \<le> ex_specificity e)" for e
      unfolding w_def by (rule maxima_by_iff)
    have ne: "w \<noteq> []" unfolding w_def by (rule maxima_by_nonempty [OF False])
    have l: "\<not> length (remdups (map (\<lambda>ex. (de_mode ex, de_template_id ex)) ?w)) > 1"
    proof
      assume "length (remdups (map (\<lambda>ex. (de_mode ex, de_template_id ex)) ?w)) > 1"
      then show False
        using assms unfolding d Let_def w_def [symmetric] by (simp only: False if_False if_True sum.distinct)
    qed
    then have r: "r = Some (last (sort_key (\<lambda>ex. (de_start_date ex, de_id ex)) ?w))"
      using assms unfolding d Let_def w_def [symmetric] by (simp only: False if_False sum.inject)
    obtain ex where ex: "r = Some ex" "ex \<in> set ?w"
      using r last_sort_key_in [OF ne] by blast
    have same: "de_mode ex = de_mode ex' \<and> de_template_id ex = de_template_id ex'" if "ex' \<in> set w" for ex'
    proof -
      have "(de_mode ex, de_template_id ex) = (de_mode ex', de_template_id ex')"
        using l [unfolded length_remdups_gt1 set_map] ex(2) that by blast
      then show ?thesis by simp
    qed
    show ?thesis
      unfolding Let_def ex(1) option.case pid'_def [symmetric] c
    proof (intro conjI allI impI)
      show "ex \<in> set ms" using ex(2) wi by blast
      show "ex_specificity ex' \<le> ex_specificity ex" if "ex' \<in> set ms" for ex' using ex(2) wi that by blast
      fix ex' assume e: "ex' \<in> set ms \<and> ex_specificity ex' = ex_specificity ex"
      then have "ex' \<in> set w" using ex(2) wi by simp
      then show "de_mode ex = de_mode ex'" "de_template_id ex = de_template_id ex'" using same by blast+
    qed
  qed
qed

text \<open>C1: date exceptions come first. When no exception covers the local date of the device none is
  active; otherwise the active one is a most specific of those that cover it, and when it names
  a mode that mode holds before quotas, whatever the override, the profile and the schedules say.\<close>

theorem date_exception_governs:
  assumes "compute_effective_policy st env ip at usage supported = Inr p"
  shows "let date = fst (ep_policy_at p) div 86400; pid = assigned_profile st ip in
    case ep_active_date_exception p of
      None \<Rightarrow> \<forall>ex. \<not> covers st ip pid date ex
    | Some ex \<Rightarrow> covers st ip pid date ex
        \<and> (\<forall>ex'. covers st ip pid date ex' \<longrightarrow> ex_specificity ex' \<le> ex_specificity ex)
        \<and> (de_mode ex \<in> {''normal'', ''slow'', ''blocked''} \<longrightarrow> qt_mode_before_quota (ep_quota_state p) = de_mode ex)"
proof -
  let ?pid = "case map_of (st_devices st) ip of None \<Rightarrow> None | Some d \<Rightarrow> dv_profile_id d"
  obtain details policy_at z tz res ms ss nr ex mode source reason nxt nc bandwidth where p:
    "p = assemble_policy st z (map_of (st_devices st) ip) (profile_of st ?pid)
      details bandwidth policy_at tz res ms ss ex (mode, source, reason) nc usage
           (case supported of Some ks \<Rightarrow> ks | None \<Rightarrow> routeros_supported_service_keys st)"
    and m: "matching_exception st ip (aw_date policy_at) ?pid = Inr ex"
    and ph: "mode_phase st z policy_at (fst (base_policy (map_of (st_devices st) ip) (profile_of st ?pid)))
       (snd (base_policy (map_of (st_devices st) ip) (profile_of st ?pid))) ms nr ex
       = Inr (mode, source, reason, nxt)"
    by (rule policy_from_context_Inr [OF compute_Inr [OF assms]])
  obtain q where r: "ep_quota_state p = q\<lparr> qt_mode_before_quota := mode, qt_mode_source_before_quota := source \<rparr>"
    "ep_active_date_exception p = ex" "ep_policy_at p = iso_aware z policy_at"
    by (rule assemble_quota [OF p])
  have pid: "(case ?pid of None \<Rightarrow> assigned_profile st ip | Some p \<Rightarrow> Some p) = assigned_profile st ip"
    by (simp add: assigned_profile_def split: option.split)
  have date: "fst (ep_policy_at p) div 86400 = aw_date policy_at" by (simp add: r(3) iso_aware_def aw_date_def)
  have md: "mode = de_mode e" if "ex = Some e" "de_mode e \<in> {''normal'', ''slow'', ''blocked''}" for e
    using ph that by (auto simp: mode_phase_def ebind_eq_Inr Let_def)
  note ca = matching_exception_cases [OF m, unfolded pid Let_def]
  show ?thesis
    unfolding Let_def date r(2)
  proof (cases ex)
    case None
    then show "case ex of None \<Rightarrow> \<forall>ex. \<not> covers st ip (assigned_profile st ip) (aw_date policy_at) ex
    | Some ex \<Rightarrow> covers st ip (assigned_profile st ip) (aw_date policy_at) ex
        \<and> (\<forall>ex'. covers st ip (assigned_profile st ip) (aw_date policy_at) ex' \<longrightarrow> ex_specificity ex' \<le> ex_specificity ex)
        \<and> (de_mode ex \<in> {''normal'', ''slow'', ''blocked''} \<longrightarrow> qt_mode_before_quota (ep_quota_state p) = de_mode ex)"
      using ca by simp
  next
    case (Some e)
    then show "case ex of None \<Rightarrow> \<forall>ex. \<not> covers st ip (assigned_profile st ip) (aw_date policy_at) ex
    | Some ex \<Rightarrow> covers st ip (assigned_profile st ip) (aw_date policy_at) ex
        \<and> (\<forall>ex'. covers st ip (assigned_profile st ip) (aw_date policy_at) ex' \<longrightarrow> ex_specificity ex' \<le> ex_specificity ex)
        \<and> (de_mode ex \<in> {''normal'', ''slow'', ''blocked''} \<longrightarrow> qt_mode_before_quota (ep_quota_state p) = de_mode ex)"
      using ca md r(1) by auto
  qed
qed

section \<open>Simulation and the live computation\<close>

text \<open>Storing the assignment of a device, as \<open>save_device_policy\<close> leaves it in the table.\<close>

definition with_device :: "store \<Rightarrow> string \<Rightarrow> device_row \<Rightarrow> store" where
  "with_device st ip row = st\<lparr> st_devices := AList.update ip row (st_devices st) \<rparr>"

lemma with_device_simps [simp]:
  "st_settings (with_device st ip row) = st_settings st"
  "st_profiles (with_device st ip row) = st_profiles st"
  "st_plans (with_device st ip row) = st_plans st"
  "st_templates (with_device st ip row) = st_templates st"
  "st_exceptions (with_device st ip row) = st_exceptions st"
  "st_groups (with_device st ip row) = st_groups st"
  "st_services (with_device st ip row) = st_services st"
  "st_presets (with_device st ip row) = st_presets st"
  "map_of (st_devices (with_device st ip row)) ip = Some row"
  by (simp_all add: with_device_def update_conv')

lemma with_device_tables [simp]:
  "policy_group_catalog (with_device st ip row) = policy_group_catalog st"
  "policy_group_keys (with_device st ip row) = policy_group_keys st"
  "get_profile (with_device st ip row) = get_profile st"
  "get_bandwidth_preset (with_device st ip row) = get_bandwidth_preset st"
  "routeros_supported_service_keys (with_device st ip row) = routeros_supported_service_keys st"
  "get_setting (with_device st ip row) = get_setting st"
  by (simp_all add: fun_eq_iff policy_group_catalog_def policy_group_keys_def get_profile_def
      get_bandwidth_preset_def routeros_supported_service_keys_def get_setting_def)

lemma with_device_profile_of [simp]: "profile_of (with_device st ip row) = profile_of st"
  by (intro ext) (unfold profile_of_def with_device_tables, rule refl)

lemma with_device_clock [simp]: "policy_datetime_details (with_device st ip row) = policy_datetime_details st"
  by (intro ext) (unfold policy_datetime_details_def with_device_simps with_device_tables, rule refl)

lemma with_device_service_action [simp]: "normalize_service_schedule_action (with_device st ip row) = normalize_service_schedule_action st"
  by (intro ext) (unfold normalize_service_schedule_action_def with_device_simps with_device_tables, rule refl)

lemma with_device_quota [simp]: "evaluate_quota_state (with_device st ip row) = evaluate_quota_state st"
  by (intro ext) (unfold evaluate_quota_state_def quota_warning_percent_def with_device_simps with_device_tables, rule refl)

lemma with_device_template [simp]: "resolve_exception_template (with_device st ip row) = resolve_exception_template st"
  by (intro ext) (unfold resolve_exception_template_def with_device_simps with_device_tables, rule refl)

lemmas with_device_functions = with_device_clock with_device_service_action with_device_quota with_device_template

lemma with_device_plan_action [simp]: "plan_action (with_device st ip row) = plan_action st"
  by (intro ext) (unfold plan_action_def with_device_functions, rule refl)

lemma with_device_plan_occurrences [simp]: "plan_occurrences (with_device st ip row) = plan_occurrences st"
  by (intro ext) (unfold plan_occurrences_def with_device_plan_action, rule refl)

lemma with_device_occurrences [simp]: "schedule_occurrences (with_device st ip row) = schedule_occurrences st"
  by (intro ext) (unfold schedule_occurrences_def with_device_plan_occurrences with_device_simps, rule refl)

lemma with_device_regular [simp]: "resolve_regular_schedule (with_device st ip row) = resolve_regular_schedule st"
  by (intro ext) (unfold resolve_regular_schedule_def with_device_occurrences, rule refl)

lemma with_device_mode_phase [simp]: "mode_phase (with_device st ip row) = mode_phase st"
  by (intro ext) (unfold mode_phase_def with_device_functions, rule refl)

lemma with_device_assemble [simp]: "assemble_policy (with_device st ip row) = assemble_policy st"
  by (intro ext) (unfold assemble_policy_def with_device_functions with_device_tables with_device_simps, rule refl)

lemma matching_exception_with_device:
  "matching_exception (with_device st ip row) ip date (Some p) = matching_exception st ip date (Some p)"
  by (unfold matching_exception_def option.case with_device_simps, rule refl)

lemma context_with_device:
  "compute_effective_policy_from_context (with_device st ip row) env ip cfg profile (Some p) at usage supported
   = compute_effective_policy_from_context st env ip cfg profile (Some p) at usage supported"
  by (unfold compute_effective_policy_from_context_def matching_exception_with_device
      with_device_tables with_device_functions with_device_regular with_device_assemble
      with_device_occurrences with_device_mode_phase, rule refl)

text \<open>C4: what-if simulation of an assignment is the live computation after the assignment. Simulating
  a device with an existing profile and a mode gives the policy the live engine computes once
  that row is stored.\<close>

theorem simulation_is_live_computation:
  assumes "get_profile st k \<noteq> None" "k \<noteq> 0" "m \<in> {''normal'', ''slow'', ''blocked'', ''inherit''}"
    and "row = (case map_of (st_devices st) ip of None \<Rightarrow> empty_device | Some d \<Rightarrow> d)"
  shows "simulate_effective_policy st env ip at (PInt k) m None usage supported False False
    = compute_effective_policy (with_device st ip (row\<lparr> dv_profile_id := Some k, dv_mode_override := m \<rparr>))
        env ip at usage supported"
proof -
  let ?row = "row\<lparr> dv_profile_id := Some k, dv_mode_override := m \<rparr>"
  obtain pr where pr: "get_profile st k = Some pr" using assms(1) by auto
  have "simulated_device st (map_of (st_devices st) ip) (PInt k) m False False = Inr (Some ?row)"
    using assms by (cases "map_of (st_devices st) ip")
      (auto simp: simulated_device_def is_zero_form_def pyval_int_def validate_mode_def pr ebind_def)
  then have "simulate_effective_policy st env ip at (PInt k) m None usage supported False False
    = compute_effective_policy_from_context st env ip (Some ?row) (Some pr) (Some k) at usage supported"
    using assms(2) by (simp add: simulate_effective_policy_def truthy_profile_id_def pr Let_def)
  also have "\<dots> = compute_effective_policy (with_device st ip ?row) env ip at usage supported"
    using assms(2)
    by (simp add: compute_effective_policy_def context_with_device profile_of_def truthy_profile_id_def pr Let_def)
  finally show ?thesis .
qed

end
