(* ===== verification/EffectivePolicyExamples.thy ===== *)
theory EffectivePolicyExamples
  imports EffectivePolicy
begin

text \<open>
  The effective policy of the sample household, evaluated: the properties of \<open>EffectivePolicy\<close> at a
  concrete device, and the simulation of a profile removal, where simulation and live computation
  part.
\<close>

definition sample_env :: clock_env where
  "sample_env = \<lparr> ce_zones = (\<lambda>name. if name = ''Europe/London'' then Some london else None),
     ce_default_timezone = ''Europe/London'', ce_now = 1750000000 \<rparr>"

definition sample_usage :: quota_usage where
  "sample_usage = \<lparr> qu_available = True, qu_error = None, qu_day = Some ''2025-06-15'',
     qu_timezone = Some ''Europe/London'', qu_total_bytes = 200000000,
     qu_service_bytes = [(''youtube'', 20000000)] \<rparr>"

lemma sample_policy:
  "\<exists>p. compute_effective_policy sample_store sample_env ''10.0.0.2'' None (Some sample_usage) None = Inr p
     \<and> ep_mode p = ''blocked'' \<and> qt_mode_before_quota (ep_quota_state p) = ''slow''
     \<and> ep_blocked_services p = [''playstation'', ''steam'', ''xbox'', ''youtube'']
     \<and> map so_service (ep_scheduled_service_overrides p) = [''roblox'']
     \<and> map so_policy_group (ep_scheduled_service_overrides p) = [False]"
proof -
  have "case compute_effective_policy sample_store sample_env ''10.0.0.2'' None (Some sample_usage) None of
      Inr p \<Rightarrow> ep_mode p = ''blocked'' \<and> qt_mode_before_quota (ep_quota_state p) = ''slow''
     \<and> ep_blocked_services p = [''playstation'', ''steam'', ''xbox'', ''youtube'']
     \<and> map so_service (ep_scheduled_service_overrides p) = [''roblox'']
     \<and> map so_policy_group (ep_scheduled_service_overrides p) = [False]
    | Inl _ \<Rightarrow> False"
    by code_simp
  then show ?thesis by (auto split: sum.splits)
qed


theorem concrete_schedule_decides_witness:
  "\<exists>p. compute_effective_policy sample_store sample_env ''10.0.0.2'' None (Some sample_usage) None = Inr p
     \<and> (\<exists>so \<in> set (ep_scheduled_service_overrides p). so_service so = ''roblox'' \<and> so_state so \<noteq> ''block''
          \<and> so_service so \<notin> set (ep_blocked_services p))"
  using sample_policy
proof (elim exE conjE)
  fix p
  assume p: "compute_effective_policy sample_store sample_env ''10.0.0.2'' None (Some sample_usage) None = Inr p"
    and b: "ep_blocked_services p = [''playstation'', ''steam'', ''xbox'', ''youtube'']"
    and s: "map so_service (ep_scheduled_service_overrides p) = [''roblox'']"
    and g: "map so_policy_group (ep_scheduled_service_overrides p) = [False]"
  obtain so where so: "ep_scheduled_service_overrides p = [so]" "so_service so = ''roblox''"
    using s by (auto simp: map_eq_Cons_conv)
  have m: "so \<in> set (ep_scheduled_service_overrides p)" "\<not> so_policy_group so" using so(1) g by simp_all
  have n: "so_service so \<notin> set (ep_blocked_services p)" by (simp add: so(2) b)
  then have "so_state so \<noteq> ''block''" using concrete_schedule_decides [OF p m] by blast
  then show ?thesis using n p m so(2) by (intro exI [of _ p] conjI bexI [of _ so])
qed

text \<open>On 1 July 2025 the sample holiday exception, targeted at the profile, holds.\<close>

definition holiday_env :: clock_env where
  "holiday_env = sample_env\<lparr> ce_now := 1751400000 \<rparr>"

lemma holiday_policy:
  "\<exists>p. compute_effective_policy sample_store holiday_env ''10.0.0.2'' None None (Some [''youtube'']) = Inr p
     \<and> map_option de_label (ep_active_date_exception p) = Some ''Holiday''
     \<and> map_option de_mode (ep_active_date_exception p) = Some ''normal''"
proof -
  have "case compute_effective_policy sample_store holiday_env ''10.0.0.2'' None None (Some [''youtube'']) of
      Inr p \<Rightarrow> map_option de_label (ep_active_date_exception p) = Some ''Holiday''
        \<and> map_option de_mode (ep_active_date_exception p) = Some ''normal''
    | Inl _ \<Rightarrow> False"
    by code_simp
  then show ?thesis by (auto split: sum.splits)
qed

theorem date_exception_governs_witness:
  "\<exists>p. compute_effective_policy sample_store holiday_env ''10.0.0.2'' None None (Some [''youtube'']) = Inr p
     \<and> qt_mode_before_quota (ep_quota_state p) = ''normal''"
  using holiday_policy
proof (elim exE conjE)
  fix p
  assume p: "compute_effective_policy sample_store holiday_env ''10.0.0.2'' None None (Some [''youtube'']) = Inr p"
    and m: "map_option de_mode (ep_active_date_exception p) = Some ''normal''"
  obtain ex where ex: "ep_active_date_exception p = Some ex" "de_mode ex = ''normal''" using m by auto
  have "qt_mode_before_quota (ep_quota_state p) = ''normal''"
    using date_exception_governs [OF p] ex by (simp add: Let_def)
  then show ?thesis using p by (intro exI [of _ p] conjI)
qed

theorem simulation_is_live_computation_witness:
  "simulate_effective_policy sample_store sample_env ''10.0.0.9'' None (PInt 1) ''slow'' None None None False False
    = compute_effective_policy (with_device sample_store ''10.0.0.9''
        (empty_device\<lparr> dv_profile_id := Some 1, dv_mode_override := ''slow'' \<rparr>))
        sample_env ''10.0.0.9'' None None None"
  by (rule simulation_is_live_computation) (simp_all add: sample_store_def get_profile_def)

text \<open>Simulating the removal of the profile does not agree with the live computation after the
  removal. Without a profile in its context the exception lookup reads the stored assignment
  again, so the holiday exception of the removed profile still applies in the simulation, while
  the live computation blocks the device at bedtime.\<close>

theorem removal_simulation_diverges:
  "map_sum (\<lambda>_. ()) (\<lambda>p. (ep_mode p, map_option de_label (ep_active_date_exception p)))
     (simulate_effective_policy sample_store holiday_env ''10.0.0.2'' None PNone ''inherit'' None None (Some [''youtube'']) False True)
   = Inr (''normal'', Some ''Holiday'')
   \<and> map_sum (\<lambda>_. ()) (\<lambda>p. (ep_mode p, map_option de_label (ep_active_date_exception p)))
     (compute_effective_policy (with_device sample_store ''10.0.0.2'' empty_device) holiday_env ''10.0.0.2'' None None (Some [''youtube'']))
   = Inr (''blocked'', None)"
  by (intro conjI) code_simp+

end
