(* ===== verification/PolicyEngine.thy ===== *)
theory PolicyEngine
  imports EffectivePolicy Bandwidth
begin

text \<open>
  The comparison of a desired policy with the live RouterOS state
  (\<open>src/app/policy_engine.py\<close>, \<open>build_device_policy_plan\<close>). The live state is what the read
  operations of the router adapter return. The function of the source is cut into its bandwidth
  part, its service part, the planned actions and the reason. The fields of the desired policy
  that the plan copies unchanged are kept as the policy itself (\<open>dp_policy\<close>).
\<close>

section \<open>Live state\<close>

record live_enforcement =
  le_mode :: string
  le_blocked_entries :: nat
  le_slow_entries :: nat
  le_slow_queues :: nat
  le_slow_limit :: "string option"

record temporary_access =
  ta_active :: bool
  ta_restore_mode :: "string option"
  ta_restore_time :: "string option"
  ta_restore_at :: "string option"
  ta_reference :: "string option"
  ta_minutes :: int

record live_service =
  lv_name :: string
  lv_available :: bool
  lv_error :: "string option"
  lv_blocked :: bool
  lv_entries :: nat

record live_services =
  ls_blocked_services :: "string list"
  ls_unavailable_services :: "string list"
  ls_services :: "(string \<times> live_service) list"

record live_bandwidth =
  lb_active :: bool
  lb_valid :: bool
  lb_max_limit :: "string option"
  lb_upload_bps :: "int option"
  lb_download_bps :: "int option"
  lb_error :: "string option"

definition no_live_services :: live_services where
  "no_live_services = \<lparr> ls_blocked_services = [], ls_unavailable_services = [], ls_services = [] \<rparr>"

definition no_live_bandwidth :: live_bandwidth where
  "no_live_bandwidth = \<lparr> lb_active = False, lb_valid = True, lb_max_limit = None, lb_upload_bps = None,
     lb_download_bps = None, lb_error = None \<rparr>"

section \<open>The plan\<close>

datatype planned_action =
    ModeAction string string
  | ServiceAction string string string
  | BandwidthAction string string "string option" bool
  | ServiceBlock string

definition act_supported :: "planned_action \<Rightarrow> bool" where
  "act_supported a = (case a of ServiceBlock _ \<Rightarrow> False | _ \<Rightarrow> True)"

record service_plan =
  vp_key :: string
  vp_name :: string
  vp_available :: bool
  vp_error :: "string option"
  vp_desired_blocked :: bool
  vp_live_blocked :: bool
  vp_drift :: bool
  vp_source_list :: string
  vp_classification :: string
  vp_coverage_note :: string
  vp_detector_lists :: "string list"

record bandwidth_plan =
  wp_preset :: string
  wp_name :: string
  wp_upload :: string
  wp_download :: string
  wp_desired_limit :: "string option"
  wp_expected_active :: bool
  wp_suspension_reason :: "string option"
  wp_drift :: bool

record device_plan =
  dp_address :: string
  dp_policy :: effective_policy
  dp_desired_mode :: string
  dp_live_mode :: string
  dp_mode_source :: string
  dp_global_mode :: string
  dp_bandwidth :: bandwidth_plan
  dp_live_bandwidth :: live_bandwidth
  dp_blocked_services :: "string list"
  dp_requested_blocked_services :: "string list"
  dp_desired_supported :: "string list"
  dp_desired_service_names :: "string list"
  dp_live_supported :: "string list"
  dp_unsupported :: "string list"
  dp_unavailable_desired :: "string list"
  dp_service_states :: "service_plan list"
  dp_conflicts :: "string list"
  dp_status :: string
  dp_temporary_override :: bool
  dp_mode_drift :: bool
  dp_service_drift :: bool
  dp_bandwidth_drift :: bool
  dp_policy_actionable :: bool
  dp_mode_actionable :: bool
  dp_service_actionable :: bool
  dp_bandwidth_actionable :: bool
  dp_reason :: string
  dp_planned_actions :: "planned_action list"

definition VALID_MODES :: "string list" where
  "VALID_MODES = [''normal'', ''slow'', ''blocked'']"

text \<open>The bandwidth queue is expected only while both the device and the global mode are NORMAL.\<close>

definition plan_bandwidth ::
  "string \<Rightarrow> effective_policy \<Rightarrow> string \<Rightarrow> string \<Rightarrow> live_bandwidth \<Rightarrow> bandwidth_plan res" where
  "plan_bandwidth address policy desired_mode global_mode live =
     (let preset = norm_key (str_or (ep_bandwidth_preset policy) ''normal'');
          name = str_or (ep_bandwidth_name policy) preset;
          upload = str_or (ep_bandwidth_upload policy) ''Unlimited'';
          download = str_or (ep_bandwidth_download policy) ''Unlimited''
      in ebind (if preset \<noteq> ''normal'' then
                  (case build_max_limit upload download of
                     Inr l \<Rightarrow> Inr (Some l)
                   | Inl (BandwidthRateError e) \<Rightarrow>
                       Inl (PolicyPlanError (''Invalid bandwidth preset '' @ sq preset @ '' for '' @ address @ '': '' @ e))
                   | Inl e \<Rightarrow> Inl e)
                else Inr None) (\<lambda>limit.
           let reason = (if preset = ''normal'' then None
                         else if global_mode \<noteq> ''normal'' then Some (''global '' @ py_upper global_mode)
                         else if desired_mode \<noteq> ''normal'' then Some (''device '' @ py_upper desired_mode)
                         else None);
               expected = (preset \<noteq> ''normal'' \<and> desired_mode = ''normal'' \<and> global_mode = ''normal'');
               drift = (if expected
                        then \<not> lb_active live \<or> \<not> lb_valid live \<or> \<not> limits_equal (lb_max_limit live) limit
                        else lb_active live)
           in Inr \<lparr> wp_preset = preset, wp_name = name, wp_upload = upload, wp_download = download,
                    wp_desired_limit = limit, wp_expected_active = expected,
                    wp_suspension_reason = reason, wp_drift = drift \<rparr>))"

definition plan_service :: "string list \<Rightarrow> live_services \<Rightarrow> string \<times> service_def \<Rightarrow> service_plan" where
  "plan_service desired_supported live = (\<lambda>(key, service).
     let live_state = map_of (ls_services live) key;
         available = (case live_state of None \<Rightarrow> True | Some s \<Rightarrow> lv_available s);
         desired_blocked = (key \<in> set desired_supported);
         live_blocked = (case live_state of None \<Rightarrow> False | Some s \<Rightarrow> lv_blocked s)
     in \<lparr> vp_key = key, vp_name = sv_name service, vp_available = available,
          vp_error = (case live_state of None \<Rightarrow> None | Some s \<Rightarrow> lv_error s),
          vp_desired_blocked = desired_blocked, vp_live_blocked = live_blocked,
          vp_drift = (available \<and> desired_blocked \<noteq> live_blocked),
          vp_source_list = sv_source_list service, vp_classification = sv_classification service,
          vp_coverage_note = sv_coverage_note service,
          vp_detector_lists = map br_detector_list (sv_rules service) \<rparr>)"

definition allowed_or_blocked :: "bool \<Rightarrow> string" where
  "allowed_or_blocked b = (if b then ''blocked'' else ''allowed'')"

definition plan_actions ::
  "string \<Rightarrow> string \<Rightarrow> service_plan list \<Rightarrow> bandwidth_plan \<Rightarrow> live_bandwidth \<Rightarrow> string list \<Rightarrow> planned_action list" where
  "plan_actions live_mode desired_mode states bw live unsupported =
     (if desired_mode \<noteq> live_mode then [ModeAction live_mode desired_mode] else [])
     @ map (\<lambda>s. ServiceAction (vp_key s) (allowed_or_blocked (vp_live_blocked s))
                   (allowed_or_blocked (vp_desired_blocked s))) (filter vp_drift states)
     @ (if wp_drift bw
        then [BandwidthAction (wp_preset bw) (opt_or (lb_max_limit live) ''unlimited'')
                (if wp_expected_active bw then wp_desired_limit bw else Some ''unlimited'')
                (wp_suspension_reason bw \<noteq> None)]
        else [])
     @ map ServiceBlock unsupported"

text \<open>The arrow of the messages, as its UTF-8 bytes.\<close>

definition arrow :: string where
  "arrow = [CHR 0xE2, CHR 0x86, CHR 0x92]"

definition drift_reasons :: "string \<Rightarrow> string \<Rightarrow> bool \<Rightarrow> bandwidth_plan \<Rightarrow> string list" where
  "drift_reasons live_mode desired_mode service_drift bw =
     (if desired_mode \<noteq> live_mode then [''mode '' @ py_upper live_mode @ arrow @ py_upper desired_mode] else [])
     @ (if service_drift then [''service membership''] else [])
     @ (if wp_drift bw then
          (if wp_expected_active bw
           then [''bandwidth '' @ arrow @ '' '' @ wp_name bw @ '' ('' @ opt_or (wp_desired_limit bw) ''None'' @ '')'']
           else [''remove stale profile bandwidth queue''])
        else [])"

definition plan_reason ::
  "string \<Rightarrow> string \<Rightarrow> string \<Rightarrow> string list \<Rightarrow> string list \<Rightarrow> string list \<Rightarrow> bandwidth_plan \<Rightarrow> string" where
  "plan_reason live_mode desired_mode mode_source reasons unavailable unsupported bw =
     (if live_mode = ''invalid'' then
        ''RouterOS MC enforcement state is inconsistent; effective policy requires '' @ py_upper desired_mode @ ''.''
      else if reasons \<noteq> [] then
        mode_source @ '' differs from live RouterOS: '' @ join_with ''; '' reasons @ ''.''
      else if unavailable \<noteq> [] then
        ''Some requested service blocks have a RouterOS TLS/SNI contract problem and were not treated as safely enforceable.''
      else if unsupported \<noteq> [] then
        ''All live RouterOS-backed controls match; one or more custom service definitions still lack a trustworthy enforcement contract.''
      else (case wp_suspension_reason bw of
          Some r \<Rightarrow> ''RouterOS controls match. '' @ wp_name bw @ '' bandwidth is suspended by '' @ r @ ''.''
        | None \<Rightarrow> ''RouterOS mode, bandwidth and RouterOS-backed services match the effective policy from ''
                  @ mode_source @ ''.''))"

definition temporary_reason :: "temporary_access \<Rightarrow> string" where
  "temporary_reason ta =
     ''Temporary NORMAL override is authoritative; RouterOS will restore ''
     @ py_upper (opt_or (ta_restore_mode ta) ''unknown'') @ '' at ''
     @ opt_or (ta_restore_time ta) (opt_or (ta_restore_at ta) ''scheduled expiry'') @ ''.''"

text \<open>The plan of a device without a temporary override.\<close>

definition plan_common ::
  "string \<Rightarrow> effective_policy \<Rightarrow> string \<Rightarrow> string \<Rightarrow> string \<Rightarrow> live_services \<Rightarrow> live_bandwidth
   \<Rightarrow> bandwidth_plan \<Rightarrow> catalog \<Rightarrow> device_plan" where
  "plan_common address policy desired_mode live_mode global_mode live lbw bw catalog =
     (let supported = dict_keys catalog;
          mode_source = str_or (ep_mode_source policy) ''default'';
          blocked = sorted_set (map norm_key (ep_blocked_services policy));
          desired_supported = sorted_set (filter (\<lambda>k. k \<in> set supported) blocked);
          unsupported = sorted_set (filter (\<lambda>k. k \<notin> set supported) blocked
                                    @ clean_keys (ep_unsupported_policy_keys policy));
          live_supported = sorted_set (filter (\<lambda>k. k \<in> set supported) (ls_blocked_services live));
          states = map (plan_service desired_supported live) catalog;
          service_drift = list_ex vp_drift states;
          unavailable = map vp_key (filter (\<lambda>s. vp_desired_blocked s \<and> \<not> vp_available s) states);
          mode_drift = (desired_mode \<noteq> live_mode);
          drift = (mode_drift \<or> service_drift \<or> wp_drift bw)
      in \<lparr> dp_address = address, dp_policy = policy, dp_desired_mode = desired_mode,
           dp_live_mode = live_mode, dp_mode_source = mode_source, dp_global_mode = global_mode,
           dp_bandwidth = bw, dp_live_bandwidth = lbw, dp_blocked_services = blocked,
           dp_requested_blocked_services =
             (if ep_requested_blocked_services policy = [] then blocked
              else ep_requested_blocked_services policy),
           dp_desired_supported = desired_supported,
           dp_desired_service_names = map vp_name (filter vp_desired_blocked states),
           dp_live_supported = live_supported, dp_unsupported = unsupported,
           dp_unavailable_desired = sort unavailable, dp_service_states = states,
           dp_conflicts = ep_conflicts policy,
           dp_status = (if drift then ''drift''
                        else if unavailable \<noteq> [] \<or> unsupported \<noteq> [] then ''partial'' else ''in_sync''),
           dp_temporary_override = False, dp_mode_drift = mode_drift,
           dp_service_drift = service_drift, dp_bandwidth_drift = wp_drift bw,
           dp_policy_actionable = drift, dp_mode_actionable = mode_drift,
           dp_service_actionable = service_drift, dp_bandwidth_actionable = wp_drift bw,
           dp_reason = plan_reason live_mode desired_mode mode_source
             (drift_reasons live_mode desired_mode service_drift bw) unavailable unsupported bw,
           dp_planned_actions = plan_actions live_mode desired_mode states bw lbw unsupported \<rparr>)"

text \<open>An active temporary override is authoritative: nothing drifts and nothing is planned.\<close>

definition under_temporary :: "temporary_access \<Rightarrow> device_plan \<Rightarrow> device_plan" where
  "under_temporary ta plan =
     plan\<lparr> dp_status := ''temporary'', dp_temporary_override := True,
           dp_mode_drift := False, dp_service_drift := False, dp_bandwidth_drift := False,
           dp_policy_actionable := False, dp_mode_actionable := False,
           dp_service_actionable := False, dp_bandwidth_actionable := False,
           dp_reason := temporary_reason ta, dp_planned_actions := [] \<rparr>"

definition active_temporary :: "temporary_access option \<Rightarrow> temporary_access option" where
  "active_temporary t = (case t of Some ta \<Rightarrow> if ta_active ta then Some ta else None | None \<Rightarrow> None)"

definition plan_catalog :: "catalog \<Rightarrow> catalog" where
  "plan_catalog catalog = (if catalog = [] then SERVICE_ENFORCEMENT else catalog)"

definition plan_live :: "live_services option \<Rightarrow> live_services" where
  "plan_live l = (case l of Some x \<Rightarrow> x | None \<Rightarrow> no_live_services)"

definition plan_live_bandwidth :: "live_bandwidth option \<Rightarrow> live_bandwidth" where
  "plan_live_bandwidth l = (case l of Some x \<Rightarrow> x | None \<Rightarrow> no_live_bandwidth)"

definition build_device_policy_plan ::
  "string \<Rightarrow> effective_policy \<Rightarrow> live_enforcement \<Rightarrow> temporary_access option \<Rightarrow> live_services option
   \<Rightarrow> live_bandwidth option \<Rightarrow> string \<Rightarrow> catalog \<Rightarrow> device_plan res" where
  "build_device_policy_plan address policy live_enf temporary services bandwidth global_mode0 catalog =
     (let desired_mode = norm_key (ep_mode policy);
          global_mode = norm_key (str_or global_mode0 ''normal'');
          lbw = plan_live_bandwidth bandwidth
      in if desired_mode \<notin> set VALID_MODES then
           Inl (PolicyPlanError (''Invalid desired mode '' @ sq desired_mode @ '' for '' @ address))
         else if global_mode \<notin> set VALID_MODES then
           Inl (PolicyPlanError (''Invalid global RouterOS mode '' @ sq global_mode @ '' while planning '' @ address))
         else ebind (plan_bandwidth address policy desired_mode global_mode lbw) (\<lambda>bw.
           let plan = plan_common address policy desired_mode (norm_key (le_mode live_enf)) global_mode
                        (plan_live services) lbw bw (plan_catalog catalog)
           in Inr (case active_temporary temporary of Some ta \<Rightarrow> under_temporary ta plan | None \<Rightarrow> plan)))"

section \<open>The parts of a plan\<close>

lemma plan_Inr:
  assumes "build_device_policy_plan a pol le t ls lb g cat = Inr p"
  obtains bw where
    "norm_key (ep_mode pol) \<in> set VALID_MODES" "norm_key (str_or g ''normal'') \<in> set VALID_MODES"
    "plan_bandwidth a pol (norm_key (ep_mode pol)) (norm_key (str_or g ''normal'')) (plan_live_bandwidth lb) = Inr bw"
    "p = (let c = plan_common a pol (norm_key (ep_mode pol)) (norm_key (le_mode le)) (norm_key (str_or g ''normal''))
                    (plan_live ls) (plan_live_bandwidth lb) bw (plan_catalog cat)
          in case active_temporary t of Some ta \<Rightarrow> under_temporary ta c | None \<Rightarrow> c)"
  using assms by (auto simp: build_device_policy_plan_def Let_def ebind_eq_Inr split: if_splits)

definition desired_in :: "effective_policy \<Rightarrow> catalog \<Rightarrow> string list" where
  "desired_in pol cat = sorted_set (filter (\<lambda>k. k \<in> set (dict_keys cat))
     (sorted_set (map norm_key (ep_blocked_services pol))))"

lemma set_desired_in:
  "set (desired_in pol cat) = norm_key ` set (ep_blocked_services pol) \<inter> set (dict_keys cat)"
  by (auto simp: desired_in_def)

lemma plan_common_fields:
  fixes a pol dm lm g live lbw bw cat
  defines "c \<equiv> plan_common a pol dm lm g live lbw bw cat"
  shows "dp_desired_mode c = dm" "dp_live_mode c = lm" "dp_bandwidth c = bw"
    "dp_desired_supported c = desired_in pol cat"
    "dp_service_states c = map (plan_service (desired_in pol cat) live) cat"
    "dp_mode_drift c = (dm \<noteq> lm)"
    "dp_service_drift c = (\<exists>s \<in> set (dp_service_states c). vp_drift s)"
    "dp_bandwidth_drift c = wp_drift bw"
    "dp_policy_actionable c = (dp_mode_drift c \<or> dp_service_drift c \<or> dp_bandwidth_drift c)"
    "dp_mode_actionable c = dp_mode_drift c" "dp_service_actionable c = dp_service_drift c"
    "dp_bandwidth_actionable c = dp_bandwidth_drift c"
    "dp_temporary_override c = False"
    "dp_planned_actions c = plan_actions lm dm (dp_service_states c) bw lbw (dp_unsupported c)"
    "set (dp_unsupported c) = norm_key ` set (ep_blocked_services pol) - set (dict_keys cat)
        \<union> set (clean_keys (ep_unsupported_policy_keys pol))"
    "set (dp_unavailable_desired c) = {vp_key s |s. s \<in> set (dp_service_states c) \<and> vp_desired_blocked s \<and> \<not> vp_available s}"
  by (auto simp: c_def plan_common_def Let_def desired_in_def list_ex_iff)

lemma plan_common_status:
  "dp_status (plan_common a pol dm lm g live lbw bw cat) =
     (let c = plan_common a pol dm lm g live lbw bw cat in
      if dp_policy_actionable c then ''drift''
      else if dp_unavailable_desired c \<noteq> [] \<or> dp_unsupported c \<noteq> [] then ''partial'' else ''in_sync'')"
proof -
  have "sort xs = [] \<longleftrightarrow> xs = []" for xs :: "string list" by (metis set_empty set_sort)
  then show ?thesis by (simp add: plan_common_def Let_def)
qed

section \<open>What a plan promises\<close>

definition service_available :: "live_services \<Rightarrow> string \<Rightarrow> bool" where
  "service_available live k = (case map_of (ls_services live) k of None \<Rightarrow> True | Some s \<Rightarrow> lv_available s)"

definition service_blocked :: "live_services \<Rightarrow> string \<Rightarrow> bool" where
  "service_blocked live k = (case map_of (ls_services live) k of None \<Rightarrow> False | Some s \<Rightarrow> lv_blocked s)"

lemma plan_service_fields:
  "vp_key (plan_service ds live kv) = fst kv"
  "vp_available (plan_service ds live kv) = service_available live (fst kv)"
  "vp_desired_blocked (plan_service ds live kv) = (fst kv \<in> set ds)"
  "vp_live_blocked (plan_service ds live kv) = service_blocked live (fst kv)"
  "vp_drift (plan_service ds live kv) = (service_available live (fst kv) \<and> (fst kv \<in> set ds) \<noteq> service_blocked live (fst kv))"
  by (simp_all add: plan_service_def service_available_def service_blocked_def Let_def case_prod_beta)

definition bandwidth_matches :: "effective_policy \<Rightarrow> string \<Rightarrow> live_bandwidth \<Rightarrow> bool" where
  "bandwidth_matches pol global live =
     (if norm_key (str_or (ep_bandwidth_preset pol) ''normal'') \<noteq> ''normal''
         \<and> norm_key (ep_mode pol) = ''normal'' \<and> norm_key (str_or global ''normal'') = ''normal''
      then lb_active live \<and> lb_valid live
           \<and> (\<exists>l. build_max_limit (str_or (ep_bandwidth_upload pol) ''Unlimited'')
                     (str_or (ep_bandwidth_download pol) ''Unlimited'') = Inr l
                \<and> limits_equal (lb_max_limit live) (Some l))
      else \<not> lb_active live)"

text \<open>The abstract meaning of \<^emph>\<open>in sync\<close>.\<close>

definition live_matches ::
  "effective_policy \<Rightarrow> string \<Rightarrow> live_services \<Rightarrow> live_bandwidth \<Rightarrow> string \<Rightarrow> catalog \<Rightarrow> bool" where
  "live_matches pol live_mode live lbw global cat =
     (norm_key (ep_mode pol) = live_mode
      \<and> (\<forall>k \<in> set (dict_keys cat). service_available live k \<longrightarrow>
           service_blocked live k = (k \<in> norm_key ` set (ep_blocked_services pol)))
      \<and> bandwidth_matches pol global lbw)"

lemma plan_bandwidth_Inr:
  assumes "plan_bandwidth a pol dm gm lbw = Inr bw"
  shows "wp_preset bw = norm_key (str_or (ep_bandwidth_preset pol) ''normal'')"
    and "wp_expected_active bw = (wp_preset bw \<noteq> ''normal'' \<and> dm = ''normal'' \<and> gm = ''normal'')"
    and "wp_preset bw \<noteq> ''normal'' \<Longrightarrow> \<exists>l. wp_desired_limit bw = Some l
        \<and> build_max_limit (str_or (ep_bandwidth_upload pol) ''Unlimited'') (str_or (ep_bandwidth_download pol) ''Unlimited'') = Inr l"
    and "wp_drift bw = (if wp_expected_active bw
        then \<not> lb_active lbw \<or> \<not> lb_valid lbw \<or> \<not> limits_equal (lb_max_limit lbw) (wp_desired_limit bw) else lb_active lbw)"
    and "wp_suspension_reason bw \<noteq> None \<longleftrightarrow> wp_preset bw \<noteq> ''normal'' \<and> \<not> wp_expected_active bw"
  using assms by (auto simp: plan_bandwidth_def Let_def ebind_eq_Inr split: if_splits sum.splits exc.splits)

lemma bandwidth_matches_drift:
  assumes "plan_bandwidth a pol (norm_key (ep_mode pol)) (norm_key (str_or g ''normal'')) lbw = Inr bw"
  shows "bandwidth_matches pol g lbw \<longleftrightarrow> \<not> wp_drift bw"
  using plan_bandwidth_Inr [OF assms] by (auto simp: bandwidth_matches_def)

lemma live_matches_actionable:
  assumes "plan_bandwidth a pol (norm_key (ep_mode pol)) (norm_key (str_or g ''normal'')) lbw = Inr bw"
  shows "dp_policy_actionable (plan_common a pol (norm_key (ep_mode pol)) lm gm live lbw bw cat)
    \<longleftrightarrow> \<not> live_matches pol lm live lbw g cat"
  using bandwidth_matches_drift [OF assms]
  by (auto simp: plan_common_fields plan_service_fields live_matches_def set_desired_in dict_keys_def)


text \<open>An active temporary override is authoritative, whatever the live state is.\<close>

theorem temporary_override_plans_nothing:
  assumes "build_device_policy_plan a pol le (Some ta) ls lb g cat = Inr p" "ta_active ta"
  shows "dp_status p = ''temporary'' \<and> dp_planned_actions p = [] \<and> \<not> dp_policy_actionable p
    \<and> \<not> dp_mode_actionable p \<and> \<not> dp_service_actionable p \<and> \<not> dp_bandwidth_actionable p"
  by (rule plan_Inr [OF assms(1)]) (simp add: assms(2) Let_def active_temporary_def under_temporary_def)

section \<open>Carrying out a plan\<close>

text \<open>The effect of one planned action on an ideal router: live mode, services, bandwidth.\<close>

type_synonym ideal = "string \<times> live_services \<times> live_bandwidth"

definition set_service :: "string \<Rightarrow> bool \<Rightarrow> live_services \<Rightarrow> live_services" where
  "set_service k b live =
     (let s = (case map_of (ls_services live) k of Some s \<Rightarrow> s
               | None \<Rightarrow> \<lparr> lv_name = k, lv_available = True, lv_error = None, lv_blocked = False, lv_entries = 0 \<rparr>)
      in live\<lparr> ls_services := AList.update k (s\<lparr> lv_blocked := b \<rparr>) (ls_services live) \<rparr>)"

definition carry_out :: "planned_action \<Rightarrow> ideal \<Rightarrow> ideal" where
  "carry_out act st = (case st of (mode, live, bw) \<Rightarrow>
     (case act of
        ModeAction _ m \<Rightarrow> (m, live, bw)
      | ServiceAction k _ t \<Rightarrow> (mode, set_service k (t = ''blocked'') live, bw)
      | BandwidthAction _ _ limit _ \<Rightarrow>
          (mode, live, if limit = Some ''unlimited'' then bw\<lparr> lb_active := False \<rparr>
                       else bw\<lparr> lb_active := True, lb_valid := True, lb_max_limit := limit \<rparr>)
      | ServiceBlock _ \<Rightarrow> (mode, live, bw)))"

lemma set_service_iff:
  "service_available (set_service k b live) j = service_available live j"
  "service_blocked (set_service k b live) j = (if j = k then b else service_blocked live j)"
  by (auto simp: set_service_def service_available_def service_blocked_def Let_def update_conv' split: option.splits)

lemma carry_out_simps:
  "carry_out (ModeAction l m) (mode, live, bw) = (m, live, bw)"
  "carry_out (ServiceAction k l (allowed_or_blocked b)) (mode, live, bw) = (mode, set_service k b live, bw)"
  "carry_out (BandwidthAction x y limit z) (mode, live, bw) =
     (mode, live, if limit = Some ''unlimited'' then bw\<lparr> lb_active := False \<rparr>
                  else bw\<lparr> lb_active := True, lb_valid := True, lb_max_limit := limit \<rparr>)"
  by (simp_all add: carry_out_def allowed_or_blocked_def)

lemma carry_out_services:
  fixes ss :: "service_plan list"
  shows "distinct (map vp_key ss) \<Longrightarrow>
   fold carry_out (map (\<lambda>s. ServiceAction (vp_key s) (f s) (allowed_or_blocked (vp_desired_blocked s))) ss) (m, live, bw)
     = (m, live', bw) \<Longrightarrow>
   service_available live' j = service_available live j
   \<and> service_blocked live' j = (case find (\<lambda>s. vp_key s = j) ss of Some s \<Rightarrow> vp_desired_blocked s | None \<Rightarrow> service_blocked live j)"
proof (induction ss arbitrary: live)
  case (Cons s ss)
  let ?l = "set_service (vp_key s) (vp_desired_blocked s) live"
  have r: "fold carry_out (map (\<lambda>s. ServiceAction (vp_key s) (f s) (allowed_or_blocked (vp_desired_blocked s))) ss)
      (m, ?l, bw) = (m, live', bw)"
    using Cons.prems(2) by (simp add: carry_out_simps)
  have n: "find (\<lambda>t. vp_key t = vp_key s) ss = None"
    using Cons.prems(1) by (auto simp: find_None_iff image_iff)
  show ?case using Cons.IH [OF _ r] Cons.prems(1) n by (auto simp: set_service_iff split: option.splits)
qed simp

lemma built_limit_not_unlimited: "build_max_limit u d = Inr l \<Longrightarrow> l \<noteq> ''unlimited''"
proof -
  assume "build_max_limit u d = Inr l"
  then have "CHR ''/'' \<in> set l" by (auto simp: build_max_limit_def ebind_eq_Inr)
  then show ?thesis by auto
qed

lemma carry_out_services_shape:
  fixes ss :: "service_plan list"
  shows "\<exists>live'. fold carry_out (map (\<lambda>s. ServiceAction (vp_key s) (f s) (t s)) ss) (m, live, bw) = (m, live', bw)"
  by (induction ss arbitrary: live) (auto simp: carry_out_def)

lemma carry_out_unsupported: "fold carry_out (map ServiceBlock us) st = st"
  by (induction us) (auto simp: carry_out_def split: prod.splits)


section \<open>Policies computed from a valid store can be planned\<close>

definition plain_modes :: "string set" where
  "plain_modes = {''normal'', ''slow'', ''blocked''}"

text \<open>What the save operations of the store validate: modes, quota actions and presets.\<close>

definition store_valid :: "store \<Rightarrow> bool" where
  "store_valid st =
     ((\<forall>p \<in> set (st_profiles st). pf_desired_mode p \<in> plain_modes \<and> pf_daily_quota_action p \<in> plain_modes)
      \<and> (\<forall>d \<in> set (st_devices st). dv_mode_override (snd d) \<in> insert ''inherit'' plain_modes)
      \<and> (\<forall>t \<in> set (st_templates st). \<forall>e \<in> set (tp_entries t). te_mode e \<in> plain_modes)
      \<and> (\<forall>b \<in> set (st_presets st). norm_key (bp_key b) \<noteq> ''normal'' \<longrightarrow>
           (\<exists>l. build_max_limit (str_or (bp_upload b) ''Unlimited'') (str_or (bp_download b) ''Unlimited'') = Inr l)))"

lemma plain_modes_norm: "m \<in> plain_modes \<Longrightarrow> norm_key m \<in> set VALID_MODES"
proof -
  have "norm_key ''normal'' = ''normal''" "norm_key ''slow'' = ''slow''" "norm_key ''blocked'' = ''blocked''"
    by code_simp+
  then show "m \<in> plain_modes \<Longrightarrow> norm_key m \<in> set VALID_MODES" by (auto simp: plain_modes_def VALID_MODES_def)
qed

lemma profile_of_mem: "profile_of st pid = Some p \<Longrightarrow> p \<in> set (st_profiles st)"
  by (auto simp: profile_of_def get_profile_def dest: find_Some_mem split: option.splits)

lemma base_policy_plain:
  assumes "store_valid st" "cfg = map_of (st_devices st) ip" "profile = profile_of st pid"
  shows "fst (base_policy cfg profile) \<in> plain_modes"
proof (cases "device_mode_override cfg = ''inherit''")
  case True
  show ?thesis
  proof (cases profile)
    case None
    then show ?thesis using True by (simp add: base_policy_def plain_modes_def)
  next
    case (Some p)
    then have "p \<in> set (st_profiles st)" using assms(3) by (simp add: profile_of_mem)
    then show ?thesis using True Some assms(1) by (simp add: base_policy_def store_valid_def)
  qed
next
  case False
  then obtain d where d: "cfg = Some d" by (cases cfg) (auto simp: device_mode_override_def)
  then have "(ip, d) \<in> set (st_devices st)" using assms(2) by (simp add: map_of_SomeD)
  then have "dv_mode_override d \<in> insert ''inherit'' plain_modes" using assms(1) by (auto simp: store_valid_def)
  then show ?thesis using False d by (simp add: base_policy_def device_mode_override_def Let_def)
qed

lemma mode_schedule_plain:
  assumes "resolve_regular_schedule st z ip pid at = Inr (Some c, ss, nr)"
  shows "cd_value c \<in> plain_modes"
proof -
  obtain past where p: "schedule_occurrences st z ip pid at False = Inr past"
    and s: "select_schedule_candidate z (filter (\<lambda>c. cd_action_type c = ''mode'') past) ''mode'' = Inr (Some c)"
    by (rule resolve_regular_schedule_Inr [OF assms])
  have c: "c \<in> set past" "cd_action_type c = ''mode''" using select_mem [OF s] by auto
  obtain plan where "cd_action_type c = sp_action_type plan" "\<exists>k s. plan_action st plan = Inr (cd_value c, k, s)"
    using schedule_occurrences_sound [OF p c(1)] by blast
  then show ?thesis
    using c(2) by (auto simp: plan_action_def validate_mode_def plain_modes_def ebind_eq_Inr split: if_splits)
qed

lemma template_candidate_plain:
  assumes "template_candidates z t at s e fut = Inr cs" "c \<in> set cs"
  shows "\<exists>en \<in> set (tp_entries t). cd_value c = te_mode en"
proof -
  let ?es = "zip (map int [0..<length (tp_entries t)]) (tp_entries t)"
  obtain css where css: "emap (entry_occurrences z at s e fut t) ?es = Inr css" "cs = concat css"
    using assms(1) by (auto simp: template_candidates_def ebind_eq_Inr)
  then obtain xs where xs: "xs \<in> set css" "c \<in> set xs" using assms(2) by auto
  obtain ie where ie: "ie \<in> set ?es" "entry_occurrences z at s e fut t ie = Inr xs"
    using emap_Inr_set [OF css(1) xs(1)] by blast
  obtain h m where "offsets_loop z at fut (\<lambda>day. s \<le> day \<and> day \<le> e \<and> weekday_code day \<in> set (te_days (snd ie))) h m
            (\<lambda>occurrence wall.
               \<lparr> cd_id = fst ie, cd_label = tp_name t, cd_occurrence = occurrence,
                 cd_specificity = 4, cd_target_type = ''template'', cd_action_type = ''mode'',
                 cd_value = te_mode (snd ie), cd_service_key = None, cd_state = None,
                 cd_requested_time = te_time (snd ie), cd_wall_resolution = wall \<rparr>)
            day_offsets = Inr xs"
    using ie(2) by (auto simp: entry_occurrences_def split: option.splits)
  from offsets_loop_Inr [OF this xs(2)] have "cd_value c = te_mode (snd ie)" by auto
  moreover have "snd ie \<in> set (tp_entries t)" using ie(1) by (metis prod.collapse set_zip_rightD)
  ultimately show ?thesis by blast
qed

lemma exception_template_plain:
  assumes "store_valid st" "resolve_exception_template st z ex at = Inr (t, Some c, n)"
  shows "cd_value c \<in> plain_modes"
proof -
  obtain past where t: "find (\<lambda>t. Some (tp_id t) = de_template_id ex) (st_templates st) = Some t"
    and p: "template_candidates z t at (de_start_date ex) (de_end_date ex) False = Inr past"
    and s: "select_schedule_candidate z past ''template mode'' = Inr (Some c)"
    using assms(2) by (auto simp: resolve_exception_template_def ebind_eq_Inr split: option.splits)
  have "t \<in> set (st_templates st)" using find_Some_mem [OF t] by simp
  moreover obtain en where "en \<in> set (tp_entries t)" "cd_value c = te_mode en"
    using template_candidate_plain [OF p select_mem [OF s]] by blast
  ultimately show ?thesis using assms(1) by (auto simp: store_valid_def)
qed

lemma mode_phase_plain:
  assumes "store_valid st" "bm \<in> plain_modes" "\<And>c. ms = Some c \<Longrightarrow> cd_value c \<in> plain_modes"
    "mode_phase st z at bm bs ms nr ex = Inr (mode, source, reason, nxt)"
  shows "mode \<in> plain_modes"
proof (cases ex)
  case None
  then show ?thesis using assms by (cases ms) (auto simp: mode_phase_def Let_def)
next
  case (Some e)
  consider (fixed) "de_mode e \<in> plain_modes" | (template) "de_mode e = ''template''"
    | (other) "de_mode e \<notin> plain_modes" "de_mode e \<noteq> ''template''" by blast
  then show ?thesis
  proof cases
    case fixed
    then show ?thesis using assms(4) Some by (auto simp: mode_phase_def Let_def ebind_eq_Inr plain_modes_def)
  next
    case template
    then have "de_mode e \<notin> {''normal'', ''slow'', ''blocked''}" by simp
    note ph = assms(4) [unfolded Some mode_phase_def option.case if_not_P [OF this] if_P [OF template] ebind_eq_Inr]
    then obtain t cur tn where r: "resolve_exception_template st z e at = Inr (t, cur, tn)" by auto
    show ?thesis
    proof (cases cur)
      case None
      then have "mode = bm" using ph r by (auto simp: ebind_eq_Inr Let_def split: option.splits)
      then show ?thesis using assms(2) by simp
    next
      case (Some c)
      then have "mode = cd_value c" using ph r by (auto simp: ebind_eq_Inr Let_def split: option.splits)
      then show ?thesis using exception_template_plain [OF assms(1) r [unfolded Some]] by simp
    qed
  next
    case other
    then show ?thesis using assms(2,4) Some by (simp add: mode_phase_def plain_modes_def)
  qed
qed

lemma quota_action_plain:
  assumes "evaluate_quota_state st profile m blocked usage groups = (q, m', b', src)"
    and "m \<in> plain_modes" "\<And>p. profile = Some p \<Longrightarrow> pf_daily_quota_action p \<in> plain_modes"
  shows "m' \<in> plain_modes"
proof -
  have "m' = m \<or> m' = (case profile of None \<Rightarrow> ''blocked'' | Some p \<Rightarrow> pf_daily_quota_action p)"
    using assms(1) unfolding evaluate_quota_state_def Let_def by (simp split: if_splits option.splits)
  then show ?thesis using assms(2,3) by (cases profile) (auto simp: plain_modes_def)
qed

lemma effective_mode_plain:
  assumes "store_valid st" "compute_effective_policy st env ip at usage supported = Inr p"
  shows "ep_mode p \<in> plain_modes"
    and "\<exists>b \<in> set (st_presets st). bp_key b = ep_bandwidth_preset p \<and> ep_bandwidth_upload p = bp_upload b
           \<and> ep_bandwidth_download p = bp_download b"
proof -
  let ?cfg = "map_of (st_devices st) ip"
  let ?pid = "case ?cfg of None \<Rightarrow> None | Some d \<Rightarrow> dv_profile_id d"
  let ?prof = "profile_of st ?pid"
  obtain details policy_at z tz res ms ss nr ex mode source reason nxt nc bandwidth where
    bp: "get_bandwidth_preset st bandwidth = Some details"
    and rr: "resolve_regular_schedule st z ip ?pid policy_at = Inr (ms, ss, nr)"
    and ph: "mode_phase st z policy_at (fst (base_policy ?cfg ?prof)) (snd (base_policy ?cfg ?prof)) ms nr ex
       = Inr (mode, source, reason, nxt)"
    and p: "p = assemble_policy st z ?cfg ?prof details bandwidth policy_at tz res ms ss ex (mode, source, reason) nc usage
           (case supported of Some ks \<Rightarrow> ks | None \<Rightarrow> routeros_supported_service_keys st)"
    by (rule policy_from_context_Inr [OF compute_Inr [OF assms(2)]])
  obtain q m' b' src blocked where e: "evaluate_quota_state st ?prof mode blocked usage (policy_group_catalog st) = (q, m', b', src)"
    and r: "ep_mode p = m'" "ep_bandwidth_preset p = bandwidth" "ep_bandwidth_upload p = bp_upload details"
      "ep_bandwidth_download p = bp_download details"
    by (rule assemble_quota [OF p])
  have "mode \<in> plain_modes"
    by (rule mode_phase_plain [OF assms(1) base_policy_plain [OF assms(1) refl refl] _ ph])
       (use mode_schedule_plain rr in blast)
  moreover have "pf_daily_quota_action pr \<in> plain_modes" if "?prof = Some pr" for pr
    using profile_of_mem [OF that] assms(1) by (simp add: store_valid_def)
  ultimately show "ep_mode p \<in> plain_modes" using quota_action_plain [OF e] r(1) by simp
  show "\<exists>b \<in> set (st_presets st). bp_key b = ep_bandwidth_preset p \<and> ep_bandwidth_upload p = bp_upload b
           \<and> ep_bandwidth_download p = bp_download b"
    using find_Some_mem bp r by (fastforce simp: get_bandwidth_preset_def)
qed

text \<open>The planner never rejects a policy that the resolver produced from a validated store.\<close>

lemma valid_store_plans:
  assumes "store_valid st" "compute_effective_policy st env ip at usage supported = Inr p"
    "norm_key (str_or global ''normal'') \<in> set VALID_MODES"
  shows "\<exists>plan. build_device_policy_plan ip p le t ls lb global cat = Inr plan"
proof -
  have m: "norm_key (ep_mode p) \<in> set VALID_MODES"
    using effective_mode_plain(1) [OF assms(1,2)] by (rule plain_modes_norm)
  obtain b where b: "b \<in> set (st_presets st)" "bp_key b = ep_bandwidth_preset p"
    "ep_bandwidth_upload p = bp_upload b" "ep_bandwidth_download p = bp_download b"
    using effective_mode_plain(2) [OF assms(1,2)] by blast
  have "norm_key (str_or (ep_bandwidth_preset p) ''normal'') \<noteq> ''normal'' \<Longrightarrow>
     \<exists>l. build_max_limit (str_or (ep_bandwidth_upload p) ''Unlimited'') (str_or (ep_bandwidth_download p) ''Unlimited'') = Inr l"
  proof -
    assume n: "norm_key (str_or (ep_bandwidth_preset p) ''normal'') \<noteq> ''normal''"
    have "norm_key ''normal'' = ''normal''" by code_simp
    then have "norm_key (bp_key b) \<noteq> ''normal''" using n b(2) by (auto simp: str_or_def split: if_splits)
    then show ?thesis using assms(1) b by (auto simp: store_valid_def)
  qed
  then obtain bw where "plan_bandwidth ip p (norm_key (ep_mode p)) (norm_key (str_or global ''normal'')) (plan_live_bandwidth lb) = Inr bw"
    by (cases "norm_key (str_or (ep_bandwidth_preset p) ''normal'') = ''normal''") (auto simp: plan_bandwidth_def Let_def)
  then show ?thesis using m assms(3) by (simp add: build_device_policy_plan_def Let_def)
qed

end
