(* ===== verification/PolicyEngineExamples.thy ===== *)
theory PolicyEngineExamples
  imports PolicyEngine EffectivePolicyExamples
begin

text \<open>
  Plans of a concrete policy against concrete live states: the properties of \<open>PolicyEngine\<close> where
  their hypotheses hold.
\<close>

definition exact_now :: wall_resolution where
  "exact_now = \<lparr> wr_requested_local = 0, wr_resolved_local = (0, 0), wr_adjusted = False, wr_kind = ''current'',
     wr_ambiguous = False, wr_nonexistent = False, wr_shift_minutes = None \<rparr>"

definition sample_effective :: effective_policy where
  "sample_effective =
     \<lparr> ep_mode = ''normal'', ep_mode_source = ''profile: Kids'', ep_base_mode = ''normal'',
       ep_base_mode_source = ''profile: Kids'', ep_bandwidth_preset = ''study'', ep_bandwidth_name = ''Study'',
       ep_bandwidth_upload = ''2M'', ep_bandwidth_download = ''10M'',
       ep_blocked_services = [''roblox'', ''youtube''], ep_requested_blocked_services = [''roblox'', ''youtube''],
       ep_blocked_policy_groups = [], ep_policy_group_states = [], ep_unsupported_policy_keys = [],
       ep_unsupported_policy_group_members = [], ep_base_blocked_services = [''roblox'', ''youtube''],
       ep_scheduled_service_overrides = [], ep_schedule_active = False, ep_schedule_reason = None,
       ep_active_date_exception = None, ep_next_policy_action = None, ep_policy_timezone = ''Europe/London'',
       ep_policy_at = (0, 0), ep_policy_time_resolution = exact_now,
       ep_quota_state = fst (evaluate_quota_state sample_store None ''normal'' [] None []),
       ep_quota_active = False, ep_conflicts = [] \<rparr>"

definition sample_live :: live_enforcement where
  "sample_live = \<lparr> le_mode = ''blocked'', le_blocked_entries = 1, le_slow_entries = 0, le_slow_queues = 0,
     le_slow_limit = None \<rparr>"

definition sample_temporary :: temporary_access where
  "sample_temporary = \<lparr> ta_active = True, ta_restore_mode = Some ''slow'', ta_restore_time = Some ''21:00'',
     ta_restore_at = None, ta_reference = None, ta_minutes = 30 \<rparr>"

lemma sample_plan_built:
  "\<exists>p. build_device_policy_plan ''10.0.0.2'' sample_effective sample_live None None None ''normal'' [] = Inr p
     \<and> dp_status p = ''drift''"
proof -
  have "case build_device_policy_plan ''10.0.0.2'' sample_effective sample_live None None None ''normal'' [] of
      Inr p \<Rightarrow> dp_status p = ''drift'' | Inl _ \<Rightarrow> False"
    by code_simp
  then show ?thesis by (auto split: sum.splits)
qed


theorem temporary_override_plans_nothing_witness:
  "\<exists>p. build_device_policy_plan ''10.0.0.2'' sample_effective sample_live (Some sample_temporary) None None ''normal'' [] = Inr p
     \<and> dp_planned_actions p = []"
proof -
  have "case build_device_policy_plan ''10.0.0.2'' sample_effective sample_live (Some sample_temporary) None None ''normal'' [] of
      Inr p \<Rightarrow> True | Inl _ \<Rightarrow> False"
    by code_simp
  then obtain p where "build_device_policy_plan ''10.0.0.2'' sample_effective sample_live (Some sample_temporary) None None ''normal'' [] = Inr p"
    by (auto split: sum.splits)
  then show ?thesis using temporary_override_plans_nothing by (fastforce simp: sample_temporary_def)
qed


end
