(* ===== verification/RouterApi.thy ===== *)
theory RouterApi
  imports ServiceCatalog
begin

text \<open>
  The RouterOS service as the adapter of \<open>src/app/router.py\<close> uses it. The service itself is not
  part of the program: its operations are a record of functions on an abstract state (\<open>ros\<close>), and
  what the program relies on is the locale \<open>routeros\<close>, the documented behaviour of the API over
  tables: a read returns the matching rows and changes nothing; a write that answers has been
  carried out; a write that fails, at any point and for any reason, may or may not have been
  carried out. The program runs as the only writer (the mutation lane of the adapter).
\<close>

section \<open>Tables\<close>

record fw_rule =
  fr_id :: string
  fr_comment :: string
  fr_chain :: string
  fr_action :: string
  fr_src_address_list :: string
  fr_dst_address_list :: string
  fr_protocol :: string
  fr_dst_port :: string
  fr_address_list :: string
  fr_tls_host :: string
  fr_disabled :: bool

record al_entry =
  al_id :: string
  al_list :: string
  al_address :: string
  al_comment :: string
  al_dynamic :: bool

record simple_queue =
  sq_id :: string
  sq_name :: string
  sq_target :: string
  sq_max_limit :: string
  sq_queue :: string
  sq_comment :: string
  sq_disabled :: bool

record connection =
  cn_id :: string
  cn_src :: string
  cn_dst :: string

record scheduler =
  sc_id :: string
  sc_name :: string
  sc_comment :: string
  sc_start_date :: string
  sc_start_time :: string
  sc_interval :: string
  sc_on_event :: string
  sc_policy :: string
  sc_disabled :: bool
  sc_run_count :: string

record script =
  rs_id :: string
  rs_name :: string
  rs_comment :: string
  rs_source :: string
  rs_policy :: string

record tables =
  t_rules :: "fw_rule list"
  t_al :: "al_entry list"
  t_queues :: "simple_queue list"
  t_conns :: "connection list"
  t_scheds :: "scheduler list"
  t_scripts :: "script list"

section \<open>Actions that may raise\<close>

type_synonym ('s, 'a) act = "'s \<Rightarrow> 'a res \<times> 's"

definition rret :: "'a \<Rightarrow> ('s, 'a) act" where
  "rret x s = (Inr x, s)"

definition rraise :: "exc \<Rightarrow> ('s, 'a) act" where
  "rraise e s = (Inl e, s)"

definition rbind :: "('s, 'a) act \<Rightarrow> ('a \<Rightarrow> ('s, 'b) act) \<Rightarrow> ('s, 'b) act" where
  "rbind m f s = (case m s of (Inl e, s') \<Rightarrow> (Inl e, s') | (Inr x, s') \<Rightarrow> f x s')"

definition rlift :: "'a res \<Rightarrow> ('s, 'a) act" where
  "rlift r s = (r, s)"

definition rcatch :: "('s, 'a) act \<Rightarrow> (exc \<Rightarrow> ('s, 'a) act) \<Rightarrow> ('s, 'a) act" where
  "rcatch m h s = (case m s of (Inl e, s') \<Rightarrow> h e s' | (Inr x, s') \<Rightarrow> (Inr x, s'))"

text \<open>\<open>for x in xs: f(x)\<close>.\<close>

fun rfor :: "'x list \<Rightarrow> ('x \<Rightarrow> ('s, unit) act) \<Rightarrow> ('s, unit) act" where
  "rfor [] f = rret ()"
| "rfor (x # xs) f = rbind (f x) (\<lambda>_. rfor xs f)"

fun rmap :: "('x \<Rightarrow> ('s, 'y) act) \<Rightarrow> 'x list \<Rightarrow> ('s, 'y list) act" where
  "rmap f [] = rret []"
| "rmap f (x # xs) = rbind (f x) (\<lambda>y. rbind (rmap f xs) (\<lambda>ys. rret (y # ys)))"

definition rwhen :: "bool \<Rightarrow> ('s, unit) act \<Rightarrow> ('s, unit) act" where
  "rwhen b m = (if b then m else rret ())"

definition exc_text :: "exc \<Rightarrow> string" where
  "exc_text e = (case e of
      ValueError s \<Rightarrow> s | PolicyPlanError s \<Rightarrow> s | BandwidthRateError s \<Rightarrow> s | RouterError s \<Rightarrow> s
    | ReconciliationError s \<Rightarrow> s | BackgroundWorkError s \<Rightarrow> s | ParallelObservationError s \<Rightarrow> s
    | ConfigRevisionConflict s \<Rightarrow> s | KeyError s \<Rightarrow> s | ApiFault s \<Rightarrow> s)"

text \<open>\<open>except RouterError: raise; except Exception as exc: raise RouterError(f"{msg}: {exc}")\<close>.\<close>

definition rwrap :: "string \<Rightarrow> ('s, 'a) act \<Rightarrow> ('s, 'a) act" where
  "rwrap msg m = rcatch m (\<lambda>e. rraise (case e of RouterError t \<Rightarrow> RouterError t
                                        | _ \<Rightarrow> RouterError (msg @ '': '' @ exc_text e)))"

section \<open>The operations of the service\<close>

record 's ros =
  r_connect :: "('s, unit) act"
  r_rules_by_comment :: "string \<Rightarrow> ('s, fw_rule list) act"
  r_rules :: "('s, fw_rule list) act"
  r_al_get :: "string \<Rightarrow> string \<Rightarrow> ('s, al_entry list) act"
  r_al_by_list :: "string \<Rightarrow> ('s, al_entry list) act"
  r_al_add :: "string \<Rightarrow> string \<Rightarrow> string \<Rightarrow> ('s, unit) act"
  r_al_remove :: "string \<Rightarrow> ('s, unit) act"
  r_q_get :: "string \<Rightarrow> ('s, simple_queue list) act"
  r_q_add :: "simple_queue \<Rightarrow> ('s, unit) act"
  r_q_set :: "string \<Rightarrow> (simple_queue \<Rightarrow> simple_queue) \<Rightarrow> ('s, unit) act"
  r_q_remove :: "string \<Rightarrow> ('s, unit) act"
  r_conns :: "('s, connection list) act"
  r_conn_remove :: "string \<Rightarrow> ('s, unit) act"
  r_sched_get :: "string \<Rightarrow> ('s, scheduler list) act"
  r_sched_add :: "scheduler \<Rightarrow> ('s, unit) act"
  r_sched_set :: "string \<Rightarrow> (scheduler \<Rightarrow> scheduler) \<Rightarrow> ('s, unit) act"
  r_sched_remove :: "string \<Rightarrow> ('s, unit) act"
  r_script_get :: "string \<Rightarrow> ('s, script list) act"
  r_script_add :: "script \<Rightarrow> ('s, unit) act"
  r_script_set :: "string \<Rightarrow> (script \<Rightarrow> script) \<Rightarrow> ('s, unit) act"
  r_script_remove :: "string \<Rightarrow> ('s, unit) act"

text \<open>The effect of the writes on the tables. A new row gets an identifier no row has; the program
  never relies on which.\<close>

definition ids_ok :: "tables \<Rightarrow> bool" where
  "ids_ok t = (distinct (map al_id (t_al t)) \<and> [] \<notin> al_id ` set (t_al t)
             \<and> distinct (map sq_id (t_queues t)) \<and> [] \<notin> sq_id ` set (t_queues t))"

definition al_added :: "string \<Rightarrow> string \<Rightarrow> string \<Rightarrow> tables \<Rightarrow> tables \<Rightarrow> bool" where
  "al_added lst addr comment t t' =
     (\<exists>i. i \<noteq> [] \<and> i \<notin> al_id ` set (t_al t)
        \<and> t' = t\<lparr> t_al := t_al t @ [\<lparr> al_id = i, al_list = lst, al_address = addr,
                                     al_comment = comment, al_dynamic = False \<rparr>] \<rparr>)"

definition al_removed :: "string \<Rightarrow> tables \<Rightarrow> tables" where
  "al_removed i t = t\<lparr> t_al := filter (\<lambda>e. al_id e \<noteq> i) (t_al t) \<rparr>"

definition q_added :: "simple_queue \<Rightarrow> tables \<Rightarrow> tables \<Rightarrow> bool" where
  "q_added q t t' =
     (\<exists>i. i \<noteq> [] \<and> i \<notin> sq_id ` set (t_queues t) \<and> t' = t\<lparr> t_queues := t_queues t @ [q\<lparr> sq_id := i \<rparr>] \<rparr>)"

definition q_updated :: "string \<Rightarrow> (simple_queue \<Rightarrow> simple_queue) \<Rightarrow> tables \<Rightarrow> tables" where
  "q_updated i f t = t\<lparr> t_queues := map (\<lambda>q. if sq_id q = i then f q else q) (t_queues t) \<rparr>"

definition q_removed :: "string \<Rightarrow> tables \<Rightarrow> tables" where
  "q_removed i t = t\<lparr> t_queues := filter (\<lambda>q. sq_id q \<noteq> i) (t_queues t) \<rparr>"

definition conn_removed :: "string \<Rightarrow> tables \<Rightarrow> tables" where
  "conn_removed i t = t\<lparr> t_conns := filter (\<lambda>c. cn_id c \<noteq> i) (t_conns t) \<rparr>"

definition sched_added :: "scheduler \<Rightarrow> tables \<Rightarrow> tables \<Rightarrow> bool" where
  "sched_added x t t' =
     (\<exists>i. i \<noteq> [] \<and> i \<notin> sc_id ` set (t_scheds t) \<and> t' = t\<lparr> t_scheds := t_scheds t @ [x\<lparr> sc_id := i \<rparr>] \<rparr>)"

definition sched_updated :: "string \<Rightarrow> (scheduler \<Rightarrow> scheduler) \<Rightarrow> tables \<Rightarrow> tables" where
  "sched_updated i f t = t\<lparr> t_scheds := map (\<lambda>x. if sc_id x = i then f x else x) (t_scheds t) \<rparr>"

definition sched_removed :: "string \<Rightarrow> tables \<Rightarrow> tables" where
  "sched_removed i t = t\<lparr> t_scheds := filter (\<lambda>x. sc_id x \<noteq> i) (t_scheds t) \<rparr>"

definition script_added :: "script \<Rightarrow> tables \<Rightarrow> tables \<Rightarrow> bool" where
  "script_added x t t' =
     (\<exists>i. i \<noteq> [] \<and> i \<notin> rs_id ` set (t_scripts t) \<and> t' = t\<lparr> t_scripts := t_scripts t @ [x\<lparr> rs_id := i \<rparr>] \<rparr>)"

definition script_updated :: "string \<Rightarrow> (script \<Rightarrow> script) \<Rightarrow> tables \<Rightarrow> tables" where
  "script_updated i f t = t\<lparr> t_scripts := map (\<lambda>x. if rs_id x = i then f x else x) (t_scripts t) \<rparr>"

definition script_removed :: "string \<Rightarrow> tables \<Rightarrow> tables" where
  "script_removed i t = t\<lparr> t_scripts := filter (\<lambda>x. rs_id x \<noteq> i) (t_scripts t) \<rparr>"

text \<open>A read and a write against the tables an abstraction function shows.\<close>

definition reads :: "('s \<Rightarrow> tables) \<Rightarrow> ('s, 'a) act \<Rightarrow> (tables \<Rightarrow> 'a) \<Rightarrow> bool" where
  "reads tab m f = (\<forall>s r s'. m s = (r, s') \<longrightarrow> tab s' = tab s \<and> (\<forall>x. r = Inr x \<longrightarrow> x = f (tab s)))"

definition writes :: "('s \<Rightarrow> tables) \<Rightarrow> ('s, unit) act \<Rightarrow> (tables \<Rightarrow> tables \<Rightarrow> bool) \<Rightarrow> bool" where
  "writes tab m step = (\<forall>s r s'. m s = (r, s') \<longrightarrow>
     (if r = Inr () then step (tab s) (tab s') else tab s' = tab s \<or> step (tab s) (tab s')))"

locale routeros =
  fixes api :: "'s ros" and tab :: "'s \<Rightarrow> tables"
  assumes connect: "reads tab (r_connect api) (\<lambda>_. ())"
    and rules_by_comment: "reads tab (r_rules_by_comment api c) (\<lambda>t. filter (\<lambda>r. fr_comment r = c) (t_rules t))"
    and rules: "reads tab (r_rules api) t_rules"
    and al_get: "reads tab (r_al_get api l a) (\<lambda>t. filter (\<lambda>e. al_list e = l \<and> al_address e = a) (t_al t))"
    and al_by_list: "reads tab (r_al_by_list api l) (\<lambda>t. filter (\<lambda>e. al_list e = l) (t_al t))"
    and al_add: "writes tab (r_al_add api l a c) (al_added l a c)"
    and al_remove: "writes tab (r_al_remove api i) (\<lambda>t t'. t' = al_removed i t)"
    and q_get: "reads tab (r_q_get api n) (\<lambda>t. filter (\<lambda>q. sq_name q = n) (t_queues t))"
    and q_add: "writes tab (r_q_add api q) (q_added q)"
    and q_set: "writes tab (r_q_set api i f) (\<lambda>t t'. t' = q_updated i f t)"
    and q_remove: "writes tab (r_q_remove api i) (\<lambda>t t'. t' = q_removed i t)"
    and conns: "reads tab (r_conns api) t_conns"
    and conn_remove: "writes tab (r_conn_remove api i) (\<lambda>t t'. t' = conn_removed i t)"
    and sched_get: "reads tab (r_sched_get api n) (\<lambda>t. filter (\<lambda>x. sc_name x = n) (t_scheds t))"
    and sched_add: "writes tab (r_sched_add api x) (sched_added x)"
    and sched_set: "writes tab (r_sched_set api i g) (\<lambda>t t'. t' = sched_updated i g t)"
    and sched_remove: "writes tab (r_sched_remove api i) (\<lambda>t t'. t' = sched_removed i t)"
    and script_get: "reads tab (r_script_get api n) (\<lambda>t. filter (\<lambda>x. rs_name x = n) (t_scripts t))"
    and script_add: "writes tab (r_script_add api y) (script_added y)"
    and script_set: "writes tab (r_script_set api i h) (\<lambda>t t'. t' = script_updated i h t)"
    and script_remove: "writes tab (r_script_remove api i) (\<lambda>t t'. t' = script_removed i t)"

section \<open>Reasoning about actions\<close>

text \<open>If \<open>P\<close> holds of the tables, then after the action \<open>Q\<close> holds of its result and the tables when
  it returns, and \<open>E\<close> holds of the tables when it raises.\<close>

definition triple ::
  "('s \<Rightarrow> tables) \<Rightarrow> (tables \<Rightarrow> bool) \<Rightarrow> ('s, 'a) act \<Rightarrow> ('a \<Rightarrow> tables \<Rightarrow> bool) \<Rightarrow> (tables \<Rightarrow> bool) \<Rightarrow> bool" where
  "triple tab P m Q E = (\<forall>s r s'. P (tab s) \<and> m s = (r, s') \<longrightarrow>
     (case r of Inr x \<Rightarrow> Q x (tab s') | Inl _ \<Rightarrow> E (tab s')))"

named_theorems wp \<open>rules that push a triple through an action\<close>

lemma triple_weaken:
  "triple tab P' m Q' E' \<Longrightarrow> (\<And>t. P t \<Longrightarrow> P' t) \<Longrightarrow> (\<And>x t. Q' x t \<Longrightarrow> Q x t) \<Longrightarrow> (\<And>t. E' t \<Longrightarrow> E t) \<Longrightarrow> triple tab P m Q E"
  unfolding triple_def by (metis sum.exhaust sum.simps(5,6))

lemma triple_rret [wp]: "(\<And>t. P t \<Longrightarrow> Q x t) \<Longrightarrow> triple tab P (rret x) Q E"
  by (auto simp: triple_def rret_def)

lemma triple_rraise [wp]: "(\<And>t. P t \<Longrightarrow> E t) \<Longrightarrow> triple tab P (rraise e) Q E"
  by (auto simp: triple_def rraise_def)

lemma triple_rlift [wp]: "(\<And>t x. P t \<Longrightarrow> r = Inr x \<Longrightarrow> Q x t) \<Longrightarrow> (\<And>t. P t \<Longrightarrow> E t) \<Longrightarrow> triple tab P (rlift r) Q E"
  by (auto simp: triple_def rlift_def split: sum.splits)

lemma triple_rbind [wp]:
  "triple tab P m R E \<Longrightarrow> (\<And>x. triple tab (R x) (f x) Q E) \<Longrightarrow> triple tab P (rbind m f) Q E"
  unfolding triple_def rbind_def by (fastforce split: prod.splits sum.splits)

lemma triple_rcatch:
  "triple tab P m Q R \<Longrightarrow> (\<And>e. triple tab R (h e) Q E) \<Longrightarrow> triple tab P (rcatch m h) Q E"
  unfolding triple_def rcatch_def by (fastforce split: prod.splits sum.splits)

lemma triple_rwrap [wp]: "triple tab P m Q E \<Longrightarrow> triple tab P (rwrap msg m) Q E"
  unfolding rwrap_def by (rule triple_rcatch) (auto intro: triple_rraise)

lemma triple_rwhen [wp]:
  "triple tab (\<lambda>t. P t \<and> b) m Q E \<Longrightarrow> (\<And>t. P t \<Longrightarrow> \<not> b \<Longrightarrow> Q () t) \<Longrightarrow> triple tab P (rwhen b m) Q E"
  by (auto simp: rwhen_def triple_def rret_def)

lemma triple_if [wp]:
  "(b \<Longrightarrow> triple tab P m Q E) \<Longrightarrow> (\<not> b \<Longrightarrow> triple tab P n Q E) \<Longrightarrow> triple tab P (if b then m else n) Q E"
  by simp

text \<open>What holds of some or of each state an action starts from may be assumed.\<close>

lemma triple_exists: "(\<And>t0. P t0 \<Longrightarrow> triple tab P m Q E) \<Longrightarrow> triple tab P m Q E"
  unfolding triple_def by blast

lemma triple_each: "(\<And>t0. P t0 \<Longrightarrow> triple tab (\<lambda>t. t = t0) m Q E) \<Longrightarrow> triple tab P m Q E"
  unfolding triple_def by blast

text \<open>A loop keeps what every iteration keeps; when it ends, every element has been treated.\<close>

lemma triple_rfor:
  assumes "\<And>x done. x \<in> set xs \<Longrightarrow> triple tab (I done) (f x) (\<lambda>_. I (insert x done)) E"
  shows "triple tab (I d) (rfor xs f) (\<lambda>_. I (d \<union> set xs)) E"
  using assms
proof (induction xs arbitrary: d)
  case Nil
  show ?case by (simp add: triple_rret)
next
  case (Cons x xs)
  have "triple tab (I (insert x d)) (rfor xs f) (\<lambda>_. I (insert x d \<union> set xs)) E"
    by (rule Cons.IH) (simp add: Cons.prems)
  then have "triple tab (I (insert x d)) (rfor xs f) (\<lambda>_. I (d \<union> set (x # xs))) E" by simp
  moreover have "triple tab (I d) (f x) (\<lambda>_. I (insert x d)) E" by (simp add: Cons.prems)
  ultimately show ?case unfolding rfor.simps by (intro triple_rbind)
qed

lemma triple_reads:
  "reads tab m f \<Longrightarrow> (\<And>t. P t \<Longrightarrow> Q (f t) t) \<Longrightarrow> (\<And>t. P t \<Longrightarrow> E t) \<Longrightarrow> triple tab P m Q E"
  unfolding triple_def reads_def by (fastforce split: sum.splits)

lemma triple_writes:
  "writes tab m step \<Longrightarrow> (\<And>t t'. P t \<Longrightarrow> step t t' \<Longrightarrow> Q () t') \<Longrightarrow> (\<And>t t'. P t \<Longrightarrow> t' = t \<or> step t t' \<Longrightarrow> E t')
   \<Longrightarrow> triple tab P m Q E"
  unfolding triple_def writes_def by (fastforce split: sum.splits)

text \<open>Actions that leave the tables as they are.\<close>

definition keeps :: "('s \<Rightarrow> tables) \<Rightarrow> ('s, 'a) act \<Rightarrow> bool" where
  "keeps tab m = (\<forall>s. tab (snd (m s)) = tab s)"

lemma keeps_rules:
  "keeps tab (rret x)" "keeps tab (rraise e)" "keeps tab (rlift r)"
  "keeps tab m \<Longrightarrow> (\<And>x. keeps tab (f x)) \<Longrightarrow> keeps tab (rbind m f)"
  "keeps tab m \<Longrightarrow> keeps tab (rwrap msg m)"
  by (auto simp: keeps_def rret_def rraise_def rlift_def rbind_def rwrap_def rcatch_def
      split: prod.splits sum.splits) (metis snd_conv)+

lemma keeps_reads: "reads tab n g \<Longrightarrow> keeps tab n"
  unfolding keeps_def reads_def by (metis prod.collapse)

lemma keeps_rmap: "(\<And>x. x \<in> set xs \<Longrightarrow> keeps tab (f x)) \<Longrightarrow> keeps tab (rmap f xs)"
  by (induction xs) (auto intro!: keeps_rules)

lemma triple_keeps: "keeps tab m \<Longrightarrow> (\<And>t x. P t \<Longrightarrow> Q x t) \<Longrightarrow> (\<And>t. P t \<Longrightarrow> E t) \<Longrightarrow> triple tab P m Q E"
  unfolding triple_def keeps_def by (auto split: sum.splits) (metis snd_conv)+

text \<open>Reads compose; checks that only read may precede them.\<close>

lemma reads_rret: "reads tab (rret x) (\<lambda>_. x)"
  by (simp add: reads_def rret_def)

lemma reads_rwrap: "reads tab m f \<Longrightarrow> reads tab (rwrap msg m) f"
  unfolding reads_def rwrap_def rcatch_def rraise_def by (fastforce split: prod.splits sum.splits)

lemma reads_bind: "reads tab m f \<Longrightarrow> (\<And>x. reads tab (g x) (h x)) \<Longrightarrow> reads tab (rbind m g) (\<lambda>t. h (f t) t)"
  unfolding reads_def rbind_def by (auto split: prod.splits sum.splits) metis+

lemma reads_after: "keeps tab m \<Longrightarrow> (\<And>x. reads tab (g x) h) \<Longrightarrow> reads tab (rbind m g) h"
  unfolding reads_def rbind_def keeps_def by (auto split: prod.splits sum.splits) (metis snd_conv)+

lemma rbind_rlift [simp]: "rbind (rlift (Inr x)) f = f x" "rbind (rlift (Inl e)) f = rraise e"
  by (simp_all add: fun_eq_iff rbind_def rlift_def rraise_def)

lemma rbind_rret [simp]: "rbind (rret x) f = f x"
  by (simp add: fun_eq_iff rbind_def rret_def)

lemma rbind_rraise [simp]: "rbind (rraise e) f = rraise e"
  by (simp add: fun_eq_iff rbind_def rraise_def)

text \<open>Actions that return, whatever their result: a returning action whose continuation returns
  wherever the first one's postcondition holds.\<close>

definition returns :: "('s \<Rightarrow> tables) \<Rightarrow> (tables \<Rightarrow> bool) \<Rightarrow> ('s, 'a) act \<Rightarrow> bool" where
  "returns tab P m = (\<forall>s. P (tab s) \<longrightarrow> (\<exists>x. fst (m s) = Inr x))"

lemma returns_rret: "returns tab P (rret x)"
  by (simp add: returns_def rret_def)

lemma returns_rbind:
  assumes "returns tab P m" "triple tab P m R E" "\<And>x. returns tab (R x) (f x)"
  shows "returns tab P (rbind m f)"
  unfolding returns_def
proof (intro allI impI)
  fix s assume p: "P (tab s)"
  obtain x s' where m: "m s = (Inr x, s')" using assms(1) p unfolding returns_def by (metis prod.collapse)
  then have "R x (tab s')" using assms(2) p unfolding triple_def by fastforce
  then show "\<exists>y. fst (rbind m f s) = Inr y" using assms(3) m by (auto simp: rbind_def returns_def)
qed

lemma returns_always: "(\<And>s. \<exists>x. fst (m s) = Inr x) \<Longrightarrow> returns tab P m"
  by (simp add: returns_def)

lemma returns_pre: "returns tab P m \<Longrightarrow> (\<And>t. P' t \<Longrightarrow> P t) \<Longrightarrow> returns tab P' m"
  by (auto simp: returns_def)

lemma returns_rwhen: "returns tab P m \<Longrightarrow> returns tab P (rwhen b m)"
  by (simp add: rwhen_def returns_rret)

lemma returns_rwrap: "returns tab P m \<Longrightarrow> returns tab P (rwrap msg m)"
  unfolding returns_def rwrap_def rcatch_def by (fastforce split: prod.splits sum.splits)

lemma returns_rfor: "(\<And>x. x \<in> set xs \<Longrightarrow> returns tab (\<lambda>_. True) (f x)) \<Longrightarrow> returns tab (\<lambda>_. True) (rfor xs f)"
proof (induction xs)
  case (Cons x xs)
  then show ?case unfolding rfor.simps
    by (intro returns_rbind [where R = "\<lambda>_ _. True" and E = "\<lambda>_. True"]) (auto simp: triple_def split: sum.split)
qed (simp add: returns_rret)

end
