(* ===== verification/RouterDevice.thy ===== *)
theory RouterDevice
  imports RouterApi PolicyEngine
begin

text \<open>
  Per-device enforcement on the router (\<open>src/app/router.py\<close>, \<open>RouterOSAdapter\<close>): reading and setting
  the mode, the profile bandwidth queue and the service memberships of one address. Every operation
  is written call by call over the service of \<open>RouterApi\<close>, so it can fail at each of them. The
  adapter's constants, its slow limit, the security posture it reads before a write and whether
  the running session has already proved it are the fields of \<open>adapter\<close>, with the household's zone
  and the clock (the current instant in seconds). The security posture
  (\<open>get_security_posture\<close>) is an action that returns whether enforcement is ready and the failed
  critical checks. Addresses are IPv4 texts; any other text is rejected with one message.
\<close>

section \<open>The adapter\<close>

record 's adapter =
  ad_api :: "'s ros"
  ad_posture :: "('s, bool \<times> string list) act"
  ad_proven :: bool
  ad_slow_limit :: string
  ad_zone :: zone
  ad_now :: "('s, int) act"

definition DEVICE_BLOCK_LIST :: string where "DEVICE_BLOCK_LIST = ''MC_Mode_Blocked''"
definition DEVICE_SLOW_LIST :: string where "DEVICE_SLOW_LIST = ''MC_Mode_Slow''"
definition RESTRICTED_LIST :: string where "RESTRICTED_LIST = ''Restricted_Devices''"
definition DEVICE_BLOCK_RULE_COMMENT :: string where "DEVICE_BLOCK_RULE_COMMENT = ''MC - Per Device Block''"
definition DEVICE_SLOW_QUEUE_PREFIX :: string where "DEVICE_SLOW_QUEUE_PREFIX = ''MC-SLOW-''"
definition DEVICE_BANDWIDTH_QUEUE_PREFIX :: string where "DEVICE_BANDWIDTH_QUEUE_PREFIX = ''MC-BW-''"
definition SMALL_QUEUE :: string where "SMALL_QUEUE = ''default-small/default-small''"

definition dashed :: "string \<Rightarrow> string" where
  "dashed address = map (\<lambda>c. if c = CHR ''.'' then CHR ''-'' else c) address"

definition device_slow_queue_name :: "string \<Rightarrow> string" where
  "device_slow_queue_name address = DEVICE_SLOW_QUEUE_PREFIX @ dashed address"

definition device_bandwidth_queue_name :: "string \<Rightarrow> string" where
  "device_bandwidth_queue_name address = DEVICE_BANDWIDTH_QUEUE_PREFIX @ dashed address"

definition is_octet :: "string \<Rightarrow> bool" where
  "is_octet s = (s \<noteq> [] \<and> length s \<le> 3 \<and> list_all is_digit s \<and> (length s > 1 \<longrightarrow> hd s \<noteq> CHR ''0'')
                 \<and> val_digits s \<le> 255)"

definition validate_ipv4 :: "string \<Rightarrow> string res" where
  "validate_ipv4 address =
     (let s = py_strip address; parts = split_on (CHR ''.'') s in
      if length parts = 4 \<and> list_all is_octet parts then Inr s
      else Inl (RouterError (''Invalid IP address: '' @ address)))"

definition require_policy_write_gate :: "'s adapter \<Rightarrow> ('s, unit) act" where
  "require_policy_write_gate ad =
     (if ad_proven ad then rret ()
      else rbind (ad_posture ad) (\<lambda>(ready, failed).
        if \<not> ready then rraise (RouterError (''RouterOS security posture is not enforcement-ready: ''
             @ str_or (join_with '', '' failed) ''critical hardening check failed''))
        else rret ()))"

definition validate_device_block_primitive :: "'s adapter \<Rightarrow> ('s, unit) act" where
  "validate_device_block_primitive ad =
     rbind (r_rules_by_comment (ad_api ad) DEVICE_BLOCK_RULE_COMMENT) (\<lambda>rules.
       case rules of
         [rule] \<Rightarrow> if fr_disabled rule
                   then rraise (RouterError (sq DEVICE_BLOCK_RULE_COMMENT @ '' exists but is disabled''))
                   else rret ()
       | _ \<Rightarrow> rraise (RouterError (''Expected exactly one '' @ sq DEVICE_BLOCK_RULE_COMMENT @ '' rule, found ''
                @ show_nat (length rules))))"

definition validate_restricted_device :: "'s adapter \<Rightarrow> string \<Rightarrow> ('s, al_entry) act" where
  "validate_restricted_device ad address =
     rbind (r_al_get (ad_api ad) RESTRICTED_LIST address) (\<lambda>entries.
       case filter (\<lambda>e. \<not> al_dynamic e) entries of
         [e] \<Rightarrow> rret e
       | _ \<Rightarrow> rraise (RouterError (address @ '' is not exactly one static '' @ RESTRICTED_LIST @ '' member'')))"

section \<open>Mode\<close>

definition device_mode_of :: "al_entry list \<Rightarrow> al_entry list \<Rightarrow> simple_queue list \<Rightarrow> string" where
  "device_mode_of blocked slow queues =
     (if length blocked = 0 \<and> length slow = 0 \<and> length queues = 0 then ''normal''
      else if length blocked = 1 \<and> length slow = 0 \<and> length queues = 0 then ''blocked''
      else if length blocked = 0 \<and> length slow = 1 \<and> length queues = 1 \<and> \<not> sq_disabled (hd queues) then ''slow''
      else ''invalid'')"

definition get_device_enforcement :: "'s adapter \<Rightarrow> string \<Rightarrow> ('s, live_enforcement) act" where
  "get_device_enforcement ad address0 =
     rbind (rlift (validate_ipv4 address0)) (\<lambda>address.
     rbind (r_connect (ad_api ad)) (\<lambda>_.
     rwrap (''Unable to read device enforcement for '' @ address)
       (rbind (validate_device_block_primitive ad) (\<lambda>_.
        rbind (validate_restricted_device ad address) (\<lambda>_.
        rbind (r_al_get (ad_api ad) DEVICE_BLOCK_LIST address) (\<lambda>blocked.
        rbind (r_al_get (ad_api ad) DEVICE_SLOW_LIST address) (\<lambda>slow.
        rbind (r_q_get (ad_api ad) (device_slow_queue_name address)) (\<lambda>queues.
          rret \<lparr> le_mode = device_mode_of blocked slow queues, le_blocked_entries = length blocked,
                 le_slow_entries = length slow, le_slow_queues = length queues,
                 le_slow_limit = (if length queues = 1 then Some (sq_max_limit (hd queues)) else None) \<rparr>)))))))) "

text \<open>\<open>entry_id = entry.get("id"); if entry_id: remove\<close>.\<close>

definition remove_al_entry :: "'s adapter \<Rightarrow> al_entry \<Rightarrow> ('s, unit) act" where
  "remove_al_entry ad e = rwhen (al_id e \<noteq> []) (r_al_remove (ad_api ad) (al_id e))"

definition remove_queue :: "'s adapter \<Rightarrow> simple_queue \<Rightarrow> ('s, unit) act" where
  "remove_queue ad q = rwhen (sq_id q \<noteq> []) (r_q_remove (ad_api ad) (sq_id q))"

definition remove_list_entries :: "'s adapter \<Rightarrow> string \<Rightarrow> string \<Rightarrow> ('s, unit) act" where
  "remove_list_entries ad lst address =
     rbind (r_al_get (ad_api ad) lst address) (\<lambda>entries. rfor entries (remove_al_entry ad))"

definition remove_queues :: "'s adapter \<Rightarrow> string \<Rightarrow> ('s, unit) act" where
  "remove_queues ad name = rbind (r_q_get (ad_api ad) name) (\<lambda>entries. rfor entries (remove_queue ad))"

definition managed_queue :: "string \<Rightarrow> string \<Rightarrow> string \<Rightarrow> string \<Rightarrow> simple_queue" where
  "managed_queue name address limit comment =
     \<lparr> sq_id = [], sq_name = name, sq_target = address @ ''/32'', sq_max_limit = limit,
       sq_queue = SMALL_QUEUE, sq_comment = comment, sq_disabled = False \<rparr>"

definition set_queue_fields :: "string \<Rightarrow> string \<Rightarrow> string \<Rightarrow> simple_queue \<Rightarrow> simple_queue" where
  "set_queue_fields address limit comment q =
     q\<lparr> sq_target := address @ ''/32'', sq_max_limit := limit, sq_queue := SMALL_QUEUE,
        sq_comment := comment, sq_disabled := False \<rparr>"

text \<open>Update the one queue of a name in place, or remove what is there and add it.\<close>

definition ensure_queue :: "'s adapter \<Rightarrow> string \<Rightarrow> string \<Rightarrow> string \<Rightarrow> string \<Rightarrow> simple_queue list \<Rightarrow> ('s, unit) act" where
  "ensure_queue ad name address limit comment queues =
     (case queues of
        [q] \<Rightarrow> if sq_id q = [] then rraise (KeyError ''id'')
               else r_q_set (ad_api ad) (sq_id q) (set_queue_fields address limit comment)
      | _ \<Rightarrow> rbind (remove_queues ad name) (\<lambda>_. r_q_add (ad_api ad) (managed_queue name address limit comment)))"

definition ensure_list_entry :: "'s adapter \<Rightarrow> string \<Rightarrow> string \<Rightarrow> string \<Rightarrow> al_entry list \<Rightarrow> ('s, unit) act" where
  "ensure_list_entry ad lst address comment entries =
     rwhen (length entries \<noteq> 1)
       (rbind (remove_list_entries ad lst address) (\<lambda>_. r_al_add (ad_api ad) lst address comment))"

definition with_description :: "string \<Rightarrow> string \<Rightarrow> string" where
  "with_description comment description = (if description = [] then comment else comment @ '' - '' @ description)"

definition apply_device_mode :: "'s adapter \<Rightarrow> string \<Rightarrow> string \<Rightarrow> string \<Rightarrow> ('s, unit) act" where
  "apply_device_mode ad address mode description =
     (let slow_queue = device_slow_queue_name address; bandwidth_queue = device_bandwidth_queue_name address in
      if mode = ''normal'' then
        rbind (remove_list_entries ad DEVICE_BLOCK_LIST address) (\<lambda>_.
        rbind (remove_list_entries ad DEVICE_SLOW_LIST address) (\<lambda>_.
          remove_queues ad slow_queue))
      else if mode = ''blocked'' then
        rbind (r_al_get (ad_api ad) DEVICE_BLOCK_LIST address) (\<lambda>blocked.
        rbind (ensure_list_entry ad DEVICE_BLOCK_LIST address
                 (with_description ''MC - Device Block'' description) blocked) (\<lambda>_.
        rbind (remove_list_entries ad DEVICE_SLOW_LIST address) (\<lambda>_.
        rbind (remove_queues ad slow_queue) (\<lambda>_.
          remove_queues ad bandwidth_queue))))
      else
        rbind (r_q_get (ad_api ad) slow_queue) (\<lambda>queues.
        rbind (ensure_queue ad slow_queue address (ad_slow_limit ad)
                 (with_description ''MC - Per Device Slow'' description) queues) (\<lambda>_.
        rbind (r_al_get (ad_api ad) DEVICE_SLOW_LIST address) (\<lambda>slow.
        rbind (ensure_list_entry ad DEVICE_SLOW_LIST address
                 (with_description ''MC - Device Slow'' description) slow) (\<lambda>_.
        rbind (remove_queues ad bandwidth_queue) (\<lambda>_.
          remove_list_entries ad DEVICE_BLOCK_LIST address))))))"

definition set_device_mode :: "'s adapter \<Rightarrow> string \<Rightarrow> string \<Rightarrow> string \<Rightarrow> ('s, live_enforcement) act" where
  "set_device_mode ad address0 mode0 description0 =
     rbind (rlift (validate_ipv4 address0)) (\<lambda>address.
     let mode = norm_key mode0 in
     if mode \<notin> {''normal'', ''slow'', ''blocked''} then
       rraise (RouterError (''Invalid device mode '' @ sq mode @ ''. Expected normal, slow or blocked.''))
     else
       let description = take 60 (py_strip description0) in
       rbind (require_policy_write_gate ad) (\<lambda>_.
       rbind (r_connect (ad_api ad)) (\<lambda>_.
       rbind (rwrap (''Unable to set device '' @ address @ '' to '' @ mode)
                (rbind (validate_device_block_primitive ad) (\<lambda>_.
                 rbind (validate_restricted_device ad address) (\<lambda>_.
                   apply_device_mode ad address mode description)))) (\<lambda>_.
       rbind (get_device_enforcement ad address) (\<lambda>result.
         if le_mode result \<noteq> mode then
           rraise (RouterError (''Requested device mode '' @ sq mode @ '' but router reports ''
             @ sq (le_mode result) @ '' for '' @ address))
         else rret result)))))"

section \<open>Profile bandwidth\<close>

definition some_nonempty :: "string \<Rightarrow> string option" where
  "some_nonempty s = (if s = [] then None else Some s)"

definition py_repr :: "string \<Rightarrow> string" where
  "py_repr s = sq s"

definition bandwidth_of :: "string \<Rightarrow> simple_queue list \<Rightarrow> live_bandwidth" where
  "bandwidth_of address entries =
     (case entries of
        [] \<Rightarrow> no_live_bandwidth
      | [q] \<Rightarrow>
          let expected = address @ ''/32'';
              limits = parse_max_limit (sq_max_limit q);
              problems =
                (if sq_target q \<noteq> expected
                 then [''target='' @ py_repr (sq_target q) @ '', expected '' @ py_repr expected] else [])
                @ (if sq_disabled q then [''queue is disabled''] else [])
                @ (if sq_queue q \<noteq> [] \<and> sq_queue q \<noteq> SMALL_QUEUE
                   then [''queue='' @ py_repr (sq_queue q) @ '', expected '' @ py_repr SMALL_QUEUE] else [])
                @ (case limits of Inl e \<Rightarrow> [exc_text e] | Inr _ \<Rightarrow> [])
          in \<lparr> lb_active = True, lb_valid = (problems = []), lb_max_limit = some_nonempty (sq_max_limit q),
               lb_upload_bps = (case limits of Inr (u, _) \<Rightarrow> Some u | Inl _ \<Rightarrow> None),
               lb_download_bps = (case limits of Inr (_, d) \<Rightarrow> Some d | Inl _ \<Rightarrow> None),
               lb_error = (if problems = [] then None else Some (join_with ''; '' problems)) \<rparr>
      | _ \<Rightarrow> \<lparr> lb_active = True, lb_valid = False, lb_max_limit = None, lb_upload_bps = None,
               lb_download_bps = None,
               lb_error = Some (''Expected at most one '' @ device_bandwidth_queue_name address
                 @ '' queue, found '' @ show_nat (length entries)) \<rparr>)"

definition get_device_bandwidth :: "'s adapter \<Rightarrow> string \<Rightarrow> ('s, live_bandwidth) act" where
  "get_device_bandwidth ad address0 =
     rbind (rlift (validate_ipv4 address0)) (\<lambda>address.
     rbind (r_connect (ad_api ad)) (\<lambda>_.
     rwrap (''Unable to read device bandwidth for '' @ address)
       (rbind (validate_restricted_device ad address) (\<lambda>_.
        rbind (r_q_get (ad_api ad) (device_bandwidth_queue_name address)) (\<lambda>entries.
          rret (bandwidth_of address entries))))))"

definition is_preset_key :: "string \<Rightarrow> bool" where
  "is_preset_key s = (s \<noteq> [] \<and> length s \<le> 40 \<and> list_all (\<lambda>c. is_key_char c \<or> c = CHR ''_'') s)"

definition set_device_bandwidth ::
  "'s adapter \<Rightarrow> string \<Rightarrow> string \<Rightarrow> string \<Rightarrow> string \<Rightarrow> string \<Rightarrow> ('s, live_bandwidth) act" where
  "set_device_bandwidth ad address0 preset_key0 upload download description0 =
     rbind (rlift (validate_ipv4 address0)) (\<lambda>address.
     let preset_key = norm_key preset_key0 in
     if \<not> is_preset_key preset_key then
       rraise (RouterError (''Invalid bandwidth preset key '' @ sq preset_key))
     else
       let description = take 50 (py_strip description0); name = device_bandwidth_queue_name address in
       rbind (rlift (if preset_key = ''normal'' then Inr None
                     else case build_max_limit upload download of
                            Inr l \<Rightarrow> Inr (Some l)
                          | Inl (BandwidthRateError e) \<Rightarrow> Inl (RouterError e)
                          | Inl e \<Rightarrow> Inl e)) (\<lambda>expected.
       rbind (require_policy_write_gate ad) (\<lambda>_.
       rbind (r_connect (ad_api ad)) (\<lambda>_.
       rbind (rwrap (''Unable to set device bandwidth for '' @ address)
                (rbind (validate_restricted_device ad address) (\<lambda>_.
                 rbind (r_q_get (ad_api ad) name) (\<lambda>entries.
                   case expected of
                     None \<Rightarrow> remove_queues ad name
                   | Some limit \<Rightarrow> ensure_queue ad name address limit
                       (with_description (''MC - Policy Bandwidth - preset:'' @ preset_key) description) entries)))) (\<lambda>_.
       rbind (get_device_bandwidth ad address) (\<lambda>result.
         case expected of
           None \<Rightarrow> if lb_active result then
               rraise (RouterError (''Requested unlimited bandwidth but '' @ name @ '' still exists''))
             else rret result
         | Some limit \<Rightarrow>
             if \<not> lb_valid result \<or> \<not> lb_active result then
               rraise (RouterError (''Bandwidth queue did not converge for '' @ address @ '': ''
                 @ opt_or (lb_error result) ''queue missing''))
             else if \<not> limits_equal (lb_max_limit result) (Some limit) then
               rraise (RouterError (''Requested max-limit '' @ limit @ '' but router reports ''
                 @ opt_or (lb_max_limit result) ''None'' @ '' for '' @ address))
             else rret result))))))"

section \<open>Services\<close>

definition mismatch :: "string \<Rightarrow> string \<Rightarrow> string \<Rightarrow> string list" where
  "mismatch field actual expected = (if actual \<noteq> expected then [field @ ''='' @ py_repr actual] else [])"

definition exactly_one_rule :: "string \<Rightarrow> fw_rule list \<Rightarrow> fw_rule res" where
  "exactly_one_rule comment rules =
     (case rules of [r] \<Rightarrow> Inr r
      | _ \<Rightarrow> Inl (RouterError (''Expected exactly one '' @ sq comment @ '' rule, found '' @ show_nat (length rules))))"

definition validate_block_rule :: "'s adapter \<Rightarrow> service_def \<Rightarrow> block_rule \<Rightarrow> ('s, string \<times> string) act" where
  "validate_block_rule ad service expected =
     rbind (r_rules_by_comment (ad_api ad) (br_comment expected)) (\<lambda>rules.
     rbind (rlift (exactly_one_rule (br_comment expected) rules)) (\<lambda>rule.
       let problems = (if fr_disabled rule then [''disabled''] else [])
             @ mismatch ''chain'' (fr_chain rule) ''restricted-web''
             @ mismatch ''action'' (fr_action rule) ''drop''
             @ mismatch ''src-address-list'' (fr_src_address_list rule) (sv_source_list service)
             @ mismatch ''dst-address-list'' (fr_dst_address_list rule) (br_detector_list expected)
       in if problems \<noteq> [] then
            rraise (RouterError (sq (br_comment expected) @ '' does not match the managed service contract: ''
              @ join_with '', '' problems))
          else rret (br_comment expected, fr_id rule)))"

definition validate_learner_rule :: "'s adapter \<Rightarrow> learner_rule \<Rightarrow> ('s, string \<times> string) act" where
  "validate_learner_rule ad expected =
     rbind (r_rules_by_comment (ad_api ad) (ln_comment expected)) (\<lambda>rules.
     rbind (rlift (exactly_one_rule (ln_comment expected) rules)) (\<lambda>rule.
       let problems = (if fr_disabled rule then [''disabled''] else [])
             @ mismatch ''chain'' (fr_chain rule) ''restricted-web''
             @ mismatch ''action'' (fr_action rule) ''add-dst-to-address-list''
             @ mismatch ''protocol'' (fr_protocol rule) ''tcp''
             @ mismatch ''dst-port'' (fr_dst_port rule) ''443''
             @ mismatch ''address-list'' (fr_address_list rule) (ln_address_list expected)
             @ mismatch ''tls-host'' (fr_tls_host rule) (ln_tls_host expected)
       in if problems \<noteq> [] then
            rraise (RouterError (sq (ln_comment expected)
              @ '' does not match the managed TLS/SNI classifier contract: '' @ join_with '', '' problems))
          else rret (ln_comment expected, fr_id rule)))"

text \<open>\<open>{id: idx for idx, rule in enumerate(chain)}\<close>: the last position of an identifier.\<close>

definition rule_position :: "fw_rule list \<Rightarrow> string \<Rightarrow> nat option" where
  "rule_position chain i = map_of (rev (zip (map fr_id chain) [0..<length chain])) i"

definition validate_anchor :: "fw_rule list \<Rightarrow> (string \<times> string) list \<Rightarrow> unit res" where
  "validate_anchor all_rules items =
     (let chain = filter (\<lambda>r. fr_chain r = ''restricted-web'') all_rules;
          rw99 = filter (\<lambda>r. fr_comment r = ''RW99 - Return'') chain
      in case rw99 of
           [anchor] \<Rightarrow>
             let late = filter (\<lambda>(c, i). case (rule_position chain i, rule_position chain (fr_id anchor)) of
                            (Some p, Some a) \<Rightarrow> a \<le> p | _ \<Rightarrow> True) items
             in if late \<noteq> [] then Inl (RouterError (''Managed custom service rule(s) are not before RW99 - Return: ''
                  @ join_with '', '' (map fst late)))
                else Inr ()
         | _ \<Rightarrow> Inl (RouterError (''Expected exactly one 'RW99 - Return' in restricted-web, found ''
                  @ show_nat (length rw99))))"

definition validate_service_contract :: "'s adapter \<Rightarrow> service_def \<Rightarrow> ('s, unit) act" where
  "validate_service_contract ad service =
     rbind (rmap (validate_block_rule ad service) (sv_rules service)) (\<lambda>blocks.
     rbind (rmap (validate_learner_rule ad) (sv_learners service)) (\<lambda>learners.
       if sv_managed_custom service then
         rbind (r_rules (ad_api ad)) (\<lambda>rules. rlift (validate_anchor rules (blocks @ learners)))
       else rret ()))"

definition validate_service_primitive :: "'s adapter \<Rightarrow> string \<Rightarrow> catalog \<Rightarrow> ('s, unit) act" where
  "validate_service_primitive ad key catalog =
     (case map_of catalog key of
        None \<Rightarrow> rraise (RouterError (''Unknown managed service key: '' @ key))
      | Some service \<Rightarrow> validate_service_contract ad service)"

text \<open>\<open>try: validate; available\<close> ... \<open>except RouterError\<close>: other exceptions go through.\<close>

definition contract_state :: "'s adapter \<Rightarrow> string \<Rightarrow> catalog \<Rightarrow> ('s, string option) act" where
  "contract_state ad key catalog =
     rcatch (rbind (validate_service_primitive ad key catalog) (\<lambda>_. rret None))
       (\<lambda>e. case e of RouterError t \<Rightarrow> rret (Some t) | _ \<Rightarrow> rraise e)"

definition read_service :: "'s adapter \<Rightarrow> string \<Rightarrow> catalog \<Rightarrow> string \<times> service_def \<Rightarrow> ('s, string \<times> live_service) act" where
  "read_service ad address catalog = (\<lambda>(key, service).
     rbind (contract_state ad key catalog) (\<lambda>err.
     rbind (r_al_get (ad_api ad) (sv_source_list service) address) (\<lambda>entries.
       let many = length entries > 1;
           err = (if many then Some (''Multiple '' @ sv_source_list service @ '' entries found for '' @ address) else err)
       in rret (key, \<lparr> lv_name = sv_name service, lv_available = (err = None), lv_error = err,
                       lv_blocked = (length entries = 1), lv_entries = length entries \<rparr>))))"

definition live_services_of :: "(string \<times> live_service) list \<Rightarrow> live_services" where
  "live_services_of services =
     \<lparr> ls_blocked_services = sort (map fst (filter (\<lambda>kv. lv_blocked (snd kv)) services)),
       ls_unavailable_services = sorted_set (map fst (filter (\<lambda>kv. \<not> lv_available (snd kv)) services)),
       ls_services = services \<rparr>"

definition get_device_service_enforcement :: "'s adapter \<Rightarrow> string \<Rightarrow> catalog \<Rightarrow> ('s, live_services) act" where
  "get_device_service_enforcement ad address0 catalog =
     rbind (rlift (validate_ipv4 address0)) (\<lambda>address.
     rbind (r_connect (ad_api ad)) (\<lambda>_.
     rwrap (''Unable to read service enforcement for '' @ address)
       (rbind (validate_restricted_device ad address) (\<lambda>_.
        rbind (rmap (read_service ad address catalog) catalog) (\<lambda>services.
          rret (live_services_of services))))))"

text \<open>The services whose membership has to change, with the entries found and the wanted state.\<close>

definition plan_service_change ::
  "'s adapter \<Rightarrow> string \<Rightarrow> catalog \<Rightarrow> string list \<Rightarrow> string \<times> service_def
   \<Rightarrow> ('s, (string \<times> service_def \<times> al_entry list \<times> bool) list) act" where
  "plan_service_change ad address catalog desired = (\<lambda>(key, service).
     rbind (r_al_get (ad_api ad) (sv_source_list service) address) (\<lambda>entries.
       let should_block = (key \<in> set desired);
           needs_change = (should_block \<and> length entries \<noteq> 1 \<or> \<not> should_block \<and> length entries \<noteq> 0)
       in if \<not> needs_change then rret []
          else rbind (validate_service_primitive ad key catalog) (\<lambda>_.
                 rret [(key, service, entries, should_block)])))"

definition block_service ::
  "'s adapter \<Rightarrow> string \<Rightarrow> string \<Rightarrow> string \<times> service_def \<times> al_entry list \<times> bool \<Rightarrow> ('s, unit) act" where
  "block_service ad address description = (\<lambda>(key, service, entries, should_block).
     rbind (rfor entries (remove_al_entry ad)) (\<lambda>_.
       r_al_add (ad_api ad) (sv_source_list service) address
         (with_description (''MC - Block '' @ sv_name service) description)))"

definition release_service :: "'s adapter \<Rightarrow> string \<times> service_def \<times> al_entry list \<times> bool \<Rightarrow> ('s, unit) act" where
  "release_service ad = (\<lambda>(key, service, entries, should_block). rfor entries (remove_al_entry ad))"

text \<open>\<open>_terminate_service_connections\<close>: the loop over the connections counts until a call raises.\<close>

fun reset_connections :: "'s adapter \<Rightarrow> string \<Rightarrow> string list \<Rightarrow> connection list \<Rightarrow> nat \<Rightarrow> ('s, nat) act" where
  "reset_connections ad address detected [] n = rret n"
| "reset_connections ad address detected (c # cs) n =
     (if py_strip (cn_src c) \<noteq> address \<or> py_strip (cn_dst c) \<notin> set detected \<or> cn_id c = []
      then reset_connections ad address detected cs n
      else rbind (rcatch (rbind (r_conn_remove (ad_api ad) (cn_id c)) (\<lambda>_. rret True)) (\<lambda>_. rret False))
             (\<lambda>removed. if removed then reset_connections ad address detected cs (n + 1) else rret n))"

definition terminate_service_connections ::
  "'s adapter \<Rightarrow> string \<Rightarrow> string list \<Rightarrow> catalog \<Rightarrow> ('s, nat) act" where
  "terminate_service_connections ad address keys catalog =
     (if keys = [] then rret 0
      else
        rbind (rmap (\<lambda>key. rmap (\<lambda>rule. r_al_by_list (ad_api ad) (br_detector_list rule))
                              (case map_of catalog key of Some s \<Rightarrow> sv_rules s | None \<Rightarrow> [])) keys) (\<lambda>entries.
          let detected = map (\<lambda>a. takeWhile (\<lambda>c. c \<noteq> CHR ''/'') a)
                (filter (\<lambda>a. a \<noteq> []) (map (\<lambda>e. py_strip (al_address e)) (concat (concat entries))))
          in if detected = [] then rret 0
             else rcatch (rbind (r_conns (ad_api ad)) (\<lambda>cs. reset_connections ad address detected cs 0))
                    (\<lambda>_. rret 0)))"

definition apply_device_services ::
  "'s adapter \<Rightarrow> string \<Rightarrow> catalog \<Rightarrow> string list \<Rightarrow> string \<Rightarrow> ('s, nat) act" where
  "apply_device_services ad address catalog desired description =
     rbind (rmap (plan_service_change ad address catalog desired) catalog) (\<lambda>plans.
       let planned = concat plans;
           blocks = filter (\<lambda>(_, _, _, b). b) planned;
           releases = filter (\<lambda>(_, _, _, b). \<not> b) planned
       in rbind (rfor blocks (block_service ad address description)) (\<lambda>_.
          rbind (rfor releases (release_service ad)) (\<lambda>_.
            terminate_service_connections ad address (map fst blocks) catalog)))"

definition bracketed :: "string list \<Rightarrow> string" where
  "bracketed xs = ''['' @ join_with '', '' (map py_repr xs) @ '']''"

definition set_device_services ::
  "'s adapter \<Rightarrow> string \<Rightarrow> string list \<Rightarrow> string \<Rightarrow> catalog \<Rightarrow> ('s, live_services \<times> nat) act" where
  "set_device_services ad address0 blocked description0 catalog =
     rbind (rlift (validate_ipv4 address0)) (\<lambda>address.
     let desired = sorted_set (map norm_key blocked);
         unsupported = filter (\<lambda>k. k \<notin> set (dict_keys catalog)) desired
     in if unsupported \<noteq> [] then
          rraise (RouterError (''Unsupported live service key(s): '' @ join_with '', '' unsupported))
        else
          let description = take 60 (py_strip description0) in
          rbind (require_policy_write_gate ad) (\<lambda>_.
          rbind (r_connect (ad_api ad)) (\<lambda>_.
          rbind (rwrap (''Unable to set service policy for '' @ address)
                   (rbind (validate_restricted_device ad address) (\<lambda>_.
                      apply_device_services ad address catalog desired description))) (\<lambda>terminated.
          rbind (get_device_service_enforcement ad address catalog) (\<lambda>result.
            let actual = sorted_set (ls_blocked_services result) in
            if actual \<noteq> desired then
              let missing = filter (\<lambda>k. \<not> (case map_of (ls_services result) k of
                                None \<Rightarrow> False | Some s \<Rightarrow> lv_available s)) desired
              in rraise (RouterError (''Requested service policy '' @ bracketed desired
                   @ '' but RouterOS reports '' @ bracketed actual @ '' for '' @ address
                   @ (if missing = [] then [] else ''; unavailable contract(s): '' @ join_with '', '' missing)))
            else rret (result, terminated))))))"

end
