(* ===== verification/RouterTriples.thy ===== *)
theory RouterTriples
  imports RouterDevice
begin

text \<open>
  The tables as seen from one device, and the triples of the building blocks of the mutators:
  removing the entries of a list or the queues of a name, and establishing exactly one of them. An
  invariant that does not look at the list or name being changed survives at every call, whether
  the call succeeds or fails.
\<close>

lemma rbind_assoc: "rbind (rbind m f) g = rbind m (\<lambda>x. rbind (f x) g)"
  by (auto simp: fun_eq_iff rbind_def split: prod.splits sum.splits)

section \<open>What the tables say about a device\<close>

definition list_entries :: "tables \<Rightarrow> string \<Rightarrow> string \<Rightarrow> al_entry list" where
  "list_entries t l a = filter (\<lambda>e. al_list e = l \<and> al_address e = a) (t_al t)"

definition named_queues :: "tables \<Rightarrow> string \<Rightarrow> simple_queue list" where
  "named_queues t n = filter (\<lambda>q. sq_name q = n) (t_queues t)"

definition table_mode :: "tables \<Rightarrow> string \<Rightarrow> string" where
  "table_mode t a = device_mode_of (list_entries t DEVICE_BLOCK_LIST a) (list_entries t DEVICE_SLOW_LIST a)
                      (named_queues t (device_slow_queue_name a))"

definition block_present :: "tables \<Rightarrow> string \<Rightarrow> bool" where
  "block_present t a = (list_entries t DEVICE_BLOCK_LIST a \<noteq> [])"

definition slow_built :: "tables \<Rightarrow> string \<Rightarrow> bool" where
  "slow_built t a = (length (list_entries t DEVICE_SLOW_LIST a) = 1
     \<and> length (named_queues t (device_slow_queue_name a)) = 1
     \<and> \<not> sq_disabled (hd (named_queues t (device_slow_queue_name a))))"

text \<open>A device is restrained when it is blocked, or limited by a complete SLOW queue.\<close>

definition restrained :: "tables \<Rightarrow> string \<Rightarrow> bool" where
  "restrained t a = (block_present t a \<or> slow_built t a)"

text \<open>Everything on the router that is not the managed state of the device.\<close>

definition rest_of :: "string \<Rightarrow> tables \<Rightarrow> tables" where
  "rest_of a t = t\<lparr> t_al := filter (\<lambda>e. \<not> (al_address e = a \<and> al_list e \<in> {DEVICE_BLOCK_LIST, DEVICE_SLOW_LIST})) (t_al t),
     t_queues := filter (\<lambda>q. sq_name q \<notin> {device_slow_queue_name a, device_bandwidth_queue_name a}) (t_queues t) \<rparr>"

lemma lists_distinct [simp]: "DEVICE_BLOCK_LIST \<noteq> DEVICE_SLOW_LIST" "DEVICE_SLOW_LIST \<noteq> DEVICE_BLOCK_LIST"
  by (simp_all add: DEVICE_BLOCK_LIST_def DEVICE_SLOW_LIST_def)

lemma queue_names_distinct [simp]:
  "device_slow_queue_name a \<noteq> device_bandwidth_queue_name b" "device_bandwidth_queue_name b \<noteq> device_slow_queue_name a"
  by (simp_all add: device_slow_queue_name_def device_bandwidth_queue_name_def DEVICE_SLOW_QUEUE_PREFIX_def
      DEVICE_BANDWIDTH_QUEUE_PREFIX_def)

lemma table_simps [simp]:
  "list_entries (al_removed i t) l a = filter (\<lambda>e. al_id e \<noteq> i) (list_entries t l a)"
  "list_entries (q_removed i t) l a = list_entries t l a"
  "list_entries (q_updated i f t) l a = list_entries t l a"
  "named_queues (al_removed i t) n = named_queues t n"
  "named_queues (q_removed i t) n = filter (\<lambda>q. sq_id q \<noteq> i) (named_queues t n)"
  by (simp_all add: list_entries_def named_queues_def al_removed_def q_removed_def q_updated_def conj_commute conj_left_commute)

lemma ids_ok_removed [simp]:
  "ids_ok t \<Longrightarrow> ids_ok (al_removed i t)" "ids_ok t \<Longrightarrow> ids_ok (q_removed i t)"
  by (auto simp: ids_ok_def al_removed_def q_removed_def intro: distinct_map_filter)

lemma ids_ok_added: "ids_ok t \<Longrightarrow> al_added l a c t t' \<Longrightarrow> ids_ok t'" "ids_ok t \<Longrightarrow> q_added q t t' \<Longrightarrow> ids_ok t'"
  by (auto simp: ids_ok_def al_added_def q_added_def)

lemma ids_ok_updated:
  assumes "ids_ok t" "\<And>q. sq_id (f q) = sq_id q"
  shows "ids_ok (q_updated i f t)"
proof -
  define qs where "qs = map (\<lambda>q. if sq_id q = i then f q else q) (t_queues t)"
  have m: "map sq_id qs = map sq_id (t_queues t)" using assms(2) by (simp add: qs_def)
  then have "sq_id ` set qs = sq_id ` set (t_queues t)" by (metis set_map)
  then show ?thesis using assms(1) m by (simp add: ids_ok_def q_updated_def qs_def [symmetric])
qed

lemma al_added_lookup:
  assumes "al_added l a c t t'"
  shows "length (list_entries t' l a) = Suc (length (list_entries t l a))"
    "l' \<noteq> l \<or> a' \<noteq> a \<Longrightarrow> list_entries t' l' a' = list_entries t l' a'"
    "named_queues t' n = named_queues t n"
  using assms by (auto simp: al_added_def list_entries_def named_queues_def)

lemma q_added_lookup:
  assumes "q_added q t t'"
  shows "list_entries t' l a = list_entries t l a"
    "\<exists>i. named_queues t' n = named_queues t n @ (if sq_name q = n then [q\<lparr> sq_id := i \<rparr>] else [])"
  using assms by (auto simp: q_added_def list_entries_def named_queues_def)

subsection \<open>Tables up to one list or one queue name\<close>

text \<open>Removing or adding an entry of a list and address changes nothing once those entries are masked;
  so a predicate that does not look at them is stable.\<close>

definition off_list :: "string \<Rightarrow> string \<Rightarrow> tables \<Rightarrow> tables" where
  "off_list l a t = t\<lparr> t_al := filter (\<lambda>e. \<not> (al_list e = l \<and> al_address e = a)) (t_al t) \<rparr>"

definition off_queue :: "string \<Rightarrow> tables \<Rightarrow> tables" where
  "off_queue n t = t\<lparr> t_queues := filter (\<lambda>q. sq_name q \<noteq> n) (t_queues t) \<rparr>"

lemma filter_absorb: "(\<And>x. x \<in> set xs \<Longrightarrow> P x \<Longrightarrow> Q x) \<Longrightarrow> filter P (filter Q xs) = filter P xs"
  by (induction xs) auto

lemma filter_unique_id:
  "distinct (map f xs) \<Longrightarrow> x \<in> set xs \<Longrightarrow> \<not> P x \<Longrightarrow> filter P (filter (\<lambda>y. f y \<noteq> f x) xs) = filter P xs"
  by (rule filter_absorb) (auto simp: distinct_map inj_on_def)

lemma off_list_removed:
  "ids_ok t \<Longrightarrow> e \<in> set (t_al t) \<Longrightarrow> al_list e = l \<Longrightarrow> al_address e = a \<Longrightarrow>
   off_list l a (al_removed (al_id e) t) = off_list l a t"
  unfolding off_list_def al_removed_def ids_ok_def
  by (simp del: filter_filter add: filter_unique_id)

lemma off_queue_removed:
  "ids_ok t \<Longrightarrow> q \<in> set (t_queues t) \<Longrightarrow> sq_name q = n \<Longrightarrow> off_queue n (q_removed (sq_id q) t) = off_queue n t"
  unfolding off_queue_def q_removed_def ids_ok_def
  by (simp del: filter_filter add: filter_unique_id)

lemma off_list_added: "al_added l a c t t' \<Longrightarrow> off_list l a t' = off_list l a t"
  by (auto simp: al_added_def off_list_def)

lemma off_queue_added: "q_added q t t' \<Longrightarrow> off_queue (sq_name q) t' = off_queue (sq_name q) t"
  by (auto simp: q_added_def off_queue_def)

lemma off_queue_updated:
  assumes "ids_ok t" "q \<in> set (t_queues t)" "sq_name q = n" "\<And>q. sq_name (f q) = sq_name q"
  shows "off_queue n (q_updated (sq_id q) f t) = off_queue n t"
proof -
  have "filter (\<lambda>x. sq_name x \<noteq> n) (map (\<lambda>x. if sq_id x = sq_id q then f x else x) (t_queues t))
    = map (\<lambda>x. if sq_id x = sq_id q then f x else x) (filter (\<lambda>x. sq_name x \<noteq> n) (t_queues t))"
    by (simp add: filter_map o_def assms(4) if_distrib [of sq_name] cong: if_cong)
  also have "\<dots> = filter (\<lambda>x. sq_name x \<noteq> n) (t_queues t)"
  proof (rule map_idI)
    fix x assume "x \<in> set (filter (\<lambda>x. sq_name x \<noteq> n) (t_queues t))"
    moreover from this have "sq_id x \<noteq> sq_id q"
      using assms(1,2,3) unfolding ids_ok_def distinct_map inj_on_def by auto
    ultimately show "(if sq_id x = sq_id q then f x else x) = x" by simp
  qed
  finally show ?thesis by (simp add: off_queue_def q_updated_def)
qed

lemma off_simps [simp]:
  "list_entries (off_list l a t) l' a' = (if l' = l \<and> a' = a then [] else list_entries t l' a')"
  "named_queues (off_list l a t) n = named_queues t n"
  "list_entries (off_queue n t) l a = list_entries t l a"
  "named_queues (off_queue n t) n' = (if n' = n then [] else named_queues t n')"
  by (auto simp: list_entries_def named_queues_def off_list_def off_queue_def intro!: filter_cong)

lemma rest_of_off [simp]:
  "rest_of a (off_list DEVICE_BLOCK_LIST a t) = rest_of a t"
  "rest_of a (off_list DEVICE_SLOW_LIST a t) = rest_of a t"
  "rest_of a (off_queue (device_slow_queue_name a) t) = rest_of a t"
  "rest_of a (off_queue (device_bandwidth_queue_name a) t) = rest_of a t"
  unfolding rest_of_def off_list_def off_queue_def
  by (simp_all del: filter_filter) (subst filter_absorb; force)+

section \<open>Triples of the building blocks\<close>

text \<open>\<open>I\<close> survives the removal of any entry of the list and address.\<close>

definition al_stable :: "string \<Rightarrow> string \<Rightarrow> (tables \<Rightarrow> bool) \<Rightarrow> bool" where
  "al_stable l a I = (\<forall>t i. I t \<and> ids_ok t \<and> (\<exists>e \<in> set (t_al t). al_id e = i \<and> al_list e = l \<and> al_address e = a)
     \<longrightarrow> I (al_removed i t))"

definition q_stable :: "string \<Rightarrow> (tables \<Rightarrow> bool) \<Rightarrow> bool" where
  "q_stable n I = (\<forall>t i. I t \<and> ids_ok t \<and> (\<exists>q \<in> set (t_queues t). sq_id q = i \<and> sq_name q = n) \<longrightarrow> I (q_removed i t))"

text \<open>Predicates that do not look at the list or the queue name.\<close>

definition blind_to_list :: "string \<Rightarrow> string \<Rightarrow> (tables \<Rightarrow> bool) \<Rightarrow> bool" where
  "blind_to_list l a I = (\<forall>t. I (off_list l a t) = I t)"

definition blind_to_queue :: "string \<Rightarrow> (tables \<Rightarrow> bool) \<Rightarrow> bool" where
  "blind_to_queue n I = (\<forall>t. I (off_queue n t) = I t)"

lemma blind_al_stable: "blind_to_list l a I \<Longrightarrow> al_stable l a I"
  unfolding blind_to_list_def al_stable_def by (metis off_list_removed)

lemma blind_q_stable: "blind_to_queue n I \<Longrightarrow> q_stable n I"
  unfolding blind_to_queue_def q_stable_def by (metis off_queue_removed)

lemma blind_added: "blind_to_list l a I \<Longrightarrow> I t \<Longrightarrow> al_added l a c t t' \<Longrightarrow> I t'"
  unfolding blind_to_list_def by (metis off_list_added)

lemma blind_queue_added: "blind_to_queue (sq_name q) I \<Longrightarrow> I t \<Longrightarrow> q_added q t t' \<Longrightarrow> I t'"
  unfolding blind_to_queue_def by (metis off_queue_added)

lemma blind_queue_updated:
  assumes "blind_to_queue n I" "I t" "ids_ok t" "named_queues t n = [q]"
  shows "I (q_updated (sq_id q) (set_queue_fields address limit c) t)"
proof -
  have "q \<in> set (named_queues t n)" using assms(4) by simp
  then have "off_queue n (q_updated (sq_id q) (set_queue_fields address limit c) t) = off_queue n t"
    by (intro off_queue_updated) (auto simp: named_queues_def set_queue_fields_def assms(3))
  then show ?thesis using assms(1,2) unfolding blind_to_queue_def by metis
qed

lemma al_removed_absent: "i \<notin> al_id ` set (t_al t) \<Longrightarrow> al_removed i t = t"
proof -
  assume "i \<notin> al_id ` set (t_al t)"
  then have "filter (\<lambda>e. al_id e \<noteq> i) (t_al t) = t_al t" by (intro filter_True) auto
  then show ?thesis by (simp add: al_removed_def)
qed

lemma q_removed_absent: "i \<notin> sq_id ` set (t_queues t) \<Longrightarrow> q_removed i t = t"
proof -
  assume "i \<notin> sq_id ` set (t_queues t)"
  then have "filter (\<lambda>q. sq_id q \<noteq> i) (t_queues t) = t_queues t" by (intro filter_True) auto
  then show ?thesis by (simp add: q_removed_def)
qed

definition queue_ok :: "tables \<Rightarrow> string \<Rightarrow> string \<Rightarrow> string \<Rightarrow> bool" where
  "queue_ok t n address limit = (\<exists>q. named_queues t n = [q] \<and> sq_target q = address @ ''/32''
     \<and> sq_max_limit q = limit \<and> sq_queue q = SMALL_QUEUE \<and> \<not> sq_disabled q)"

context routeros begin

lemma remove_entries_loop:
  assumes api: "ad_api ad = api" and st: "al_stable l a I"
  shows "triple tab (\<lambda>t. I t \<and> ids_ok t \<and> es = list_entries t l a) (rfor es (remove_al_entry ad))
    (\<lambda>_ t. I t \<and> ids_ok t \<and> list_entries t l a = []) (\<lambda>t. I t \<and> ids_ok t)"
proof -
  define J where "J D t = (I t \<and> ids_ok t \<and> set (list_entries t l a) \<subseteq> set es - D
     \<and> (\<forall>e \<in> set (t_al t). \<forall>x \<in> set es. al_id e = al_id x \<longrightarrow> e = x) \<and> (\<forall>x \<in> set es. al_id x \<noteq> [] \<and> al_list x = l \<and> al_address x = a))" for D t
  have step: "J (insert x D) (al_removed (al_id x) t) \<and> I (al_removed (al_id x) t) \<and> ids_ok (al_removed (al_id x) t)"
    if "J D t" "x \<in> set es" for x D t
  proof -
    have "I (al_removed (al_id x) t)"
    proof (cases "al_id x \<in> al_id ` set (t_al t)")
      case True
      then obtain e where "e \<in> set (t_al t)" "al_id e = al_id x" by auto
      then have "e = x" using that by (simp add: J_def)
      have "al_list x = l" "al_address x = a" "I t" "ids_ok t" using that by (simp_all add: J_def)
      then show ?thesis using st \<open>e \<in> set (t_al t)\<close> \<open>e = x\<close> unfolding al_stable_def by blast
    next
      case False
      then show ?thesis using that by (simp add: al_removed_absent J_def)
    qed
    moreover have "ids_ok (al_removed (al_id x) t)" using that by (simp add: J_def)
    ultimately show ?thesis using that by (auto simp: J_def al_removed_def list_entries_def)
  qed
  have loop: "triple tab (J {}) (rfor es (remove_al_entry ad)) (\<lambda>_. J ({} \<union> set es)) (\<lambda>t. I t \<and> ids_ok t)"
  proof (rule triple_rfor)
    fix x D assume x: "x \<in> set es"
    show "triple tab (J D) (remove_al_entry ad x) (\<lambda>_. J (insert x D)) (\<lambda>t. I t \<and> ids_ok t)"
      unfolding remove_al_entry_def api
    proof (rule triple_rwhen)
      show "triple tab (\<lambda>t. J D t \<and> al_id x \<noteq> []) (r_al_remove api (al_id x)) (\<lambda>_. J (insert x D)) (\<lambda>t. I t \<and> ids_ok t)"
        by (rule triple_writes [OF al_remove]) (use step [OF _ x] in \<open>auto simp: J_def\<close>)
      show "J (insert x D) t" if "J D t" "\<not> al_id x \<noteq> []" for t using that x by (auto simp: J_def)
    qed
  qed
  show ?thesis
  proof (rule triple_weaken [OF loop])
    fix t assume a: "I t \<and> ids_ok t \<and> es = list_entries t l a"
    then have "\<forall>x \<in> set es. x \<in> set (t_al t) \<and> al_list x = l \<and> al_address x = a" by (auto simp: list_entries_def)
    moreover have "e = x" if "e \<in> set (t_al t)" "x \<in> set (t_al t)" "al_id e = al_id x" for e x
      using a that unfolding ids_ok_def by (metis distinct_map inj_on_def)
    moreover have "[] \<notin> al_id ` set (t_al t)" using a by (simp add: ids_ok_def)
    ultimately show "J {} t" using a unfolding J_def by (auto simp: image_iff) (metis)+
  qed (auto simp: J_def)
qed

lemma remove_list_entries_triple:
  assumes "ad_api ad = api" "al_stable l a I"
  shows "triple tab (\<lambda>t. I t \<and> ids_ok t) (remove_list_entries ad l a)
    (\<lambda>_ t. I t \<and> ids_ok t \<and> list_entries t l a = []) (\<lambda>t. I t \<and> ids_ok t)"
  unfolding remove_list_entries_def assms(1)
  by (rule triple_rbind, rule triple_reads [OF al_get, where Q = "\<lambda>es t. I t \<and> ids_ok t \<and> es = list_entries t l a"])
     (auto simp: list_entries_def intro: remove_entries_loop [OF assms, unfolded list_entries_def])

lemma remove_queues_loop:
  assumes api: "ad_api ad = api" and st: "q_stable n I"
  shows "triple tab (\<lambda>t. I t \<and> ids_ok t \<and> qs = named_queues t n) (rfor qs (remove_queue ad))
    (\<lambda>_ t. I t \<and> ids_ok t \<and> named_queues t n = []) (\<lambda>t. I t \<and> ids_ok t)"
proof -
  define J where "J D t = (I t \<and> ids_ok t \<and> set (named_queues t n) \<subseteq> set qs - D
     \<and> (\<forall>q \<in> set (t_queues t). \<forall>x \<in> set qs. sq_id q = sq_id x \<longrightarrow> q = x) \<and> (\<forall>x \<in> set qs. sq_id x \<noteq> [] \<and> sq_name x = n))" for D t
  have step: "J (insert x D) (q_removed (sq_id x) t) \<and> I (q_removed (sq_id x) t) \<and> ids_ok (q_removed (sq_id x) t)"
    if "J D t" "x \<in> set qs" for x D t
  proof -
    have "I (q_removed (sq_id x) t)"
    proof (cases "sq_id x \<in> sq_id ` set (t_queues t)")
      case True
      then obtain q where "q \<in> set (t_queues t)" "sq_id q = sq_id x" by auto
      then have "q = x" using that by (simp add: J_def)
      have "sq_name x = n" "I t" "ids_ok t" using that by (simp_all add: J_def)
      then show ?thesis using st \<open>q \<in> set (t_queues t)\<close> \<open>q = x\<close> unfolding q_stable_def by blast
    next
      case False
      then show ?thesis using that by (simp add: q_removed_absent J_def)
    qed
    moreover have "ids_ok (q_removed (sq_id x) t)" using that by (simp add: J_def)
    ultimately show ?thesis using that by (auto simp: J_def q_removed_def named_queues_def)
  qed
  have loop: "triple tab (J {}) (rfor qs (remove_queue ad)) (\<lambda>_. J ({} \<union> set qs)) (\<lambda>t. I t \<and> ids_ok t)"
  proof (rule triple_rfor)
    fix x D assume x: "x \<in> set qs"
    show "triple tab (J D) (remove_queue ad x) (\<lambda>_. J (insert x D)) (\<lambda>t. I t \<and> ids_ok t)"
      unfolding remove_queue_def api
    proof (rule triple_rwhen)
      show "triple tab (\<lambda>t. J D t \<and> sq_id x \<noteq> []) (r_q_remove api (sq_id x)) (\<lambda>_. J (insert x D)) (\<lambda>t. I t \<and> ids_ok t)"
        by (rule triple_writes [OF q_remove]) (use step [OF _ x] in \<open>auto simp: J_def\<close>)
      show "J (insert x D) t" if "J D t" "\<not> sq_id x \<noteq> []" for t using that x by (auto simp: J_def)
    qed
  qed
  show ?thesis
  proof (rule triple_weaken [OF loop])
    fix t assume a: "I t \<and> ids_ok t \<and> qs = named_queues t n"
    then have "\<forall>x \<in> set qs. x \<in> set (t_queues t) \<and> sq_name x = n" by (auto simp: named_queues_def)
    moreover have "q = x" if "q \<in> set (t_queues t)" "x \<in> set (t_queues t)" "sq_id q = sq_id x" for q x
      using a that unfolding ids_ok_def by (metis distinct_map inj_on_def)
    moreover have "[] \<notin> sq_id ` set (t_queues t)" using a by (simp add: ids_ok_def)
    ultimately show "J {} t" using a unfolding J_def by (auto simp: image_iff) (metis)+
  qed (auto simp: J_def)
qed

lemma remove_queues_triple:
  assumes "ad_api ad = api" "q_stable n I"
  shows "triple tab (\<lambda>t. I t \<and> ids_ok t) (remove_queues ad n)
    (\<lambda>_ t. I t \<and> ids_ok t \<and> named_queues t n = []) (\<lambda>t. I t \<and> ids_ok t)"
  unfolding remove_queues_def assms(1)
  by (rule triple_rbind, rule triple_reads [OF q_get, where Q = "\<lambda>qs t. I t \<and> ids_ok t \<and> qs = named_queues t n"])
     (auto simp: named_queues_def intro: remove_queues_loop [OF assms, unfolded named_queues_def])

lemma ensure_list_entry_triple:
  assumes api: "ad_api ad = api" and st: "length es \<noteq> 1 \<Longrightarrow> al_stable l a I"
    and add: "\<And>t t'. length es \<noteq> 1 \<Longrightarrow> I t \<Longrightarrow> ids_ok t \<Longrightarrow> al_added l a c t t' \<Longrightarrow> I t'"
  shows "triple tab (\<lambda>t. I t \<and> ids_ok t \<and> es = list_entries t l a) (ensure_list_entry ad l a c es)
    (\<lambda>_ t. I t \<and> ids_ok t \<and> length (list_entries t l a) = 1) (\<lambda>t. I t \<and> ids_ok t)"
  unfolding ensure_list_entry_def
proof (rule triple_rwhen)
  show "triple tab (\<lambda>t. (I t \<and> ids_ok t \<and> es = list_entries t l a) \<and> length es \<noteq> 1)
     (rbind (remove_list_entries ad l a) (\<lambda>_. r_al_add (ad_api ad) l a c))
     (\<lambda>_ t. I t \<and> ids_ok t \<and> length (list_entries t l a) = 1) (\<lambda>t. I t \<and> ids_ok t)"
  proof (cases "length es = 1")
    case False
    show ?thesis
    proof (rule triple_rbind)
      show "triple tab (\<lambda>t. (I t \<and> ids_ok t \<and> es = list_entries t l a) \<and> length es \<noteq> 1) (remove_list_entries ad l a)
        (\<lambda>_ t. I t \<and> ids_ok t \<and> list_entries t l a = []) (\<lambda>t. I t \<and> ids_ok t)"
        by (rule triple_weaken [OF remove_list_entries_triple [OF api st [OF False]]]) auto
      show "triple tab (\<lambda>t. I t \<and> ids_ok t \<and> list_entries t l a = []) (r_al_add (ad_api ad) l a c)
        (\<lambda>_ t. I t \<and> ids_ok t \<and> length (list_entries t l a) = 1) (\<lambda>t. I t \<and> ids_ok t)"
        unfolding api
        by (rule triple_writes [OF al_add]) (auto dest: add [OF False] ids_ok_added al_added_lookup(1))
    qed
  qed (simp add: triple_def)
qed auto

lemma ensure_queue_triple:
  assumes api: "ad_api ad = api" and st: "length qs \<noteq> 1 \<Longrightarrow> q_stable n I"
    and add: "\<And>t t'. length qs \<noteq> 1 \<Longrightarrow> I t \<Longrightarrow> ids_ok t \<Longrightarrow> q_added (managed_queue n address limit c) t t' \<Longrightarrow> I t'"
    and upd: "\<And>t q. I t \<Longrightarrow> ids_ok t \<Longrightarrow> named_queues t n = [q] \<Longrightarrow> I (q_updated (sq_id q) (set_queue_fields address limit c) t)"
  shows "triple tab (\<lambda>t. I t \<and> ids_ok t \<and> qs = named_queues t n) (ensure_queue ad n address limit c qs)
    (\<lambda>_ t. I t \<and> ids_ok t \<and> queue_ok t n address limit) (\<lambda>t. I t \<and> ids_ok t)"
proof (cases "\<exists>q. qs = [q]")
  case True
  then obtain q where q: "qs = [q]" by blast
  have ok: "queue_ok (q_updated (sq_id q) (set_queue_fields address limit c) t) n address limit"
    if "ids_ok t" "named_queues t n = [q]" for t
  proof -
    have nm: "sq_name (if sq_id x = sq_id q then set_queue_fields address limit c x else x) = sq_name x" for x
      by (simp add: set_queue_fields_def)
    have "named_queues (q_updated (sq_id q) (set_queue_fields address limit c) t) n
      = map (\<lambda>x. if sq_id x = sq_id q then set_queue_fields address limit c x else x) (named_queues t n)"
      by (simp add: named_queues_def q_updated_def filter_map o_def nm)
    then show ?thesis using that by (simp add: queue_ok_def set_queue_fields_def)
  qed
  have ids: "ids_ok (q_updated (sq_id q) (set_queue_fields address limit c) t)" if "ids_ok t" for t
    using that by (rule ids_ok_updated) (simp add: set_queue_fields_def)
  show ?thesis
    unfolding q ensure_queue_def list.case api
  proof (rule triple_if)
    show "triple tab (\<lambda>t. I t \<and> ids_ok t \<and> [q] = named_queues t n) (rraise (KeyError ''id''))
       (\<lambda>_ t. I t \<and> ids_ok t \<and> queue_ok t n address limit) (\<lambda>t. I t \<and> ids_ok t)"
      by (rule triple_rraise) simp
    show "triple tab (\<lambda>t. I t \<and> ids_ok t \<and> [q] = named_queues t n)
       (r_q_set api (sq_id q) (set_queue_fields address limit c))
       (\<lambda>_ t. I t \<and> ids_ok t \<and> queue_ok t n address limit) (\<lambda>t. I t \<and> ids_ok t)"
    proof (rule triple_writes [OF q_set])
      fix t t' assume p: "I t \<and> ids_ok t \<and> [q] = named_queues t n"
      then have k: "I (q_updated (sq_id q) (set_queue_fields address limit c) t)" by (intro upd) auto
      { assume "t' = q_updated (sq_id q) (set_queue_fields address limit c) t"
        then show "I t' \<and> ids_ok t' \<and> queue_ok t' n address limit" using p k ids ok by auto }
      { assume "t' = t \<or> t' = q_updated (sq_id q) (set_queue_fields address limit c) t"
        then show "I t' \<and> ids_ok t'" using p k ids by auto }
    qed
  qed
next
  case False
  then have l: "length qs \<noteq> 1" by (auto simp: length_Suc_conv)
  have e: "ensure_queue ad n address limit c qs
    = rbind (remove_queues ad n) (\<lambda>_. r_q_add (ad_api ad) (managed_queue n address limit c))"
    using False by (auto simp: ensure_queue_def split: list.split)
  show ?thesis
    unfolding e
  proof (rule triple_rbind)
    show "triple tab (\<lambda>t. I t \<and> ids_ok t \<and> qs = named_queues t n) (remove_queues ad n)
       (\<lambda>_ t. I t \<and> ids_ok t \<and> named_queues t n = []) (\<lambda>t. I t \<and> ids_ok t)"
      by (rule triple_weaken [OF remove_queues_triple [OF api st [OF l]]]) auto
    show "triple tab (\<lambda>t. I t \<and> ids_ok t \<and> named_queues t n = []) (r_q_add (ad_api ad) (managed_queue n address limit c))
       (\<lambda>_ t. I t \<and> ids_ok t \<and> queue_ok t n address limit) (\<lambda>t. I t \<and> ids_ok t)"
      unfolding api
    proof (rule triple_writes [OF q_add])
      fix t t' assume p: "I t \<and> ids_ok t \<and> named_queues t n = []"
      { assume a: "q_added (managed_queue n address limit c) t t'"
        obtain i where "named_queues t' n = [(managed_queue n address limit c)\<lparr> sq_id := i \<rparr>]"
          using q_added_lookup(2) [OF a, of n] p by (auto simp: managed_queue_def)
        then have "queue_ok t' n address limit" by (simp add: queue_ok_def managed_queue_def)
        then show "I t' \<and> ids_ok t' \<and> queue_ok t' n address limit"
          using p add [OF l _ _ a] ids_ok_added(2) [OF _ a] by blast }
      { assume "t' = t \<or> q_added (managed_queue n address limit c) t t'"
        then show "I t' \<and> ids_ok t'" using p add [OF l] ids_ok_added(2) by blast }
    qed
  qed
qed

end

end
