(* ===== verification/RouterMode.thy ===== *)
theory RouterMode
  imports RouterTriples
begin

text \<open>
  Correctness of the mode operations of the adapter over every service that keeps the contract of
  \<open>RouterApi\<close>: what a successful change establishes, what any change leaves alone, what a failed
  change cannot undo, and that a change ends successfully when no call fails.
\<close>

section \<open>The adapter over a service\<close>

locale device_adapter = routeros "ad_api ad" tab
  for ad :: "'s adapter" and tab :: "'s \<Rightarrow> tables" +
  assumes posture_reads: "keeps tab (ad_posture ad)"
    and now_reads: "keeps tab (ad_now ad)"

context device_adapter begin

text \<open>The building blocks with their pre- and postconditions open: \<open>I\<close> is what the step does not
  look at.\<close>

lemma clear_list:
  assumes "\<And>t. I (off_list l a t) = I t" "\<And>t. P t \<Longrightarrow> I t \<and> ids_ok t"
    "\<And>t. I t \<Longrightarrow> ids_ok t \<Longrightarrow> list_entries t l a = [] \<Longrightarrow> Q t" "\<And>t. I t \<Longrightarrow> ids_ok t \<Longrightarrow> E t"
  shows "triple tab P (remove_list_entries ad l a) (\<lambda>_. Q) E"
  by (rule triple_weaken [OF remove_list_entries_triple [where I = I]])
     (use assms in \<open>auto simp: blind_to_list_def intro!: blind_al_stable\<close>)

lemma clear_queue:
  assumes "\<And>t. I (off_queue n t) = I t" "\<And>t. P t \<Longrightarrow> I t \<and> ids_ok t"
    "\<And>t. I t \<Longrightarrow> ids_ok t \<Longrightarrow> named_queues t n = [] \<Longrightarrow> Q t" "\<And>t. I t \<Longrightarrow> ids_ok t \<Longrightarrow> E t"
  shows "triple tab P (remove_queues ad n) (\<lambda>_. Q) E"
  by (rule triple_weaken [OF remove_queues_triple [where I = I]])
     (use assms in \<open>auto simp: blind_to_queue_def intro!: blind_q_stable\<close>)

lemma fix_list:
  assumes "\<And>t. I (off_list l a t) = I t" "\<And>t. P t \<Longrightarrow> I t \<and> ids_ok t"
    "\<And>t. I t \<Longrightarrow> ids_ok t \<Longrightarrow> length (list_entries t l a) = 1 \<Longrightarrow> Q t" "\<And>t. I t \<Longrightarrow> ids_ok t \<Longrightarrow> E t"
  shows "triple tab P (rbind (r_al_get (ad_api ad) l a) (ensure_list_entry ad l a c)) (\<lambda>_. Q) E"
proof (rule triple_rbind)
  show "triple tab P (r_al_get (ad_api ad) l a) (\<lambda>es t. I t \<and> ids_ok t \<and> es = list_entries t l a) E"
    by (rule triple_reads [OF al_get]) (use assms(2,4) in \<open>auto simp: list_entries_def\<close>)
  fix es
  have b: "blind_to_list l a I" by (simp add: blind_to_list_def assms(1))
  show "triple tab (\<lambda>t. I t \<and> ids_ok t \<and> es = list_entries t l a) (ensure_list_entry ad l a c es) (\<lambda>_. Q) E"
    by (rule triple_weaken [OF ensure_list_entry_triple [where I = I]])
       (use assms(3,4) b in \<open>auto intro: blind_al_stable blind_added\<close>)
qed

lemma fix_queue:
  assumes "\<And>t. I (off_queue n t) = I t" "\<And>t. P t \<Longrightarrow> I t \<and> ids_ok t"
    "\<And>t. I t \<Longrightarrow> ids_ok t \<Longrightarrow> queue_ok t n a limit \<Longrightarrow> Q t" "\<And>t. I t \<Longrightarrow> ids_ok t \<Longrightarrow> E t"
  shows "triple tab P (rbind (r_q_get (ad_api ad) n) (ensure_queue ad n a limit c)) (\<lambda>_. Q) E"
proof (rule triple_rbind)
  show "triple tab P (r_q_get (ad_api ad) n) (\<lambda>qs t. I t \<and> ids_ok t \<and> qs = named_queues t n) E"
    by (rule triple_reads [OF q_get]) (use assms(2,4) in \<open>auto simp: named_queues_def\<close>)
  fix qs
  have b: "blind_to_queue n I" by (simp add: blind_to_queue_def assms(1))
  have bq: "blind_to_queue (sq_name (managed_queue n a limit c)) I" using b by (simp add: managed_queue_def)
  show "triple tab (\<lambda>t. I t \<and> ids_ok t \<and> qs = named_queues t n) (ensure_queue ad n a limit c qs) (\<lambda>_. Q) E"
    by (rule triple_weaken [OF ensure_queue_triple [where I = I]])
       (use assms(3,4) b in \<open>auto intro: blind_q_stable blind_queue_added [OF bq] blind_queue_updated\<close>)
qed

end

text \<open>What a mode means on the tables, beyond the mode a later read reports.\<close>

definition mode_established :: "string \<Rightarrow> string \<Rightarrow> string \<Rightarrow> tables \<Rightarrow> bool" where
  "mode_established a limit mode t =
     (let B = list_entries t DEVICE_BLOCK_LIST a; S = list_entries t DEVICE_SLOW_LIST a;
          sn = device_slow_queue_name a; bn = device_bandwidth_queue_name a in
      if mode = ''normal'' then B = [] \<and> S = [] \<and> named_queues t sn = []
      else if mode = ''blocked'' then length B = 1 \<and> S = [] \<and> named_queues t sn = [] \<and> named_queues t bn = []
      else B = [] \<and> length S = 1 \<and> queue_ok t sn a limit \<and> named_queues t bn = [])"

lemma queue_ok_off [simp]: "queue_ok (off_list l b t) n a limit = queue_ok t n a limit"
  "m \<noteq> n \<Longrightarrow> queue_ok (off_queue m t) n a limit = queue_ok t n a limit"
  by (simp_all add: queue_ok_def)

context device_adapter begin

lemma apply_mode_triple:
  assumes "mode \<in> {''normal'', ''slow'', ''blocked''}"
  shows "triple tab (\<lambda>t. rest_of a t = r \<and> ids_ok t) (apply_device_mode ad a mode d)
     (\<lambda>_ t. rest_of a t = r \<and> ids_ok t \<and> mode_established a (ad_slow_limit ad) mode t)
     (\<lambda>t. rest_of a t = r \<and> ids_ok t)"
proof -
  let ?B = DEVICE_BLOCK_LIST and ?S = DEVICE_SLOW_LIST
  let ?sn = "device_slow_queue_name a" and ?bn = "device_bandwidth_queue_name a"
  let ?F = "\<lambda>t. rest_of a t = r"
  consider (normal) "mode = ''normal''" | (blocked) "mode = ''blocked''" | (slow) "mode = ''slow''"
    using assms by blast
  then show ?thesis
  proof cases
    case normal
    have "triple tab (\<lambda>t. ?F t \<and> ids_ok t)
      (rbind (remove_list_entries ad ?B a) (\<lambda>_. rbind (remove_list_entries ad ?S a) (\<lambda>_. remove_queues ad ?sn)))
      (\<lambda>_ t. ?F t \<and> ids_ok t \<and> mode_established a (ad_slow_limit ad) mode t) (\<lambda>t. ?F t \<and> ids_ok t)"
      by (rule triple_rbind [OF clear_list [where I = ?F and Q = "\<lambda>t. ?F t \<and> ids_ok t \<and> list_entries t ?B a = []"]],
          simp_all, rule triple_rbind [OF clear_list [where I = "\<lambda>t. ?F t \<and> list_entries t ?B a = []"
            and Q = "\<lambda>t. ?F t \<and> ids_ok t \<and> list_entries t ?B a = [] \<and> list_entries t ?S a = []"]],
          simp_all, rule clear_queue [where I = "\<lambda>t. ?F t \<and> list_entries t ?B a = [] \<and> list_entries t ?S a = []"])
         (simp_all add: mode_established_def normal Let_def)
    then show ?thesis by (simp add: apply_device_mode_def Let_def normal)
  next
    case blocked
    let ?I = "\<lambda>t. ?F t \<and> length (list_entries t ?B a) = 1"
    have "triple tab (\<lambda>t. ?F t \<and> ids_ok t)
      (rbind (rbind (r_al_get (ad_api ad) ?B a) (ensure_list_entry ad ?B a (with_description ''MC - Device Block'' d))) (\<lambda>_.
       rbind (remove_list_entries ad ?S a) (\<lambda>_. rbind (remove_queues ad ?sn) (\<lambda>_. remove_queues ad ?bn))))
      (\<lambda>_ t. ?F t \<and> ids_ok t \<and> mode_established a (ad_slow_limit ad) mode t) (\<lambda>t. ?F t \<and> ids_ok t)"
      by (rule triple_rbind [OF fix_list [where I = ?F and Q = "\<lambda>t. ?I t \<and> ids_ok t"]], simp_all,
          rule triple_rbind [OF clear_list [where I = ?I and Q = "\<lambda>t. (?I t \<and> list_entries t ?S a = []) \<and> ids_ok t"]], simp_all,
          rule triple_rbind [OF clear_queue [where I = "\<lambda>t. ?I t \<and> list_entries t ?S a = []"
            and Q = "\<lambda>t. (?I t \<and> list_entries t ?S a = [] \<and> named_queues t ?sn = []) \<and> ids_ok t"]], simp_all,
          rule clear_queue [where I = "\<lambda>t. ?I t \<and> list_entries t ?S a = [] \<and> named_queues t ?sn = []"])
         (simp_all add: mode_established_def blocked Let_def)
    then show ?thesis by (simp add: apply_device_mode_def Let_def blocked rbind_assoc)
  next
    case slow
    let ?Q = "\<lambda>t. queue_ok t ?sn a (ad_slow_limit ad)"
    let ?J = "\<lambda>t. ?F t \<and> ?Q t \<and> length (list_entries t ?S a) = 1"
    have "triple tab (\<lambda>t. ?F t \<and> ids_ok t)
      (rbind (rbind (r_q_get (ad_api ad) ?sn) (ensure_queue ad ?sn a (ad_slow_limit ad) (with_description ''MC - Per Device Slow'' d))) (\<lambda>_.
       rbind (rbind (r_al_get (ad_api ad) ?S a) (ensure_list_entry ad ?S a (with_description ''MC - Device Slow'' d))) (\<lambda>_.
       rbind (remove_queues ad ?bn) (\<lambda>_. remove_list_entries ad ?B a))))
      (\<lambda>_ t. ?F t \<and> ids_ok t \<and> mode_established a (ad_slow_limit ad) mode t) (\<lambda>t. ?F t \<and> ids_ok t)"
      by (rule triple_rbind [OF fix_queue [where I = ?F and Q = "\<lambda>t. (?F t \<and> ?Q t) \<and> ids_ok t"]], simp_all,
          rule triple_rbind [OF fix_list [where I = "\<lambda>t. ?F t \<and> ?Q t" and Q = "\<lambda>t. ?J t \<and> ids_ok t"]], simp_all,
          rule triple_rbind [OF clear_queue [where I = ?J and Q = "\<lambda>t. (?J t \<and> named_queues t ?bn = []) \<and> ids_ok t"]], simp_all,
          rule clear_list [where I = "\<lambda>t. ?J t \<and> named_queues t ?bn = []"])
         (simp_all add: mode_established_def slow Let_def)
    then show ?thesis by (simp add: apply_device_mode_def Let_def slow rbind_assoc)
  qed
qed

subsection \<open>A restrained device stays restrained\<close>

lemma slow_mode_safe:
  "triple tab (\<lambda>t. restrained t a \<and> ids_ok t) (apply_device_mode ad a ''slow'' d)
     (\<lambda>_ t. restrained t a) (\<lambda>t. restrained t a)"
proof -
  let ?B = DEVICE_BLOCK_LIST and ?S = DEVICE_SLOW_LIST
  let ?sn = "device_slow_queue_name a" and ?bn = "device_bandwidth_queue_name a"
  let ?Q = "\<lambda>t. queue_ok t ?sn a (ad_slow_limit ad)"
  let ?R = "\<lambda>t. restrained t a" and ?bp = "\<lambda>t. block_present t a" and ?sb = "\<lambda>t. slow_built t a"
  let ?c = "with_description ''MC - Per Device Slow'' d" and ?e = "with_description ''MC - Device Slow'' d"
  have off: "?bp (off_queue n t) = ?bp t" "?bp (off_list ?S a t) = ?bp t"
    "?sb (off_queue ?bn t) = ?sb t" "?sb (off_list ?B a t) = ?sb t" for t n
    by (simp_all add: block_present_def slow_built_def)
  have built: "?Q t \<Longrightarrow> length (list_entries t ?S a) = 1 \<Longrightarrow> ?sb t" for t
    by (auto simp: queue_ok_def slow_built_def)
  have r: "?bp t \<Longrightarrow> ?R t" "?sb t \<Longrightarrow> ?R t" for t by (simp_all add: restrained_def)
  have last: "triple tab (\<lambda>t. ?sb t \<and> ids_ok t) (rbind (remove_queues ad ?bn) (\<lambda>_. remove_list_entries ad ?B a)) (\<lambda>_. ?R) ?R"
    by (rule triple_rbind [OF clear_queue [where I = ?sb and Q = "\<lambda>t. ?sb t \<and> ids_ok t"]])
       (auto simp: off r intro!: clear_list [where I = ?sb])
  have eq: "apply_device_mode ad a ''slow'' d =
      rbind (rbind (r_q_get (ad_api ad) ?sn) (ensure_queue ad ?sn a (ad_slow_limit ad) ?c)) (\<lambda>_.
      rbind (rbind (r_al_get (ad_api ad) ?S a) (ensure_list_entry ad ?S a ?e)) (\<lambda>_.
      rbind (remove_queues ad ?bn) (\<lambda>_. remove_list_entries ad ?B a)))"
    by (simp add: apply_device_mode_def Let_def rbind_assoc)
  have blocked: "triple tab (\<lambda>t. ?bp t \<and> ids_ok t) (apply_device_mode ad a ''slow'' d) (\<lambda>_. ?R) ?R"
    unfolding eq
  proof (rule triple_rbind [OF fix_queue [where I = ?bp and Q = "\<lambda>t. (?bp t \<and> ?Q t) \<and> ids_ok t"]])
    show "triple tab (\<lambda>t. (?bp t \<and> ?Q t) \<and> ids_ok t)
      (rbind (rbind (r_al_get (ad_api ad) ?S a) (ensure_list_entry ad ?S a ?e)) (\<lambda>_.
       rbind (remove_queues ad ?bn) (\<lambda>_. remove_list_entries ad ?B a))) (\<lambda>_. ?R) ?R"
      by (rule triple_rbind [OF fix_list [where I = "\<lambda>t. ?bp t \<and> ?Q t" and Q = "\<lambda>t. ?sb t \<and> ids_ok t"] last])
         (auto simp: off r intro: built)
  qed (auto simp: off r)
  have slow: "triple tab (\<lambda>t. ?sb t \<and> ids_ok t) (apply_device_mode ad a ''slow'' d) (\<lambda>_. ?R) ?R"
    unfolding eq
  proof (rule triple_rbind [where R = "\<lambda>_ t. ?sb t \<and> ids_ok t"], rule triple_rbind)
    show "triple tab (\<lambda>t. ?sb t \<and> ids_ok t) (r_q_get (ad_api ad) ?sn)
        (\<lambda>qs t. (?sb t \<and> ids_ok t \<and> qs = named_queues t ?sn) \<and> length qs = 1) ?R"
      by (rule triple_reads [OF q_get]) (auto simp: named_queues_def slow_built_def r)
    fix qs
    show "triple tab (\<lambda>t. (?sb t \<and> ids_ok t \<and> qs = named_queues t ?sn) \<and> length qs = 1)
        (ensure_queue ad ?sn a (ad_slow_limit ad) ?c qs) (\<lambda>_ t. ?sb t \<and> ids_ok t) ?R"
    proof (cases "length qs = 1")
      case True
      have upd: "?sb (q_updated (sq_id q) (set_queue_fields a (ad_slow_limit ad) ?c) t)"
        if "?sb t" "ids_ok t" "named_queues t ?sn = [q]" for t q
      proof -
        let ?f = "\<lambda>x. if sq_id x = sq_id q then set_queue_fields a (ad_slow_limit ad) ?c x else x"
        have nm: "sq_name (?f x) = sq_name x" for x by (simp add: set_queue_fields_def)
        have "named_queues (q_updated (sq_id q) (set_queue_fields a (ad_slow_limit ad) ?c) t) ?sn = map ?f (named_queues t ?sn)"
          by (simp add: named_queues_def q_updated_def filter_map o_def nm)
        then show ?thesis using that by (simp add: slow_built_def set_queue_fields_def)
      qed
      show ?thesis
        by (rule triple_weaken [OF ensure_queue_triple [where I = ?sb]]) (use True upd r in auto)
    qed (simp add: triple_def)
  next
    show "triple tab (\<lambda>t. ?sb t \<and> ids_ok t)
      (rbind (rbind (r_al_get (ad_api ad) ?S a) (ensure_list_entry ad ?S a ?e)) (\<lambda>_.
       rbind (remove_queues ad ?bn) (\<lambda>_. remove_list_entries ad ?B a))) (\<lambda>_. ?R) ?R"
    proof (rule triple_rbind [OF triple_rbind last])
      show "triple tab (\<lambda>t. ?sb t \<and> ids_ok t) (r_al_get (ad_api ad) ?S a) (\<lambda>es t. (?sb t \<and> ids_ok t) \<and> length es = 1) ?R"
        by (rule triple_reads [OF al_get]) (auto simp: list_entries_def slow_built_def r)
      show "triple tab (\<lambda>t. (?sb t \<and> ids_ok t) \<and> length es = 1) (ensure_list_entry ad ?S a ?e es) (\<lambda>_ t. ?sb t \<and> ids_ok t) ?R" for es
        by (cases "length es = 1") (auto simp: ensure_list_entry_def rwhen_def triple_def rret_def)
    qed
  qed
  show ?thesis
    using blocked slow unfolding triple_def restrained_def [of _ a] by blast
qed

lemma blocked_mode_safe:
  "triple tab (\<lambda>t. (slow_built t a \<or> length (list_entries t DEVICE_BLOCK_LIST a) = 1) \<and> ids_ok t)
     (apply_device_mode ad a ''blocked'' d) (\<lambda>_ t. restrained t a) (\<lambda>t. restrained t a)"
proof -
  let ?B = DEVICE_BLOCK_LIST and ?S = DEVICE_SLOW_LIST
  let ?sn = "device_slow_queue_name a" and ?bn = "device_bandwidth_queue_name a"
  let ?R = "\<lambda>t. restrained t a" and ?sb = "\<lambda>t. slow_built t a"
  let ?one = "\<lambda>t. length (list_entries t ?B a) = 1" and ?c = "with_description ''MC - Device Block'' d"
  have r: "?one t \<Longrightarrow> ?R t" "?sb t \<Longrightarrow> ?R t" for t
    by (auto simp: restrained_def block_present_def)
  have sb_off: "?sb (off_list ?B a t) = ?sb t" for t by (simp add: slow_built_def)
  have tail: "triple tab (\<lambda>t. ?one t \<and> ids_ok t)
      (rbind (remove_list_entries ad ?S a) (\<lambda>_. rbind (remove_queues ad ?sn) (\<lambda>_. remove_queues ad ?bn))) (\<lambda>_. ?R) ?R"
    by (rule triple_rbind [OF clear_list [where I = ?one and Q = "\<lambda>t. ?one t \<and> ids_ok t"]], simp_all add: r,
        rule triple_rbind [OF clear_queue [where I = ?one and Q = "\<lambda>t. ?one t \<and> ids_ok t"]], simp_all add: r,
        rule clear_queue [where I = ?one]) (simp_all add: r)
  have eq: "apply_device_mode ad a ''blocked'' d =
      rbind (rbind (r_al_get (ad_api ad) ?B a) (ensure_list_entry ad ?B a ?c)) (\<lambda>_.
      rbind (remove_list_entries ad ?S a) (\<lambda>_. rbind (remove_queues ad ?sn) (\<lambda>_. remove_queues ad ?bn)))"
    by (simp add: apply_device_mode_def Let_def rbind_assoc)
  have slow: "triple tab (\<lambda>t. ?sb t \<and> ids_ok t) (apply_device_mode ad a ''blocked'' d) (\<lambda>_. ?R) ?R"
    unfolding eq
    by (rule triple_rbind [OF fix_list [where I = ?sb and Q = "\<lambda>t. ?one t \<and> ids_ok t"] tail]) (simp_all add: sb_off r)
  have one: "triple tab (\<lambda>t. ?one t \<and> ids_ok t) (apply_device_mode ad a ''blocked'' d) (\<lambda>_. ?R) ?R"
    unfolding eq
  proof (rule triple_rbind [OF triple_rbind tail])
    show "triple tab (\<lambda>t. ?one t \<and> ids_ok t) (r_al_get (ad_api ad) ?B a) (\<lambda>es t. (?one t \<and> ids_ok t) \<and> length es = 1) ?R"
      by (rule triple_reads [OF al_get]) (auto simp: list_entries_def intro: r)
    show "triple tab (\<lambda>t. (?one t \<and> ids_ok t) \<and> length es = 1) (ensure_list_entry ad ?B a ?c es) (\<lambda>_ t. ?one t \<and> ids_ok t) ?R" for es
      by (cases "length es = 1") (auto simp: ensure_list_entry_def rwhen_def triple_def rret_def)
  qed
  show ?thesis using slow one unfolding triple_def by blast
qed

end

section \<open>Reading and setting the mode\<close>

definition table_enforcement :: "string \<Rightarrow> tables \<Rightarrow> live_enforcement" where
  "table_enforcement a t =
     (let B = list_entries t DEVICE_BLOCK_LIST a; S = list_entries t DEVICE_SLOW_LIST a;
          Q = named_queues t (device_slow_queue_name a) in
      \<lparr> le_mode = table_mode t a, le_blocked_entries = length B, le_slow_entries = length S, le_slow_queues = length Q,
        le_slow_limit = (if length Q = 1 then Some (sq_max_limit (hd Q)) else None) \<rparr>)"

context device_adapter begin

lemma keeps_checks:
  "keeps tab (validate_device_block_primitive ad)" "keeps tab (validate_restricted_device ad a)"
  "keeps tab (require_policy_write_gate ad)" "keeps tab (r_connect (ad_api ad))"
  unfolding validate_device_block_primitive_def validate_restricted_device_def require_policy_write_gate_def
  using keeps_reads [OF connect]
  by (auto intro!: keeps_rules keeps_reads [OF rules_by_comment] keeps_reads [OF al_get] posture_reads
      split: list.split prod.split)

lemma get_device_enforcement_reads:
  assumes "validate_ipv4 a0 = Inr a"
  shows "reads tab (get_device_enforcement ad a0) (table_enforcement a)"
proof -
  have "reads tab (get_device_enforcement ad a0)
    (\<lambda>t. \<lparr> le_mode = device_mode_of (filter (\<lambda>e. al_list e = DEVICE_BLOCK_LIST \<and> al_address e = a) (t_al t))
              (filter (\<lambda>e. al_list e = DEVICE_SLOW_LIST \<and> al_address e = a) (t_al t))
              (filter (\<lambda>q. sq_name q = device_slow_queue_name a) (t_queues t)),
            le_blocked_entries = length (filter (\<lambda>e. al_list e = DEVICE_BLOCK_LIST \<and> al_address e = a) (t_al t)),
            le_slow_entries = length (filter (\<lambda>e. al_list e = DEVICE_SLOW_LIST \<and> al_address e = a) (t_al t)),
            le_slow_queues = length (filter (\<lambda>q. sq_name q = device_slow_queue_name a) (t_queues t)),
            le_slow_limit = (if length (filter (\<lambda>q. sq_name q = device_slow_queue_name a) (t_queues t)) = 1
              then Some (sq_max_limit (hd (filter (\<lambda>q. sq_name q = device_slow_queue_name a) (t_queues t)))) else None) \<rparr>)"
    unfolding get_device_enforcement_def assms rbind_rlift
    by (rule reads_after [OF keeps_checks(4)] reads_rwrap reads_after [OF keeps_checks(1)]
        reads_after [OF keeps_checks(2)] reads_bind [OF al_get] reads_bind [OF q_get] reads_rret)+
  then show ?thesis
    unfolding reads_def table_enforcement_def table_mode_def list_entries_def named_queues_def Let_def .
qed

text \<open>The part of \<open>set_device_mode\<close> that writes: everything before it and after it only reads.\<close>

lemma set_device_mode_triple:
  assumes a: "validate_ipv4 a0 = Inr a" and m: "norm_key mode0 = mode" "mode \<in> {''normal'', ''slow'', ''blocked''}"
    and app: "\<And>d. triple tab P (apply_device_mode ad a mode d) (\<lambda>_. Q) E" and e: "\<And>t. P t \<Longrightarrow> E t" "\<And>t. Q t \<Longrightarrow> E t"
  shows "triple tab P (set_device_mode ad a0 mode0 d0) (\<lambda>r t. Q t \<and> r = table_enforcement a t \<and> le_mode r = mode) E"
proof -
  have k: "triple tab P n (\<lambda>_. P) E" if "keeps tab n" for n :: "('s, 'x) act"
    using that by (rule triple_keeps) (simp_all add: e)
  have aa: "validate_ipv4 a = Inr a" using a by (auto simp: validate_ipv4_def Let_def split: if_splits)
  have nm: "(mode \<notin> {''normal'', ''slow'', ''blocked''}) = False" using m(2) by simp
  have read: "triple tab Q (get_device_enforcement ad a) (\<lambda>r t. Q t \<and> r = table_enforcement a t) E"
    by (rule triple_reads [OF get_device_enforcement_reads [OF aa]]) (simp_all add: e)
  have confirm: "triple tab (\<lambda>t. Q t \<and> r = table_enforcement a t)
      (if le_mode r \<noteq> mode then rraise x else rret r) (\<lambda>r t. Q t \<and> r = table_enforcement a t \<and> le_mode r = mode) E" for r x
    by (auto intro!: triple_if triple_rraise triple_rret simp: e)
  show ?thesis
    unfolding set_device_mode_def a m(1) rbind_rlift Let_def nm if_False
    by (rule triple_rbind [OF k [OF keeps_checks(3)]] triple_rbind [OF k [OF keeps_checks(4)]] triple_rbind [OF triple_rwrap]
        triple_rbind [OF k [OF keeps_checks(1)]] triple_rbind [OF k [OF keeps_checks(2)]] app triple_rbind [OF read] confirm)+
qed

end

section \<open>What a mode change does to the tables\<close>

lemma set_device_mode_valid:
  assumes "set_device_mode ad a0 mode0 d s = (Inr r, s')"
  shows "\<exists>a. validate_ipv4 a0 = Inr a" "norm_key mode0 \<in> {''normal'', ''slow'', ''blocked''}"
  using assms unfolding set_device_mode_def Let_def
  by (cases "validate_ipv4 a0"; auto simp: rraise_def split: if_splits)+

lemma set_device_mode_invalid:
  "norm_key mode0 \<notin> {''normal'', ''slow'', ''blocked''} \<Longrightarrow> snd (set_device_mode ad a0 mode0 d s) = s"
  unfolding set_device_mode_def Let_def by (cases "validate_ipv4 a0") (auto simp: rraise_def)

lemma triple_run: "triple tab P m Q E \<Longrightarrow> m s = (Inr x, s') \<Longrightarrow> P (tab s) \<Longrightarrow> Q x (tab s')"
  unfolding triple_def by fastforce

lemma triple_end: "triple tab P m (\<lambda>_. Q) Q \<Longrightarrow> P (tab s) \<Longrightarrow> Q (tab (snd (m s)))"
  unfolding triple_def by (cases "m s") (auto split: sum.splits)

context device_adapter begin

lemma set_device_mode_establishes:
  assumes "validate_ipv4 a0 = Inr a" "norm_key mode0 \<in> {''normal'', ''slow'', ''blocked''}"
  shows "triple tab (\<lambda>t. rest_of a t = fr \<and> ids_ok t) (set_device_mode ad a0 mode0 d)
    (\<lambda>r t. (rest_of a t = fr \<and> ids_ok t \<and> mode_established a (ad_slow_limit ad) (norm_key mode0) t)
       \<and> r = table_enforcement a t \<and> le_mode r = norm_key mode0) (\<lambda>t. rest_of a t = fr \<and> ids_ok t)"
  by (rule set_device_mode_triple [OF assms(1) refl assms(2) apply_mode_triple [OF assms(2)]]) auto

lemma set_device_mode_frame:
  assumes "validate_ipv4 a0 = Inr a" "ids_ok (tab s)"
  shows "rest_of a (tab (snd (set_device_mode ad a0 mode0 d s))) = rest_of a (tab s)
    \<and> ids_ok (tab (snd (set_device_mode ad a0 mode0 d s)))"
proof (cases "norm_key mode0 \<in> {''normal'', ''slow'', ''blocked''}")
  case True
  let ?I = "\<lambda>t. rest_of a t = rest_of a (tab s) \<and> ids_ok t"
  have "triple tab ?I (set_device_mode ad a0 mode0 d) (\<lambda>_. ?I) ?I"
    by (rule triple_weaken [OF set_device_mode_establishes [OF assms(1) True]]) auto
  from triple_end [OF this, of s] show ?thesis using assms(2) by simp
qed (simp add: set_device_mode_invalid assms(2))

lemma set_device_mode_safe:
  assumes "validate_ipv4 a0 = Inr a" "norm_key mode0 \<in> {''slow'', ''blocked''}" "ids_ok (tab s)" "restrained (tab s) a"
    "norm_key mode0 = ''blocked'' \<Longrightarrow> slow_built (tab s) a \<or> length (list_entries (tab s) DEVICE_BLOCK_LIST a) = 1"
  shows "restrained (tab (snd (set_device_mode ad a0 mode0 d s))) a"
proof -
  let ?R = "\<lambda>t. restrained t a"
  define P where "P t = (ids_ok t \<and> restrained t a \<and> (norm_key mode0 = ''blocked'' \<longrightarrow>
    slow_built t a \<or> length (list_entries t DEVICE_BLOCK_LIST a) = 1))" for t
  have p: "P (tab s)" using assms by (simp add: P_def)
  have app: "triple tab P (apply_device_mode ad a (norm_key mode0) d) (\<lambda>_. ?R) ?R" for d
  proof (cases "norm_key mode0 = ''slow''")
    case True
    show ?thesis unfolding True by (rule triple_weaken [OF slow_mode_safe]) (auto simp: P_def)
  next
    case False
    then have b: "norm_key mode0 = ''blocked''" using assms(2) by simp
    show ?thesis unfolding b by (rule triple_weaken [OF blocked_mode_safe]) (auto simp: P_def b)
  qed
  have "triple tab P (set_device_mode ad a0 mode0 d) (\<lambda>r t. ?R t \<and> r = table_enforcement a t \<and> le_mode r = norm_key mode0) ?R"
    by (rule set_device_mode_triple [OF assms(1) refl _ app]) (use assms(2) in \<open>auto simp: P_def\<close>)
  then have "triple tab P (set_device_mode ad a0 mode0 d) (\<lambda>_. ?R) ?R" by (rule triple_weaken) auto
  from triple_end [OF this, OF p] show ?thesis .
qed

end

lemma mode_change_established:
  assumes "device_adapter ad tab" "ids_ok (tab s)" "set_device_mode ad a0 mode0 d s = (Inr r, s')"
  shows "\<exists>a. validate_ipv4 a0 = Inr a \<and> le_mode r = norm_key mode0 \<and> r = table_enforcement a (tab s')
    \<and> mode_established a (ad_slow_limit ad) (norm_key mode0) (tab s') \<and> rest_of a (tab s') = rest_of a (tab s)"
proof -
  note v = set_device_mode_valid [OF assms(3)]
  then obtain a where a: "validate_ipv4 a0 = Inr a" by blast
  show ?thesis
    using triple_run [OF device_adapter.set_device_mode_establishes [OF assms(1) a v(2)] assms(3)] assms(2) a by blast
qed

text \<open>C16: A mode change that reports success has established the mode exactly, removed the device's
  other restrictions and left every other row of the router as it was.\<close>

theorem mode_change_converges:
  assumes "device_adapter ad tab" "ids_ok (tab s)" "set_device_mode ad a0 mode0 d s = (Inr r, s')"
  shows "\<exists>a. validate_ipv4 a0 = Inr a \<and> le_mode r = norm_key mode0 \<and> r = table_enforcement a (tab s')
    \<and> mode_established a (ad_slow_limit ad) (norm_key mode0) (tab s') \<and> rest_of a (tab s') = rest_of a (tab s)"
  by (rule mode_change_established [OF assms])


subsection \<open>Other devices\<close>

definition ipv4_char :: "char \<Rightarrow> bool" where
  "ipv4_char c = (is_digit c \<or> c = CHR ''.'')"

lemma dashed_inj:
  assumes "list_all ipv4_char a" "list_all ipv4_char b" "dashed a = dashed b"
  shows "a = b"
  using assms
proof (induction a arbitrary: b)
  case (Cons x a)
  then obtain y c where b: "b = y # c" by (cases b) (auto simp: dashed_def)
  have "x = y" using Cons.prems by (auto simp: b dashed_def ipv4_char_def is_digit_def split: if_splits)
  then show ?case using Cons by (simp add: b dashed_def)
qed (simp add: dashed_def)

lemma split_on_chars: "\<forall>w \<in> set (split_on c s). list_all Q w \<Longrightarrow> list_all (\<lambda>x. x = c \<or> Q x) s"
proof (induction s)
  case (Cons x s)
  obtain w ws where w: "split_on c s = w # ws" by (cases "split_on c s") auto
  show ?case using Cons by (cases "x = c") (auto simp: w)
qed simp

lemma validate_ipv4_chars: "validate_ipv4 a0 = Inr a \<Longrightarrow> list_all ipv4_char a"
proof -
  assume "validate_ipv4 a0 = Inr a"
  then have a: "a = py_strip a0" and o: "list_all is_octet (split_on (CHR ''.'') a)"
    by (auto simp: validate_ipv4_def Let_def split: if_splits)
  have "list_all (\<lambda>x. x = CHR ''.'' \<or> is_digit x) a"
    by (rule split_on_chars) (use o in \<open>auto simp: list_all_iff is_octet_def\<close>)
  then show "list_all ipv4_char a" by (auto simp: list_all_iff ipv4_char_def)
qed

lemma rest_of_others:
  assumes "validate_ipv4 a0 = Inr a" "validate_ipv4 b0 = Inr b" "b \<noteq> a" "rest_of a t' = rest_of a t"
  shows "list_entries t' l b = list_entries t l b" "named_queues t' (device_slow_queue_name b) = named_queues t (device_slow_queue_name b)"
    "named_queues t' (device_bandwidth_queue_name b) = named_queues t (device_bandwidth_queue_name b)"
proof -
  have d: "dashed b \<noteq> dashed a" using dashed_inj [OF validate_ipv4_chars [OF assms(2)] validate_ipv4_chars [OF assms(1)]] assms(3) by blast
  have le: "list_entries (rest_of a u) l b = list_entries u l b" for u
    using assms(3) by (auto simp: list_entries_def rest_of_def intro!: filter_cong)
  have nq: "named_queues (rest_of a u) n = named_queues u n" if "n \<notin> {device_slow_queue_name a, device_bandwidth_queue_name a}" for u n
    using that by (auto simp: named_queues_def rest_of_def intro!: filter_cong)
  have n: "device_slow_queue_name b \<notin> {device_slow_queue_name a, device_bandwidth_queue_name a}"
    "device_bandwidth_queue_name b \<notin> {device_slow_queue_name a, device_bandwidth_queue_name a}"
    using d by (simp_all add: device_slow_queue_name_def device_bandwidth_queue_name_def DEVICE_SLOW_QUEUE_PREFIX_def
        DEVICE_BANDWIDTH_QUEUE_PREFIX_def)
  show "list_entries t' l b = list_entries t l b" "named_queues t' (device_slow_queue_name b) = named_queues t (device_slow_queue_name b)"
    "named_queues t' (device_bandwidth_queue_name b) = named_queues t (device_bandwidth_queue_name b)"
    using le [of t'] le [of t] nq [of _ t'] nq [of _ t] n assms(4) by metis+
qed

text \<open>A mode change, successful or not, never changes the mode, the slow queue or the bandwidth
  queue of another device, nor any list membership of another address.\<close>

theorem mode_change_isolated:
  assumes "device_adapter ad tab" "ids_ok (tab s)" "validate_ipv4 a0 = Inr a" "validate_ipv4 b0 = Inr b" "b \<noteq> a"
  shows "table_enforcement b (tab (snd (set_device_mode ad a0 mode0 d s))) = table_enforcement b (tab s)
    \<and> list_entries (tab (snd (set_device_mode ad a0 mode0 d s))) l b = list_entries (tab s) l b
    \<and> named_queues (tab (snd (set_device_mode ad a0 mode0 d s))) (device_bandwidth_queue_name b)
        = named_queues (tab s) (device_bandwidth_queue_name b)"
proof -
  have "rest_of a (tab (snd (set_device_mode ad a0 mode0 d s))) = rest_of a (tab s)"
    using device_adapter.set_device_mode_frame [OF assms(1,3,2)] by blast
  note r = rest_of_others [OF assms(3,4,5) this]
  show ?thesis by (simp add: r table_enforcement_def table_mode_def Let_def)
qed

section \<open>A change ends\<close>

text \<open>A service no call of which fails.\<close>

definition responsive :: "'s ros \<Rightarrow> bool" where
  "responsive api = (\<forall>s. (\<exists>x. fst (r_connect api s) = Inr x)
     \<and> (\<forall>c. \<exists>x. fst (r_rules_by_comment api c s) = Inr x) \<and> (\<forall>l a. \<exists>x. fst (r_al_get api l a s) = Inr x)
     \<and> (\<forall>l a c. \<exists>x. fst (r_al_add api l a c s) = Inr x) \<and> (\<forall>i. \<exists>x. fst (r_al_remove api i s) = Inr x)
     \<and> (\<forall>n. \<exists>x. fst (r_q_get api n s) = Inr x) \<and> (\<forall>q. \<exists>x. fst (r_q_add api q s) = Inr x)
     \<and> (\<forall>i f. \<exists>x. fst (r_q_set api i f s) = Inr x) \<and> (\<forall>i. \<exists>x. fst (r_q_remove api i s) = Inr x))"

text \<open>The router has been prepared for the device: one enabled block rule, one static membership in
  the list of restricted devices.\<close>

definition device_ready :: "string \<Rightarrow> tables \<Rightarrow> bool" where
  "device_ready a t =
     ((case filter (\<lambda>r. fr_comment r = DEVICE_BLOCK_RULE_COMMENT) (t_rules t) of [r] \<Rightarrow> \<not> fr_disabled r | _ \<Rightarrow> False)
      \<and> length (filter (\<lambda>e. \<not> al_dynamic e) (list_entries t RESTRICTED_LIST a)) = 1)"

definition gate_open :: "'s adapter \<Rightarrow> bool" where
  "gate_open ad = (ad_proven ad \<or> (\<forall>s. \<exists>failed. fst (ad_posture ad s) = Inr (True, failed)))"

lemma restricted_list_distinct [simp]: "RESTRICTED_LIST \<noteq> DEVICE_BLOCK_LIST" "RESTRICTED_LIST \<noteq> DEVICE_SLOW_LIST"
  "DEVICE_BLOCK_LIST \<noteq> RESTRICTED_LIST" "DEVICE_SLOW_LIST \<noteq> RESTRICTED_LIST"
  by (simp_all add: RESTRICTED_LIST_def DEVICE_BLOCK_LIST_def DEVICE_SLOW_LIST_def)

lemma device_ready_rest: "device_ready a (rest_of a t) = device_ready a t"
proof -
  have "list_entries (rest_of a t) RESTRICTED_LIST a = list_entries t RESTRICTED_LIST a"
    by (auto simp: list_entries_def rest_of_def intro!: filter_cong)
  then show ?thesis by (simp add: device_ready_def) (simp add: rest_of_def)
qed

lemma mode_established_mode:
  assumes "mode_established a limit mode t" "mode \<in> {''normal'', ''slow'', ''blocked''}"
  shows "table_mode t a = mode"
proof -
  consider "mode = ''normal''" | "mode = ''slow''" | "mode = ''blocked''" using assms(2) by blast
  then show ?thesis
  proof cases
    case 2
    then have "list_entries t DEVICE_BLOCK_LIST a = [] \<and> length (list_entries t DEVICE_SLOW_LIST a) = 1
      \<and> queue_ok t (device_slow_queue_name a) a limit"
      using assms(1) by (simp add: mode_established_def Let_def)
    then show ?thesis by (auto simp: 2 table_mode_def device_mode_of_def queue_ok_def)
  qed (use assms(1) in \<open>simp_all add: mode_established_def table_mode_def device_mode_of_def Let_def\<close>)
qed

lemma triple_true: "triple tab P m (\<lambda>_ _. True) (\<lambda>_. True)"
  by (simp add: triple_def split: sum.split)

lemma returns_then: "returns tab (\<lambda>_. True) m \<Longrightarrow> (\<And>x. returns tab (\<lambda>_. True) (f x)) \<Longrightarrow> returns tab (\<lambda>_. True) (rbind m f)"
  by (rule returns_rbind [OF _ triple_true])

context device_adapter begin

lemma returns_api:
  assumes "responsive (ad_api ad)"
  shows "returns tab P (r_connect (ad_api ad))" "returns tab P (r_rules_by_comment (ad_api ad) c)"
    "returns tab P (r_al_get (ad_api ad) l a)" "returns tab P (r_al_add (ad_api ad) l a c)" "returns tab P (r_al_remove (ad_api ad) i)"
    "returns tab P (r_q_get (ad_api ad) n)" "returns tab P (r_q_add (ad_api ad) q)" "returns tab P (r_q_set (ad_api ad) i f)"
    "returns tab P (r_q_remove (ad_api ad) i)"
  using assms by (simp_all add: responsive_def returns_def)

lemma returns_remove:
  assumes "responsive (ad_api ad)"
  shows "returns tab (\<lambda>_. True) (remove_list_entries ad l a)" "returns tab (\<lambda>_. True) (remove_queues ad n)"
  unfolding remove_list_entries_def remove_queues_def remove_al_entry_def remove_queue_def
  by (intro returns_then returns_api assms returns_rfor returns_rwhen)+

lemma returns_ensure:
  assumes "responsive (ad_api ad)"
  shows "returns tab (\<lambda>_. True) (ensure_list_entry ad l a c es)"
    "returns tab (\<lambda>t. ids_ok t \<and> qs = named_queues t n) (ensure_queue ad n a limit c qs)"
proof -
  show "returns tab (\<lambda>_. True) (ensure_list_entry ad l a c es)"
    unfolding ensure_list_entry_def by (intro returns_rwhen returns_then returns_remove returns_api assms)
  have i: "sq_id q \<noteq> []" if "ids_ok t" "[q] = named_queues t n" for t q
  proof -
    have "q \<in> set (named_queues t n)" using that(2) by (metis list.set_intros(1))
    then have "q \<in> set (t_queues t)" by (simp add: named_queues_def)
    then show ?thesis using that(1) unfolding ids_ok_def by (metis image_eqI)
  qed
  have re: "returns tab (\<lambda>_. True) (rbind (remove_queues ad n) (\<lambda>_. r_q_add (ad_api ad) (managed_queue n a limit c)))"
    by (intro returns_then returns_remove returns_api assms)
  show "returns tab (\<lambda>t. ids_ok t \<and> qs = named_queues t n) (ensure_queue ad n a limit c qs)"
  proof (cases "\<exists>q. qs = [q]")
    case True
    then obtain q where q: "qs = [q]" by blast
    show ?thesis
      by (cases "sq_id q = []")
         (use i in \<open>auto simp: q ensure_queue_def returns_api(8) [OF assms] returns_def [of _ _ "rraise _"]\<close>)
  next
    case False
    then have e: "ensure_queue ad n a limit c qs = rbind (remove_queues ad n) (\<lambda>_. r_q_add (ad_api ad) (managed_queue n a limit c))"
      by (auto simp: ensure_queue_def split: list.split)
    show ?thesis unfolding e by (rule returns_pre [OF re]) simp
  qed
qed

lemma returns_apply:
  assumes "responsive (ad_api ad)"
  shows "returns tab ids_ok (apply_device_mode ad a mode d)"
proof -
  note steps = returns_then returns_remove returns_ensure(1) returns_api assms
  let ?sn = "device_slow_queue_name a"
  have q: "triple tab ids_ok (r_q_get (ad_api ad) ?sn) (\<lambda>qs t. ids_ok t \<and> qs = named_queues t ?sn) ids_ok"
    by (rule triple_reads [OF q_get]) (auto simp: named_queues_def)
  have t: "returns tab (\<lambda>_. True) (rbind (r_al_get (ad_api ad) DEVICE_SLOW_LIST a) (\<lambda>slow.
        rbind (ensure_list_entry ad DEVICE_SLOW_LIST a e slow) (\<lambda>_.
        rbind (remove_queues ad (device_bandwidth_queue_name a)) (\<lambda>_.
          remove_list_entries ad DEVICE_BLOCK_LIST a))))" for e
    by (intro steps)
  consider (n) "mode = ''normal''" | (b) "mode = ''blocked''" | (s) "mode \<noteq> ''normal''" "mode \<noteq> ''blocked''" by blast
  then show ?thesis
  proof cases
    case n
    have "returns tab (\<lambda>_. True) (apply_device_mode ad a mode d)"
      unfolding apply_device_mode_def Let_def n by (simp, intro steps)
    then show ?thesis by (rule returns_pre) simp
  next
    case b
    have "returns tab (\<lambda>_. True) (apply_device_mode ad a mode d)"
      unfolding apply_device_mode_def Let_def b by (simp, intro steps)
    then show ?thesis by (rule returns_pre) simp
  next
    case s
    have e: "returns tab (\<lambda>t. ids_ok t \<and> qs = named_queues t ?sn) (rbind (ensure_queue ad ?sn a lim c qs) (\<lambda>_.
        rbind (r_al_get (ad_api ad) DEVICE_SLOW_LIST a) (\<lambda>slow.
        rbind (ensure_list_entry ad DEVICE_SLOW_LIST a e slow) (\<lambda>_.
        rbind (remove_queues ad (device_bandwidth_queue_name a)) (\<lambda>_.
          remove_list_entries ad DEVICE_BLOCK_LIST a)))))" for qs lim c e
      by (rule returns_rbind [OF returns_ensure(2) [OF assms] triple_true t])
    show ?thesis
      unfolding apply_device_mode_def Let_def using s
      by simp (rule returns_rbind [OF returns_api(6) [OF assms] q e])
  qed
qed

lemma returns_checks:
  assumes "responsive (ad_api ad)" "device_ready a fr"
  shows "returns tab (\<lambda>t. rest_of a t = fr) (validate_device_block_primitive ad)"
    "returns tab (\<lambda>t. rest_of a t = fr) (validate_restricted_device ad a)"
proof -
  let ?P = "\<lambda>t. rest_of a t = fr"
  have rd: "device_ready a t" if "?P t" for t using that assms(2) device_ready_rest by auto
  have b: "\<exists>r. filter (\<lambda>r. fr_comment r = DEVICE_BLOCK_RULE_COMMENT) (t_rules t) = [r] \<and> \<not> fr_disabled r" if "?P t" for t
    using rd [OF that] by (auto simp: device_ready_def split: list.splits)
  have m: "\<exists>e. filter (\<lambda>e. \<not> al_dynamic e) (list_entries t RESTRICTED_LIST a) = [e]" if "?P t" for t
    using rd [OF that] by (simp add: device_ready_def length_Suc_conv)
  have r1: "triple tab ?P (r_rules_by_comment (ad_api ad) DEVICE_BLOCK_RULE_COMMENT) (\<lambda>rs t. \<exists>r. rs = [r] \<and> \<not> fr_disabled r) (\<lambda>_. True)"
    by (rule triple_reads [OF rules_by_comment]) (use b in auto)
  have r2: "triple tab ?P (r_al_get (ad_api ad) RESTRICTED_LIST a) (\<lambda>es t. \<exists>e. filter (\<lambda>e. \<not> al_dynamic e) es = [e]) (\<lambda>_. True)"
    by (rule triple_reads [OF al_get]) (use m in \<open>auto simp: list_entries_def simp del: filter_filter\<close>)
  show "returns tab ?P (validate_device_block_primitive ad)"
    unfolding validate_device_block_primitive_def
    by (rule returns_rbind [OF returns_api(2) [OF assms(1)] r1]) (auto simp: returns_def rret_def)
  show "returns tab ?P (validate_restricted_device ad a)"
    unfolding validate_restricted_device_def
    by (rule returns_rbind [OF returns_api(3) [OF assms(1)] r2]) (auto simp: returns_def rret_def)
qed

lemma device_ready_fixed: "device_ready a (tab s) \<Longrightarrow> device_ready a (rest_of a (tab s))"
  by (simp add: device_ready_rest)

lemma returns_read:
  assumes "responsive (ad_api ad)" "device_ready a fr" "validate_ipv4 a0 = Inr a"
  shows "returns tab (\<lambda>t. rest_of a t = fr) (get_device_enforcement ad a0)"
  unfolding get_device_enforcement_def assms(3) rbind_rlift
  by (rule returns_rbind [OF returns_api(1) [OF assms(1)] triple_keeps [OF keeps_checks(4), where Q = "\<lambda>_ t. rest_of a t = fr" and E = "\<lambda>_. True"]],
      simp, simp, rule returns_rwrap,
      rule returns_rbind [OF returns_checks(1) [OF assms(1,2)] triple_keeps [OF keeps_checks(1), where Q = "\<lambda>_ t. rest_of a t = fr" and E = "\<lambda>_. True"]],
      simp, simp,
      rule returns_rbind [OF returns_checks(2) [OF assms(1,2)] triple_keeps [OF keeps_checks(2), where Q = "\<lambda>_ _. True" and E = "\<lambda>_. True"]],
      simp, simp, intro returns_then returns_api assms(1) returns_rret)

lemma returns_gate: "gate_open ad \<Longrightarrow> returns tab P (require_policy_write_gate ad)"
  unfolding returns_def require_policy_write_gate_def gate_open_def rbind_def
  by (auto simp: rret_def split: prod.splits sum.splits) (metis fst_conv Inl_Inr_False sum.inject(2) prod.inject)+

lemma set_device_mode_returns:
  assumes "responsive (ad_api ad)" "gate_open ad" "validate_ipv4 a0 = Inr a"
    "norm_key mode0 \<in> {''normal'', ''slow'', ''blocked''}" "device_ready a fr"
  shows "returns tab (\<lambda>t. rest_of a t = fr \<and> ids_ok t) (set_device_mode ad a0 mode0 d)"
proof -
  let ?m = "norm_key mode0" and ?P = "\<lambda>t. rest_of a t = fr \<and> ids_ok t"
  have aa: "validate_ipv4 a = Inr a" using assms(3) by (auto simp: validate_ipv4_def Let_def split: if_splits)
  have nm: "(?m \<notin> {''normal'', ''slow'', ''blocked''}) = False" using assms(4) by simp
  have k: "triple tab ?P n (\<lambda>_. ?P) (\<lambda>_. True)" if "keeps tab n" for n :: "('s, 'x) act"
    using that by (rule triple_keeps) simp_all
  have w: "returns tab ?P (rwrap msg (rbind (validate_device_block_primitive ad) (\<lambda>_.
      rbind (validate_restricted_device ad a) (\<lambda>_. apply_device_mode ad a ?m d))))" for msg d
    by (rule returns_rwrap, rule returns_rbind [OF returns_pre [OF returns_checks(1) [OF assms(1,5)]] k [OF keeps_checks(1)]], simp,
        rule returns_rbind [OF returns_pre [OF returns_checks(2) [OF assms(1,5)]] k [OF keeps_checks(2)]], simp,
        rule returns_pre [OF returns_apply [OF assms(1)]], simp)
  let ?Q = "\<lambda>t. rest_of a t = fr \<and> ids_ok t \<and> mode_established a (ad_slow_limit ad) ?m t"
  have e: "triple tab ?P (rwrap msg (rbind (validate_device_block_primitive ad) (\<lambda>_.
      rbind (validate_restricted_device ad a) (\<lambda>_. apply_device_mode ad a ?m d)))) (\<lambda>_. ?Q) (\<lambda>_. True)" for msg d
    by (rule triple_rwrap triple_rbind [OF k [OF keeps_checks(1)]] triple_rbind [OF k [OF keeps_checks(2)]]
        triple_weaken [OF apply_mode_triple [OF assms(4)]])+ simp_all
  have rd: "triple tab ?Q (get_device_enforcement ad a) (\<lambda>r t. le_mode r = ?m) (\<lambda>_. True)"
    by (rule triple_reads [OF get_device_enforcement_reads [OF aa]])
       (auto simp: table_enforcement_def Let_def intro: mode_established_mode [OF _ assms(4)])
  have fin: "returns tab (\<lambda>t. le_mode r = ?m) (if le_mode r \<noteq> ?m then rraise x else rret r)" for r x
    by (auto simp: returns_def rret_def)
  show ?thesis
    unfolding set_device_mode_def assms(3) rbind_rlift Let_def nm if_False
    by (rule returns_rbind [OF returns_gate [OF assms(2)] k [OF keeps_checks(3)]],
        rule returns_rbind [OF returns_api(1) [OF assms(1)] k [OF keeps_checks(4)]],
        rule returns_rbind [OF w e],
        rule returns_rbind [OF returns_pre [OF returns_read [OF assms(1,5) aa]] rd], simp, rule fin)
qed

end

text \<open>C18: On a prepared router whose calls do not fail, every valid mode change of a device returns
  successfully.\<close>

theorem mode_change_returns:
  assumes "device_adapter ad tab" "responsive (ad_api ad)" "gate_open ad" "ids_ok (tab s)" "device_ready a (tab s)"
    "validate_ipv4 a0 = Inr a" "norm_key mode0 \<in> {''normal'', ''slow'', ''blocked''}"
  shows "\<exists>r s'. set_device_mode ad a0 mode0 d s = (Inr r, s') \<and> le_mode r = norm_key mode0"
proof -
  have rd: "device_ready a (rest_of a (tab s))" using assms(5) by (simp add: device_ready_rest)
  obtain r s' where "set_device_mode ad a0 mode0 d s = (Inr r, s')"
    using device_adapter.set_device_mode_returns [OF assms(1,2,3,6,7) rd, of d] assms(4)
    unfolding returns_def by (metis prod.collapse)
  then show ?thesis using mode_change_established [OF assms(1,4)] by blast
qed

end
