(* ===== verification/RouterSim.thy ===== *)
theory RouterSim
  imports RouterMode
begin

text \<open>
  An executable service that keeps the contract of \<open>RouterApi\<close>: tables together with the outcome
  of each coming call. A call is answered, refused before it is carried out, or carried out without
  an answer; once the outcomes are used up, or when the service is steady, every call is answered.
  The contract is thereby satisfiable with any pattern of faults, and properties stated over every
  service have instances that evaluate.
\<close>

datatype outcome = Answered | Refused | Unanswered

type_synonym sim = "tables \<times> outcome list"

definition sim_read :: "bool \<Rightarrow> (tables \<Rightarrow> 'a) \<Rightarrow> (sim, 'a) act" where
  "sim_read steady f = (\<lambda>(t, os).
     case if steady then [] else os of [] \<Rightarrow> (Inr (f t), (t, []))
     | Answered # os' \<Rightarrow> (Inr (f t), (t, os'))
     | _ # os' \<Rightarrow> (Inl (ApiFault ''timed out''), (t, os')))"

definition sim_write :: "bool \<Rightarrow> (tables \<Rightarrow> tables) \<Rightarrow> (sim, unit) act" where
  "sim_write steady f = (\<lambda>(t, os).
     case if steady then [] else os of [] \<Rightarrow> (Inr (), (f t, []))
     | Answered # os' \<Rightarrow> (Inr (), (f t, os'))
     | Refused # os' \<Rightarrow> (Inl (ApiFault ''timed out''), (t, os'))
     | Unanswered # os' \<Rightarrow> (Inl (ApiFault ''timed out''), (f t, os')))"

definition fresh_id :: "string list \<Rightarrow> string" where
  "fresh_id ids = CHR ''*'' # concat ids"

lemma fresh_id: "fresh_id ids \<noteq> []" "fresh_id ids \<notin> set ids"
proof -
  have "length i \<le> length (concat ids)" if "i \<in> set ids" for i
    using that by (induction ids) auto
  then show "fresh_id ids \<notin> set ids" by (force simp: fresh_id_def)
qed (simp add: fresh_id_def)

definition sim_api :: "bool \<Rightarrow> sim ros" where
  "sim_api st = \<lparr>
     r_connect = sim_read st (\<lambda>_. ()),
     r_rules_by_comment = (\<lambda>c. sim_read st (\<lambda>t. filter (\<lambda>r. fr_comment r = c) (t_rules t))),
     r_rules = sim_read st t_rules,
     r_al_get = (\<lambda>l a. sim_read st (\<lambda>t. filter (\<lambda>e. al_list e = l \<and> al_address e = a) (t_al t))),
     r_al_by_list = (\<lambda>l. sim_read st (\<lambda>t. filter (\<lambda>e. al_list e = l) (t_al t))),
     r_al_add = (\<lambda>l a c. sim_write st (\<lambda>t. t\<lparr> t_al := t_al t @ [\<lparr> al_id = fresh_id (map al_id (t_al t)), al_list = l,
                   al_address = a, al_comment = c, al_dynamic = False \<rparr>] \<rparr>)),
     r_al_remove = (\<lambda>i. sim_write st (al_removed i)),
     r_q_get = (\<lambda>n. sim_read st (\<lambda>t. filter (\<lambda>q. sq_name q = n) (t_queues t))),
     r_q_add = (\<lambda>q. sim_write st (\<lambda>t. t\<lparr> t_queues := t_queues t @ [q\<lparr> sq_id := fresh_id (map sq_id (t_queues t)) \<rparr>] \<rparr>)),
     r_q_set = (\<lambda>i f. sim_write st (q_updated i f)),
     r_q_remove = (\<lambda>i. sim_write st (q_removed i)),
     r_conns = sim_read st t_conns,
     r_conn_remove = (\<lambda>i. sim_write st (conn_removed i)),
     r_sched_get = (\<lambda>n. sim_read st (\<lambda>t. filter (\<lambda>x. sc_name x = n) (t_scheds t))),
     r_sched_add = (\<lambda>x. sim_write st (\<lambda>t. t\<lparr> t_scheds := t_scheds t @ [x\<lparr> sc_id := fresh_id (map sc_id (t_scheds t)) \<rparr>] \<rparr>)),
     r_sched_set = (\<lambda>i f. sim_write st (sched_updated i f)),
     r_sched_remove = (\<lambda>i. sim_write st (sched_removed i)),
     r_script_get = (\<lambda>n. sim_read st (\<lambda>t. filter (\<lambda>x. rs_name x = n) (t_scripts t))),
     r_script_add = (\<lambda>x. sim_write st (\<lambda>t. t\<lparr> t_scripts := t_scripts t @ [x\<lparr> rs_id := fresh_id (map rs_id (t_scripts t)) \<rparr>] \<rparr>)),
     r_script_set = (\<lambda>i f. sim_write st (script_updated i f)),
     r_script_remove = (\<lambda>i. sim_write st (script_removed i)) \<rparr>"

definition sample_now :: int where
  "sample_now = 1783166400"

definition sim_adapter :: "bool \<Rightarrow> bool \<Rightarrow> bool \<Rightarrow> string \<Rightarrow> sim adapter" where
  "sim_adapter st ready proven limit =
     \<lparr> ad_api = sim_api st, ad_posture = sim_read st (\<lambda>_. (ready, if ready then [] else [''api_certificate''])),
       ad_proven = proven, ad_slow_limit = limit, ad_zone = london, ad_now = (\<lambda>s. (Inr sample_now, s)) \<rparr>"

lemma sim_reads: "reads fst (sim_read st f) f"
  by (auto simp: reads_def sim_read_def split: prod.splits list.splits outcome.splits if_splits)

lemma sim_writes: "(\<And>t. step t (f t)) \<Longrightarrow> writes fst (sim_write st f) step"
  by (auto simp: writes_def sim_write_def split: prod.splits list.splits outcome.splits if_splits)

lemma fresh_ex: "(\<And>i. i = fresh_id ids \<Longrightarrow> P i) \<Longrightarrow> \<exists>i. i \<noteq> [] \<and> i \<notin> set ids \<and> P i"
  using fresh_id by blast

interpretation sim: device_adapter "sim_adapter st ready proven limit" fst for st ready proven limit
proof unfold_locales
  show "keeps fst (ad_posture (sim_adapter st ready proven limit))"
    by (simp add: sim_adapter_def keeps_reads [OF sim_reads])
qed (auto simp: sim_adapter_def sim_api_def al_added_def q_added_def
    sched_added_def script_added_def keeps_def simp flip: set_map
    intro!: sim_reads sim_writes fresh_ex)

lemma sim_responsive: "responsive (ad_api (sim_adapter True ready proven limit))"
  by (auto simp: responsive_def sim_adapter_def sim_api_def sim_read_def sim_write_def)

section \<open>Instances\<close>

text \<open>A router prepared for one device, at 192.168.88.10.\<close>

definition sample_rule :: fw_rule where
  "sample_rule = \<lparr> fr_id = ''*1'', fr_comment = ''MC - Per Device Block'', fr_chain = ''forward'', fr_action = ''drop'',
     fr_src_address_list = ''MC_Mode_Blocked'', fr_dst_address_list = [], fr_protocol = [], fr_dst_port = [],
     fr_address_list = [], fr_tls_host = [], fr_disabled = False \<rparr>"

definition sample_entry :: "string \<Rightarrow> string \<Rightarrow> string \<Rightarrow> al_entry" where
  "sample_entry i l a = \<lparr> al_id = i, al_list = l, al_address = a, al_comment = [], al_dynamic = False \<rparr>"

definition sample_tables :: "al_entry list \<Rightarrow> tables" where
  "sample_tables es = \<lparr> t_rules = [sample_rule],
     t_al = sample_entry ''*A'' ''Restricted_Devices'' ''192.168.88.10'' # es, t_queues = [], t_conns = [], t_scheds = [], t_scripts = [] \<rparr>"

lemma sample_router: "device_adapter (sim_adapter st ready proven limit) fst"
  by (rule sim.device_adapter_axioms)

lemma mode_change_converges_witness:
  "\<exists>r s'. set_device_mode (sim_adapter False True False ''2M/2M'') '' 192.168.88.10'' ''Slow'' [] (sample_tables [], []) = (Inr r, s')
     \<and> le_mode r = ''slow'' \<and> mode_established ''192.168.88.10'' ''2M/2M'' ''slow'' (fst s')"
proof -
  let ?ad = "sim_adapter False True False ''2M/2M''" and ?s = "(sample_tables [], [])"
  have "\<not> isl (fst (set_device_mode ?ad '' 192.168.88.10'' ''Slow'' [] ?s))" by code_simp
  then obtain r s' where run: "set_device_mode ?ad '' 192.168.88.10'' ''Slow'' [] ?s = (Inr r, s')"
    by (metis isl_def prod.collapse sum.exhaust)
  have ids: "ids_ok (fst ?s)" by code_simp
  have k: "norm_key ''Slow'' = ''slow''" "validate_ipv4 '' 192.168.88.10'' = Inr ''192.168.88.10''" "ad_slow_limit ?ad = ''2M/2M''"
    by code_simp+
  show ?thesis using mode_change_converges [OF sample_router ids run] run by (auto simp: k)
qed


lemma mode_change_isolated_witness:
  "table_enforcement ''192.168.88.11'' (fst (snd (set_device_mode (sim_adapter False True True ''2M/2M'') ''192.168.88.10'' ''slow'' []
      (sample_tables [], [Answered, Refused])))) = table_enforcement ''192.168.88.11'' (sample_tables [])"
proof -
  have "ids_ok (fst (sample_tables [], [Answered, Refused]))" "validate_ipv4 ''192.168.88.10'' = Inr ''192.168.88.10''"
    "validate_ipv4 ''192.168.88.11'' = Inr ''192.168.88.11''" by code_simp+
  from mode_change_isolated [OF sample_router this] show ?thesis by simp
qed

lemma mode_change_returns_witness:
  "\<exists>r s'. set_device_mode (sim_adapter True True False ''2M/2M'') ''192.168.88.10'' ''blocked'' [] (sample_tables [], []) = (Inr r, s')
     \<and> le_mode r = ''blocked''"
proof -
  have g: "gate_open (sim_adapter True True False ''2M/2M'')"
    by (auto simp: gate_open_def sim_adapter_def sim_read_def)
  have k: "norm_key ''blocked'' = ''blocked''" by code_simp
  have "ids_ok (fst (sample_tables [], []::outcome list))" "device_ready ''192.168.88.10'' (fst (sample_tables [], []::outcome list))"
    "validate_ipv4 ''192.168.88.10'' = Inr ''192.168.88.10''" "norm_key ''blocked'' \<in> {''normal'', ''slow'', ''blocked''}"
    by code_simp+
  from mode_change_returns [OF sample_router sim_responsive g this] show ?thesis by (simp add: k)
qed

text \<open>A device with two block entries is left unrestrained when the call that adds the single
  entry fails while it is being blocked: the entries found are removed first.\<close>

theorem duplicate_block_fails_open:
  "let s = (sample_tables [sample_entry ''*B'' DEVICE_BLOCK_LIST ''192.168.88.10'', sample_entry ''*C'' DEVICE_BLOCK_LIST ''192.168.88.10''],
           replicate 7 Answered @ [Refused]);
       (r, s') = set_device_mode (sim_adapter False True True ''2M/2M'') ''192.168.88.10'' ''blocked'' [] s
   in restrained (fst s) ''192.168.88.10'' \<and> isl r \<and> table_mode (fst s') ''192.168.88.10'' = ''normal''"
  by code_simp

end
