(* ===== verification/RouterTemp.thy ===== *)
theory RouterTemp
  imports RouterMode
begin

text \<open>
  Temporary NORMAL access of one device (\<open>src/app/router.py\<close>): the one-shot RouterOS scheduler and
  the restore script it runs, reading the state of an override, granting or extending it and
  cancelling it. The text of the restore script is produced from the list of its commands, so that
  what the router does when it runs the script can be stated on the tables.
\<close>

section \<open>Names and metadata\<close>

definition device_temp_scheduler_name :: "string \<Rightarrow> string" where
  "device_temp_scheduler_name address = ''MC-TEMP-DEV-'' @ dashed address"

definition device_temp_script_name :: "string \<Rightarrow> string" where
  "device_temp_script_name address = ''MC-TEMP-RESTORE-DEV-'' @ dashed address"

text \<open>\<open>part.split("=", 1)\<close> with both sides stripped.\<close>

definition split_field :: "string \<Rightarrow> (string \<times> string) list" where
  "split_field part =
     (if CHR ''='' \<notin> set part then []
      else [(py_strip (takeWhile (\<lambda>c. c \<noteq> CHR ''='') part), py_strip (tl (dropWhile (\<lambda>c. c \<noteq> CHR ''='') part)))])"

text \<open>The dict of the metadata as its assignments, the last one of a key on the left.\<close>

definition parse_device_temp_comment :: "string \<Rightarrow> (string \<times> string) list" where
  "parse_device_temp_comment comment =
     (let parts = split_on (CHR ''|'') comment in
      if length parts < 4 \<or> take 2 parts \<noteq> [''MC'', ''TEMP_DEVICE''] then []
      else rev ((''address'', parts ! 2) # concat (map split_field (drop 3 parts))))"

definition temp_comment :: "string \<Rightarrow> string \<Rightarrow> int \<Rightarrow> string \<Rightarrow> string \<Rightarrow> string" where
  "temp_comment address restore_mode minutes started reference =
     ''MC|TEMP_DEVICE|'' @ address @ ''|restore='' @ restore_mode @ ''|minutes='' @ show_int minutes @ ''|started='' @ started
     @ (if reference = [] then [] else ''|reference='' @ reference)"

section \<open>The restore script\<close>

datatype ros_cmd =
    RemoveList string string
  | RemoveQueue string
  | EnsureList string string
  | AddQueue string string string
  | AddList string string

definition dq :: "string \<Rightarrow> string" where
  "dq s = CHR 0x22 # s @ [CHR 0x22]"

definition render_cmd :: "ros_cmd \<Rightarrow> string" where
  "render_cmd c = (case c of
     RemoveList l a \<Rightarrow> '':foreach i in=[/ip firewall address-list find where list='' @ dq l @ '' and address='' @ dq a
        @ ''] do={ /ip firewall address-list remove $i };''
   | RemoveQueue n \<Rightarrow> '':foreach i in=[/queue simple find where name='' @ dq n @ ''] do={ /queue simple remove $i };''
   | EnsureList l a \<Rightarrow> '':if ([:len [/ip firewall address-list find where list='' @ dq l @ '' and address='' @ dq a
        @ '']] = 0) do={ /ip firewall address-list add list='' @ dq l @ '' address='' @ dq a
        @ '' comment='' @ dq ''MC - Temp Restore Block'' @ '' };''
   | AddQueue n a limit \<Rightarrow> ''/queue simple add name='' @ dq n @ '' target='' @ dq (a @ ''/32'') @ '' max-limit='' @ dq limit
        @ '' queue='' @ dq SMALL_QUEUE @ '' comment='' @ dq ''MC - Temp Restore Slow'' @ '' disabled=no;''
   | AddList l a \<Rightarrow> ''/ip firewall address-list add list='' @ dq l @ '' address='' @ dq a
        @ '' comment='' @ dq ''MC - Temp Restore Slow'' @ '';'')"

definition restore_commands :: "string \<Rightarrow> string \<Rightarrow> string \<Rightarrow> ros_cmd list" where
  "restore_commands limit address restore_mode =
     (let slow_queue = device_slow_queue_name address; bandwidth_queue = device_bandwidth_queue_name address;
          remove_block = RemoveList DEVICE_BLOCK_LIST address; remove_slow_list = RemoveList DEVICE_SLOW_LIST address;
          remove_slow_queue = RemoveQueue slow_queue; remove_bandwidth_queue = RemoveQueue bandwidth_queue
      in if restore_mode = ''normal'' then [remove_block, remove_slow_list, remove_slow_queue]
         else if restore_mode = ''blocked'' then
           [EnsureList DEVICE_BLOCK_LIST address, remove_slow_list, remove_slow_queue, remove_bandwidth_queue]
         else [remove_slow_queue, AddQueue slow_queue address limit, remove_slow_list, AddList DEVICE_SLOW_LIST address,
               remove_bandwidth_queue, remove_block])"

definition device_temp_restore_source :: "'s adapter \<Rightarrow> string \<Rightarrow> string \<Rightarrow> string res" where
  "device_temp_restore_source ad address0 restore_mode0 =
     ebind (validate_ipv4 address0) (\<lambda>address.
     let restore_mode = norm_key restore_mode0 in
     if restore_mode \<notin> {''normal'', ''slow'', ''blocked''} then
       Inl (RouterError (''Invalid temporary restore mode '' @ sq restore_mode))
     else case parse_max_limit (ad_slow_limit ad) of
         Inl e \<Rightarrow> Inl (case e of BandwidthRateError t \<Rightarrow>
             RouterError (''Invalid MIKROTIK_DEVICE_SLOW_LIMIT '' @ sq (ad_slow_limit ad) @ '': '' @ t) | _ \<Rightarrow> e)
       | Inr _ \<Rightarrow> Inr (concat (map render_cmd (restore_commands (ad_slow_limit ad) address restore_mode))))"

section \<open>Reading an override\<close>

record temp_state = temporary_access +
  ts_expired :: bool
  ts_disabled :: bool
  ts_started_at :: "string option"

definition inactive_temp :: temp_state where
  "inactive_temp = \<lparr> ta_active = False, ta_restore_mode = None, ta_restore_time = None, ta_restore_at = None,
     ta_reference = None, ta_minutes = 0, ts_expired = False, ts_disabled = False, ts_started_at = None \<rparr>"

text \<open>Both loops of the clean-up count what they remove.\<close>

fun remove_counting :: "('x \<Rightarrow> string) \<Rightarrow> (string \<Rightarrow> ('s, unit) act) \<Rightarrow> 'x list \<Rightarrow> nat \<Rightarrow> ('s, nat) act" where
  "remove_counting ident rm [] n = rret n"
| "remove_counting ident rm (x # xs) n =
     (if ident x = [] then remove_counting ident rm xs n
      else rbind (rm (ident x)) (\<lambda>_. remove_counting ident rm xs (n + 1)))"

definition cleanup_device_temp_resources :: "'s adapter \<Rightarrow> string \<Rightarrow> ('s, nat \<times> nat) act" where
  "cleanup_device_temp_resources ad address =
     rbind (r_sched_get (ad_api ad) (device_temp_scheduler_name address)) (\<lambda>entries.
     rbind (remove_counting sc_id (r_sched_remove (ad_api ad)) entries 0) (\<lambda>removed_scheduler.
     rbind (r_script_get (ad_api ad) (device_temp_script_name address)) (\<lambda>entries.
     rbind (remove_counting rs_id (r_script_remove (ad_api ad)) entries 0) (\<lambda>removed_script.
       rret (removed_scheduler, removed_script)))))"

definition restore_time_of :: "scheduler \<Rightarrow> string" where
  "restore_time_of s = py_strip (sc_start_date s @ '' '' @ take 8 (sc_start_time s))"

definition run_count_of :: "scheduler \<Rightarrow> int res" where
  "run_count_of s = (if sc_run_count s = [] then Inr 0
     else case py_int (sc_run_count s) of
         Some n \<Rightarrow> Inr n
       | None \<Rightarrow> Inl (ValueError (''invalid literal for int() with base 10: '' @ py_repr (sc_run_count s))))"

text \<open>What the scheduler found says; \<open>metadata.get(key)\<close> is \<open>map_of\<close>.\<close>

definition read_override :: "'s adapter \<Rightarrow> string \<Rightarrow> script list \<Rightarrow> scheduler \<Rightarrow> ('s, temp_state) act" where
  "read_override ad address scripts entry =
     (let scheduler_name = device_temp_scheduler_name address; script_name = device_temp_script_name address;
          metadata = parse_device_temp_comment (sc_comment entry);
          owner = opt_or (map_of metadata ''address'') [];
          restore_mode = py_lower (str_or (opt_or (map_of metadata ''restore'') []) ''unknown'');
          minutes = (case py_int (str_or (opt_or (map_of metadata ''minutes'') []) ''0'') of Some n \<Rightarrow> n | None \<Rightarrow> 0)
      in if owner \<noteq> [] \<and> owner \<noteq> address then
           rraise (RouterError (scheduler_name @ '' metadata belongs to '' @ owner @ '', not '' @ address))
         else rbind (rlift (run_count_of entry)) (\<lambda>run_count.
           let restore_time = restore_time_of entry; reference = map_of metadata ''reference'' in
           if run_count > 0 then
             rbind (cleanup_device_temp_resources ad address) (\<lambda>_.
               rret (inactive_temp\<lparr> ta_restore_mode := Some restore_mode, ta_restore_time := Some restore_time,
                       ta_reference := reference, ts_expired := True \<rparr>))
           else if sc_disabled entry then
             rbind (cleanup_device_temp_resources ad address) (\<lambda>_.
               rret (inactive_temp\<lparr> ta_restore_mode := Some restore_mode, ta_reference := reference,
                       ts_disabled := True \<rparr>))
           else if restore_mode \<notin> {''normal'', ''slow'', ''blocked''} then
             rraise (RouterError (scheduler_name @ '' has invalid restore mode '' @ sq restore_mode))
           else if length scripts \<noteq> 1 then
             rraise (RouterError (''Active '' @ scheduler_name @ '' requires exactly one '' @ script_name @ '' restore script''))
           else rret \<lparr> ta_active = True, ta_restore_mode = Some restore_mode, ta_restore_time = Some restore_time,
                  ta_restore_at = Some restore_time, ta_reference = reference, ta_minutes = minutes,
                  ts_expired = False, ts_disabled = False, ts_started_at = map_of metadata ''started'' \<rparr>))"

definition read_temporary_access :: "'s adapter \<Rightarrow> string \<Rightarrow> ('s, temp_state) act" where
  "read_temporary_access ad address =
     (let scheduler_name = device_temp_scheduler_name address; script_name = device_temp_script_name address in
      rbind (r_sched_get (ad_api ad) scheduler_name) (\<lambda>matches.
      rbind (r_script_get (ad_api ad) script_name) (\<lambda>scripts.
        if length matches > 1 then
          rraise (RouterError (''Expected at most one '' @ scheduler_name @ '' scheduler, found '' @ show_nat (length matches)))
        else if length scripts > 1 then
          rraise (RouterError (''Expected at most one '' @ script_name @ '' script, found '' @ show_nat (length scripts)))
        else case matches of
          [] \<Rightarrow> rbind (rfor scripts (\<lambda>x. rwhen (rs_id x \<noteq> []) (r_script_remove (ad_api ad) (rs_id x)))) (\<lambda>_.
                 rret inactive_temp)
        | entry # _ \<Rightarrow> read_override ad address scripts entry)))"

definition get_device_temporary_access :: "'s adapter \<Rightarrow> string \<Rightarrow> ('s, temp_state) act" where
  "get_device_temporary_access ad address0 =
     rbind (rlift (validate_ipv4 address0)) (\<lambda>address.
     rbind (r_connect (ad_api ad)) (\<lambda>_.
     rwrap (''Unable to read temporary access for '' @ address)
       (rbind (validate_restricted_device ad address) (\<lambda>_. read_temporary_access ad address))))"

section \<open>Granting and extending\<close>

definition DEVICE_TEMP_DURATIONS :: "int list" where
  "DEVICE_TEMP_DURATIONS = [15, 30, 60]"

definition is_reference :: "string \<Rightarrow> bool" where
  "is_reference s = (length s \<le> 80 \<and> list_all (\<lambda>c. is_digit c \<or> (CHR ''a'' \<le> c \<and> c \<le> CHR ''z'') \<or> (CHR ''A'' \<le> c \<and> c \<le> CHR ''Z'')
      \<or> c \<in> {CHR ''_'', CHR ''.'', CHR '':'', CHR ''-''}) s)"

definition month_names :: "string list" where
  "month_names = [''jan'', ''feb'', ''mar'', ''apr'', ''may'', ''jun'', ''jul'', ''aug'', ''sep'', ''oct'', ''nov'', ''dec'']"

text \<open>\<open>strftime("%b/%d/%Y").lower()\<close> and \<open>strftime("%H:%M:%S")\<close> of a wall time.\<close>

definition ros_date :: "int \<Rightarrow> string" where
  "ros_date wall = (let (y, m, d) = civil_from_days (wall div 86400) in
     month_names ! nat (m - 1) @ ''/'' @ pad2 (nat d) @ ''/'' @ show_int y)"

definition ros_clock :: "int \<Rightarrow> string" where
  "ros_clock wall = (let secs = wall mod 86400 in
     pad2 (nat (secs div 3600)) @ '':'' @ pad2 (nat (secs mod 3600 div 60)) @ '':'' @ pad2 (nat (secs mod 60)))"

definition show_offset :: "int \<Rightarrow> string" where
  "show_offset off = (let m = abs off div 60 in
     (if off < 0 then ''-'' else ''+'') @ pad2 (nat (m div 60)) @ '':'' @ pad2 (nat (m mod 60)))"

text \<open>\<open>isoformat(timespec="seconds")\<close>.\<close>

definition iso_seconds :: "zone \<Rightarrow> aware \<Rightarrow> string" where
  "iso_seconds z a = show_date (aw_local a div 86400) @ ''T'' @ ros_clock (aw_local a)
     @ show_offset (aw_local a - utc_instant z a)"

text \<open>\<open>datetime.now(zone) + timedelta(minutes=...)\<close>: the addition is on the wall clock and the result
  is the first of two equal wall times.\<close>

definition temp_target :: "zone \<Rightarrow> int \<Rightarrow> int \<Rightarrow> aware" where
  "temp_target z now minutes = \<lparr> aw_local = aw_local (from_utc z now) + 60 * minutes, aw_fold = False \<rparr>"

definition temp_script :: "string \<Rightarrow> string \<Rightarrow> string \<Rightarrow> script" where
  "temp_script name address source =
     \<lparr> rs_id = [], rs_name = name, rs_comment = ''MC temporary restore for '' @ address, rs_source = source,
       rs_policy = ''read,write,test'' \<rparr>"

definition set_script_fields :: "string \<Rightarrow> string \<Rightarrow> script \<Rightarrow> script" where
  "set_script_fields address source x =
     x\<lparr> rs_comment := ''MC temporary restore for '' @ address, rs_source := source, rs_policy := ''read,write,test'' \<rparr>"

definition temp_scheduler :: "string \<Rightarrow> string \<Rightarrow> string \<Rightarrow> int \<Rightarrow> scheduler" where
  "temp_scheduler name script_name comment target =
     \<lparr> sc_id = [], sc_name = name, sc_comment = comment, sc_start_date = ros_date target, sc_start_time = ros_clock target,
       sc_interval = ''0s'', sc_on_event = script_name, sc_policy = ''read,write,test'', sc_disabled = False,
       sc_run_count = ''0'' \<rparr>"

definition set_scheduler_fields :: "string \<Rightarrow> string \<Rightarrow> int \<Rightarrow> scheduler \<Rightarrow> scheduler" where
  "set_scheduler_fields script_name comment target x =
     x\<lparr> sc_comment := comment, sc_start_date := ros_date target, sc_start_time := ros_clock target,
        sc_interval := ''0s'', sc_on_event := script_name, sc_policy := ''read,write,test'', sc_disabled := False \<rparr>"

text \<open>Write the script before the scheduler that runs it; an active override is extended in place.\<close>

definition write_fail_safe :: "'s adapter \<Rightarrow> string \<Rightarrow> bool \<Rightarrow> string \<Rightarrow> string \<Rightarrow> int \<Rightarrow> ('s, unit) act" where
  "write_fail_safe ad address extending source comment target =
     (let scheduler_name = device_temp_scheduler_name address; script_name = device_temp_script_name address in
      rbind (validate_device_block_primitive ad) (\<lambda>_.
      rbind (validate_restricted_device ad address) (\<lambda>_.
        if extending then
          rbind (r_sched_get (ad_api ad) scheduler_name) (\<lambda>scheduler_matches.
          rbind (r_script_get (ad_api ad) script_name) (\<lambda>script_matches.
            case (scheduler_matches, script_matches) of
              ([s], [x]) \<Rightarrow>
                rbind (r_script_set (ad_api ad) (rs_id x) (set_script_fields address source)) (\<lambda>_.
                  r_sched_set (ad_api ad) (sc_id s) (set_scheduler_fields script_name comment target))
            | _ \<Rightarrow> rraise (RouterError (''Cannot safely extend temporary access for '' @ address
                     @ '': the existing fail-safe contract is incomplete''))))
        else
          rbind (cleanup_device_temp_resources ad address) (\<lambda>_.
          rbind (r_script_add (ad_api ad) (temp_script script_name address source)) (\<lambda>_.
            r_sched_add (ad_api ad) (temp_scheduler scheduler_name script_name comment target))))))"

definition swallow :: "('s, 'a) act \<Rightarrow> ('s, unit) act" where
  "swallow m = rcatch (rbind m (\<lambda>_. rret ())) (\<lambda>_. rret ())"

definition prepare_fail_safe :: "'s adapter \<Rightarrow> string \<Rightarrow> bool \<Rightarrow> string \<Rightarrow> string \<Rightarrow> int \<Rightarrow> ('s, unit) act" where
  "prepare_fail_safe ad address extending source comment target =
     rbind (r_connect (ad_api ad)) (\<lambda>_.
     rcatch (write_fail_safe ad address extending source comment target) (\<lambda>e. case e of
         RouterError t \<Rightarrow> rraise e
       | _ \<Rightarrow> rbind (rwhen (\<not> extending) (swallow (cleanup_device_temp_resources ad address))) (\<lambda>_.
               rraise (RouterError (''Unable to '' @ (if extending then ''extend'' else ''create'')
                 @ '' temporary access fail-safe for '' @ address @ '': '' @ exc_text e)))))"

definition release_for_access :: "'s adapter \<Rightarrow> string \<Rightarrow> bool \<Rightarrow> string \<Rightarrow> ('s, unit) act" where
  "release_for_access ad address extending description =
     rcatch (rbind (set_device_mode ad address ''normal'' (str_or description ''temporary access'')) (\<lambda>_. rret ()))
       (\<lambda>e. rbind (rwhen (\<not> extending)
                     (swallow (rbind (r_connect (ad_api ad)) (\<lambda>_. cleanup_device_temp_resources ad address))))
              (\<lambda>_. rraise e))"

definition bind_reference :: "'s adapter \<Rightarrow> string \<Rightarrow> string \<Rightarrow> ('s, unit) act" where
  "bind_reference ad address comment =
     rbind (r_connect (ad_api ad)) (\<lambda>_.
     rcatch (rbind (r_sched_get (ad_api ad) (device_temp_scheduler_name address)) (\<lambda>matches.
         case matches of
           [s] \<Rightarrow> r_sched_set (ad_api ad) (sc_id s) (\<lambda>x. x\<lparr> sc_comment := comment \<rparr>)
         | _ \<Rightarrow> rraise (RouterError (''Temporary access was granted for '' @ address
                  @ '', but its recovery reference could not be bound because '' @ show_nat (length matches)
                  @ '' schedulers were found''))))
       (\<lambda>e. rraise (case e of RouterError t \<Rightarrow> e
              | _ \<Rightarrow> RouterError (''Temporary access was granted for '' @ address
                       @ '', but binding recovery reference failed: '' @ exc_text e))))"

record temp_grant = temp_state +
  tg_extended :: bool
  tg_previous_mode :: string
  tg_restore_at_iso :: string

definition granted :: "temp_state \<Rightarrow> bool \<Rightarrow> string \<Rightarrow> string \<Rightarrow> string \<Rightarrow> string \<Rightarrow> temp_grant" where
  "granted result extending previous restore_mode reference restore_at =
     \<lparr> ta_active = ta_active result, ta_restore_mode = Some restore_mode, ta_restore_time = ta_restore_time result,
       ta_restore_at = ta_restore_at result, ta_reference = (if reference = [] then None else Some reference),
       ta_minutes = ta_minutes result, ts_expired = ts_expired result, ts_disabled = ts_disabled result,
       ts_started_at = ts_started_at result, tg_extended = extending, tg_previous_mode = previous,
       tg_restore_at_iso = restore_at \<rparr>"

text \<open>The grant once its arguments are validated.\<close>

definition grant_temporary_normal ::
  "'s adapter \<Rightarrow> string \<Rightarrow> int \<Rightarrow> string \<Rightarrow> string option \<Rightarrow> string \<Rightarrow> ('s, temp_grant) act" where
  "grant_temporary_normal ad address minutes description requested reference =
     rbind (require_policy_write_gate ad) (\<lambda>_.
     rbind (get_device_temporary_access ad address) (\<lambda>existing.
     rbind (get_device_enforcement ad address) (\<lambda>current.
       if le_mode current \<notin> {''normal'', ''slow'', ''blocked''} then
         rraise (RouterError (''Cannot start temporary access from invalid device state '' @ sq (le_mode current)))
       else
         let extending = ta_active existing;
             restore_mode = (if extending then opt_or (ta_restore_mode existing) [] else opt_or requested (le_mode current))
         in if restore_mode \<notin> {''normal'', ''slow'', ''blocked''} then
              rraise (RouterError (''Invalid temporary restore mode '' @ sq restore_mode))
            else
              rbind (ad_now ad) (\<lambda>now.
              let target = temp_target (ad_zone ad) now minutes in
              rbind (rlift (device_temp_restore_source ad address restore_mode)) (\<lambda>source.
              rbind (ad_now ad) (\<lambda>now2.
              let started = iso_seconds (ad_zone ad) (from_utc (ad_zone ad) now2);
                  effective = (if extending then py_strip (opt_or (ta_reference existing) []) else []);
                  comment = temp_comment address restore_mode minutes started
              in
              rbind (prepare_fail_safe ad address extending source (comment effective) (aw_local target)) (\<lambda>_.
              rbind (release_for_access ad address extending description) (\<lambda>_.
              let binds = (reference \<noteq> [] \<and> \<not> extending) in
              rbind (rwhen binds (bind_reference ad address (comment reference))) (\<lambda>_.
              rbind (get_device_temporary_access ad address) (\<lambda>result.
                if \<not> ta_active result then
                  rraise (RouterError (''Temporary access scheduler did not become active for '' @ address))
                else rret (granted result extending (le_mode current) restore_mode
                       (if binds then reference else effective) (iso_seconds (ad_zone ad) target)))))))))))) "

definition set_device_temporary_normal ::
  "'s adapter \<Rightarrow> string \<Rightarrow> pyval \<Rightarrow> string \<Rightarrow> string option \<Rightarrow> string \<Rightarrow> ('s, temp_grant) act" where
  "set_device_temporary_normal ad address0 minutes0 description0 restore_mode0 reference0 =
     rbind (rlift (validate_ipv4 address0)) (\<lambda>address.
     case pyval_int minutes0 of
       None \<Rightarrow> rraise (RouterError ''Temporary access duration must be a number'')
     | Some minutes \<Rightarrow>
         if minutes \<notin> set DEVICE_TEMP_DURATIONS then
           rraise (RouterError ''Temporary access supports 15, 30 or 60 minutes'')
         else if restore_mode0 \<noteq> None \<and> norm_key (the restore_mode0) \<notin> {''normal'', ''slow'', ''blocked''} then
           rraise (RouterError ''Invalid restore mode'')
         else
           let description = take 40 (py_strip description0); reference = py_strip reference0 in
           if reference \<noteq> [] \<and> \<not> is_reference reference then
             rraise (RouterError ''Temporary access reference contains invalid characters'')
           else grant_temporary_normal ad address minutes description (map_option norm_key restore_mode0) reference)"

section \<open>Cancelling\<close>

record temp_cancelled =
  tc_removed :: bool
  tc_restored :: bool
  tc_restore_mode :: "string option"
  tc_counts :: "(nat \<times> nat) option"

definition set_disabled :: "bool \<Rightarrow> scheduler \<Rightarrow> scheduler" where
  "set_disabled b x = x\<lparr> sc_disabled := b \<rparr>"

text \<open>\<open>sched.set(id=entry["id"], ...)\<close>.\<close>

definition set_sched_disabled :: "'s adapter \<Rightarrow> bool \<Rightarrow> scheduler \<Rightarrow> ('s, unit) act" where
  "set_sched_disabled ad b x =
     (if sc_id x = [] then rraise (KeyError ''id'') else r_sched_set (ad_api ad) (sc_id x) (set_disabled b))"

definition disable_fail_safe :: "'s adapter \<Rightarrow> string \<Rightarrow> ('s, unit) act" where
  "disable_fail_safe ad address =
     rbind (r_connect (ad_api ad)) (\<lambda>_.
     rwrap (''Unable to disable temporary scheduler for '' @ address)
       (rbind (r_sched_get (ad_api ad) (device_temp_scheduler_name address)) (\<lambda>matches.
          case matches of
            [s] \<Rightarrow> set_sched_disabled ad True s
          | _ \<Rightarrow> rraise (RouterError (''Expected exactly one active '' @ device_temp_scheduler_name address
                   @ '' scheduler, found '' @ show_nat (length matches))))))"

definition enable_fail_safe :: "'s adapter \<Rightarrow> string \<Rightarrow> ('s, unit) act" where
  "enable_fail_safe ad address =
     rbind (r_connect (ad_api ad)) (\<lambda>_.
     rbind (r_sched_get (ad_api ad) (device_temp_scheduler_name address)) (\<lambda>matches.
       rfor matches (set_sched_disabled ad False)))"

definition cancel_device_temporary_access :: "'s adapter \<Rightarrow> string \<Rightarrow> bool \<Rightarrow> ('s, temp_cancelled) act" where
  "cancel_device_temporary_access ad address0 restore =
     rbind (rlift (validate_ipv4 address0)) (\<lambda>address.
     rbind (get_device_temporary_access ad address) (\<lambda>state.
       if \<not> ta_active state then
         rret \<lparr> tc_removed = False, tc_restored = False, tc_restore_mode = ta_restore_mode state, tc_counts = None \<rparr>
       else
         rbind (disable_fail_safe ad address) (\<lambda>_.
         rbind (rwhen restore
                  (rcatch (rbind (set_device_mode ad address (opt_or (ta_restore_mode state) []) ''temporary access cancelled'')
                             (\<lambda>_. rret ()))
                    (\<lambda>e. rbind (swallow (enable_fail_safe ad address)) (\<lambda>_. rraise e)))) (\<lambda>_.
         rbind (r_connect (ad_api ad)) (\<lambda>_.
         rbind (rcatch (cleanup_device_temp_resources ad address)
                  (\<lambda>e. rraise (RouterError (''Temporary mode restored for '' @ address @ '', but cleanup failed: '' @ exc_text e)))) (\<lambda>removed.
           rret \<lparr> tc_removed = True, tc_restored = restore, tc_restore_mode = ta_restore_mode state,
                  tc_counts = Some removed \<rparr>))))))"

end
