(* ===== verification/RouterTempSafety.thy ===== *)
theory RouterTempSafety
  imports RouterTemp
begin

text \<open>
  Correctness of temporary access over every service that keeps the contract of \<open>RouterApi\<close>: a
  grant that succeeds is backed by an armed scheduler and the right restore script, extending an
  override never loses its fail-safe whichever calls fail, a cancellation restores the mode and
  removes what the override owned, and the restore script establishes the mode it was made for.
\<close>

section \<open>What the tables say about an override\<close>

definition named_scheds :: "tables \<Rightarrow> string \<Rightarrow> scheduler list" where
  "named_scheds t n = filter (\<lambda>x. sc_name x = n) (t_scheds t)"

definition named_scripts :: "tables \<Rightarrow> string \<Rightarrow> script list" where
  "named_scripts t n = filter (\<lambda>x. rs_name x = n) (t_scripts t)"

text \<open>The router will restore the device: one enabled scheduler that has not run, one script.\<close>

definition armed :: "tables \<Rightarrow> string \<Rightarrow> bool" where
  "armed t a = (\<exists>s x. named_scheds t (device_temp_scheduler_name a) = [s] \<and> named_scripts t (device_temp_script_name a) = [x]
     \<and> \<not> sc_disabled s \<and> (\<exists>n \<le> 0. run_count_of s = Inr n))"

lemma armed_code [code]:
  "armed t a = (case (named_scheds t (device_temp_scheduler_name a), named_scripts t (device_temp_script_name a)) of
     ([s], [x]) \<Rightarrow> \<not> sc_disabled s \<and> (case run_count_of s of Inr n \<Rightarrow> n \<le> 0 | Inl _ \<Rightarrow> False) | _ \<Rightarrow> False)"
  by (auto simp: armed_def split: list.split sum.split)

text \<open>\<open>armed\<close>, and the script it runs is the given one.\<close>

definition armed_with :: "tables \<Rightarrow> string \<Rightarrow> string \<Rightarrow> bool" where
  "armed_with t a source = (armed t a \<and> (\<forall>x \<in> set (named_scripts t (device_temp_script_name a)). rs_source x = source)
     \<and> (\<forall>s \<in> set (named_scheds t (device_temp_scheduler_name a)). sc_on_event s = device_temp_script_name a))"

definition temp_ids_ok :: "tables \<Rightarrow> bool" where
  "temp_ids_ok t = (distinct (map sc_id (t_scheds t)) \<and> [] \<notin> set (map sc_id (t_scheds t))
     \<and> distinct (map rs_id (t_scripts t)) \<and> [] \<notin> set (map rs_id (t_scripts t)))"

definition no_temp :: "tables \<Rightarrow> string \<Rightarrow> bool" where
  "no_temp t a = (named_scheds t (device_temp_scheduler_name a) = [] \<and> named_scripts t (device_temp_script_name a) = [])"

text \<open>The mode operations do not look at schedulers and scripts, and conversely.\<close>

definition mode_tables :: "tables \<Rightarrow> fw_rule list \<times> al_entry list \<times> simple_queue list" where
  "mode_tables t = (t_rules t, t_al t, t_queues t)"

lemma mode_tables_updates [simp]:
  "mode_tables (sched_updated i f t) = mode_tables t" "mode_tables (sched_removed i t) = mode_tables t"
  "mode_tables (script_updated i g t) = mode_tables t" "mode_tables (script_removed i t) = mode_tables t"
  by (simp_all add: mode_tables_def sched_updated_def sched_removed_def script_updated_def script_removed_def)

lemma mode_tables_added: "sched_added x t t' \<Longrightarrow> mode_tables t' = mode_tables t" "script_added y t t' \<Longrightarrow> mode_tables t' = mode_tables t"
  by (auto simp: mode_tables_def sched_added_def script_added_def)

lemma mode_tables_same:
  assumes "mode_tables t' = mode_tables t"
  shows "table_enforcement a t' = table_enforcement a t" "ids_ok t' = ids_ok t"
  using assms by (simp_all add: mode_tables_def table_enforcement_def table_mode_def list_entries_def named_queues_def ids_ok_def)

lemma temp_tables_same:
  assumes "t_scheds t' = t_scheds t" "t_scripts t' = t_scripts t"
  shows "armed t' a = armed t a" "armed_with t' a src = armed_with t a src" "temp_ids_ok t' = temp_ids_ok t" "no_temp t' a = no_temp t a"
    "named_scheds t' n = named_scheds t n" "named_scripts t' n = named_scripts t n"
  using assms by (simp_all add: armed_def armed_with_def temp_ids_ok_def no_temp_def named_scheds_def named_scripts_def)

text \<open>In-place updates that keep names.\<close>

lemma named_scheds_updated:
  assumes "\<And>x. sc_name (f x) = sc_name x"
  shows "named_scheds (sched_updated i f t) n = map (\<lambda>x. if sc_id x = i then f x else x) (named_scheds t n)"
proof -
  have "sc_name (if sc_id x = i then f x else x) = sc_name x" for x by (simp add: assms)
  then show ?thesis by (simp add: named_scheds_def sched_updated_def filter_map o_def)
qed

lemma named_scripts_updated:
  assumes "\<And>x. rs_name (g x) = rs_name x"
  shows "named_scripts (script_updated i g t) n = map (\<lambda>x. if rs_id x = i then g x else x) (named_scripts t n)"
proof -
  have "rs_name (if rs_id x = i then g x else x) = rs_name x" for x by (simp add: assms)
  then show ?thesis by (simp add: named_scripts_def script_updated_def filter_map o_def)
qed

lemma named_other [simp]:
  "named_scripts (sched_updated i f t) n = named_scripts t n" "named_scheds (script_updated i g t) n = named_scheds t n"
  "named_scripts (sched_removed i t) n = named_scripts t n" "named_scheds (script_removed i t) n = named_scheds t n"
  by (simp_all add: named_scheds_def named_scripts_def sched_updated_def script_updated_def sched_removed_def script_removed_def)

lemma ids_updated:
  "(\<And>x. sc_id (f x) = sc_id x) \<Longrightarrow> map sc_id (t_scheds (sched_updated i f t)) = map sc_id (t_scheds t)"
  "(\<And>x. rs_id (g x) = rs_id x) \<Longrightarrow> map rs_id (t_scripts (script_updated i g t)) = map rs_id (t_scripts t)"
  "t_scripts (sched_updated i f t) = t_scripts t" "t_scheds (script_updated i g t) = t_scheds t"
  by (simp_all add: sched_updated_def script_updated_def o_def if_distrib [of sc_id] if_distrib [of rs_id] cong: if_cong)

lemma armed_sched_updated:
  assumes "armed t a" "\<And>x. sc_name (f x) = sc_name x" "\<And>x. sc_run_count (f x) = sc_run_count x" "\<And>x. \<not> sc_disabled x \<Longrightarrow> \<not> sc_disabled (f x)"
  shows "armed (sched_updated i f t) a"
proof -
  have "run_count_of (f x) = run_count_of x" for x by (auto simp: run_count_of_def assms(3) split: option.split)
  then show ?thesis using assms(1,4) by (auto simp: armed_def named_scheds_updated [OF assms(2)] )
qed

lemma armed_script_updated:
  assumes "armed t a" "\<And>x. rs_name (g x) = rs_name x"
  shows "armed (script_updated i g t) a"
  using assms(1) by (auto simp: armed_def named_scripts_updated [OF assms(2)] )

lemma update_fields [simp]:
  "sc_name (set_scheduler_fields n c w x) = sc_name x" "sc_run_count (set_scheduler_fields n c w x) = sc_run_count x"
  "sc_disabled (set_scheduler_fields n c w x) = False" "sc_id (set_scheduler_fields n c w x) = sc_id x"
  "sc_on_event (set_scheduler_fields n c w x) = n"
  "rs_name (set_script_fields a src y) = rs_name y" "rs_id (set_script_fields a src y) = rs_id y"
  "rs_source (set_script_fields a src y) = src"
  "sc_name (set_disabled b x) = sc_name x" "sc_id (set_disabled b x) = sc_id x"
  by (simp_all add: set_scheduler_fields_def set_script_fields_def set_disabled_def)

definition temp_mode :: "temp_state \<Rightarrow> bool" where
  "temp_mode r = (\<exists>m. ta_restore_mode r = Some m \<and> m \<in> {''normal'', ''slow'', ''blocked''})"

text \<open>The outcome of a grant.\<close>

definition grant_done :: "'s adapter \<Rightarrow> string \<Rightarrow> temp_grant \<Rightarrow> tables \<Rightarrow> bool" where
  "grant_done ad a r t = (\<exists>m source. ta_restore_mode r = Some m \<and> m \<in> {''normal'', ''slow'', ''blocked''}
     \<and> device_temp_restore_source ad a m = Inr source \<and> armed_with t a source \<and> table_mode t a = ''normal'' \<and> ta_active r)"

section \<open>Triples of the operations on schedulers and scripts\<close>

lemma remove_counting_triple:
  assumes "\<And>x D. x \<in> set xs \<Longrightarrow> ident x \<noteq> [] \<Longrightarrow> triple tab (I D) (rm (ident x)) (\<lambda>_. I (insert x D)) E"
    "\<And>x. x \<in> set xs \<Longrightarrow> ident x \<noteq> []"
  shows "triple tab (I D) (remove_counting ident rm xs n) (\<lambda>_. I (D \<union> set xs)) E"
  using assms
proof (induction xs arbitrary: D n)
  case Nil
  show ?case by (simp add: triple_rret)
next
  case (Cons x xs)
  have "triple tab (I (insert x D)) (remove_counting ident rm xs (n + 1)) (\<lambda>_. I (insert x D \<union> set xs)) E"
    by (rule Cons.IH) (simp_all add: Cons.prems)
  moreover have "triple tab (I D) (rm (ident x)) (\<lambda>_. I (insert x D)) E" by (simp add: Cons.prems)
  moreover have "ident x \<noteq> []" by (simp add: Cons.prems)
  ultimately show ?case by (simp add: triple_rbind)
qed


text \<open>A predicate that sees neither schedulers nor scripts.\<close>

definition temp_blind :: "(tables \<Rightarrow> bool) \<Rightarrow> bool" where
  "temp_blind M = (\<forall>t t'. mode_tables t' = mode_tables t \<longrightarrow> M t' = M t)"

lemma temp_blindD: "temp_blind M \<Longrightarrow> mode_tables t' = mode_tables t \<Longrightarrow> M t' = M t"
  unfolding temp_blind_def by blast

lemma temp_blindI: "(\<And>t t'. mode_tables t' = mode_tables t \<Longrightarrow> M t' = M t) \<Longrightarrow> temp_blind M"
  unfolding temp_blind_def by blast

lemma removed_lists:
  "named_scheds (sched_removed i t) n = filter (\<lambda>x. sc_id x \<noteq> i) (named_scheds t n)"
  "named_scripts (script_removed i t) m = filter (\<lambda>x. rs_id x \<noteq> i) (named_scripts t m)"
  by (simp_all add: named_scheds_def named_scripts_def sched_removed_def script_removed_def conj_commute)

lemma temp_ids_removed:
  "temp_ids_ok t \<Longrightarrow> temp_ids_ok (sched_removed i t)" "temp_ids_ok t \<Longrightarrow> temp_ids_ok (script_removed i t)"
  by (auto simp: temp_ids_ok_def sched_removed_def script_removed_def intro: distinct_map_filter)

lemma named_ids:
  "temp_ids_ok t \<Longrightarrow> x \<in> set (named_scheds t n) \<Longrightarrow> sc_id x \<noteq> []"
  "temp_ids_ok t \<Longrightarrow> y \<in> set (named_scripts t m) \<Longrightarrow> rs_id y \<noteq> []"
  unfolding temp_ids_ok_def named_scheds_def named_scripts_def by (auto simp: image_iff)

context device_adapter begin

lemma remove_scheds:
  assumes "temp_blind M" "xs = named_scheds t0 n" "temp_ids_ok t0"
  shows "triple tab (\<lambda>t. M t \<and> temp_ids_ok t \<and> xs = named_scheds t n) (remove_counting sc_id (r_sched_remove (ad_api ad)) xs k)
    (\<lambda>_ t. M t \<and> temp_ids_ok t \<and> named_scheds t n = []) (\<lambda>t. M t \<and> temp_ids_ok t)"
proof -
  define I where "I D t = (M t \<and> temp_ids_ok t \<and> set (named_scheds t n) \<subseteq> set xs - D)" for D t
  have m: "M (sched_removed i t) = M t" for i t by (rule temp_blindD [OF assms(1)]) simp
  have "triple tab (I {}) (remove_counting sc_id (r_sched_remove (ad_api ad)) xs k) (\<lambda>_. I ({} \<union> set xs)) (\<lambda>t. M t \<and> temp_ids_ok t)"
  proof (rule remove_counting_triple)
    fix x D assume x: "x \<in> set xs" "sc_id x \<noteq> []"
    show "triple tab (I D) (r_sched_remove (ad_api ad) (sc_id x)) (\<lambda>_. I (insert x D)) (\<lambda>t. M t \<and> temp_ids_ok t)"
      by (rule triple_writes [OF sched_remove]) (auto simp: I_def removed_lists temp_ids_removed m)
  qed (use assms(2,3) named_ids(1) in blast)
  then show ?thesis by (rule triple_weaken) (auto simp: I_def)
qed

lemma remove_scripts:
  assumes "temp_blind M" "xs = named_scripts t0 n" "temp_ids_ok t0"
  shows "triple tab (\<lambda>t. M t \<and> temp_ids_ok t \<and> named_scheds t q = [] \<and> xs = named_scripts t n)
    (remove_counting rs_id (r_script_remove (ad_api ad)) xs k)
    (\<lambda>_ t. M t \<and> temp_ids_ok t \<and> named_scheds t q = [] \<and> named_scripts t n = []) (\<lambda>t. M t \<and> temp_ids_ok t)"
proof -
  define I where "I D t = (M t \<and> temp_ids_ok t \<and> named_scheds t q = [] \<and> set (named_scripts t n) \<subseteq> set xs - D)" for D t
  have m: "M (script_removed i t) = M t" for i t by (rule temp_blindD [OF assms(1)]) simp
  have "triple tab (I {}) (remove_counting rs_id (r_script_remove (ad_api ad)) xs k) (\<lambda>_. I ({} \<union> set xs)) (\<lambda>t. M t \<and> temp_ids_ok t)"
  proof (rule remove_counting_triple)
    fix x D assume x: "x \<in> set xs" "rs_id x \<noteq> []"
    show "triple tab (I D) (r_script_remove (ad_api ad) (rs_id x)) (\<lambda>_. I (insert x D)) (\<lambda>t. M t \<and> temp_ids_ok t)"
      by (rule triple_writes [OF script_remove]) (auto simp: I_def removed_lists temp_ids_removed m)
  qed (use assms(2,3) named_ids(2) in blast)
  then show ?thesis by (rule triple_weaken) (auto simp: I_def)
qed

lemma cleanup_triple:
  assumes M: "temp_blind M"
  shows "triple tab (\<lambda>t. M t \<and> temp_ids_ok t) (cleanup_device_temp_resources ad a)
    (\<lambda>_ t. M t \<and> temp_ids_ok t \<and> no_temp t a) (\<lambda>t. M t \<and> temp_ids_ok t)"
proof -
  let ?n = "device_temp_scheduler_name a" and ?m = "device_temp_script_name a"
  have g1: "triple tab (\<lambda>t. M t \<and> temp_ids_ok t) (r_sched_get (ad_api ad) ?n)
     (\<lambda>xs t. M t \<and> temp_ids_ok t \<and> xs = named_scheds t ?n) (\<lambda>t. M t \<and> temp_ids_ok t)"
    by (rule triple_reads [OF sched_get]) (auto simp: named_scheds_def)
  have g2: "triple tab (\<lambda>t. M t \<and> temp_ids_ok t \<and> named_scheds t ?n = []) (r_script_get (ad_api ad) ?m)
     (\<lambda>xs t. M t \<and> temp_ids_ok t \<and> named_scheds t ?n = [] \<and> xs = named_scripts t ?m) (\<lambda>t. M t \<and> temp_ids_ok t)"
    by (rule triple_reads [OF script_get]) (auto simp: named_scripts_def)
  show ?thesis
    unfolding cleanup_device_temp_resources_def
    by (rule triple_rbind [OF g1], rule triple_rbind, rule triple_exists, rule remove_scheds [OF M], fast, fast,
        rule triple_rbind [OF g2], rule triple_rbind, rule triple_exists, rule remove_scripts [OF M], fast, fast,
        rule triple_rret) (simp add: no_temp_def)
qed

lemma get_temp_armed:
  assumes "validate_ipv4 a0 = Inr a"
  shows "triple tab (\<lambda>t. armed t a \<and> G t) (get_device_temporary_access ad a0) (\<lambda>r t. (armed t a \<and> G t) \<and> ta_active r
     \<and> opt_or (ta_restore_mode r) [] \<in> {''normal'', ''slow'', ''blocked''}) (\<lambda>t. armed t a \<and> G t)"
proof -
  let ?P = "\<lambda>t. armed t a \<and> G t"
  let ?n = "device_temp_scheduler_name a" and ?m = "device_temp_script_name a"
  have k: "triple tab ?P n (\<lambda>_. ?P) ?P" if "keeps tab n" for n :: "('s, 'x) act"
    using that by (rule triple_keeps) simp_all
  have g1: "triple tab ?P (r_sched_get (ad_api ad) ?n) (\<lambda>ms t. ?P t \<and> ms = named_scheds t ?n) ?P"
    by (rule triple_reads [OF sched_get]) (auto simp: named_scheds_def)
  have g2: "triple tab (\<lambda>t. ?P t \<and> ms = named_scheds t ?n) (r_script_get (ad_api ad) ?m)
     (\<lambda>xs t. ?P t \<and> (\<exists>s x n. ms = [s] \<and> xs = [x] \<and> \<not> sc_disabled s \<and> n \<le> 0 \<and> run_count_of s = Inr n)) ?P" for ms
    by (rule triple_reads [OF script_get]) (auto simp: named_scripts_def armed_def)
  show ?thesis
    unfolding get_device_temporary_access_def assms rbind_rlift read_temporary_access_def read_override_def Let_def
    apply (rule triple_rbind [OF k [OF keeps_checks(4)]] triple_rwrap triple_rbind [OF k [OF keeps_checks(2)]]
        triple_rbind [OF g1] triple_rbind [OF g2])+
    apply (rule triple_exists)
    apply (elim conjE exE)
    apply simp
    apply (intro conjI impI triple_if triple_rraise triple_rret)
    apply (simp_all add: opt_or_def str_or_def)
    done
qed

text \<open>Whatever it finds, reading an override leaves the mode of the device alone; an active override it
  reports is armed.\<close>

lemma get_temp_any:
  assumes "validate_ipv4 a0 = Inr a" "temp_blind M"
  shows "triple tab (\<lambda>t. M t \<and> temp_ids_ok t) (get_device_temporary_access ad a0)
     (\<lambda>r t. (M t \<and> temp_ids_ok t) \<and> (ta_active r \<longrightarrow> armed t a \<and> temp_mode r)) (\<lambda>t. M t \<and> temp_ids_ok t)"
proof -
  let ?P = "\<lambda>t. M t \<and> temp_ids_ok t"
  let ?n = "device_temp_scheduler_name a" and ?m = "device_temp_script_name a"
  have k: "triple tab ?P n (\<lambda>_. ?P) ?P" if "keeps tab n" for n :: "('s, 'x) act"
    using that by (rule triple_keeps) simp_all
  have g1: "triple tab ?P (r_sched_get (ad_api ad) ?n) (\<lambda>ms t. ?P t \<and> ms = named_scheds t ?n) ?P"
    by (rule triple_reads [OF sched_get]) (auto simp: named_scheds_def)
  have g2: "triple tab (\<lambda>t. ?P t \<and> ms = named_scheds t ?n) (r_script_get (ad_api ad) ?m)
     (\<lambda>xs t. ?P t \<and> ms = named_scheds t ?n \<and> xs = named_scripts t ?m) ?P" for ms
    by (rule triple_reads [OF script_get]) (auto simp: named_scripts_def)
  have m: "M (script_removed i t) = M t" for i t by (rule temp_blindD [OF assms(2)]) simp
  have stale: "triple tab (\<lambda>t. ?P t \<and> ms = named_scheds t ?n \<and> xs = named_scripts t ?m)
      (rbind (rfor xs (\<lambda>x. rwhen (rs_id x \<noteq> []) (r_script_remove (ad_api ad) (rs_id x)))) (\<lambda>_. rret inactive_temp))
      (\<lambda>r t. ?P t \<and> (ta_active r \<longrightarrow> armed t a \<and> temp_mode r)) ?P" for ms xs
  proof (rule triple_weaken [OF triple_rbind [where R = "\<lambda>_. ?P"]])
    have "triple tab ((\<lambda>_. ?P) {}) (rfor xs (\<lambda>x. rwhen (rs_id x \<noteq> []) (r_script_remove (ad_api ad) (rs_id x)))) (\<lambda>_. (\<lambda>_. ?P) ({} \<union> set xs)) ?P"
      by (rule triple_rfor, rule triple_rwhen, rule triple_writes [OF script_remove]) (auto simp: temp_ids_removed m)
    then show "triple tab ?P (rfor xs (\<lambda>x. rwhen (rs_id x \<noteq> []) (r_script_remove (ad_api ad) (rs_id x)))) (\<lambda>_. ?P) ?P" by simp
    show "triple tab ?P (rret inactive_temp) (\<lambda>r t. ?P t \<and> \<not> ta_active r) ?P" by (rule triple_rret) (simp add: inactive_temp_def)
  qed auto
  have clean: "triple tab (\<lambda>t. ?P t \<and> ms = named_scheds t ?n \<and> xs = named_scripts t ?m)
      (rbind (cleanup_device_temp_resources ad a) (\<lambda>_. rret r))
      (\<lambda>r t. ?P t \<and> (ta_active r \<longrightarrow> armed t a \<and> temp_mode r)) ?P" if "\<not> ta_active r" for ms xs r
    by (rule triple_weaken [OF triple_rbind [OF cleanup_triple [OF assms(2), of a] triple_rret
          [where x = r and Q = "\<lambda>r t. ?P t \<and> \<not> ta_active r" and E = ?P]]]) (use that in auto)
  have act: "triple tab (\<lambda>t. ?P t \<and> [s] = named_scheds t ?n \<and> xs = named_scripts t ?m) (rret r)
      (\<lambda>r t. ?P t \<and> (ta_active r \<longrightarrow> armed t a \<and> temp_mode r)) ?P"
    if "length xs = 1" "run_count_of s = Inr n" "\<not> 0 < n" "\<not> sc_disabled s" "temp_mode r" for s xs n and r :: temp_state
  proof (rule triple_rret)
    fix t assume t: "?P t \<and> [s] = named_scheds t ?n \<and> xs = named_scripts t ?m"
    have "\<exists>x. xs = [x]" using that(1) by (cases xs) auto
    then obtain x where "xs = [x]" by blast
    have "named_scheds t ?n = [s]" using t by simp
    then have "armed t a" using t that \<open>xs = [x]\<close> unfolding armed_def by (intro exI [of _ s] exI [of _ x]) auto
    then show "?P t \<and> (ta_active r \<longrightarrow> armed t a \<and> temp_mode r)" using t that(5) by simp
  qed
  let ?R = "\<lambda>(r::temp_state) t. ?P t \<and> (ta_active r \<longrightarrow> armed t a \<and> temp_mode r)"
  have lft: "triple tab A (rbind (rlift (run_count_of e)) f) ?R ?P"
    if "\<And>n. run_count_of e = Inr n \<Longrightarrow> triple tab A (f n) ?R ?P" "\<And>t. A t \<Longrightarrow> ?P t" for A e f
    using that by (cases "run_count_of e") (auto intro: triple_rraise)
  have ovr: "triple tab (\<lambda>t. ?P t \<and> [e] = named_scheds t ?n \<and> xs = named_scripts t ?m) (read_override ad a xs e) ?R ?P" for e xs
    unfolding read_override_def Let_def
    by (rule triple_if, rule triple_rraise, simp, rule lft, (intro triple_if clean act triple_rraise; (assumption | (simp add: inactive_temp_def; fail) | (simp add: temp_mode_def; fail))), simp)
  have body: "triple tab (\<lambda>t. ?P t \<and> ms = named_scheds t ?n \<and> xs = named_scripts t ?m)
     (if 1 < length ms then rraise e1 else if 1 < length xs then rraise e2 else case ms of
        [] \<Rightarrow> rbind (rfor xs (\<lambda>x. rwhen (rs_id x \<noteq> []) (r_script_remove (ad_api ad) (rs_id x)))) (\<lambda>_. rret inactive_temp)
      | e # _ \<Rightarrow> read_override ad a xs e) (\<lambda>r t. ?P t \<and> (ta_active r \<longrightarrow> armed t a \<and> temp_mode r)) ?P" for ms xs e1 e2
  proof (cases "length ms > 1 \<or> length xs > 1")
    case False
    then consider "ms = []" | e where "ms = [e]" by (cases ms) auto
    then show ?thesis using False stale [of "[]" xs] ovr by cases simp_all
  qed (auto intro: triple_rraise)
  show ?thesis
    unfolding get_device_temporary_access_def assms rbind_rlift read_temporary_access_def Let_def
    by (rule triple_rbind [OF k [OF keeps_checks(4)]] triple_rwrap triple_rbind [OF k [OF keeps_checks(2)]]
        triple_rbind [OF g1] triple_rbind [OF g2] body)+
qed

end

lemma run_count_zero: "run_count_of ((temp_scheduler n m c w)\<lparr> sc_id := i \<rparr>) = Inr 0"
proof -
  have "py_int ''0'' = Some 0" by code_simp
  then show ?thesis by (simp add: run_count_of_def temp_scheduler_def)
qed

lemma temp_ids_added:
  "temp_ids_ok t \<Longrightarrow> sched_added x t t' \<Longrightarrow> temp_ids_ok t'" "temp_ids_ok t \<Longrightarrow> script_added y t t' \<Longrightarrow> temp_ids_ok t'"
  by (auto simp: temp_ids_ok_def sched_added_def script_added_def)

lemma temp_ids_updated:
  "temp_ids_ok t \<Longrightarrow> (\<And>x. sc_id (f x) = sc_id x) \<Longrightarrow> temp_ids_ok (sched_updated i f t)"
  "temp_ids_ok t \<Longrightarrow> (\<And>x. rs_id (g x) = rs_id x) \<Longrightarrow> temp_ids_ok (script_updated i g t)"
  unfolding temp_ids_ok_def by (simp_all add: ids_updated del: set_map)

lemma added_lists:
  "sched_added x t t' \<Longrightarrow> \<exists>i. named_scheds t' n = named_scheds t n @ (if sc_name x = n then [x\<lparr> sc_id := i \<rparr>] else [])"
  "sched_added x t t' \<Longrightarrow> named_scripts t' m = named_scripts t m"
  "script_added y t t' \<Longrightarrow> \<exists>i. named_scripts t' m = named_scripts t m @ (if rs_name y = m then [y\<lparr> rs_id := i \<rparr>] else [])"
  "script_added y t t' \<Longrightarrow> named_scheds t' n = named_scheds t n"
  by (auto simp: sched_added_def script_added_def named_scheds_def named_scripts_def)

lemma armed_new:
  assumes "named_scheds t (device_temp_scheduler_name a) = []" "named_scripts t (device_temp_script_name a) = [x]" "rs_source x = src"
    "sched_added (temp_scheduler (device_temp_scheduler_name a) (device_temp_script_name a) c w) t t'"
  shows "armed_with t' a src"
proof -
  let ?s = "temp_scheduler (device_temp_scheduler_name a) (device_temp_script_name a) c w"
  obtain i where s: "named_scheds t' (device_temp_scheduler_name a) = [?s\<lparr> sc_id := i \<rparr>]"
    using added_lists(1) [OF assms(4), of "device_temp_scheduler_name a"] assms(1) by (auto simp: temp_scheduler_def)
  have r: "run_count_of (?s\<lparr> sc_id := i \<rparr>) = Inr 0"
    by (rule run_count_zero)
  show ?thesis
    using s r assms(2,3) added_lists(2) [OF assms(4)] by (auto simp: armed_with_def armed_def temp_scheduler_def)
qed

context device_adapter begin

lemma write_fail_safe_triple:
  fixes a :: string and ext :: bool
  assumes M: "temp_blind M"
  defines "A \<equiv> \<lambda>t. M t \<and> temp_ids_ok t \<and> (ext \<longrightarrow> armed t a)"
  shows "triple tab A (write_fail_safe ad a ext src c w) (\<lambda>_ t. A t \<and> armed_with t a src) A"
proof -
  let ?n = "device_temp_scheduler_name a" and ?m = "device_temp_script_name a"
  have k: "triple tab A n (\<lambda>_. A) A" if "keeps tab n" for n :: "('s, 'x) act"
    using that by (rule triple_keeps) simp_all
  have mb: "M t' = M t" if "mode_tables t' = mode_tables t" for t t' by (rule temp_blindD [OF M that])
  show ?thesis
  proof (cases ext)
    case True
    have g1: "triple tab A (r_sched_get (ad_api ad) ?n) (\<lambda>ms t. A t \<and> ms = named_scheds t ?n) A"
      by (rule triple_reads [OF sched_get]) (auto simp: named_scheds_def)
    have g2: "triple tab (\<lambda>t. A t \<and> ms = named_scheds t ?n) (r_script_get (ad_api ad) ?m)
       (\<lambda>xs t. A t \<and> ms = named_scheds t ?n \<and> xs = named_scripts t ?m) A" for ms
      by (rule triple_reads [OF script_get]) (auto simp: named_scripts_def)
    have upd1: "A (script_updated i (set_script_fields a src) t)" if "A t" for t i
      using that by (simp add: A_def mb [of "script_updated i (set_script_fields a src) t"] temp_ids_updated armed_script_updated)
    have upd2: "A (sched_updated i (set_scheduler_fields ?m c w) t)" if "A t" for t i
      using that by (simp add: A_def mb [of "sched_updated i (set_scheduler_fields ?m c w) t"] temp_ids_updated armed_sched_updated)
    have set: "triple tab (\<lambda>t. A t \<and> [s] = named_scheds t ?n \<and> [x] = named_scripts t ?m)
        (rbind (r_script_set (ad_api ad) (rs_id x) (set_script_fields a src)) (\<lambda>_.
           r_sched_set (ad_api ad) (sc_id s) (set_scheduler_fields ?m c w)))
        (\<lambda>_ t. A t \<and> armed_with t a src) A" for s x
    proof (rule triple_rbind)
      show "triple tab (\<lambda>t. A t \<and> [s] = named_scheds t ?n \<and> [x] = named_scripts t ?m)
        (r_script_set (ad_api ad) (rs_id x) (set_script_fields a src))
        (\<lambda>_ t. A t \<and> [s] = named_scheds t ?n \<and> [set_script_fields a src x] = named_scripts t ?m) A"
        by (rule triple_writes [OF script_set]) (auto simp: upd1 named_scripts_updated dest: sym)
      show "triple tab (\<lambda>t. A t \<and> [s] = named_scheds t ?n \<and> [set_script_fields a src x] = named_scripts t ?m)
        (r_sched_set (ad_api ad) (sc_id s) (set_scheduler_fields ?m c w)) (\<lambda>_ t. A t \<and> armed_with t a src) A"
      proof (rule triple_writes [OF sched_set])
        fix t t' assume p: "A t \<and> [s] = named_scheds t ?n \<and> [set_script_fields a src x] = named_scripts t ?m"
        { assume t': "t' = sched_updated (sc_id s) (set_scheduler_fields ?m c w) t"
          have "A t'" using p upd2 t' by blast
          moreover have "named_scheds t' ?n = [set_scheduler_fields ?m c w s]" "named_scripts t' ?m = [set_script_fields a src x]"
            using p [THEN conjunct2] by (auto simp: t' named_scheds_updated dest: sym)
          ultimately show "A t' \<and> armed_with t' a src" by (simp add: armed_with_def A_def True) }
        { assume "t' = t \<or> t' = sched_updated (sc_id s) (set_scheduler_fields ?m c w) t"
          then show "A t'" using p upd2 by blast }
      qed
    qed
    have sel: "triple tab (\<lambda>t. A t \<and> ms = named_scheds t ?n \<and> xs = named_scripts t ?m)
        (case (ms, xs) of ([s], [x]) \<Rightarrow> rbind (r_script_set (ad_api ad) (rs_id x) (set_script_fields a src)) (\<lambda>_.
             r_sched_set (ad_api ad) (sc_id s) (set_scheduler_fields ?m c w)) | _ \<Rightarrow> rraise e)
        (\<lambda>_ t. A t \<and> armed_with t a src) A" for ms xs e
      by (auto intro!: triple_rraise set split: list.split)
    show ?thesis
      unfolding write_fail_safe_def Let_def if_P [OF True]
      by (rule triple_rbind [OF k [OF keeps_checks(1)]] triple_rbind [OF k [OF keeps_checks(2)]]
          triple_rbind [OF g1] triple_rbind [OF g2] sel)+
  next
    case False
    let ?s = "temp_scheduler ?n ?m c w"
    have A: "A = (\<lambda>t. M t \<and> temp_ids_ok t)" by (simp add: A_def False)
    have add1: "triple tab (\<lambda>t. M t \<and> temp_ids_ok t \<and> no_temp t a) (r_script_add (ad_api ad) (temp_script ?m a src))
        (\<lambda>_ t. A t \<and> named_scheds t ?n = [] \<and> (\<exists>x. named_scripts t ?m = [x] \<and> rs_source x = src)) A"
    proof (rule triple_writes [OF script_add])
      fix t t' assume p: "M t \<and> temp_ids_ok t \<and> no_temp t a"
      { assume ad: "script_added (temp_script ?m a src) t t'"
        obtain i where "named_scripts t' ?m = [(temp_script ?m a src)\<lparr> rs_id := i \<rparr>]"
          using added_lists(3) [OF ad, of ?m] p by (auto simp: no_temp_def temp_script_def)
        then show "A t' \<and> named_scheds t' ?n = [] \<and> (\<exists>x. named_scripts t' ?m = [x] \<and> rs_source x = src)"
          using p mb [OF mode_tables_added(2) [OF ad]] temp_ids_added(2) [OF _ ad] added_lists(4) [OF ad]
          by (auto simp: A no_temp_def temp_script_def) }
      { assume "t' = t \<or> script_added (temp_script ?m a src) t t'"
        then show "A t'" using p mb [OF mode_tables_added(2)] temp_ids_added(2) unfolding A by blast }
    qed
    have add2: "triple tab (\<lambda>t. A t \<and> named_scheds t ?n = [] \<and> (\<exists>x. named_scripts t ?m = [x] \<and> rs_source x = src))
        (r_sched_add (ad_api ad) ?s) (\<lambda>_ t. A t \<and> armed_with t a src) A"
    proof (rule triple_writes [OF sched_add])
      fix t t' assume p: "A t \<and> named_scheds t ?n = [] \<and> (\<exists>x. named_scripts t ?m = [x] \<and> rs_source x = src)"
      have a: "A t'" if "sched_added ?s t t'"
        using p mb [OF mode_tables_added(1) [OF that]] temp_ids_added(1) [OF _ that] unfolding A by blast
      { assume "sched_added ?s t t'" then show "A t' \<and> armed_with t' a src" using a armed_new p by blast }
      { assume "t' = t \<or> sched_added ?s t t'" then show "A t'" using a p by blast }
    qed
    have cl: "triple tab A (cleanup_device_temp_resources ad a) (\<lambda>_ t. M t \<and> temp_ids_ok t \<and> no_temp t a) A"
      unfolding A by (rule cleanup_triple [OF M])
    show ?thesis
      unfolding write_fail_safe_def Let_def using False
      by simp (rule triple_rbind [OF k [OF keeps_checks(1)]] triple_rbind [OF k [OF keeps_checks(2)]]
          triple_rbind [OF cl] triple_rbind [OF add1] add2)+
  qed
qed

lemma triple_swallow: "triple tab P m (\<lambda>_. Q) Q \<Longrightarrow> triple tab P (swallow m) (\<lambda>_. Q) E"
  unfolding swallow_def
  by (rule triple_rcatch, rule triple_rbind, assumption, rule triple_rret, assumption, rule triple_rret)

lemma prepare_fail_safe_triple:
  fixes a :: string and ext :: bool
  assumes M: "temp_blind M"
  defines "A \<equiv> \<lambda>t. M t \<and> temp_ids_ok t \<and> (ext \<longrightarrow> armed t a)"
  shows "triple tab A (prepare_fail_safe ad a ext src c w) (\<lambda>_ t. A t \<and> armed_with t a src) A"
proof -
  have k: "triple tab A n (\<lambda>_. A) A" if "keeps tab n" for n :: "('s, 'x) act"
    using that by (rule triple_keeps) simp_all
  have cl: "triple tab A (rwhen (\<not> ext) (swallow (cleanup_device_temp_resources ad a))) (\<lambda>_. A) A"
  proof (cases ext)
    case False
    have "triple tab A (cleanup_device_temp_resources ad a) (\<lambda>_. A) A"
      by (rule triple_weaken [OF cleanup_triple [OF M]]) (auto simp: A_def False)
    then show ?thesis using triple_swallow by (simp add: rwhen_def False)
  qed (simp add: rwhen_def triple_rret)
  have h: "triple tab A (case e of RouterError t \<Rightarrow> rraise e | _ \<Rightarrow> rbind (rwhen (\<not> ext) (swallow (cleanup_device_temp_resources ad a)))
      (\<lambda>_. rraise x)) (\<lambda>_ t. A t \<and> armed_with t a src) A" for e x
    by (cases e) (auto intro!: triple_rraise triple_rbind [OF cl])
  have w: "triple tab A (write_fail_safe ad a ext src c w) (\<lambda>_ t. A t \<and> armed_with t a src) A"
    unfolding A_def by (rule write_fail_safe_triple [OF M])
  show ?thesis
    unfolding prepare_fail_safe_def
    by (rule triple_rbind [OF k [OF keeps_checks(4)]], rule triple_rcatch, rule w, rule h)
qed

text \<open>A mode change leaves schedulers and scripts alone.\<close>

lemma rest_of_temp: "rest_of a t = rest_of a u \<Longrightarrow> t_scheds t = t_scheds u \<and> t_scripts t = t_scripts u"
  by (drule arg_cong [where f = "\<lambda>t. (t_scheds t, t_scripts t)"]) (simp add: rest_of_def)

lemma set_device_mode_temp:
  assumes "validate_ipv4 a0 = Inr a" "norm_key m \<in> {''normal'', ''slow'', ''blocked''}"
    and T: "\<And>t t'. t_scheds t' = t_scheds t \<Longrightarrow> t_scripts t' = t_scripts t \<Longrightarrow> T t' = T t"
  shows "triple tab (\<lambda>t. ids_ok t \<and> T t) (set_device_mode ad a0 m d)
    (\<lambda>r t. ids_ok t \<and> T t \<and> table_mode t a = norm_key m) (\<lambda>t. ids_ok t \<and> T t)"
  unfolding triple_def
proof (intro allI impI, elim conjE)
  fix s r s' assume p: "ids_ok (tab s)" "T (tab s)" and run: "set_device_mode ad a0 m d s = (r, s')"
  have sm: "T t" if "rest_of a t = rest_of a (tab s)" for t
    using T p(2) rest_of_temp [OF that] by blast
  note tr = set_device_mode_establishes [OF assms(1,2), of "rest_of a (tab s)" d]
  show "case r of Inl _ \<Rightarrow> ids_ok (tab s') \<and> T (tab s') | Inr x \<Rightarrow> ids_ok (tab s') \<and> T (tab s') \<and> table_mode (tab s') a = norm_key m"
  proof (cases r)
    case (Inl e)
    have "rest_of a (tab s') = rest_of a (tab s) \<and> ids_ok (tab s')" using tr p run Inl unfolding triple_def by fastforce
    then show ?thesis using sm by (simp add: Inl)
  next
    case (Inr x)
    have "rest_of a (tab s') = rest_of a (tab s) \<and> ids_ok (tab s') \<and> mode_established a (ad_slow_limit ad) (norm_key m) (tab s')"
      using triple_run [OF tr run [unfolded Inr]] p by blast
    moreover from this have "table_mode (tab s') a = norm_key m" by (intro mode_established_mode [OF _ assms(2)]) blast
    ultimately show ?thesis using sm by (simp add: Inr)
  qed
qed

lemma validate_ipv4_again: "validate_ipv4 a0 = Inr a \<Longrightarrow> validate_ipv4 a = Inr a"
  by (auto simp: validate_ipv4_def Let_def split: if_splits)

lemma release_for_access_triple:
  fixes a :: string and ext :: bool
  assumes "validate_ipv4 a0 = Inr a"
  defines "A \<equiv> \<lambda>t. ids_ok t \<and> temp_ids_ok t \<and> (ext \<longrightarrow> armed t a)"
  shows "triple tab (\<lambda>t. A t \<and> armed_with t a src) (release_for_access ad a ext d)
    (\<lambda>_ t. A t \<and> armed_with t a src \<and> table_mode t a = ''normal'') A"
proof -
  have nm: "norm_key ''normal'' = ''normal''" by code_simp
  have nn: "norm_key ''normal'' \<in> {''normal'', ''slow'', ''blocked''}" by (simp add: nm)
  define T where "T t = (temp_ids_ok t \<and> (ext \<longrightarrow> armed t a) \<and> armed_with t a src)" for t
  have T: "T t' = T t" if "t_scheds t' = t_scheds t" "t_scripts t' = t_scripts t" for t t'
    unfolding T_def temp_tables_same(1,2,3) [OF that] ..
  have go: "triple tab (\<lambda>t. ids_ok t \<and> T t) (set_device_mode ad a ''normal'' x)
      (\<lambda>r t. ids_ok t \<and> T t \<and> table_mode t a = ''normal'') (\<lambda>t. ids_ok t \<and> T t)" for x
    using set_device_mode_temp [OF validate_ipv4_again [OF assms(1)] nn T, unfolded nm] .
  have k: "triple tab A n (\<lambda>_. A) A" if "keeps tab n" for n :: "('s, 'x) act"
    using that by (rule triple_keeps) simp_all
  have b: "temp_blind ids_ok" by (rule temp_blindI) (rule mode_tables_same(2))
  have cl: "triple tab A (rwhen (\<not> ext) (swallow (rbind (r_connect (ad_api ad)) (\<lambda>_. cleanup_device_temp_resources ad a)))) (\<lambda>_. A) A"
  proof (cases ext)
    case False
    have "triple tab A (cleanup_device_temp_resources ad a) (\<lambda>_. A) A"
      by (rule triple_weaken [OF cleanup_triple [OF b]]) (auto simp: A_def False)
    then show ?thesis using triple_swallow [OF triple_rbind [OF k [OF keeps_checks(4)]]] by (simp add: rwhen_def False)
  qed (simp add: rwhen_def triple_rret)
  show ?thesis
    unfolding release_for_access_def
    by (rule triple_rcatch, rule triple_rbind, rule triple_weaken [OF go], simp add: A_def T_def, assumption, assumption,
        rule triple_rret, simp add: A_def T_def, rule triple_rbind,
        rule triple_weaken [OF cl], simp add: A_def T_def, assumption, assumption, rule triple_rraise, simp)
qed

lemma comment_updated:
  assumes "ids_ok t" "temp_ids_ok t" "armed_with t a src" "table_mode t a = m"
  shows "ids_ok (sched_updated i (\<lambda>x. x\<lparr> sc_comment := c \<rparr>) t) \<and> temp_ids_ok (sched_updated i (\<lambda>x. x\<lparr> sc_comment := c \<rparr>) t)
    \<and> armed_with (sched_updated i (\<lambda>x. x\<lparr> sc_comment := c \<rparr>) t) a src \<and> table_mode (sched_updated i (\<lambda>x. x\<lparr> sc_comment := c \<rparr>) t) a = m"
proof -
  let ?t = "sched_updated i (\<lambda>x. x\<lparr> sc_comment := c \<rparr>) t"
  have e: "table_enforcement a ?t = table_enforcement a t" "ids_ok ?t = ids_ok t" by (rule mode_tables_same, simp)+
  have "armed ?t a" using assms(3) by (intro armed_sched_updated) (simp_all add: armed_with_def)
  moreover have "table_mode ?t a = table_mode t a" using e(1) by (simp add: table_enforcement_def Let_def)
  ultimately show ?thesis using assms e(2) by (auto simp: armed_with_def named_scheds_updated temp_ids_updated)
qed

lemma bind_reference_triple:
  fixes a src :: string
  defines "A \<equiv> \<lambda>t. ids_ok t \<and> temp_ids_ok t \<and> armed_with t a src \<and> table_mode t a = ''normal''"
  shows "triple tab A (bind_reference ad a c) (\<lambda>_. A) A"
proof -
  have k: "triple tab A n (\<lambda>_. A) A" if "keeps tab n" for n :: "('s, 'x) act"
    using that by (rule triple_keeps) simp_all
  have g: "triple tab A (r_sched_get (ad_api ad) n) (\<lambda>_. A) A" for n
    by (rule k [OF keeps_reads [OF sched_get]])
  have st: "triple tab A (r_sched_set (ad_api ad) i (\<lambda>x. x\<lparr> sc_comment := c \<rparr>)) (\<lambda>_. A) A" for i
    by (rule triple_writes [OF sched_set]) (auto simp: A_def comment_updated)
  have b: "triple tab A (case ms of [s] \<Rightarrow> r_sched_set (ad_api ad) (sc_id s) (\<lambda>x. x\<lparr> sc_comment := c \<rparr>) | _ \<Rightarrow> rraise e) (\<lambda>_. A) A" for ms e
    by (auto intro!: st triple_rraise split: list.split)
  show ?thesis
    unfolding bind_reference_def
    by (rule triple_rbind [OF k [OF keeps_checks(4)]], rule triple_rcatch, rule triple_rbind [OF g], rule b, rule triple_rraise)
qed

text \<open>\<open>B\<close>: an override was armed when the grant started.\<close>

lemma grant_triple:
  fixes a :: string
  assumes va: "validate_ipv4 a = Inr a"
  defines "A \<equiv> \<lambda>B t. ids_ok t \<and> temp_ids_ok t \<and> (B \<longrightarrow> armed t a)"
  shows "triple tab (A B) (grant_temporary_normal ad a minutes d req ref) (\<lambda>r t. A B t \<and> grant_done ad a r t) (A B)"
proof -
  have b: "temp_blind ids_ok" by (rule temp_blindI) (rule mode_tables_same(2))
  have k: "triple tab P n (\<lambda>_. P) (A B)" if "keeps tab n" "\<And>t. P t \<Longrightarrow> A B t" for n :: "('s, 'x) act" and P
    using that(1) by (rule triple_keeps) (simp_all add: that(2))
  have get: "triple tab (A B) (get_device_temporary_access ad a) (\<lambda>r t. A (ta_active r) t \<and> (B \<longrightarrow> ta_active r)) (A B)"
  proof (cases B)
    case True
    show ?thesis by (rule triple_weaken [OF get_temp_armed [OF va, where G = "\<lambda>t. ids_ok t \<and> temp_ids_ok t"]]) (auto simp: A_def True)
  next
    case False
    show ?thesis by (rule triple_weaken [OF get_temp_any [OF va b]]) (auto simp: A_def False)
  qed
  have wr: "triple tab (A x) (prepare_fail_safe ad a x src c w) (\<lambda>_ t. A x t \<and> armed_with t a src) (A x)" for x src c w
    unfolding A_def by (rule triple_weaken [OF prepare_fail_safe_triple [OF b]]) auto
  have release: "triple tab (\<lambda>t. A x t \<and> armed_with t a src) (release_for_access ad a x d)
      (\<lambda>_ t. A x t \<and> armed_with t a src \<and> table_mode t a = ''normal'') (A x)" for x src
    unfolding A_def by (rule release_for_access_triple [OF va])
  let ?F = "\<lambda>src t. ids_ok t \<and> temp_ids_ok t \<and> armed_with t a src \<and> table_mode t a = ''normal''"
  have AF: "?F src t \<Longrightarrow> A B t" for src t by (simp add: A_def armed_with_def)
  have bind: "triple tab (?F src) (rwhen q (bind_reference ad a c)) (\<lambda>_. ?F src) (A B)" for src q c
    by (rule triple_rwhen, rule triple_weaken [OF bind_reference_triple [of a src]]) (auto intro: AF)
  have final: "triple tab (?F src) (get_device_temporary_access ad a) (\<lambda>r t. ?F src t \<and> ta_active r) (A B)" for src
    by (rule triple_weaken [OF get_temp_armed [OF va, where G = "?F src"]]) (auto simp: armed_with_def intro: AF)
  have fin: "triple tab (\<lambda>t. ?F src t \<and> ta_active res) (if \<not> ta_active res then rraise e else rret (granted res x p m rf i))
      (\<lambda>r t. A B t \<and> grant_done ad a r t) (A B)"
    if "m \<in> {''normal'', ''slow'', ''blocked''}" "device_temp_restore_source ad a m = Inr src" for src res e x p m rf i
    by (intro triple_if triple_rraise triple_rret) (use that in \<open>auto simp: grant_done_def granted_def intro: AF\<close>)
  have AB: "A x t \<and> (B \<longrightarrow> x) \<Longrightarrow> A B t" for x t by (auto simp: A_def)
  have AxB: "triple tab P m Q (A B)" if "triple tab P m Q (A x)" "B \<longrightarrow> x" for x P Q and m :: "('s, 'x) act"
    by (rule triple_weaken [OF that(1)]) (use that(2) in \<open>auto simp: A_def\<close>)
  have main: "triple tab (\<lambda>t. A x t \<and> (B \<longrightarrow> x)) (rbind (ad_now ad) (\<lambda>now.
      rbind (rlift (device_temp_restore_source ad a m)) (\<lambda>source.
      rbind (ad_now ad) (\<lambda>now2.
      rbind (prepare_fail_safe ad a x source (c now now2) (w now)) (\<lambda>_.
      rbind (release_for_access ad a x d) (\<lambda>_.
      rbind (rwhen q (bind_reference ad a (c' now2))) (\<lambda>_.
      rbind (get_device_temporary_access ad a) (\<lambda>result.
        if \<not> ta_active result then rraise e else rret (granted result x p m rf (i now))))))))))
     (\<lambda>r t. A B t \<and> grant_done ad a r t) (A B)" if m: "m \<in> {''normal'', ''slow'', ''blocked''}" for x m c w q c' e p rf i
  proof (cases "B \<longrightarrow> x")
    case True
    show ?thesis
    proof (rule triple_rbind [OF k [OF now_reads]])
      show "A B t" if "A x t \<and> (B \<longrightarrow> x)" for t using that by (auto simp: A_def)
      fix now
      show "triple tab (\<lambda>t. A x t \<and> (B \<longrightarrow> x)) (rbind (rlift (device_temp_restore_source ad a m)) (\<lambda>source.
          rbind (ad_now ad) (\<lambda>now2.
          rbind (prepare_fail_safe ad a x source (c now now2) (w now)) (\<lambda>_.
          rbind (release_for_access ad a x d) (\<lambda>_.
          rbind (rwhen q (bind_reference ad a (c' now2))) (\<lambda>_.
          rbind (get_device_temporary_access ad a) (\<lambda>result.
            if \<not> ta_active result then rraise e else rret (granted result x p m rf (i now)))))))))
         (\<lambda>r t. A B t \<and> grant_done ad a r t) (A B)"
      proof (cases "device_temp_restore_source ad a m")
        case (Inr src)
        show ?thesis
          unfolding Inr rbind_rlift
          by (rule triple_rbind [OF k [OF now_reads]], simp add: A_def True, blast?,
              rule triple_rbind [OF AxB [OF triple_weaken [OF wr] True]], simp, assumption, assumption,
              rule triple_rbind [OF AxB [OF release True]],
              rule triple_rbind [OF triple_weaken [OF bind [of src]]], simp add: A_def, assumption, assumption,
              rule triple_rbind [OF final], rule fin [OF m Inr])
      qed (auto intro!: triple_rraise simp: A_def)
    qed
  qed (simp add: triple_def)
  show ?thesis
    unfolding grant_temporary_normal_def Let_def
    by (rule triple_rbind [OF k [OF keeps_checks(3)]], assumption, rule triple_rbind [OF get],
        rule triple_rbind [OF k [OF keeps_reads [OF get_device_enforcement_reads [OF va]]] ], rule AB, assumption,
        intro triple_if triple_rraise, erule AB, erule AB, rule main, simp)
qed

end

lemma temp_minutes_valid:
  assumes "set_device_temporary_normal ad a0 mn d m ref s = (Inr r, s')"
  shows "\<exists>a. validate_ipv4 a0 = Inr a"
  using assms unfolding set_device_temporary_normal_def by (cases "validate_ipv4 a0") (auto simp: rraise_def)

context device_adapter begin

lemma set_device_temporary_normal_triple:
  assumes "validate_ipv4 a0 = Inr a"
  defines "A \<equiv> \<lambda>B t. ids_ok t \<and> temp_ids_ok t \<and> (B \<longrightarrow> armed t a)"
  shows "triple tab (A B) (set_device_temporary_normal ad a0 mn d m ref) (\<lambda>r t. A B t \<and> grant_done ad a r t) (A B)"
proof (cases "pyval_int mn")
  case None
  then show ?thesis unfolding set_device_temporary_normal_def assms(1) rbind_rlift by (simp add: triple_rraise)
next
  case (Some n)
  show ?thesis
    unfolding set_device_temporary_normal_def assms(1) rbind_rlift Some option.case Let_def A_def
    by (intro triple_if triple_rraise grant_triple [OF validate_ipv4_again [OF assms(1)]])
qed

lemma cancel_triple:
  assumes va: "validate_ipv4 a0 = Inr a"
  defines "A \<equiv> \<lambda>t. ids_ok t \<and> temp_ids_ok t"
  shows "triple tab A (cancel_device_temporary_access ad a0 True)
    (\<lambda>c t. A t \<and> (tc_removed c \<longrightarrow> no_temp t a \<and> tc_restore_mode c = Some (table_mode t a))) A"
proof -
  have b: "temp_blind ids_ok" by (rule temp_blindI) (rule mode_tables_same(2))
  note va' = validate_ipv4_again [OF va]
  have k: "triple tab P n (\<lambda>_. P) A" if "keeps tab n" "\<And>t. P t \<Longrightarrow> A t" for n :: "('s, 'x) act" and P
    using that(1) by (rule triple_keeps) (simp_all add: that(2))
  have get: "triple tab A (get_device_temporary_access ad a) (\<lambda>r t. A t \<and> (ta_active r \<longrightarrow> temp_mode r)) A"
    unfolding A_def by (rule triple_weaken [OF get_temp_any [OF va' b]]) auto
  have upd: "A (sched_updated i (set_disabled x) t)" if "A t" for t i x
    using that mode_tables_same(2) [of "sched_updated i (set_disabled x) t" t] by (simp add: A_def temp_ids_updated)
  have dis: "triple tab A (set_sched_disabled ad x s) (\<lambda>_. A) A" for x s
    unfolding set_sched_disabled_def
    by (rule triple_if, rule triple_rraise, assumption, rule triple_writes [OF sched_set]) (auto intro: upd)
  have g: "triple tab A (r_sched_get (ad_api ad) n) (\<lambda>_. A) A" for n
    by (rule k [OF keeps_reads [OF sched_get]])
  have c1: "triple tab A (case ms of [s] \<Rightarrow> set_sched_disabled ad True s | _ \<Rightarrow> rraise e) (\<lambda>_. A) A" for ms e
    by (auto intro!: dis triple_rraise split: list.split)
  have disable: "triple tab A (disable_fail_safe ad a) (\<lambda>_. A) A"
    unfolding disable_fail_safe_def by (rule triple_rbind [OF k [OF keeps_checks(4)]] triple_rwrap triple_rbind [OF g] c1 | assumption)+
  have loop: "triple tab A (rfor ms (set_sched_disabled ad False)) (\<lambda>_. A) A" for ms
    using triple_rfor [where I = "\<lambda>_. A" and d = "{}" and xs = ms, OF dis] by simp
  have enable: "triple tab A (swallow (enable_fail_safe ad a)) (\<lambda>_. A) A"
    unfolding enable_fail_safe_def by (rule triple_swallow triple_rbind [OF k [OF keeps_checks(4)]] triple_rbind [OF g] loop | assumption)+
  have restore: "triple tab A (rwhen True (rcatch (rbind (set_device_mode ad a m x) (\<lambda>_. rret ()))
      (\<lambda>e. rbind (swallow (enable_fail_safe ad a)) (\<lambda>_. rraise e)))) (\<lambda>_ t. A t \<and> table_mode t a = m) A"
    if m: "m \<in> {''normal'', ''slow'', ''blocked''}" for m x
  proof -
    have n: "norm_key m = m"
    proof -
      have "norm_key ''normal'' = ''normal''" "norm_key ''slow'' = ''slow''" "norm_key ''blocked'' = ''blocked''" by code_simp+
      then show ?thesis using m by auto
    qed
    have "triple tab (\<lambda>t. ids_ok t \<and> temp_ids_ok t) (set_device_mode ad a m x)
       (\<lambda>r t. ids_ok t \<and> temp_ids_ok t \<and> table_mode t a = norm_key m) (\<lambda>t. ids_ok t \<and> temp_ids_ok t)"
      by (rule set_device_mode_temp [OF va' _ temp_tables_same(3)]) (use m n in simp)
    then have go: "triple tab A (set_device_mode ad a m x) (\<lambda>r t. A t \<and> table_mode t a = m) A"
      unfolding A_def n by (rule triple_weaken) auto
    show ?thesis
      unfolding rwhen_def if_True
      by (rule triple_rcatch, rule triple_rbind [OF go], rule triple_rret, assumption,
          rule triple_rbind [OF enable], rule triple_rraise)
  qed
  have cl: "triple tab (\<lambda>t. A t \<and> table_mode t a = m) (rcatch (cleanup_device_temp_resources ad a) (\<lambda>e. rraise (f e)))
      (\<lambda>_ t. A t \<and> table_mode t a = m \<and> no_temp t a) A" for m f
  proof -
    have bl: "temp_blind (\<lambda>t. ids_ok t \<and> table_mode t a = m)"
    proof (rule temp_blindI)
      fix t t' :: tables assume e: "mode_tables t' = mode_tables t"
      show "(ids_ok t' \<and> table_mode t' a = m) = (ids_ok t \<and> table_mode t a = m)"
        using mode_tables_same(1) [OF e, of a] mode_tables_same(2) [OF e] by (simp add: table_enforcement_def Let_def)
    qed
    show ?thesis
    proof (rule triple_rcatch [where R = A])
      show "triple tab (\<lambda>t. A t \<and> table_mode t a = m) (cleanup_device_temp_resources ad a)
          (\<lambda>_ t. A t \<and> table_mode t a = m \<and> no_temp t a) A"
        by (rule triple_weaken [OF cleanup_triple [OF bl]]) (auto simp: A_def)
    qed (simp add: triple_rraise)
  qed
  have main: "triple tab (\<lambda>t. A t \<and> (ta_active st \<longrightarrow> temp_mode st))
     (if \<not> ta_active st then rret \<lparr> tc_removed = False, tc_restored = False, tc_restore_mode = ta_restore_mode st, tc_counts = None \<rparr>
      else rbind (disable_fail_safe ad a) (\<lambda>_.
         rbind (rwhen True (rcatch (rbind (set_device_mode ad a (opt_or (ta_restore_mode st) []) x) (\<lambda>_. rret ()))
                    (\<lambda>e. rbind (swallow (enable_fail_safe ad a)) (\<lambda>_. rraise e)))) (\<lambda>_.
         rbind (r_connect (ad_api ad)) (\<lambda>_.
         rbind (rcatch (cleanup_device_temp_resources ad a) (\<lambda>e. rraise (f e))) (\<lambda>removed.
           rret \<lparr> tc_removed = True, tc_restored = True, tc_restore_mode = ta_restore_mode st, tc_counts = Some removed \<rparr>)))))
     (\<lambda>c t. A t \<and> (tc_removed c \<longrightarrow> no_temp t a \<and> tc_restore_mode c = Some (table_mode t a))) A" for st x f
  proof (cases "ta_active st \<longrightarrow> temp_mode st")
    case True
    show ?thesis
    proof (rule triple_if, rule triple_rret, simp)
      assume "\<not> \<not> ta_active st"
      then obtain m where m: "ta_restore_mode st = Some m" "m \<in> {''normal'', ''slow'', ''blocked''}"
        using True by (auto simp: temp_mode_def)
      then have o: "opt_or (ta_restore_mode st) [] = m" by (auto simp: opt_or_def str_or_def)
      show "triple tab (\<lambda>t. A t \<and> (ta_active st \<longrightarrow> temp_mode st)) (rbind (disable_fail_safe ad a) (\<lambda>_.
         rbind (rwhen True (rcatch (rbind (set_device_mode ad a (opt_or (ta_restore_mode st) []) x) (\<lambda>_. rret ()))
                    (\<lambda>e. rbind (swallow (enable_fail_safe ad a)) (\<lambda>_. rraise e)))) (\<lambda>_.
         rbind (r_connect (ad_api ad)) (\<lambda>_.
         rbind (rcatch (cleanup_device_temp_resources ad a) (\<lambda>e. rraise (f e))) (\<lambda>removed.
           rret \<lparr> tc_removed = True, tc_restored = True, tc_restore_mode = ta_restore_mode st, tc_counts = Some removed \<rparr>)))))
       (\<lambda>c t. A t \<and> (tc_removed c \<longrightarrow> no_temp t a \<and> tc_restore_mode c = Some (table_mode t a))) A"
        unfolding o
        by (rule triple_rbind [OF triple_weaken [OF disable]], simp, assumption, assumption,
            rule triple_rbind [OF restore [OF m(2)]], rule triple_rbind [OF k [OF keeps_checks(4)]], simp,
            rule triple_rbind [OF cl], rule triple_rret, simp add: m(1))
    qed
  qed (simp add: triple_def)
  show ?thesis
    unfolding cancel_device_temporary_access_def va rbind_rlift by (rule triple_rbind [OF get], rule main)
qed

end

lemma grant_is_backed:
  assumes "device_adapter ad tab" "ids_ok (tab s)" "temp_ids_ok (tab s)"
    "set_device_temporary_normal ad a0 minutes d m ref s = (Inr r, s')"
  shows "\<exists>a. validate_ipv4 a0 = Inr a \<and> grant_done ad a r (tab s')"
proof -
  obtain a where a: "validate_ipv4 a0 = Inr a" using temp_minutes_valid [OF assms(4)] by blast
  have "triple tab (\<lambda>t. ids_ok t \<and> temp_ids_ok t) (set_device_temporary_normal ad a0 minutes d m ref) (grant_done ad a) (\<lambda>_. True)"
    by (rule triple_weaken [OF device_adapter.set_device_temporary_normal_triple [OF assms(1) a, of False]]) auto
  from triple_run [OF this assms(4)] show ?thesis using assms(2,3) a by blast
qed


text \<open>C20: extending an override never loses the fail-safe: whichever calls fail, the scheduler that will
  restore the device is still there, enabled and unfired.\<close>

theorem extension_keeps_fail_safe:
  assumes "device_adapter ad tab" "ids_ok (tab s)" "temp_ids_ok (tab s)" "validate_ipv4 a0 = Inr a" "armed (tab s) a"
  shows "armed (tab (snd (set_device_temporary_normal ad a0 minutes d m ref s))) a"
proof -
  let ?A = "\<lambda>t. ids_ok t \<and> temp_ids_ok t \<and> (True \<longrightarrow> armed t a)"
  have "triple tab ?A (set_device_temporary_normal ad a0 minutes d m ref) (\<lambda>_. ?A) ?A"
    by (rule triple_weaken [OF device_adapter.set_device_temporary_normal_triple [OF assms(1,4), of True]]) auto
  from triple_end [OF this, of s] show ?thesis using assms by simp
qed


section \<open>What the restore script does\<close>

text \<open>The effect of one command, as RouterOS documents it; an added row gets an unused identifier.\<close>

inductive cmd_step :: "ros_cmd \<Rightarrow> tables \<Rightarrow> tables \<Rightarrow> bool" where
  remove_list: "cmd_step (RemoveList l a) t (off_list l a t)"
| remove_queue: "cmd_step (RemoveQueue n) t (off_queue n t)"
| ensure_present: "list_entries t l a \<noteq> [] \<Longrightarrow> cmd_step (EnsureList l a) t t"
| ensure_add: "list_entries t l a = [] \<Longrightarrow> al_added l a ''MC - Temp Restore Block'' t t' \<Longrightarrow> cmd_step (EnsureList l a) t t'"
| add_queue: "q_added (managed_queue n a limit ''MC - Temp Restore Slow'') t t' \<Longrightarrow> cmd_step (AddQueue n a limit) t t'"
| add_list: "al_added l a ''MC - Temp Restore Slow'' t t' \<Longrightarrow> cmd_step (AddList l a) t t'"

inductive script_run :: "ros_cmd list \<Rightarrow> tables \<Rightarrow> tables \<Rightarrow> bool" where
  finish: "script_run [] t t"
| step: "cmd_step c t t' \<Longrightarrow> script_run cs t' t'' \<Longrightarrow> script_run (c # cs) t t''"

inductive_simps script_run_simps [simp]: "script_run [] t t'" "script_run (c # cs) t t'"

inductive_simps cmd_step_simps: "cmd_step (RemoveList l a) t t'" "cmd_step (RemoveQueue n) t t'" "cmd_step (EnsureList l a) t t'"
  "cmd_step (AddQueue n a limit) t t'" "cmd_step (AddList l a) t t'"

lemma rest_of_steps:
  "al_added DEVICE_BLOCK_LIST a c t t' \<Longrightarrow> rest_of a t' = rest_of a t" "al_added DEVICE_SLOW_LIST a c t t' \<Longrightarrow> rest_of a t' = rest_of a t"
  "q_added q t t' \<Longrightarrow> sq_name q = device_slow_queue_name a \<Longrightarrow> rest_of a t' = rest_of a t"
  by (metis rest_of_off off_list_added off_queue_added)+

lemma q_added_named:
  "q_added q t t' \<Longrightarrow> sq_name q \<noteq> n \<Longrightarrow> named_queues t' n = named_queues t n"
  "q_added (managed_queue n a limit c) t t' \<Longrightarrow> named_queues t n = [] \<Longrightarrow> queue_ok t' n a limit"
proof -
  show "q_added q t t' \<Longrightarrow> sq_name q \<noteq> n \<Longrightarrow> named_queues t' n = named_queues t n"
    using q_added_lookup(2) [of q t t' n] by auto
  assume "q_added (managed_queue n a limit c) t t'" "named_queues t n = []"
  then obtain i where "named_queues t' n = [(managed_queue n a limit c)\<lparr> sq_id := i \<rparr>]"
    using q_added_lookup(2) [of "managed_queue n a limit c" t t' n] by (auto simp: managed_queue_def)
  then show "queue_ok t' n a limit" by (simp add: queue_ok_def managed_queue_def)
qed

lemma restore_normal: "script_run (restore_commands limit a ''normal'') t t' \<Longrightarrow> mode_established a lim ''normal'' t' \<and> rest_of a t' = rest_of a t"
  by (simp add: restore_commands_def Let_def cmd_step_simps mode_established_def)

lemma restore_blocked:
  assumes "script_run (restore_commands limit a ''blocked'') t t'" "length (list_entries t DEVICE_BLOCK_LIST a) \<le> 1"
  shows "mode_established a lim ''blocked'' t' \<and> rest_of a t' = rest_of a t"
proof -
  let ?B = DEVICE_BLOCK_LIST
  obtain t1 where s1: "cmd_step (EnsureList ?B a) t t1"
    and t': "t' = off_queue (device_bandwidth_queue_name a) (off_queue (device_slow_queue_name a) (off_list DEVICE_SLOW_LIST a t1))"
    using assms(1) by (auto simp: restore_commands_def Let_def cmd_step_simps(1,2))
  have "length (list_entries t1 ?B a) = 1 \<and> rest_of a t1 = rest_of a t"
    using s1 unfolding cmd_step_simps(3)
  proof (elim disjE conjE)
    assume "list_entries t ?B a \<noteq> []" "t1 = t"
    moreover from this assms(2) have "length (list_entries t ?B a) = 1" by (cases "list_entries t ?B a") auto
    ultimately show ?thesis by simp
  next
    assume "list_entries t ?B a = []" "al_added ?B a ''MC - Temp Restore Block'' t t1"
    then show ?thesis using al_added_lookup(1) rest_of_steps(1) by fastforce
  qed
  then show ?thesis by (simp add: t' mode_established_def Let_def)
qed

lemma restore_slow:
  assumes "script_run (restore_commands limit a ''slow'') t t'"
  shows "mode_established a limit ''slow'' t' \<and> rest_of a t' = rest_of a t"
proof -
  let ?B = DEVICE_BLOCK_LIST and ?S = DEVICE_SLOW_LIST and ?sn = "device_slow_queue_name a" and ?bn = "device_bandwidth_queue_name a"
  obtain t1 t2 where s1: "q_added (managed_queue ?sn a limit ''MC - Temp Restore Slow'') (off_queue ?sn t) t1"
    and s2: "al_added ?S a ''MC - Temp Restore Slow'' (off_list ?S a t1) t2" and t': "t' = off_list ?B a (off_queue ?bn t2)"
    using assms by (auto simp: restore_commands_def Let_def cmd_step_simps)
  have q1: "queue_ok t1 ?sn a limit" by (rule q_added_named(2) [OF s1]) simp
  have q2: "queue_ok t2 ?sn a limit" using q1 al_added_lookup(3) [OF s2] by (simp add: queue_ok_def)
  have l2: "length (list_entries t2 ?S a) = 1" using al_added_lookup(1) [OF s2] by simp
  have "rest_of a t1 = rest_of a t" using rest_of_steps(3) [OF s1] by (simp add: managed_queue_def)
  then have "rest_of a t2 = rest_of a t" using rest_of_steps(2) [OF s2] by simp
  then show ?thesis using q2 l2 by (simp add: t' mode_established_def Let_def)
qed


section \<open>The metadata of the scheduler\<close>

lemma split_field_field:
  assumes "CHR ''='' \<notin> set k" "py_strip k = k" "py_strip v = v"
  shows "split_field (k @ CHR ''='' # v) = [(k, v)]"
proof -
  have "takeWhile (\<lambda>c. c \<noteq> CHR ''='') (k @ CHR ''='' # v) = k" "dropWhile (\<lambda>c. c \<noteq> CHR ''='') (k @ CHR ''='' # v) = CHR ''='' # v"
    using assms(1) by (induction k) auto
  then show ?thesis using assms by (simp add: split_field_def)
qed

definition plain_char :: "char \<Rightarrow> bool" where
  "plain_char c = (c \<noteq> CHR ''|'' \<and> \<not> is_blank c)"

lemma digit_plain: "is_digit c \<Longrightarrow> plain_char c"
  by (auto simp: plain_char_def is_digit_iff is_blank_def)

lemma show_plain: "list_all plain_char (show_nat n)" "list_all plain_char (show_int i)" "list_all plain_char (pad2 n)"
proof -
  have d: "list_all plain_char (show_nat n)" for n using show_nat_digits digit_plain by (auto simp: list_all_iff)
  have m: "plain_char (CHR ''-'')" "plain_char (CHR ''0'')" by code_simp+
  show "list_all plain_char (show_nat n)" "list_all plain_char (show_int i)" "list_all plain_char (pad2 n)"
    by (simp_all add: d m show_int_def pad2_def)
qed

lemma iso_plain: "list_all plain_char (iso_seconds z w)"
proof -
  have m: "plain_char (CHR ''-'')" "plain_char (CHR ''0'')" "plain_char (CHR ''T'')" "plain_char (CHR '':'')" "plain_char (CHR ''+'')"
    by code_simp+
  have r: "list_all plain_char (replicate k (CHR ''0''))" for k by (simp add: list_all_iff m)
  show ?thesis
    by (simp add: iso_seconds_def show_date_def ros_clock_def show_offset_def Let_def show_plain m r split: prod.split)
qed

lemma plain_strip: "list_all plain_char s \<Longrightarrow> py_strip s = s"
  by (rule py_strip_id) (cases s; auto simp: list_all_iff plain_char_def dest: last_in_set)

lemma plain_bar: "list_all plain_char s \<Longrightarrow> CHR ''|'' \<notin> set s"
  by (auto simp: list_all_iff plain_char_def)

lemma split_on_join:
  "list_all (\<lambda>p. c \<notin> set p) (x # xs) \<Longrightarrow> split_on c (x @ concat (map (\<lambda>p. c # p) xs)) = x # xs"
  by (induction xs arbitrary: x) (simp_all add: split_on_free split_on_app)

lemma temp_comment_split:
  assumes "list_all plain_char a" "list_all plain_char m" "list_all plain_char st" "list_all plain_char ref"
  shows "split_on (CHR ''|'') (temp_comment a m n st ref)
    = [''MC'', ''TEMP_DEVICE'', a, ''restore='' @ m, ''minutes='' @ show_int n, ''started='' @ st]
      @ (if ref = [] then [] else [''reference='' @ ref])"
proof -
  let ?xs = "[''TEMP_DEVICE'', a, ''restore='' @ m, ''minutes='' @ show_int n, ''started='' @ st] @ (if ref = [] then [] else [''reference='' @ ref])"
  have "temp_comment a m n st ref = ''MC'' @ concat (map (\<lambda>p. CHR ''|'' # p) ?xs)"
    by (simp add: temp_comment_def)
  moreover have "list_all (\<lambda>p. CHR ''|'' \<notin> set p) (''MC'' # ?xs)"
    using assms [THEN plain_bar] plain_bar [OF show_plain(2)] by simp
  ultimately show ?thesis using split_on_join [of "CHR ''|''" "''MC''" ?xs] by simp
qed

lemma comment_fields:
  assumes "validate_ipv4 a0 = Inr a" "m \<in> {''normal'', ''slow'', ''blocked''}" "n \<in> set DEVICE_TEMP_DURATIONS" "is_reference ref"
  shows "let d = parse_device_temp_comment (temp_comment a m n (iso_seconds z w) ref) in map_of d ''address'' = Some a \<and> map_of d ''restore'' = Some m \<and> py_int (opt_or (map_of d ''minutes'') []) = Some n
    \<and> map_of d ''started'' = Some (iso_seconds z w) \<and> map_of d ''reference'' = (if ref = [] then None else Some ref)"
proof -
  define d where "d = parse_device_temp_comment (temp_comment a m n (iso_seconds z w) ref)"
  have a: "list_all plain_char a"
    using validate_ipv4_chars [OF assms(1)] digit_plain by (auto simp: list_all_iff ipv4_char_def plain_char_def is_blank_def)
  have m: "list_all plain_char m" using assms(2) by (auto simp: plain_char_def is_blank_def)
  have r: "list_all plain_char ref" using assms(4) by (auto simp: is_reference_def list_all_iff plain_char_def is_digit_iff is_blank_def)
  have i: "py_int (show_int n) = Some n"
  proof -
    have "py_int (show_int 15) = Some 15" "py_int (show_int 30) = Some 30" "py_int (show_int 60) = Some 60" by code_simp+
    then show ?thesis using assms(3) by (auto simp: DEVICE_TEMP_DURATIONS_def)
  qed
  have f: "split_field (''restore='' @ m) = [(''restore'', m)]" "split_field (''minutes='' @ show_int n) = [(''minutes'', show_int n)]"
    "split_field (''started='' @ iso_seconds z w) = [(''started'', iso_seconds z w)]" "split_field (''reference='' @ ref) = [(''reference'', ref)]"
  proof -
    have k: "py_strip ''restore'' = ''restore''" "py_strip ''minutes'' = ''minutes''" "py_strip ''started'' = ''started''" "py_strip ''reference'' = ''reference''"
      by code_simp+
    show "split_field (''restore='' @ m) = [(''restore'', m)]" "split_field (''minutes='' @ show_int n) = [(''minutes'', show_int n)]"
    "split_field (''started='' @ iso_seconds z w) = [(''started'', iso_seconds z w)]" "split_field (''reference='' @ ref) = [(''reference'', ref)]"
      using split_field_field [OF _ k(1) plain_strip [OF m]] split_field_field [OF _ k(2) plain_strip [OF show_plain(2)], of n]
        split_field_field [OF _ k(3) plain_strip [OF iso_plain], of z w] split_field_field [OF _ k(4) plain_strip [OF r]] by simp_all
  qed
  have "d = (if ref = [] then [] else [(''reference'', ref)]) @ [(''started'', iso_seconds z w), (''minutes'', show_int n), (''restore'', m), (''address'', a)]"
    by (simp add: d_def parse_device_temp_comment_def temp_comment_split [OF a m iso_plain r] f [unfolded append.simps] Let_def)
  then show ?thesis unfolding Let_def d_def [symmetric] using i by (simp add: opt_or_def str_or_def)
qed

text \<open>C23: the metadata written into the comment of the scheduler reads back: address, restore mode,
  minutes, start and reference.\<close>

theorem temp_comment_roundtrip:
  assumes "validate_ipv4 a0 = Inr a" "m \<in> {''normal'', ''slow'', ''blocked''}" "n \<in> set DEVICE_TEMP_DURATIONS" "is_reference ref"
  shows "let d = parse_device_temp_comment (temp_comment a m n (iso_seconds z w) ref) in map_of d ''address'' = Some a \<and> map_of d ''restore'' = Some m \<and> py_int (opt_or (map_of d ''minutes'') []) = Some n
    \<and> map_of d ''started'' = Some (iso_seconds z w) \<and> map_of d ''reference'' = (if ref = [] then None else Some ref)"
  by (rule comment_fields [OF assms])

end
