(* ===== verification/RouterTempExamples.thy ===== *)
theory RouterTempExamples
  imports RouterTempSafety RouterSim
begin

text \<open>
  Instances of the properties of temporary access on the simulated service, and two runs that show
  where the fail-safe of the source does not hold.
\<close>

section \<open>A grant, step by step\<close>

lemma rbind_run: "m s = (Inr x, s') \<Longrightarrow> rbind m f s = f x s'"
  by (simp add: rbind_def)

abbreviation sample_ad :: "sim adapter" where
  "sample_ad \<equiv> sim_adapter False True True ''128k/256k''"

abbreviation sample_addr :: string where
  "sample_addr \<equiv> ''192.168.88.10''"

definition blocked_tables :: tables where
  "blocked_tables = sample_tables [sample_entry ''*B'' DEVICE_BLOCK_LIST sample_addr]"

text \<open>The tables once the fail-safe is written, and once the device is released.\<close>

definition with_fail_safe :: "string \<Rightarrow> string \<Rightarrow> int \<Rightarrow> tables \<Rightarrow> tables" where
  "with_fail_safe src c w t = t\<lparr>
     t_scripts := [(temp_script (device_temp_script_name sample_addr) sample_addr src)\<lparr> rs_id := ''*'' \<rparr>],
     t_scheds := [(temp_scheduler (device_temp_scheduler_name sample_addr) (device_temp_script_name sample_addr) c w)\<lparr> sc_id := ''*'' \<rparr>] \<rparr>"

lemma read_none: "get_device_temporary_access sample_ad sample_addr (blocked_tables, replicate 4 Answered @ os) = (Inr inactive_temp, (blocked_tables, os))"
  by code_simp

lemma read_blocked: "get_device_enforcement sample_ad sample_addr (blocked_tables, replicate 6 Answered @ os)
    = (Inr (table_enforcement sample_addr blocked_tables), (blocked_tables, os))"
  by code_simp

lemma prepared: "prepare_fail_safe sample_ad sample_addr False src c w (blocked_tables, replicate 7 Answered @ os)
    = (Inr (), (with_fail_safe src c w blocked_tables, os))"
  by code_simp

lemma released: "release_for_access sample_ad sample_addr False [] (with_fail_safe src c w blocked_tables, [])
    = (Inr (), (with_fail_safe src c w (sample_tables []), []))"
  by code_simp

lemma release_fails: "let (r, s') = release_for_access sample_ad sample_addr False [] (with_fail_safe src c w blocked_tables, replicate 8 Answered @ [Refused])
    in isl r \<and> table_mode (fst s') sample_addr = ''normal'' \<and> no_temp (fst s') sample_addr"
  by code_simp


definition blocked_source :: string where
  "blocked_source = concat (map render_cmd (restore_commands ''128k/256k'' sample_addr ''blocked''))"

definition started_comment :: "int \<Rightarrow> string" where
  "started_comment n = temp_comment sample_addr ''blocked'' n (iso_seconds london (from_utc london sample_now)) []"

definition blocked_backed :: "int \<Rightarrow> tables \<Rightarrow> tables" where
  "blocked_backed n = with_fail_safe blocked_source (started_comment n) (aw_local (temp_target london sample_now n))"

lemma source_is: "device_temp_restore_source sample_ad sample_addr ''blocked'' = Inr blocked_source"
  by code_simp

lemma sample_fields: "ad_now sample_ad s = (Inr sample_now, s)" "ad_zone sample_ad = london" "require_policy_write_gate sample_ad s = (Inr (), s)"
  by (simp_all add: sim_adapter_def require_policy_write_gate_def rret_def)

lemma blocked_mode: "le_mode (table_enforcement sample_addr blocked_tables) = ''blocked''"
  by code_simp

lemma validated:
  "n \<in> set DEVICE_TEMP_DURATIONS \<Longrightarrow> set_device_temporary_normal sample_ad sample_addr (PInt n) [] None [] = grant_temporary_normal sample_ad sample_addr n [] None []"
proof -
  have "validate_ipv4 sample_addr = Inr sample_addr" "py_strip [] = []" by code_simp+
  then show "n \<in> set DEVICE_TEMP_DURATIONS \<Longrightarrow> ?thesis"
    by (simp add: set_device_temporary_normal_def pyval_int_def Let_def)
qed

lemma grant_prefix:
  assumes "n \<in> set DEVICE_TEMP_DURATIONS"
  shows "set_device_temporary_normal sample_ad sample_addr (PInt n) [] None [] (blocked_tables, replicate 17 Answered @ os)
    = rbind (release_for_access sample_ad sample_addr False []) (\<lambda>_. rbind (get_device_temporary_access sample_ad sample_addr) (\<lambda>result.
        if \<not> ta_active result then rraise (RouterError (''Temporary access scheduler did not become active for '' @ sample_addr))
        else rret (granted result False ''blocked'' ''blocked'' [] (iso_seconds london (temp_target london sample_now n)))))
      (blocked_backed n blocked_tables, os)"
proof -
  have k: "replicate 17 Answered @ os = replicate 4 Answered @ (replicate 6 Answered @ (replicate 7 Answered @ os))"
    by (simp flip: append_assoc replicate_add)
  have i: "\<not> ta_active inactive_temp" by (simp add: inactive_temp_def)
  note r = rbind_run [where m = "get_device_temporary_access sample_ad sample_addr", OF read_none]
    rbind_run [where m = "get_device_enforcement sample_ad sample_addr", OF read_blocked]
    rbind_run [where m = "prepare_fail_safe sample_ad sample_addr False src c w" for src c w, OF prepared]
    rbind_run [where m = "require_policy_write_gate sample_ad", OF sample_fields(3)]
    rbind_run [where m = "ad_now sample_ad", OF sample_fields(1)]
  show ?thesis
    unfolding validated [OF assms] grant_temporary_normal_def k
    by (simp only: r Let_def i if_False blocked_mode opt_or_def option.case source_is rbind_rlift sample_fields(2) rwhen_def
        simp_thms if_True insert_iff not_True_eq_False not_False_eq_True rbind_rret append_Nil
        started_comment_def [symmetric] blocked_backed_def [symmetric] str_or_def)
qed

lemma sim_calls [simp]: "sim_read st f (t, []) = (Inr (f t), (t, []))" "sim_write st g (t, []) = (Inr (), (g t, []))"
  by (simp_all add: sim_read_def sim_write_def)

lemma read_backed:
  assumes "n \<in> set DEVICE_TEMP_DURATIONS"
  obtains x where "get_device_temporary_access sample_ad sample_addr (blocked_backed n (sample_tables []), []) = (Inr x, (blocked_backed n (sample_tables []), []))"
    "ta_active x" "ta_restore_mode x = Some ''blocked''"
proof -
  let ?t = "blocked_backed n (sample_tables [])"
  define s where "s = (temp_scheduler (device_temp_scheduler_name sample_addr) (device_temp_script_name sample_addr)
    (started_comment n) (aw_local (temp_target london sample_now n)))\<lparr> sc_id := ''*'' \<rparr>"
  define x where "x = (temp_script (device_temp_script_name sample_addr) sample_addr blocked_source)\<lparr> rs_id := ''*'' \<rparr>"
  have lists: "t_scheds ?t = [s]" "t_scripts ?t = [x]"
    by (simp_all add: blocked_backed_def with_fail_safe_def s_def x_def)
  have s: "sc_name s = device_temp_scheduler_name sample_addr" "rs_name x = device_temp_script_name sample_addr"
    "sc_comment s = started_comment n" "run_count_of s = Inr 0" "\<not> sc_disabled s"
    unfolding s_def by (rule run_count_zero | simp add: temp_scheduler_def x_def temp_script_def)+
  have v: "validate_ipv4 sample_addr = Inr sample_addr" "''blocked'' \<in> {''normal'', ''slow'', ''blocked''}" "is_reference []" "py_lower ''blocked'' = ''blocked''"
    by code_simp+
  let ?d = "parse_device_temp_comment (started_comment n)"
  have d: "map_of ?d ''address'' = Some sample_addr" "map_of ?d ''restore'' = Some ''blocked''"
    using comment_fields [OF v(1,2) assms v(3), of london "from_utc london sample_now"] by (simp_all add: started_comment_def Let_def)
  have al: "t_al ?t = [sample_entry ''*A'' ''Restricted_Devices'' sample_addr]"
    by (simp add: blocked_backed_def with_fail_safe_def sample_tables_def)
  have r: "validate_restricted_device sample_ad sample_addr (?t, []) = (Inr (sample_entry ''*A'' ''Restricted_Devices'' sample_addr), (?t, []))"
    by (simp add: validate_restricted_device_def rbind_def sim_adapter_def sim_api_def al sample_entry_def RESTRICTED_LIST_def rret_def)
  have o: "opt_or (Some sample_addr) [] = sample_addr" "str_or (opt_or (Some ''blocked'') []) ''unknown'' = ''blocked''" by code_simp+
  have ro: "\<exists>y. read_override sample_ad sample_addr [x] s st = (Inr y, st) \<and> ta_active y \<and> ta_restore_mode y = Some ''blocked''" for st
    by (simp add: read_override_def Let_def s d o v(4) rret_def)
  then obtain y where y: "read_override sample_ad sample_addr [x] s (?t, []) = (Inr y, (?t, []))" "ta_active y" "ta_restore_mode y = Some ''blocked''" by blast
  have g: "r_connect (ad_api sample_ad) (?t, []) = (Inr (), (?t, []))"
    "r_sched_get (ad_api sample_ad) (device_temp_scheduler_name sample_addr) (?t, []) = (Inr [s], (?t, []))"
    "r_script_get (ad_api sample_ad) (device_temp_script_name sample_addr) (?t, []) = (Inr [x], (?t, []))"
    by (simp_all add: sim_adapter_def sim_api_def lists s)
  have "get_device_temporary_access sample_ad sample_addr (?t, []) = (Inr y, (?t, []))"
    by (simp add: get_device_temporary_access_def v(1) rbind_def g rwrap_def rcatch_def r read_temporary_access_def Let_def y(1))
  then show ?thesis using that y by blast
qed

lemma grant_runs:
  assumes "n \<in> set DEVICE_TEMP_DURATIONS"
  obtains r where "set_device_temporary_normal sample_ad sample_addr (PInt n) [] None [] (blocked_tables, replicate 17 Answered)
    = (Inr r, (blocked_backed n (sample_tables []), []))"
proof -
  obtain x where x: "get_device_temporary_access sample_ad sample_addr (blocked_backed n (sample_tables []), []) = (Inr x, (blocked_backed n (sample_tables []), []))"
    "ta_active x" by (rule read_backed [OF assms])
  have rel: "release_for_access sample_ad sample_addr False [] (blocked_backed n blocked_tables, []) = (Inr (), (blocked_backed n (sample_tables []), []))"
    unfolding blocked_backed_def by (rule released)
  show ?thesis
    using that grant_prefix [OF assms, of "[]"] x by (simp add: rbind_def rel rret_def)
qed

lemma cancel_runs: "case fst (cancel_device_temporary_access sample_ad sample_addr True (blocked_backed 15 (sample_tables []), []))
   of Inr c \<Rightarrow> tc_removed c | Inl _ \<Rightarrow> False"
proof -
  obtain x where x: "get_device_temporary_access sample_ad sample_addr (blocked_backed 15 (sample_tables []), []) = (Inr x, (blocked_backed 15 (sample_tables []), []))"
    "ta_active x" "ta_restore_mode x = Some ''blocked''" by (rule read_backed [of 15]) (simp add: DEVICE_TEMP_DURATIONS_def)
  have v: "validate_ipv4 sample_addr = Inr sample_addr" by code_simp
  have o: "opt_or (Some ''blocked'') [] = ''blocked''" by code_simp
  have rest: "case fst (rbind (disable_fail_safe sample_ad sample_addr) (\<lambda>_.
         rbind (rwhen True
                  (rcatch (rbind (set_device_mode sample_ad sample_addr ''blocked'' ''temporary access cancelled'')
                             (\<lambda>_. rret ()))
                    (\<lambda>e. rbind (swallow (enable_fail_safe sample_ad sample_addr)) (\<lambda>_. rraise e)))) (\<lambda>_.
         rbind (r_connect (ad_api sample_ad)) (\<lambda>_.
         rbind (rcatch (cleanup_device_temp_resources sample_ad sample_addr)
                  (\<lambda>e. rraise (RouterError (''Temporary mode restored for '' @ sample_addr @ '', but cleanup failed: '' @ exc_text e)))) (\<lambda>removed.
           rret \<lparr> tc_removed = True, tc_restored = True, tc_restore_mode = Some ''blocked'', tc_counts = Some removed \<rparr>))))
      (with_fail_safe src c w (sample_tables []), [])) of Inr c \<Rightarrow> tc_removed c | Inl _ \<Rightarrow> False" for src c w
    by code_simp
  show ?thesis
    unfolding cancel_device_temporary_access_def v rbind_rlift rbind_run [where m = "get_device_temporary_access sample_ad sample_addr", OF x(1)]
    using x(2,3) rest by (simp add: o blocked_backed_def)
qed

section \<open>Instances\<close>

lemma sample_address: "validate_ipv4 sample_addr = Inr sample_addr"
  by code_simp

lemma blocked_tables_ok: "ids_ok blocked_tables" "temp_ids_ok blocked_tables"
  by code_simp+

lemma backed_ok: "ids_ok (blocked_backed 15 (sample_tables []))" "temp_ids_ok (blocked_backed 15 (sample_tables []))"
  "armed (blocked_backed 15 (sample_tables [])) sample_addr"
proof -
  have "ids_ok (with_fail_safe s c w (sample_tables []))" "temp_ids_ok (with_fail_safe s c w (sample_tables []))"
    "armed (with_fail_safe s c w (sample_tables [])) sample_addr" for s c w by code_simp+
  then show "ids_ok (blocked_backed 15 (sample_tables []))" "temp_ids_ok (blocked_backed 15 (sample_tables []))"
    "armed (blocked_backed 15 (sample_tables [])) sample_addr" by (simp_all add: blocked_backed_def)
qed


text \<open>Extending the override while the seventh call is not answered.\<close>

theorem extension_keeps_fail_safe_witness:
  "armed (fst (snd (set_device_temporary_normal sample_ad sample_addr (PInt 60) [] None []
     (blocked_backed 15 (sample_tables []), replicate 6 Answered @ [Unanswered])))) sample_addr"
proof -
  let ?s = "(blocked_backed 15 (sample_tables []), replicate 6 Answered @ [Unanswered])"
  have "ids_ok (fst ?s)" "temp_ids_ok (fst ?s)" "armed (fst ?s) sample_addr" using backed_ok by simp_all
  from extension_keeps_fail_safe [OF sample_router this(1,2) sample_address this(3)] show ?thesis .
qed



theorem temp_comment_roundtrip_witness:
  "map_of (parse_device_temp_comment (temp_comment sample_addr ''slow'' 30 (iso_seconds london (from_utc london sample_now)) ''r:7''))
     ''restore'' = Some ''slow''"
proof -
  have "''slow'' \<in> {''normal'', ''slow'', ''blocked''}" "30 \<in> set DEVICE_TEMP_DURATIONS" "is_reference ''r:7''" by code_simp+
  from temp_comment_roundtrip [OF sample_address this] show ?thesis by (simp add: Let_def)
qed

text \<open>A grant that has released the device but fails while verifying it leaves the device in mode
  normal without any fail-safe: the error path removes the prepared scheduler and script.\<close>

theorem failed_grant_fails_open:
  "let s = (blocked_tables, replicate 25 Answered @ [Refused]);
       (r, s') = set_device_temporary_normal sample_ad sample_addr (PInt 30) [] None [] s
   in table_mode (fst s) sample_addr = ''blocked'' \<and> isl r
      \<and> table_mode (fst s') sample_addr = ''normal'' \<and> no_temp (fst s') sample_addr"
proof -
  have k: "replicate 25 Answered @ [Refused] = replicate 17 Answered @ (replicate 8 Answered @ [Refused])"
    by (simp flip: append_assoc replicate_add)
  have m: "table_mode blocked_tables sample_addr = ''blocked''" by code_simp
  have n: "30 \<in> set DEVICE_TEMP_DURATIONS" by (simp add: DEVICE_TEMP_DURATIONS_def)
  obtain r s' where f: "release_for_access sample_ad sample_addr False [] (blocked_backed 30 blocked_tables, replicate 8 Answered @ [Refused]) = (r, s')"
    by (rule prod.exhaust)
  have "isl r \<and> table_mode (fst s') sample_addr = ''normal'' \<and> no_temp (fst s') sample_addr"
    using release_fails [of blocked_source "started_comment 30" "aw_local (temp_target london sample_now 30)"] f
    by (simp add: blocked_backed_def)
  then show ?thesis
    unfolding k Let_def grant_prefix [OF n] using f m by (auto simp: rbind_def isl_def)
qed

text \<open>Temporary access of 30 minutes granted 15 minutes before the clocks go back ends after 90: the
  expiry is computed on the wall clock.\<close>

theorem grant_across_clock_change:
  "let now = 1761439500; expiry = utc_instant london (temp_target london now 30) in expiry - now = 90 * 60"
  by code_simp

end
