(* ===== verification/RouterServices.thy ===== *)
theory RouterServices
  imports RouterMode
begin

text \<open>
  Correctness of the bandwidth and the service operations of the adapter over every service that
  keeps the contract of \<open>RouterApi\<close>: a change that reports success has established exactly what was
  asked for, and a service outside the catalogue is refused without a call to the router.
\<close>

section \<open>Profile bandwidth\<close>

context device_adapter begin

lemma get_device_bandwidth_reads:
  assumes "validate_ipv4 a0 = Inr a"
  shows "reads tab (get_device_bandwidth ad a0) (\<lambda>t. bandwidth_of a (named_queues t (device_bandwidth_queue_name a)))"
proof -
  have "reads tab (get_device_bandwidth ad a0)
    (\<lambda>t. bandwidth_of a (filter (\<lambda>q. sq_name q = device_bandwidth_queue_name a) (t_queues t)))"
    unfolding get_device_bandwidth_def assms rbind_rlift
    by (rule reads_after [OF keeps_checks(4)] reads_rwrap reads_after [OF keeps_checks(2)] reads_bind [OF q_get] reads_rret)+
  then show ?thesis unfolding named_queues_def .
qed

end

text \<open>The bandwidth queue of a device is absent, or is the one queue with the limit.\<close>

definition bandwidth_established :: "string \<Rightarrow> string option \<Rightarrow> tables \<Rightarrow> bool" where
  "bandwidth_established a expected t = (case expected of
     None \<Rightarrow> named_queues t (device_bandwidth_queue_name a) = []
   | Some limit \<Rightarrow> queue_ok t (device_bandwidth_queue_name a) a limit)"

text \<open>The tables without the bandwidth queue of a device.\<close>

definition off_bandwidth :: "string \<Rightarrow> tables \<Rightarrow> tables" where
  "off_bandwidth a = off_queue (device_bandwidth_queue_name a)"

definition expected_limit :: "string \<Rightarrow> string \<Rightarrow> string \<Rightarrow> string option res" where
  "expected_limit preset_key upload download =
     (if norm_key preset_key = ''normal'' then Inr None
      else case build_max_limit upload download of Inr l \<Rightarrow> Inr (Some l) | Inl e \<Rightarrow> Inl e)"

lemma off_queue_idem: "off_queue n (off_queue n t) = off_queue n t"
  by (simp add: off_queue_def)

context device_adapter begin

lemma set_device_bandwidth_triple:
  assumes a: "validate_ipv4 a0 = Inr a" and e: "expected_limit key up down = Inr expected"
  shows "triple tab (\<lambda>t. off_bandwidth a t = fr \<and> ids_ok t) (set_device_bandwidth ad a0 key up down d)
    (\<lambda>r t. off_bandwidth a t = fr \<and> ids_ok t \<and> bandwidth_established a expected t
       \<and> r = bandwidth_of a (named_queues t (device_bandwidth_queue_name a)))
    (\<lambda>t. off_bandwidth a t = fr \<and> ids_ok t)"
proof -
  let ?n = "device_bandwidth_queue_name a"
  let ?I = "\<lambda>t. off_bandwidth a t = fr" and ?P = "\<lambda>t. off_bandwidth a t = fr \<and> ids_ok t"
  let ?Q = "\<lambda>t. off_bandwidth a t = fr \<and> ids_ok t \<and> bandwidth_established a expected t"
  have aa: "validate_ipv4 a = Inr a" using a by (auto simp: validate_ipv4_def Let_def split: if_splits)
  have k: "triple tab ?P n (\<lambda>_. ?P) ?P" if "keeps tab n" for n :: "('s, 'x) act"
    using that by (rule triple_keeps) simp_all
  have blind: "off_bandwidth a (off_queue ?n t) = off_bandwidth a t" for t
    by (simp add: off_bandwidth_def off_queue_idem)
  have ex: "(if norm_key key = ''normal'' then Inr None
      else case build_max_limit up down of Inr l \<Rightarrow> Inr (Some l)
        | Inl (BandwidthRateError e) \<Rightarrow> Inl (RouterError e) | Inl e \<Rightarrow> Inl e) = Inr expected"
    using e by (auto simp: expected_limit_def split: if_splits sum.splits)
  have body: "triple tab ?P (rbind (r_q_get (ad_api ad) ?n) (\<lambda>entries. case expected of
       None \<Rightarrow> remove_queues ad ?n | Some limit \<Rightarrow> ensure_queue ad ?n a limit c entries)) (\<lambda>_. ?Q) ?P" for c
  proof (cases expected)
    case None
    have "triple tab ?P (remove_queues ad ?n) (\<lambda>_. ?Q) ?P"
      by (rule clear_queue [where I = ?I]) (auto simp: blind bandwidth_established_def None)
    then show ?thesis using triple_rbind [OF k [OF keeps_reads [OF q_get]]] by (simp add: None)
  next
    case (Some limit)
    have "triple tab ?P (rbind (r_q_get (ad_api ad) ?n) (ensure_queue ad ?n a limit c)) (\<lambda>_. ?Q) ?P"
      by (rule fix_queue [where I = ?I]) (auto simp: blind bandwidth_established_def Some)
    then show ?thesis by (simp add: Some)
  qed
  have rd: "triple tab ?Q (get_device_bandwidth ad a) (\<lambda>r t. ?Q t \<and> r = bandwidth_of a (named_queues t ?n)) ?P"
    by (rule triple_reads [OF get_device_bandwidth_reads [OF aa]]) auto
  have fin: "triple tab (\<lambda>t. ?Q t \<and> r = bandwidth_of a (named_queues t ?n))
     (case expected of None \<Rightarrow> if lb_active r then rraise e1 else rret r
       | Some limit \<Rightarrow> if \<not> lb_valid r \<or> \<not> lb_active r then rraise e2
           else if \<not> limits_equal (lb_max_limit r) (Some limit) then rraise (e3 limit) else rret r)
     (\<lambda>r t. ?P t \<and> bandwidth_established a expected t \<and> r = bandwidth_of a (named_queues t ?n)) ?P" for r e1 e2 e3
    by (cases expected) (auto intro!: triple_if triple_rraise triple_rret)
  show ?thesis
    unfolding set_device_bandwidth_def a rbind_rlift Let_def ex
    by (rule triple_if, rule triple_rraise, simp,
        rule triple_rbind [OF k [OF keeps_checks(3)]], rule triple_rbind [OF k [OF keeps_checks(4)]],
        rule triple_rbind, rule triple_rwrap, rule triple_rbind [OF k [OF keeps_checks(2)]], rule body,
        rule triple_rbind [OF rd], rule triple_weaken [OF fin]) auto
qed

end

lemma set_device_bandwidth_valid:
  assumes "set_device_bandwidth ad a0 key up down d s = (Inr r, s')"
  shows "\<exists>a. validate_ipv4 a0 = Inr a" "\<exists>x. expected_limit key up down = Inr x"
proof -
  show a: "\<exists>a. validate_ipv4 a0 = Inr a"
    using assms unfolding set_device_bandwidth_def by (cases "validate_ipv4 a0") (auto simp: rraise_def)
  then obtain a where v: "validate_ipv4 a0 = Inr a" by blast
  show "\<exists>x. expected_limit key up down = Inr x"
  proof (rule ccontr)
    assume n: "\<nexists>x. expected_limit key up down = Inr x"
    then have "norm_key key \<noteq> ''normal''" "\<exists>e. build_max_limit up down = Inl e"
      by (auto simp: expected_limit_def split: if_splits sum.splits)
    then obtain e where "build_max_limit up down = Inl e" "norm_key key \<noteq> ''normal''" by blast
    then show False
      using assms unfolding set_device_bandwidth_def v rbind_rlift Let_def by (cases e) (auto simp: rraise_def split: if_splits)
  qed
qed

text \<open>C24: a bandwidth change that reports success has left the device with exactly the queue of the preset,
  or none for the preset normal, and has changed nothing else on the router.\<close>

theorem bandwidth_change_converges:
  assumes "device_adapter ad tab" "ids_ok (tab s)" "set_device_bandwidth ad a0 key up down d s = (Inr r, s')"
  shows "\<exists>a expected. validate_ipv4 a0 = Inr a \<and> expected_limit key up down = Inr expected
    \<and> bandwidth_established a expected (tab s') \<and> off_bandwidth a (tab s') = off_bandwidth a (tab s)"
proof -
  obtain a x where ax: "validate_ipv4 a0 = Inr a" "expected_limit key up down = Inr x"
    using set_device_bandwidth_valid [OF assms(3)] by blast
  have "off_bandwidth a (tab s) = off_bandwidth a (tab s) \<and> ids_ok (tab s)" using assms(2) by simp
  from triple_run [OF device_adapter.set_device_bandwidth_triple [OF assms(1) ax, of "off_bandwidth a (tab s)"] assms(3) this]
  show ?thesis using ax by blast
qed

section \<open>Services\<close>

text \<open>What a read of the services of a device reports of one service.\<close>

definition service_read :: "string \<Rightarrow> tables \<Rightarrow> string \<times> service_def \<Rightarrow> string \<times> live_service \<Rightarrow> bool" where
  "service_read a t = (\<lambda>(key, service) (k, live). k = key
     \<and> lv_entries live = length (list_entries t (sv_source_list service) a) \<and> lv_blocked live = (lv_entries live = 1))"

context device_adapter begin

lemma keeps_validate_service: "keeps tab (validate_service_primitive ad key catalog)"
proof -
  have b: "keeps tab (validate_block_rule ad service x)" for service x
    unfolding validate_block_rule_def Let_def by (auto intro!: keeps_rules keeps_reads [OF rules_by_comment])
  have l: "keeps tab (validate_learner_rule ad x)" for x
    unfolding validate_learner_rule_def Let_def by (auto intro!: keeps_rules keeps_reads [OF rules_by_comment])
  show ?thesis
    unfolding validate_service_primitive_def validate_service_contract_def
    by (auto intro!: keeps_rules keeps_rmap b l keeps_reads [OF rules] split: option.split)
qed

lemma keeps_contract_state: "keeps tab (contract_state ad key catalog)"
  using keeps_validate_service [of key catalog] unfolding contract_state_def keeps_def rcatch_def rbind_def rret_def rraise_def
  by (auto split: prod.splits sum.splits exc.splits) (metis snd_conv)+

lemma triple_rmap:
  assumes "\<And>x. x \<in> set xs \<Longrightarrow> triple tab P (f x) (\<lambda>y t. P t \<and> R t x y) P" "\<And>t. P t \<Longrightarrow> t = t0"
  shows "triple tab P (rmap f xs) (\<lambda>ys t. P t \<and> list_all2 (R t0) xs ys) P"
  using assms(1)
proof (induction xs)
  case Nil
  show ?case by (simp add: triple_rret)
next
  case (Cons x xs)
  have h: "triple tab P (f x) (\<lambda>y t. P t \<and> R t0 x y) P"
    by (rule triple_weaken [OF Cons.prems(1)]) (use assms(2) in auto)
  have t: "triple tab (\<lambda>t. P t \<and> R t0 x y) (rmap f xs) (\<lambda>ys t. (P t \<and> list_all2 (R t0) xs ys) \<and> R t0 x y) P" for y
    using Cons unfolding triple_def by (fastforce split: sum.splits)
  show ?case
    unfolding rmap.simps by (rule triple_rbind [OF h], rule triple_rbind [OF t], rule triple_rret) simp
qed

lemma read_services:
  assumes "validate_ipv4 a0 = Inr a"
  shows "triple tab (\<lambda>t. t = t0) (get_device_service_enforcement ad a0 catalog)
    (\<lambda>r t. t = t0 \<and> (\<exists>ys. list_all2 (service_read a t0) catalog ys \<and> r = live_services_of ys)) (\<lambda>t. t = t0)"
proof -
  let ?P = "\<lambda>t. t = t0"
  have k: "triple tab ?P n (\<lambda>_. ?P) ?P" if "keeps tab n" for n :: "('s, 'x) act"
    using that by (rule triple_keeps) simp_all
  have one: "triple tab ?P (read_service ad a catalog x) (\<lambda>y t. ?P t \<and> service_read a t x y) ?P" for x
  proof (cases x)
    case (Pair key service)
    have g: "triple tab ?P (r_al_get (ad_api ad) (sv_source_list service) a)
        (\<lambda>es t. ?P t \<and> es = list_entries t0 (sv_source_list service) a) ?P"
      by (rule triple_reads [OF al_get]) (auto simp: list_entries_def)
    show ?thesis
      unfolding Pair read_service_def prod.case
      by (rule triple_rbind [OF k [OF keeps_contract_state]], rule triple_rbind [OF g], unfold Let_def, rule triple_rret)
         (auto simp: service_read_def)
  qed
  show ?thesis
    unfolding get_device_service_enforcement_def assms rbind_rlift
    by (rule triple_rbind [OF k [OF keeps_checks(4)]], rule triple_rwrap, rule triple_rbind [OF k [OF keeps_checks(2)]],
        rule triple_rbind [OF triple_rmap [OF one]], assumption, rule triple_rret) auto
qed

end

lemma service_reads_blocked:
  assumes "list_all2 (service_read a t) catalog ys" "distinct (map fst catalog)" "(key, service) \<in> set catalog"
  shows "key \<in> set (ls_blocked_services (live_services_of ys)) \<longleftrightarrow> length (list_entries t (sv_source_list service) a) = 1"
  using assms
proof (induction rule: list_all2_induct)
  case (Cons x xs y ys)
  have keys: "map fst xs = map fst ys"
    using Cons.hyps(2) by (induction rule: list_all2_induct) (auto simp: service_read_def split: prod.splits)
  have k: "fst x = fst y" using Cons.hyps(1) by (auto simp: service_read_def split: prod.splits)
  show ?case
  proof (cases "x = (key, service)")
    case True
    have "key \<notin> fst ` set ys" using Cons.prems(1) True keys by (metis distinct.simps(2) fst_conv list.simps(9) set_map)
    then show ?thesis using Cons.hyps(1) k True by (cases y) (auto simp: live_services_of_def service_read_def)
  next
    case False
    then have mem: "(key, service) \<in> set xs" using Cons.prems(2) by auto
    then have "key \<in> fst ` set xs" by (metis fst_conv image_eqI)
    then have "key \<noteq> fst x" using Cons.prems(1) by (metis distinct.simps(2) list.simps(9) set_map)
    then have "key \<in> set (ls_blocked_services (live_services_of (y # ys))) \<longleftrightarrow> key \<in> set (ls_blocked_services (live_services_of ys))"
      using k by (auto simp: live_services_of_def)
    then show ?thesis using Cons.IH Cons.prems mem by simp
  qed
qed simp

subsection \<open>The writes of a service change\<close>

lemma triple_rfor_distinct:
  assumes "distinct xs" "d \<inter> set xs = {}" "d \<union> set xs \<subseteq> U"
    "\<And>x D. x \<in> set xs \<Longrightarrow> x \<notin> D \<Longrightarrow> D \<subseteq> U \<Longrightarrow> triple tab (I D) (f x) (\<lambda>_. I (insert x D)) E"
  shows "triple tab (I d) (rfor xs f) (\<lambda>_. I (d \<union> set xs)) E"
  using assms
proof (induction xs arbitrary: d)
  case (Cons x xs)
  have "triple tab (I (insert x d)) (rfor xs f) (\<lambda>_. I (insert x d \<union> set xs)) E"
    by (rule Cons.IH) (use Cons.prems in auto)
  moreover have "triple tab (I d) (f x) (\<lambda>_. I (insert x d)) E" by (rule Cons.prems(4)) (use Cons.prems(1-3) in auto)
  ultimately show ?case by (simp add: triple_rbind)
qed (simp add: triple_rret)

text \<open>What a membership list has to hold for a device.\<close>

definition membership_ok :: "string list \<Rightarrow> string \<Rightarrow> tables \<Rightarrow> string \<times> service_def \<Rightarrow> bool" where
  "membership_ok desired a t = (\<lambda>(key, service).
     length (list_entries t (sv_source_list service) a) = (if key \<in> set desired then 1 else 0))"

type_synonym change = "string \<times> service_def \<times> al_entry list \<times> bool"

text \<open>A catalogue whose services have lists of their own.\<close>

definition separate_lists :: "catalog \<Rightarrow> bool" where
  "separate_lists catalog = (distinct (map fst catalog) \<and> distinct (map (sv_source_list \<circ> snd) catalog))"

definition change_of :: "string list \<Rightarrow> string \<Rightarrow> tables \<Rightarrow> string \<times> service_def \<Rightarrow> change list" where
  "change_of desired a t = (\<lambda>(key, service). let es = list_entries t (sv_source_list service) a; b = (key \<in> set desired) in
     if b \<and> length es \<noteq> 1 \<or> \<not> b \<and> length es \<noteq> 0 then [(key, service, es, b)] else [])"

text \<open>Progress: treated services are as wanted, the others as they were.\<close>

definition progress :: "catalog \<Rightarrow> string list \<Rightarrow> string \<Rightarrow> tables \<Rightarrow> change set \<Rightarrow> tables \<Rightarrow> bool" where
  "progress catalog desired a t0 D t = (ids_ok t \<and> (\<forall>x \<in> set catalog.
     if fst x \<in> fst ` D then membership_ok desired a t x
     else list_entries t (sv_source_list (snd x)) a = list_entries t0 (sv_source_list (snd x)) a))"

lemma separate_same:
  "separate_lists catalog \<Longrightarrow> x \<in> set catalog \<Longrightarrow> y \<in> set catalog \<Longrightarrow> sv_source_list (snd x) = sv_source_list (snd y) \<Longrightarrow> x = y"
  "separate_lists catalog \<Longrightarrow> x \<in> set catalog \<Longrightarrow> y \<in> set catalog \<Longrightarrow> fst x = fst y \<Longrightarrow> x = y"
  by (auto simp: separate_lists_def distinct_map inj_on_def)

context device_adapter begin

lemma plan_changes:
  "triple tab (\<lambda>t. t = t0) (rmap (plan_service_change ad a catalog desired) catalog)
     (\<lambda>ps t. t = t0 \<and> ps = map (change_of desired a t0) catalog) (\<lambda>t. t = t0)"
proof -
  let ?P = "\<lambda>t. t = t0"
  have k: "triple tab ?P n (\<lambda>_. ?P) ?P" if "keeps tab n" for n :: "('s, 'x) act"
    using that by (rule triple_keeps) simp_all
  have one: "triple tab ?P (plan_service_change ad a catalog desired x) (\<lambda>y t. ?P t \<and> y = change_of desired a t0 x) ?P" for x
  proof (cases x)
    case (Pair key service)
    have g: "triple tab ?P (r_al_get (ad_api ad) (sv_source_list service) a)
        (\<lambda>es t. ?P t \<and> es = list_entries t0 (sv_source_list service) a) ?P"
      by (rule triple_reads [OF al_get]) (auto simp: list_entries_def)
    have v: "triple tab (\<lambda>t. ?P t \<and> Z) (validate_service_primitive ad key catalog) (\<lambda>_ t. ?P t \<and> Z) ?P" for Z
      by (rule triple_keeps [OF keeps_validate_service]) auto
    show ?thesis
      unfolding Pair plan_service_change_def prod.case Let_def
      by (rule triple_rbind [OF g], rule triple_if, rule triple_rret, clarsimp simp: change_of_def Let_def,
          rule triple_rbind [OF v], rule triple_rret, clarsimp simp: change_of_def Let_def)
  qed
  have l: "list_all2 (\<lambda>x y. y = change_of desired a t0 x) xs ys \<Longrightarrow> ys = map (change_of desired a t0) xs" for xs ys
    by (induction rule: list_all2_induct) auto
  show ?thesis
    by (rule triple_weaken [OF triple_rmap [where R = "\<lambda>_ x y. y = change_of desired a t0 x" and P = ?P, OF one]]) (auto dest: l)
qed

lemma treat_change:
  assumes sep: "separate_lists catalog" and x: "(key, service) \<in> set catalog" "key \<notin> fst ` D"
    and es: "es = list_entries t0 (sv_source_list service) a" and b: "b = (key \<in> set desired)"
  shows "b \<Longrightarrow> triple tab (progress catalog desired a t0 D) (block_service ad a d (key, service, es, b))
     (\<lambda>_. progress catalog desired a t0 (insert (key, service, es, b) D)) ids_ok"
    "\<not> b \<Longrightarrow> triple tab (progress catalog desired a t0 D) (release_service ad (key, service, es, b))
     (\<lambda>_. progress catalog desired a t0 (insert (key, service, es, b) D)) ids_ok"
proof -
  let ?l = "sv_source_list service"
  define I where "I t = (\<forall>y \<in> set catalog - {(key, service)}.
     if fst y \<in> fst ` D then membership_ok desired a t y
     else list_entries t (sv_source_list (snd y)) a = list_entries t0 (sv_source_list (snd y)) a)" for t
  have other: "sv_source_list (snd y) \<noteq> ?l" if "y \<in> set catalog - {(key, service)}" for y
    using separate_same(1) [OF sep x(1), of y] that by auto
  have same: "I t' = I t" if e: "\<And>l. l \<noteq> ?l \<Longrightarrow> list_entries t' l a = list_entries t l a" for t t'
  proof -
    have le: "list_entries t' (sv_source_list (snd y)) a = list_entries t (sv_source_list (snd y)) a"
      if "y \<in> set catalog - {(key, service)}" for y using e [OF other [OF that]] .
    then have "membership_ok desired a t' y = membership_ok desired a t y" if "y \<in> set catalog - {(key, service)}" for y
      by (cases y) (use le [OF that] in \<open>simp add: membership_ok_def\<close>)
    then show ?thesis unfolding I_def using le by (intro ball_cong refl) simp
  qed
  have pre: "progress catalog desired a t0 D t \<Longrightarrow> I t \<and> ids_ok t \<and> es = list_entries t ?l a" for t
    using x es by (auto simp: progress_def I_def)
  have post: "progress catalog desired a t0 (insert (key, service, es, b) D) t"
    if "I t" "ids_ok t" "length (list_entries t ?l a) = (if b then 1 else 0)" for t
    unfolding progress_def
  proof (intro conjI ballI)
    fix y assume y: "y \<in> set catalog"
    show "if fst y \<in> fst ` insert (key, service, es, b) D then membership_ok desired a t y
      else list_entries t (sv_source_list (snd y)) a = list_entries t0 (sv_source_list (snd y)) a"
    proof (cases "y = (key, service)")
      case True
      then have "membership_ok desired a t y" using that(3) unfolding b membership_ok_def by simp
      then show ?thesis by (simp add: True)
    next
      case False
      then have "fst y \<noteq> key" using separate_same(2) [OF sep y x(1)] by auto
      moreover have "if fst y \<in> fst ` D then membership_ok desired a t y
        else list_entries t (sv_source_list (snd y)) a = list_entries t0 (sv_source_list (snd y)) a"
        using that(1) y False unfolding I_def by blast
      ultimately show ?thesis by simp
    qed
  qed (rule that(2))
  have "al_stable ?l a I"
    by (rule blind_al_stable, unfold blind_to_list_def, intro allI same) simp
  note rm = remove_entries_loop [OF refl this, of es]
  have rm': "triple tab (progress catalog desired a t0 D) (rfor es (remove_al_entry ad))
     (\<lambda>_ t. I t \<and> ids_ok t \<and> list_entries t ?l a = []) ids_ok"
    by (rule triple_weaken [OF rm]) (auto dest: pre)
  { assume b
    have "triple tab (\<lambda>t. I t \<and> ids_ok t \<and> list_entries t ?l a = [])
        (r_al_add (ad_api ad) ?l a c) (\<lambda>_. progress catalog desired a t0 (insert (key, service, es, b) D)) ids_ok" for c
    proof (rule triple_writes [OF al_add])
      fix t t' assume p: "I t \<and> ids_ok t \<and> list_entries t ?l a = []"
      { assume ad: "al_added ?l a c t t'"
        have "I t'" using same al_added_lookup(2) [OF ad] p by blast
        then show "progress catalog desired a t0 (insert (key, service, es, b) D) t'"
          using post [of t'] al_added_lookup(1) [OF ad] p ids_ok_added(1) [OF _ ad] \<open>b\<close> by simp }
      { assume "t' = t \<or> al_added ?l a c t t'" then show "ids_ok t'" using p ids_ok_added(1) by blast }
    qed
    then show "triple tab (progress catalog desired a t0 D) (block_service ad a d (key, service, es, b))
     (\<lambda>_. progress catalog desired a t0 (insert (key, service, es, b) D)) ids_ok"
      unfolding block_service_def prod.case by (rule triple_rbind [OF rm']) }
  { assume "\<not> b"
    then show "triple tab (progress catalog desired a t0 D) (release_service ad (key, service, es, b))
     (\<lambda>_. progress catalog desired a t0 (insert (key, service, es, b) D)) ids_ok"
      unfolding release_service_def prod.case by (intro triple_weaken [OF rm'] post) simp_all }
qed

text \<open>Terminating connections touches the connection table only.\<close>

lemma reset_connections_triple:
  assumes "\<And>t t'. t_al t' = t_al t \<Longrightarrow> t_queues t' = t_queues t \<Longrightarrow> I t' = I t"
  shows "triple tab I (reset_connections ad a ds cs n) (\<lambda>_. I) I"
proof (induction cs arbitrary: n)
  case (Cons c cs)
  have i: "I (conn_removed i t) = I t" for i t by (rule assms) (simp_all add: conn_removed_def)
  have rm: "triple tab I (rcatch (rbind (r_conn_remove (ad_api ad) (cn_id c)) (\<lambda>_. rret True)) (\<lambda>_. rret False)) (\<lambda>_. I) I"
    by (rule triple_rcatch, rule triple_rbind, rule triple_writes [OF conn_remove, where Q = "\<lambda>_. I" and E = I])
       (auto simp: i intro: triple_rret)
  have "triple tab I (if x then reset_connections ad a ds cs (n + 1) else rret n) (\<lambda>_. I) I" for x
    by (auto intro: Cons triple_rret)
  then show ?case by (simp add: Cons triple_rbind [OF rm])
qed (simp add: triple_rret)

lemma terminate_triple:
  assumes "\<And>t t'. t_al t' = t_al t \<Longrightarrow> t_queues t' = t_queues t \<Longrightarrow> I t' = I t"
  shows "triple tab I (terminate_service_connections ad a keys catalog) (\<lambda>_. I) I"
proof -
  have k: "triple tab I n (\<lambda>_. I) I" if "keeps tab n" for n :: "('s, 'x) act"
    using that by (rule triple_keeps) simp_all
  have m: "keeps tab (rmap (\<lambda>key. rmap (\<lambda>rule. r_al_by_list (ad_api ad) (br_detector_list rule))
      (case map_of catalog key of Some s \<Rightarrow> sv_rules s | None \<Rightarrow> [])) keys)"
    by (intro keeps_rmap keeps_reads [OF al_by_list])
  have r: "triple tab I (rcatch (rbind (r_conns (ad_api ad)) (\<lambda>cs. reset_connections ad a ds cs 0)) (\<lambda>_. rret 0)) (\<lambda>_. I) I" for ds
    by (rule triple_rcatch, rule triple_rbind [OF k [OF keeps_reads [OF conns]]], rule reset_connections_triple [OF assms])
       (auto intro: triple_rret)
  show ?thesis
    unfolding terminate_service_connections_def Let_def
    by (rule triple_if, rule triple_rret, assumption, rule triple_rbind [OF k [OF m]], rule triple_if, rule triple_rret, assumption, rule r)
qed

lemma apply_services_triple:
  assumes sep: "separate_lists catalog"
  shows "triple tab ids_ok (apply_device_services ad a catalog desired d)
     (\<lambda>_ t. ids_ok t \<and> (\<forall>x \<in> set catalog. membership_ok desired a t x)) ids_ok"
proof (rule triple_each)
  fix t0 assume ids0: "ids_ok t0"
  let ?planned = "concat (map (change_of desired a t0) catalog)"
  let ?B = "filter (\<lambda>(_, _, _, b). b) ?planned" and ?R = "filter (\<lambda>(_, _, _, b). \<not> b) ?planned"
  let ?J = "progress catalog desired a t0"
  have mem: "(key, service) \<in> set catalog \<and> es = list_entries t0 (sv_source_list service) a \<and> b = (key \<in> set desired)"
    if "(key, service, es, b) \<in> set ?planned" for key service es b
    using that by (auto simp: change_of_def Let_def split: if_splits)
  have fsts: "map fst (concat (map (change_of desired a t0) xs)) = map fst (filter (\<lambda>x. change_of desired a t0 x \<noteq> []) xs)" for xs
    by (induction xs) (auto simp: change_of_def Let_def split: if_splits)
  have dist: "distinct (map fst ?planned)"
    unfolding fsts using sep by (intro distinct_map_filter) (simp add: separate_lists_def)
  have new: "fst x \<notin> fst ` D" if "x \<in> set ?planned" "x \<notin> D" "D \<subseteq> set ?planned" for x D
    using that dist unfolding distinct_map inj_on_def by blast
  have blocks: "triple tab (?J {}) (rfor ?B (block_service ad a d)) (\<lambda>_. ?J ({} \<union> set ?B)) ids_ok"
  proof (rule triple_rfor_distinct [where U = "set ?planned"])
    show "distinct ?B" using dist by (simp add: distinct_map)
    fix x D assume x: "x \<in> set ?B" "x \<notin> D" "D \<subseteq> set ?planned"
    obtain key service es b where x4: "x = (key, service, es, b)" by (cases x rule: prod_cases4)
    have e: "x = (key, service, es, True)" using x(1) unfolding x4 set_filter by simp
    have p: "(key, service, es, True) \<in> set ?planned" using x(1) unfolding e set_filter by blast
    have "key \<notin> fst ` D" using new [OF p] x(2,3) e by simp
    then show "triple tab (?J D) (block_service ad a d x) (\<lambda>_. ?J (insert x D)) ids_ok"
      unfolding e using treat_change(1) [OF sep] mem [OF p] by blast
  qed auto
  have releases: "triple tab (?J (set ?B)) (rfor ?R (release_service ad)) (\<lambda>_. ?J (set ?B \<union> set ?R)) ids_ok"
  proof (rule triple_rfor_distinct [where U = "set ?planned"])
    show "distinct ?R" using dist by (simp add: distinct_map)
    fix x D assume x: "x \<in> set ?R" "x \<notin> D" "D \<subseteq> set ?planned"
    obtain key service es b where x4: "x = (key, service, es, b)" by (cases x rule: prod_cases4)
    have e: "x = (key, service, es, False)" using x(1) unfolding x4 set_filter by simp
    have p: "(key, service, es, False) \<in> set ?planned" using x(1) unfolding e set_filter by blast
    have "key \<notin> fst ` D" using new [OF p] x(2,3) e by simp
    then show "triple tab (?J D) (release_service ad x) (\<lambda>_. ?J (insert x D)) ids_ok"
      unfolding e using treat_change(2) [OF sep] mem [OF p] by blast
  qed auto
  let ?Q = "\<lambda>t. ids_ok t \<and> (\<forall>x \<in> set catalog. membership_ok desired a t x)"
  have all: "?Q t" if "?J (set ?B \<union> set ?R) t" for t
  proof -
    have u: "set ?B \<union> set ?R = set ?planned" by auto
    have "membership_ok desired a t x" if x: "x \<in> set catalog" for x
    proof (cases "fst x \<in> fst ` set ?planned")
      case True
      then show ?thesis using \<open>?J (set ?B \<union> set ?R) t\<close> x unfolding u progress_def by auto
    next
      case False
      have "change_of desired a t0 x = []"
      proof (rule ccontr)
        assume "change_of desired a t0 x \<noteq> []"
        then have "fst x \<in> fst ` set (change_of desired a t0 x)" by (cases x) (auto simp: change_of_def Let_def split: if_splits)
        then show False using False x by auto
      qed
      moreover have "list_entries t (sv_source_list (snd x)) a = list_entries t0 (sv_source_list (snd x)) a"
        using \<open>?J (set ?B \<union> set ?R) t\<close> x False unfolding u progress_def by auto
      ultimately show ?thesis by (cases x) (auto simp: change_of_def membership_ok_def Let_def split: if_splits)
    qed
    then show ?thesis using that by (simp add: progress_def)
  qed
  have fin: "triple tab ?Q (terminate_service_connections ad a keys catalog) (\<lambda>_. ?Q) ids_ok" for keys
  proof -
    have "?Q t' = ?Q t" if "t_al t' = t_al t" "t_queues t' = t_queues t" for t t'
      using that by (simp add: ids_ok_def membership_ok_def list_entries_def)
    from terminate_triple [of ?Q, OF this] show ?thesis by (rule triple_weaken) auto
  qed
  have cont: "triple tab (\<lambda>t. t = t0 \<and> ps = map (change_of desired a t0) catalog)
      (rbind (rfor (filter (\<lambda>(_, _, _, b). b) (concat ps)) (block_service ad a d)) (\<lambda>_.
       rbind (rfor (filter (\<lambda>(_, _, _, b). \<not> b) (concat ps)) (release_service ad)) (\<lambda>_.
         terminate_service_connections ad a (map fst (filter (\<lambda>(_, _, _, b). b) (concat ps))) catalog))) (\<lambda>_. ?Q) ids_ok" for ps
  proof (cases "ps = map (change_of desired a t0) catalog")
      case True
      have b: "triple tab (\<lambda>t. t = t0 \<and> ps = map (change_of desired a t0) catalog) (rfor ?B (block_service ad a d)) (\<lambda>_. ?J (set ?B)) ids_ok"
        by (rule triple_weaken [OF blocks]) (auto simp: progress_def ids0)
      have r: "triple tab (?J (set ?B)) (rfor ?R (release_service ad)) (\<lambda>_. ?Q) ids_ok"
        by (rule triple_weaken [OF releases]) (use all in blast)+
      show ?thesis unfolding True by (rule triple_rbind [OF b [unfolded True]], rule triple_rbind [OF r], rule fin)
    qed (simp add: triple_def)
  show "triple tab (\<lambda>t. t = t0) (apply_device_services ad a catalog desired d) (\<lambda>_. ?Q) ids_ok"
    unfolding apply_device_services_def Let_def
    by (rule triple_rbind, rule triple_weaken [OF plan_changes], assumption, assumption, simp add: ids0, rule cont)
qed

lemma set_device_services_triple:
  assumes va: "validate_ipv4 a0 = Inr a" and sep: "separate_lists catalog"
  shows "triple tab ids_ok (set_device_services ad a0 blocked d catalog)
    (\<lambda>r t. \<forall>x \<in> set catalog. membership_ok (sorted_set (map norm_key blocked)) a t x) ids_ok"
proof -
  let ?des = "sorted_set (map norm_key blocked)"
  let ?Q = "\<lambda>t. ids_ok t \<and> (\<forall>x \<in> set catalog. membership_ok ?des a t x)"
  have aa: "validate_ipv4 a = Inr a" using va by (auto simp: validate_ipv4_def Let_def split: if_splits)
  have k: "triple tab ids_ok n (\<lambda>_. ids_ok) ids_ok" if "keeps tab n" for n :: "('s, 'x) act"
    using that by (rule triple_keeps) simp_all
  have rd: "triple tab ?Q (get_device_service_enforcement ad a catalog) (\<lambda>_. ?Q) ids_ok"
  proof (rule triple_each)
    fix t0 assume "?Q t0"
    then show "triple tab (\<lambda>t. t = t0) (get_device_service_enforcement ad a catalog) (\<lambda>_. ?Q) ids_ok"
      by (intro triple_weaken [OF read_services [OF aa]]) auto
  qed
  show ?thesis
    unfolding set_device_services_def va rbind_rlift Let_def
    by (rule triple_if, rule triple_rraise, assumption, rule triple_rbind [OF k [OF keeps_checks(3)]],
        rule triple_rbind [OF k [OF keeps_checks(4)]], rule triple_rbind, rule triple_rwrap,
        rule triple_rbind [OF k [OF keeps_checks(2)]], rule apply_services_triple [OF sep],
        rule triple_rbind [OF rd], rule triple_if, rule triple_rraise, simp, rule triple_rret, simp)
qed

end

text \<open>C25: a service change that reports success has left exactly one membership of the device in the
  list of every service to be blocked, and none in the list of any other service.\<close>

theorem service_change_converges:
  assumes "device_adapter ad tab" "ids_ok (tab s)" "separate_lists catalog"
    "set_device_services ad a0 blocked d catalog s = (Inr r, s')" "(key, service) \<in> set catalog"
  shows "\<exists>a. validate_ipv4 a0 = Inr a \<and>
    length (list_entries (tab s') (sv_source_list service) a) = (if key \<in> norm_key ` set blocked then 1 else 0)"
proof -
  have "\<exists>a. validate_ipv4 a0 = Inr a"
    using assms(4) unfolding set_device_services_def by (cases "validate_ipv4 a0") (auto simp: rraise_def)
  then obtain a where a: "validate_ipv4 a0 = Inr a" by blast
  from triple_run [OF device_adapter.set_device_services_triple [OF assms(1) a assms(3)] assms(4,2)] assms(5)
  have "membership_ok (sorted_set (map norm_key blocked)) a (tab s') (key, service)" by blast
  then show ?thesis using a by (auto simp: membership_ok_def)
qed

text \<open>A service outside the catalogue passed to the adapter is refused before any call to the
  router; with the built-in catalogue this is every custom service.\<close>

theorem unknown_service_refused:
  assumes "validate_ipv4 a0 = Inr a" "key \<in> norm_key ` set blocked" "key \<notin> fst ` set catalog"
  shows "\<exists>e. set_device_services ad a0 blocked d catalog s = (Inl (RouterError e), s)"
proof -
  have "filter (\<lambda>k. k \<notin> set (dict_keys catalog)) (sorted_set (map norm_key blocked)) \<noteq> []"
    using assms(2,3) by (auto simp: filter_empty_conv dict_keys_def)
  then show ?thesis using assms(1) by (simp add: set_device_services_def Let_def rraise_def)
qed

end
