(* ===== verification/RouterServicesExamples.thy ===== *)
theory RouterServicesExamples
  imports RouterServices RouterSim
begin

text \<open>Instances of the bandwidth and service properties on the simulated service.\<close>

theorem bandwidth_change_converges_witness:
  "\<exists>r s'. set_device_bandwidth (sim_adapter True True True ''2M/2M'') ''192.168.88.10'' ''evening'' ''4M'' ''8M'' [] (sample_tables [], []) = (Inr r, s')
     \<and> bandwidth_established ''192.168.88.10'' (Some ''4M/8M'') (fst s')"
proof -
  let ?m = "set_device_bandwidth (sim_adapter True True True ''2M/2M'') ''192.168.88.10'' ''evening'' ''4M'' ''8M'' []"
  let ?s = "(sample_tables [], [] :: outcome list)"
  have i: "\<not> isl (fst (?m ?s))" "ids_ok (fst ?s)" by code_simp+
  then obtain r s' where run: "?m ?s = (Inr r, s')" by (metis isl_def prod.collapse sum.exhaust)
  have k: "validate_ipv4 ''192.168.88.10'' = Inr ''192.168.88.10''" "expected_limit ''evening'' ''4M'' ''8M'' = Inr (Some ''4M/8M'')"
    by code_simp+
  show ?thesis using bandwidth_change_converges [OF sample_router i(2) run] run by (auto simp: k)
qed

definition sample_catalog :: catalog where
  "sample_catalog = [(''chat'', \<lparr> sv_name = ''Chat'', sv_source_list = ''RD_Block_Chat'', sv_classification = [], sv_coverage_note = [],
     sv_rules = [], sv_learners = [],
     sv_dns_suffixes = [], sv_tls_patterns = [], sv_category = [], sv_managed_custom = False \<rparr>)]"

theorem service_change_converges_witness:
  "\<exists>r s'. set_device_services (sim_adapter True True True ''2M/2M'') ''192.168.88.10'' [''chat''] [] sample_catalog (sample_tables [], []) = (Inr r, s')
     \<and> length (list_entries (fst s') ''RD_Block_Chat'' ''192.168.88.10'') = 1"
proof -
  let ?m = "set_device_services (sim_adapter True True True ''2M/2M'') ''192.168.88.10'' [''chat''] [] sample_catalog"
  let ?s = "(sample_tables [], [] :: outcome list)"
  have i: "\<not> isl (fst (?m ?s))" "ids_ok (fst ?s)" "separate_lists sample_catalog" by code_simp+
  then obtain r s' where run: "?m ?s = (Inr r, s')" by (metis isl_def prod.collapse sum.exhaust)
  have k: "validate_ipv4 ''192.168.88.10'' = Inr ''192.168.88.10''" "norm_key ''chat'' = ''chat''" by code_simp+
  obtain service where m: "(''chat'', service) \<in> set sample_catalog" "sv_source_list service = ''RD_Block_Chat''"
    by (simp add: sample_catalog_def)
  show ?thesis using service_change_converges [OF sample_router i(2,3) run m(1)] run by (auto simp: k m(2))
qed

theorem unknown_service_refused_witness:
  "\<exists>e. set_device_services (sim_adapter True True True ''2M/2M'') ''192.168.88.10'' [''my-game''] [] SERVICE_ENFORCEMENT (sample_tables [], [])
     = (Inl (RouterError e), (sample_tables [], []))"
proof (rule unknown_service_refused)
  show "validate_ipv4 ''192.168.88.10'' = Inr ''192.168.88.10''" by code_simp
  have "norm_key ''my-game'' = ''my-game''" by code_simp
  then show "''my-game'' \<in> norm_key ` set [''my-game'']" by simp
  show "''my-game'' \<notin> fst ` set SERVICE_ENFORCEMENT" by code_simp
qed

end
