(* ===== verification/JobQueue.thy ===== *)
theory JobQueue
  imports RouterApi
begin

text \<open>
  The durable side of the background work (\<open>src/app/policy_store.py\<close>): the configuration
  revision with its journal and outbox, the job queue with worker leases and scope locks, and the
  reconciliation requests. A table is the list of its rows in the order of their identifiers, an
  SQL statement the function it computes on them, and an operation runs as one transaction: when it
  raises, nothing is written. Times are seconds; an empty time column is \<open>None\<close>. A JSON column
  holds the value it encodes. The database carries the clock (\<open>db_clock\<close>) that its operations
  read, in seconds and the microseconds beyond them, and the log of the calls the operations make
  to the notification tables.
\<close>

section \<open>Tables\<close>

datatype job_status = Pending | Running | Succeeded | Failed

type_synonym payload = "(string \<times> pyval) list"

record job =
  jb_id :: nat
  jb_kind :: string
  jb_scope :: string
  jb_key :: string
  jb_payload :: payload
  jb_status :: job_status
  jb_attempts :: int
  jb_max :: int
  jb_available :: int
  jb_owner :: string
  jb_token :: string
  jb_expires :: "int option"
  jb_created :: int
  jb_updated :: int
  jb_started :: "int option"
  jb_finished :: "int option"
  jb_result :: payload
  jb_error :: string

record scope_lock =
  sl_scope :: string
  sl_owner :: string
  sl_token :: string
  sl_expires :: int
  sl_updated :: int

record outbox_event =
  oe_id :: nat
  oe_created :: int
  oe_topic :: string
  oe_revision :: int
  oe_payload :: payload
  oe_status :: string
  oe_dispatched :: "int option"
  oe_job :: "nat option"

record revision_state =
  cr_revision :: int
  cr_digest :: string
  cr_updated :: int
  cr_actor :: string
  cr_reason :: string

record revision_row =
  rv_revision :: int
  rv_created :: int
  rv_actor :: string
  rv_reason :: string
  rv_scope :: string
  rv_digest :: string

datatype request_status = Queued | InProgress | Done | Partial | Temporary | RequestFailed | Superseded

text \<open>The JSON documents stored with a finished request: the column's default, the outcome of a run, and
  what the error handler stores.\<close>

record run_result =
  rr_target :: string
  rr_requested :: int
  rr_started :: int
  rr_finished :: int
  rr_outcomes :: "(string \<times> string \<times> string list) list"
  rr_failures :: "string list"

datatype request_result = NoResult | RunResult run_result | Interrupted string

record request =
  rq_id :: nat
  rq_target :: string
  rq_requested :: int
  rq_applied :: int
  rq_actor :: string
  rq_reason :: string
  rq_status :: request_status
  rq_created :: int
  rq_started :: "int option"
  rq_finished :: "int option"
  rq_result :: request_result
  rq_error :: string

text \<open>A prepared view; \<open>pv_payload\<close> is the bytes of the stored JSON document.\<close>

record view =
  pv_key :: string
  pv_kind :: string
  pv_scope :: string
  pv_revision :: int
  pv_captured :: int
  pv_expires :: int
  pv_payload :: string
  pv_generation :: nat
  pv_status :: string
  pv_error :: string

text \<open>The calls to the notification tables.\<close>

datatype notify =
    ResolveNotification string string string
  | UpsertNotification string string string string

record db =
  db_clock :: int
  db_micros :: int
  db_revision :: revision_state
  db_journal :: "revision_row list"
  db_outbox :: "outbox_event list"
  db_jobs :: "job list"
  db_locks :: "scope_lock list"
  db_requests :: "request list"
  db_views :: "view list"
  db_next_event :: nat
  db_next_job :: nat
  db_next_request :: nat
  db_notified :: "notify list"

section \<open>Configuration revisions and the outbox\<close>

text \<open>The singleton row of the revision state is written by the migration; \<open>None\<close> for
  \<open>expected\<close> is a caller that presents no revision.\<close>

definition assert_config_revision :: "int option \<Rightarrow> db \<Rightarrow> int res" where
  "assert_config_revision expected d =
     (let current = cr_revision (db_revision d) in
      case expected of
        Some e \<Rightarrow> if e \<noteq> current
          then Inl (ConfigRevisionConflict (''Configuration changed from revision '' @ show_int e @ '' to ''
                 @ show_int current @ ''; reload before saving''))
          else Inr current
      | None \<Rightarrow> Inr current)"

definition advance_config_revision :: "string \<Rightarrow> string \<Rightarrow> string \<Rightarrow> string \<Rightarrow> db \<Rightarrow> int \<times> db" where
  "advance_config_revision actor0 reason0 scope0 digest0 d =
     (let revision = cr_revision (db_revision d) + 1; now = db_clock d;
          actor = take 100 (str_or actor0 ''system:policy-store''); reason = take 240 (str_or reason0 ''Configuration updated'');
          scope = take 100 (str_or scope0 ''config''); digest = take 128 digest0
      in (revision, d\<lparr>
           db_revision := \<lparr> cr_revision = revision, cr_digest = digest, cr_updated = now, cr_actor = actor, cr_reason = reason \<rparr>,
           db_journal := db_journal d @ [\<lparr> rv_revision = revision, rv_created = now, rv_actor = actor, rv_reason = reason,
                           rv_scope = scope, rv_digest = digest \<rparr>],
           db_outbox := db_outbox d @ [\<lparr> oe_id = db_next_event d, oe_created = now, oe_topic = ''config.changed'',
                          oe_revision = revision, oe_payload = [(''revision'', PInt revision), (''scope'', PStr scope),
                            (''reason'', PStr reason), (''actor'', PStr actor)],
                          oe_status = ''pending'', oe_dispatched = None, oe_job = None \<rparr>],
           db_next_event := Suc (db_next_event d) \<rparr>))"

text \<open>\<open>with config_write(...) as db: body\<close>: check, the body, advance; an exception of the body rolls
  the transaction back.\<close>

definition config_write :: "string \<Rightarrow> string \<Rightarrow> string \<Rightarrow> int option \<Rightarrow> (db, 'a) act \<Rightarrow> (db, 'a) act" where
  "config_write actor reason scope expected body d =
     (case assert_config_revision expected d of
        Inl e \<Rightarrow> (Inl e, d)
      | Inr _ \<Rightarrow> (case body d of
            (Inl e, _) \<Rightarrow> (Inl e, d)
          | (Inr x, d') \<Rightarrow> (Inr x, snd (advance_config_revision actor reason scope [] d'))))"

section \<open>The job queue\<close>

text \<open>\<open>INSERT OR IGNORE\<close>: the idempotency key is unique.\<close>

definition insert_job :: "string \<Rightarrow> string \<Rightarrow> string \<Rightarrow> payload \<Rightarrow> int \<Rightarrow> int \<Rightarrow> db \<Rightarrow> bool \<times> db" where
  "insert_job kind scope key payload max_attempts available d =
     (if key \<in> jb_key ` set (db_jobs d) then (False, d)
      else (True, d\<lparr>
        db_jobs := db_jobs d @ [\<lparr> jb_id = db_next_job d, jb_kind = kind, jb_scope = scope, jb_key = key, jb_payload = payload,
          jb_status = Pending, jb_attempts = 0, jb_max = max_attempts, jb_available = available, jb_owner = [], jb_token = [],
          jb_expires = None, jb_created = db_clock d, jb_updated = db_clock d, jb_started = None, jb_finished = None,
          jb_result = [], jb_error = [] \<rparr>],
        db_next_job := Suc (db_next_job d) \<rparr>))"

definition enqueue_background_job ::
  "string \<Rightarrow> string \<Rightarrow> string \<Rightarrow> payload \<Rightarrow> int \<Rightarrow> int option \<Rightarrow> bool \<Rightarrow> (db, job option \<times> bool) act" where
  "enqueue_background_job kind0 scope0 key0 payload max0 available replace_pending d =
     (let kind = take 100 (py_strip kind0); scope = take 160 (py_strip (str_or scope0 ''global''));
          key = take 240 (py_strip key0); max_attempts = max 1 (min 10 max0)
      in if kind = [] \<or> key = [] then (Inl (ValueError ''Background job kind and idempotency key are required''), d)
         else
           let d1 = (if replace_pending
                     then d\<lparr> db_jobs := filter (\<lambda>j. \<not> (jb_kind j = kind \<and> jb_scope j = scope \<and> jb_status j = Pending \<and> jb_key j \<noteq> key))
                               (db_jobs d) \<rparr>
                     else d);
               (created, d2) = insert_job kind scope key payload max_attempts
                                 (case available of Some t \<Rightarrow> t | None \<Rightarrow> db_clock d) d1
           in (Inr (find (\<lambda>j. jb_key j = key) (db_jobs d2), created), d2))"

definition set_event :: "nat \<Rightarrow> (outbox_event \<Rightarrow> outbox_event) \<Rightarrow> db \<Rightarrow> db" where
  "set_event i f d = d\<lparr> db_outbox := map (\<lambda>e. if oe_id e = i then f e else e) (db_outbox d) \<rparr>"

fun dispatch_events :: "outbox_event list \<Rightarrow> nat \<Rightarrow> db \<Rightarrow> nat \<times> db" where
  "dispatch_events [] n d = (n, d)"
| "dispatch_events (e # es) n d =
     (if oe_topic e \<noteq> ''config.changed''
      then dispatch_events es n (set_event (oe_id e) (\<lambda>x. x\<lparr> oe_status := ''ignored'', oe_dispatched := Some (db_clock d) \<rparr>) d)
      else
        let key = ''config-analytics:r'' @ show_int (oe_revision e);
            d1 = snd (insert_job ''analytics.config-summary'' ''analytics:config'' key (oe_payload e) 3 (db_clock d) d);
            i = map_option jb_id (find (\<lambda>j. jb_key j = key) (db_jobs d1))
        in dispatch_events es (n + 1)
             (set_event (oe_id e) (\<lambda>x. x\<lparr> oe_status := ''dispatched'', oe_dispatched := Some (db_clock d), oe_job := i \<rparr>) d1))"

definition dispatch_outbox_to_background_jobs :: "int \<Rightarrow> (db, nat) act" where
  "dispatch_outbox_to_background_jobs limit0 d =
     (let limit = max 1 (min 500 limit0);
          rows = take (nat limit) (filter (\<lambda>e. oe_status e = ''pending'') (db_outbox d));
          (n, d') = dispatch_events rows 0 d
      in (Inr n, d'))"

definition expired :: "int \<Rightarrow> job \<Rightarrow> bool" where
  "expired now j = (jb_status j = Running \<and> (case jb_expires j of None \<Rightarrow> False | Some t \<Rightarrow> t \<le> now))"

definition recover_job :: "int \<Rightarrow> job \<Rightarrow> job" where
  "recover_job now j =
     (if expired now j then
        (if jb_attempts j < jb_max j then
           j\<lparr> jb_status := Pending, jb_owner := [], jb_token := [], jb_expires := None, jb_available := now, jb_updated := now,
              jb_error := ''Recovered expired worker lease'' \<rparr>
         else j\<lparr> jb_status := Failed, jb_finished := Some now, jb_updated := now,
                 jb_error := str_or (jb_error j) ''Lease expired after maximum attempts'' \<rparr>)
      else j)"

definition recover_expired_background_work :: "(db, nat) act" where
  "recover_expired_background_work d =
     (let now = db_clock d in
      (Inr (length (filter (\<lambda>j. expired now j \<and> jb_attempts j < jb_max j) (db_jobs d))),
       d\<lparr> db_locks := filter (\<lambda>l. \<not> sl_expires l \<le> now) (db_locks d), db_jobs := map (recover_job now) (db_jobs d) \<rparr>))"

definition claimable :: "string list \<Rightarrow> int \<Rightarrow> job \<Rightarrow> bool" where
  "claimable kinds now j = (jb_status j = Pending \<and> jb_available j \<le> now \<and> jb_attempts j < jb_max j
     \<and> (kinds = [] \<or> jb_kind j \<in> set kinds))"

definition claimed :: "string \<Rightarrow> string \<Rightarrow> int \<Rightarrow> int \<Rightarrow> job \<Rightarrow> job" where
  "claimed worker token expires now j =
     j\<lparr> jb_status := Running, jb_attempts := jb_attempts j + 1, jb_owner := worker, jb_token := token,
        jb_expires := Some expires, jb_started := (case jb_started j of None \<Rightarrow> Some now | s \<Rightarrow> s), jb_updated := now \<rparr>"

definition set_job :: "nat \<Rightarrow> (job \<Rightarrow> job) \<Rightarrow> db \<Rightarrow> db" where
  "set_job i f d = d\<lparr> db_jobs := map (\<lambda>j. if jb_id j = i then f j else j) (db_jobs d) \<rparr>"

text \<open>\<open>token\<close> is the fresh hexadecimal uuid of the claim.\<close>

definition claim_background_job :: "string \<Rightarrow> int \<Rightarrow> string list \<Rightarrow> string \<Rightarrow> (db, job option) act" where
  "claim_background_job worker0 lease0 kinds0 token d =
     (let worker = take 80 (str_or worker0 ''worker''); lease = max 5 (min 300 lease0); now = db_clock d;
          kinds = filter (\<lambda>k. k \<noteq> []) kinds0
      in case sort_key jb_id (filter (claimable kinds now) (db_jobs d)) of
           [] \<Rightarrow> (Inr None, d)
         | j # _ \<Rightarrow> (Inr (Some (claimed worker token (now + lease) now j)),
                      set_job (jb_id j) (claimed worker token (now + lease) now) d))"

definition acquire_background_scope_lock :: "string \<Rightarrow> string \<Rightarrow> string \<Rightarrow> int \<Rightarrow> (db, bool) act" where
  "acquire_background_scope_lock scope0 owner0 token0 lease d =
     (let scope = take 160 (str_or scope0 ''global''); owner = take 80 (str_or owner0 ''worker''); token = take 80 token0;
          now = db_clock d; live = filter (\<lambda>l. \<not> (sl_scope l = scope \<and> sl_expires l \<le> now)) (db_locks d)
      in case find (\<lambda>l. sl_scope l = scope) live of
           None \<Rightarrow> (Inr True, d\<lparr> db_locks := live @ [\<lparr> sl_scope = scope, sl_owner = owner, sl_token = token,
                       sl_expires = now + max 5 lease, sl_updated = now \<rparr>] \<rparr>)
         | Some l \<Rightarrow> (Inr (sl_owner l = owner \<and> sl_token l = token), d\<lparr> db_locks := live \<rparr>))"

definition release_background_scope_lock :: "string \<Rightarrow> string \<Rightarrow> string \<Rightarrow> (db, bool) act" where
  "release_background_scope_lock scope owner token d =
     (let mine = (\<lambda>l. sl_scope l = scope \<and> sl_owner l = owner \<and> sl_token l = token)
      in (Inr (length (filter mine (db_locks d)) = 1), d\<lparr> db_locks := filter (\<lambda>l. \<not> mine l) (db_locks d) \<rparr>))"

definition leased :: "nat \<Rightarrow> string \<Rightarrow> string \<Rightarrow> job \<Rightarrow> bool" where
  "leased i worker token j = (jb_id j = i \<and> jb_status j = Running \<and> jb_owner j = worker \<and> jb_token j = token)"

definition lost_lease :: exc where
  "lost_lease = ValueError ''Background job lease no longer belongs to this worker''"

definition no_lease :: "job \<Rightarrow> job" where
  "no_lease j = j\<lparr> jb_owner := [], jb_token := [], jb_expires := None \<rparr>"

definition dedupe_key :: "job \<Rightarrow> string" where
  "dedupe_key j = ''background:'' @ jb_kind j @ '':'' @ jb_scope j"

definition completed :: "payload \<Rightarrow> int \<Rightarrow> job \<Rightarrow> job" where
  "completed result now j =
     no_lease (j\<lparr> jb_status := Succeeded, jb_result := result, jb_error := [], jb_finished := Some now, jb_updated := now \<rparr>)"

definition complete_background_job :: "nat \<Rightarrow> string \<Rightarrow> string \<Rightarrow> payload \<Rightarrow> (db, unit) act" where
  "complete_background_job i worker token result d =
     (case find (leased i worker token) (db_jobs d) of
        None \<Rightarrow> (Inl lost_lease, d)
      | Some j \<Rightarrow> (Inr (), (set_job i (completed result (db_clock d)) d)
                    \<lparr> db_notified := db_notified d @ [ResolveNotification (dedupe_key j) worker
                        ''A newer background job for this scope completed successfully''] \<rparr>))"

definition attempt_failed :: "string \<Rightarrow> int \<Rightarrow> job \<Rightarrow> job" where
  "attempt_failed error now j =
     (let terminal = (jb_max j \<le> jb_attempts j) in
      no_lease (j\<lparr> jb_status := (if terminal then Failed else Pending), jb_error := take 500 (str_or error ''Background job failed''),
        jb_available := now + 5, jb_finished := (if terminal then Some now else None), jb_updated := now \<rparr>))"

definition fail_background_job :: "nat \<Rightarrow> string \<Rightarrow> string \<Rightarrow> string \<Rightarrow> (db, unit) act" where
  "fail_background_job i worker token error d =
     (case find (leased i worker token) (db_jobs d) of
        None \<Rightarrow> (Inl lost_lease, d)
      | Some j \<Rightarrow>
          let d1 = set_job i (attempt_failed error (db_clock d)) d
          in (Inr (), if jb_max j \<le> jb_attempts j
                then d1\<lparr> db_notified := db_notified d @ [UpsertNotification (dedupe_key j)
                       (if jb_kind j = ''analytics.prepared-view'' then ''Prepared read model failed'' else ''Background job failed'')
                       (jb_kind j @ [CHR '' '', CHR 0xC2, CHR 0xB7, CHR '' ''] @ jb_scope j @ '': '' @ take 500 (str_or error ''Background job failed''))
                       (jb_scope j)] \<rparr>
                else d1))"

definition deferred :: "int \<Rightarrow> string \<Rightarrow> int \<Rightarrow> job \<Rightarrow> job" where
  "deferred delay reason now j =
     no_lease (j\<lparr> jb_status := Pending, jb_attempts := (if jb_attempts j > 0 then jb_attempts j - 1 else 0),
       jb_available := now + max 1 delay, jb_error := take 240 (str_or reason ''deferred''), jb_updated := now \<rparr>)"

definition defer_background_job :: "nat \<Rightarrow> string \<Rightarrow> string \<Rightarrow> int \<Rightarrow> string \<Rightarrow> (db, unit) act" where
  "defer_background_job i worker token delay reason d =
     (if list_ex (leased i worker token) (db_jobs d)
      then (Inr (), set_job i (deferred delay reason (db_clock d)) d)
      else (Inl lost_lease, d))"

section \<open>Reconciliation requests\<close>

text \<open>\<open>ipaddress.ip_address(target)\<close> accepts the valid addresses; the parameter says which.\<close>

definition enqueue_reconciliation_request ::
  "(string \<Rightarrow> bool) \<Rightarrow> string \<Rightarrow> string \<Rightarrow> string \<Rightarrow> int option \<Rightarrow> (db, request) act" where
  "enqueue_reconciliation_request is_address target0 actor0 reason0 requested d =
     (let target = str_or (py_strip (str_or target0 ''*'')) ''*''; actor = take 100 (str_or actor0 ''system:reconciler'');
          reason = take 240 (str_or reason0 ''Manual reconciliation requested''); now = db_clock d;
          revision = max 0 (case requested of Some r \<Rightarrow> r | None \<Rightarrow> cr_revision (db_revision d))
      in if target \<noteq> ''*'' \<and> \<not> is_address target then
           (Inl (ValueError (sq target @ '' does not appear to be an IPv4 or IPv6 address'')), d)
         else
           let r = \<lparr> rq_id = db_next_request d, rq_target = target, rq_requested = revision, rq_applied = 0, rq_actor = actor,
                     rq_reason = reason, rq_status = Queued, rq_created = now, rq_started = None, rq_finished = None,
                     rq_result = NoResult, rq_error = [] \<rparr>
           in (Inr r, d\<lparr>
             db_requests := map (\<lambda>q. if rq_target q = target \<and> rq_status q = Queued
                  then q\<lparr> rq_status := Superseded, rq_finished := Some now, rq_error := ''Superseded by newer request'' \<rparr> else q)
                (db_requests d) @ [r],
             db_next_request := Suc (db_next_request d) \<rparr>))"

definition recover_reconciliation_requests :: "(db, nat) act" where
  "recover_reconciliation_requests d =
     (Inr (length (filter (\<lambda>q. rq_status q = InProgress) (db_requests d))),
      d\<lparr> db_requests := map (\<lambda>q. if rq_status q = InProgress
            then q\<lparr> rq_status := Queued, rq_started := None, rq_error := ''Recovered interrupted reconciliation'' \<rparr> else q)
           (db_requests d) \<rparr>)"

definition set_request :: "nat \<Rightarrow> (request \<Rightarrow> request) \<Rightarrow> db \<Rightarrow> db" where
  "set_request i f d = d\<lparr> db_requests := map (\<lambda>q. if rq_id q = i then f q else q) (db_requests d) \<rparr>"

definition claim_reconciliation_request :: "(db, request option) act" where
  "claim_reconciliation_request d =
     (let take_it = (\<lambda>q. q\<lparr> rq_status := InProgress, rq_started := Some (db_clock d), rq_error := [] \<rparr>) in
      case sort_key rq_id (filter (\<lambda>q. rq_status q = Queued) (db_requests d)) of
        [] \<Rightarrow> (Inr None, d)
      | q # _ \<Rightarrow> (Inr (Some (take_it q)), set_request (rq_id q) take_it d))"

definition request_outcome :: "string \<Rightarrow> request_status option" where
  "request_outcome s = map_of [(''succeeded'', Done), (''partial'', Partial), (''temporary'', Temporary),
     (''failed'', RequestFailed), (''superseded'', Superseded)] s"

definition finish_reconciliation_request :: "nat \<Rightarrow> string \<Rightarrow> int \<Rightarrow> request_result \<Rightarrow> string \<Rightarrow> (db, request option) act" where
  "finish_reconciliation_request i status0 applied result error d =
     (case request_outcome (norm_key (str_or status0 ''failed'')) of
        None \<Rightarrow> (Inl (ValueError ''Invalid reconciliation request status''), d)
      | Some st \<Rightarrow>
          if \<not> list_ex (\<lambda>q. rq_id q = i \<and> rq_status q = InProgress) (db_requests d)
          then (Inl (ValueError ''Reconciliation request is no longer running''), d)
          else let d' = set_request i (\<lambda>q. q\<lparr> rq_status := st, rq_applied := max 0 applied, rq_result := result, rq_error := take 500 error,
                          rq_finished := Some (db_clock d) \<rparr>) d
               in (Inr (find (\<lambda>q. rq_id q = i) (db_requests d')), d'))"

section \<open>Retention\<close>

text \<open>\<open>ORDER BY id DESC LIMIT keep\<close>: the rows that stay whatever their age.\<close>

definition newest :: "('r \<Rightarrow> nat) \<Rightarrow> nat \<Rightarrow> 'r list \<Rightarrow> nat set" where
  "newest ident keep rows = set (take keep (rev (sort (map ident rows))))"

definition prune_background_history :: "int \<Rightarrow> int \<Rightarrow> int \<Rightarrow> (db, nat \<times> nat) act" where
  "prune_background_history days0 keep_jobs0 keep_outbox0 d =
     (let days = max 1 (min 365 days0); keep_jobs = max 20 (min 5000 keep_jobs0); keep_outbox = max 20 (min 5000 keep_outbox0);
          cutoff = db_clock d - days * 86400;
          settled = (\<lambda>j. jb_status j \<in> {Succeeded, Failed}); sent = (\<lambda>e. oe_status e \<in> {''dispatched'', ''ignored''});
          jobs = newest jb_id (nat keep_jobs) (filter settled (db_jobs d));
          events = newest oe_id (nat keep_outbox) (filter sent (db_outbox d));
          old_job = (\<lambda>j. settled j \<and> jb_updated j < cutoff \<and> jb_id j \<notin> jobs);
          old_event = (\<lambda>e. sent e \<and> oe_created e < cutoff \<and> oe_id e \<notin> events)
      in (Inr (length (filter old_job (db_jobs d)), length (filter old_event (db_outbox d))),
          d\<lparr> db_jobs := filter (\<lambda>j. \<not> old_job j) (db_jobs d), db_outbox := filter (\<lambda>e. \<not> old_event e) (db_outbox d) \<rparr>))"

section \<open>Prepared views\<close>

definition get_prepared_view :: "string \<Rightarrow> int option \<Rightarrow> int option \<Rightarrow> bool \<Rightarrow> (db, view option) act" where
  "get_prepared_view key required max_age include_stale d =
     (Inr (case find (\<lambda>v. pv_key v = key) (db_views d) of
         None \<Rightarrow> None
       | Some v \<Rightarrow>
           let age = max 0 ((db_clock d - pv_captured v) * 1000000 + db_micros d);
               revision_stale = (case required of None \<Rightarrow> False | Some r \<Rightarrow> pv_revision v \<noteq> r);
               expired = (pv_expires v \<le> db_clock d);
               too_old = (case max_age of None \<Rightarrow> False | Some m \<Rightarrow> age > max 1 m * 1000000);
               eligible = (pv_status v = ''ready'' \<and> \<not> revision_stale \<and> \<not> expired \<and> \<not> too_old)
           in if \<not> eligible \<and> \<not> include_stale then None else Some v), d)"

definition save_prepared_view ::
  "string \<Rightarrow> string \<Rightarrow> string \<Rightarrow> string \<Rightarrow> int option \<Rightarrow> int \<Rightarrow> string \<Rightarrow> string \<Rightarrow> (db, view option) act" where
  "save_prepared_view key0 kind0 scope0 payload source ttl0 status error d =
     (let key = take 240 (py_strip key0); kind = take 100 (py_strip kind0); scope = take 160 (py_strip (str_or scope0 ''global''));
          ttl = max 15 (min 86400 ttl0); now = db_clock d;
          revision = (case source of Some r \<Rightarrow> r | None \<Rightarrow> cr_revision (db_revision d));
          row = (\<lambda>n. \<lparr> pv_key = key, pv_kind = kind, pv_scope = scope, pv_revision = revision, pv_captured = now,
                   pv_expires = now + ttl, pv_payload = payload, pv_generation = n, pv_status = take 40 (str_or status ''ready''),
                   pv_error = take 500 error \<rparr>)
      in if key = [] \<or> kind = [] then (Inl (ValueError ''Prepared view key and kind are required''), d)
         else if length payload > 2000000 then (Inl (ValueError ''Prepared view payload exceeds 2 MB safety limit''), d)
         else get_prepared_view key None None True
           (if key \<in> pv_key ` set (db_views d)
            then d\<lparr> db_views := map (\<lambda>v. if pv_key v = key then row (Suc (pv_generation v)) else v) (db_views d) \<rparr>
            else d\<lparr> db_views := db_views d @ [row 1] \<rparr>))"

end
