(* ===== verification/JobQueueSafety.thy ===== *)
theory JobQueueSafety
  imports JobQueue
begin

text \<open>
  The queue over time. The operations of \<open>JobQueue\<close> are the steps of the state machine of the
  database; whatever workers call them, in whatever order, with whatever arguments and clock, the
  reachable states satisfy \<open>queue_ok\<close>.
\<close>

section \<open>The state machine\<close>

datatype op =
    Configure string string string "int option" bool
  | Enqueue string string string payload int "int option" bool
  | Dispatch int
  | Recover
  | Claim string int "string list" string
  | Acquire string string string int
  | Release string string string
  | Complete nat string string payload
  | Fail nat string string string
  | Defer nat string string int string
  | RequestNew bool string string string "int option"
  | RequestRecover
  | RequestClaim
  | RequestFinish nat string int request_result string
  | Prune int int int
  | SaveView string string string string "int option" int string string
  | SetClock int int

text \<open>A configuration write whose body returns (\<open>True\<close>) or raises; the body works on other tables. Each
  target of a request is an address or not.\<close>

fun perform :: "op \<Rightarrow> db \<Rightarrow> db" where
  "perform (Configure actor reason scope expected ok) d =
     snd (config_write actor reason scope expected (if ok then rret () else rraise (ValueError [])) d)"
| "perform (Enqueue k sc key p m a r) d = snd (enqueue_background_job k sc key p m a r d)"
| "perform (Dispatch n) d = snd (dispatch_outbox_to_background_jobs n d)"
| "perform Recover d = snd (recover_expired_background_work d)"
| "perform (Claim w l ks t) d = snd (claim_background_job w l ks t d)"
| "perform (Acquire sc w t l) d = snd (acquire_background_scope_lock sc w t l d)"
| "perform (Release sc w t) d = snd (release_background_scope_lock sc w t d)"
| "perform (Complete i w t p) d = snd (complete_background_job i w t p d)"
| "perform (Fail i w t e) d = snd (fail_background_job i w t e d)"
| "perform (Defer i w t n e) d = snd (defer_background_job i w t n e d)"
| "perform (RequestNew ok tg a r v) d = snd (enqueue_reconciliation_request (\<lambda>_. ok) tg a r v d)"
| "perform RequestRecover d = snd (recover_reconciliation_requests d)"
| "perform RequestClaim d = snd (claim_reconciliation_request d)"
| "perform (RequestFinish i s a r e) d = snd (finish_reconciliation_request i s a r e d)"
| "perform (Prune a b c) d = snd (prune_background_history a b c d)"
| "perform (SaveView k kd sc p s t st e) d = snd (save_prepared_view k kd sc p s t st e d)"
| "perform (SetClock t u) d = d\<lparr> db_clock := t, db_micros := u \<rparr>"

definition performs :: "op list \<Rightarrow> db \<Rightarrow> db" where
  "performs ops d = fold perform ops d"

definition empty_db :: "int \<Rightarrow> db" where
  "empty_db t = \<lparr> db_clock = t, db_micros = 0,
     db_revision = \<lparr> cr_revision = 0, cr_digest = [], cr_updated = 0, cr_actor = [], cr_reason = [] \<rparr>,
     db_journal = [], db_outbox = [], db_jobs = [], db_locks = [], db_requests = [], db_views = [],
     db_next_event = 1, db_next_job = 1, db_next_request = 1, db_notified = [] \<rparr>"

inductive reachable :: "db \<Rightarrow> bool" where
  created: "reachable (empty_db t)"
| stepped: "reachable d \<Longrightarrow> reachable (perform oper d)"

inductive_simps reachable_iff: "reachable d"

section \<open>The invariant\<close>

definition job_ok :: "job \<Rightarrow> bool" where
  "job_ok j = (0 \<le> jb_attempts j \<and> jb_attempts j \<le> jb_max j \<and> jb_max j \<le> 10 \<and>
     (case jb_status j of
        Pending \<Rightarrow> jb_attempts j < jb_max j \<and> jb_owner j = [] \<and> jb_token j = [] \<and> jb_expires j = None \<and> jb_finished j = None
      | Running \<Rightarrow> 1 \<le> jb_attempts j \<and> jb_started j \<noteq> None \<and> jb_expires j \<noteq> None \<and> jb_finished j = None
      | Succeeded \<Rightarrow> jb_finished j \<noteq> None \<and> jb_expires j = None
      | Failed \<Rightarrow> jb_finished j \<noteq> None \<and> jb_attempts j = jb_max j))"

definition jobs_ok :: "nat \<Rightarrow> job list \<Rightarrow> bool" where
  "jobs_ok n js = (distinct (map jb_id js) \<and> distinct (map jb_key js) \<and> (\<forall>j \<in> set js. jb_id j < n \<and> job_ok j))"

definition event_ok :: "nat \<Rightarrow> int \<Rightarrow> nat \<Rightarrow> outbox_event \<Rightarrow> bool" where
  "event_ok n current jobs e = (oe_id e < n \<and> oe_topic e = ''config.changed'' \<and> 1 \<le> oe_revision e \<and> oe_revision e \<le> current
     \<and> (case oe_job e of None \<Rightarrow> oe_status e = ''pending'' | Some i \<Rightarrow> oe_status e = ''dispatched'' \<and> i < jobs))"

definition outbox_ok :: "nat \<Rightarrow> int \<Rightarrow> nat \<Rightarrow> outbox_event list \<Rightarrow> bool" where
  "outbox_ok n current jobs es =
     (distinct (map oe_id es) \<and> distinct (map oe_revision es) \<and> (\<forall>e \<in> set es. event_ok n current jobs e))"

definition requests_ok :: "nat \<Rightarrow> request list \<Rightarrow> bool" where
  "requests_ok n qs = (distinct (map rq_id qs) \<and> (\<forall>q \<in> set qs. rq_id q < n))"

definition views_ok :: "view list \<Rightarrow> bool" where
  "views_ok vs = (distinct (map pv_key vs) \<and> (\<forall>v \<in> set vs. pv_key v \<noteq> [] \<and> length (pv_payload v) \<le> 2000000))"

definition queue_ok :: "db \<Rightarrow> bool" where
  "queue_ok d =
     (jobs_ok (db_next_job d) (db_jobs d) \<and> distinct (map sl_scope (db_locks d))
      \<and> 0 \<le> cr_revision (db_revision d) \<and> map rv_revision (db_journal d) = [1..cr_revision (db_revision d)]
      \<and> outbox_ok (db_next_event d) (cr_revision (db_revision d)) (db_next_job d) (db_outbox d)
      \<and> requests_ok (db_next_request d) (db_requests d) \<and> views_ok (db_views d))"

text \<open>The life cycle of one job.\<close>

inductive lifecycle :: "op \<Rightarrow> int \<Rightarrow> job \<Rightarrow> job \<Rightarrow> bool" where
  claiming: "jb_status j = Pending \<Longrightarrow> jb_available j \<le> now \<Longrightarrow> jb_attempts j < jb_max j
     \<Longrightarrow> lifecycle (Claim w l ks t) now j (claimed (take 80 (str_or w ''worker'')) t (now + max 5 (min 300 l)) now j)"
| recovering: "expired now j \<Longrightarrow> lifecycle Recover now j (recover_job now j)"
| completing: "leased i w t j \<Longrightarrow> lifecycle (Complete i w t p) now j (completed p now j)"
| failing: "leased i w t j \<Longrightarrow> lifecycle (Fail i w t e) now j (attempt_failed e now j)"
| deferring: "leased i w t j \<Longrightarrow> lifecycle (Defer i w t n e) now j (deferred n e now j)"

inductive_cases lifecycleE: "lifecycle oper now j j'"

section \<open>Updates of one row\<close>

lemma job_fields [simp]:
  "jb_id (claimed w t e n j) = jb_id j" "jb_key (claimed w t e n j) = jb_key j"
  "jb_id (recover_job n j) = jb_id j" "jb_key (recover_job n j) = jb_key j"
  "jb_id (no_lease j) = jb_id j" "jb_key (no_lease j) = jb_key j"
  "jb_id (completed p n j) = jb_id j" "jb_key (completed p n j) = jb_key j"
  "jb_id (attempt_failed x n j) = jb_id j" "jb_key (attempt_failed x n j) = jb_key j"
  "jb_id (deferred m x n j) = jb_id j" "jb_key (deferred m x n j) = jb_key j"
  by (simp_all add: claimed_def recover_job_def no_lease_def completed_def attempt_failed_def deferred_def Let_def)

lemma lifecycle_id: "lifecycle oper now j j' \<Longrightarrow> jb_id j' = jb_id j \<and> jb_key j' = jb_key j"
  by (induction rule: lifecycle.induct) simp_all

lemma lifecycle_ok: "lifecycle oper now j j' \<Longrightarrow> job_ok j \<Longrightarrow> job_ok j'"
  by (induction rule: lifecycle.induct)
    (auto simp: job_ok_def claimed_def recover_job_def expired_def no_lease_def completed_def attempt_failed_def deferred_def leased_def Let_def
      split: option.splits job_status.splits)

lemma set_job_jobs [simp]: "db_jobs (set_job i f d) = map (\<lambda>j. if jb_id j = i then f j else j) (db_jobs d)"
  by (simp add: set_job_def)

lemma set_job_others [simp]:
  "db_next_job (set_job i f d) = db_next_job d" "db_locks (set_job i f d) = db_locks d"
  "db_outbox (set_job i f d) = db_outbox d" "db_revision (set_job i f d) = db_revision d"
  "db_journal (set_job i f d) = db_journal d" "db_requests (set_job i f d) = db_requests d"
  "db_views (set_job i f d) = db_views d" "db_next_event (set_job i f d) = db_next_event d"
  "db_next_request (set_job i f d) = db_next_request d" "db_clock (set_job i f d) = db_clock d"
  by (simp_all add: set_job_def)

lemma jobs_ok_map:
  assumes "jobs_ok n js" "\<And>j. j \<in> set js \<Longrightarrow> job_ok j \<Longrightarrow> jb_id (f j) = jb_id j \<and> jb_key (f j) = jb_key j \<and> job_ok (f j)"
  shows "jobs_ok n (map f js)"
proof -
  have "map jb_id (map f js) = map jb_id js" "map jb_key (map f js) = map jb_key js"
    using assms by (simp_all add: jobs_ok_def)
  then show ?thesis using assms unfolding jobs_ok_def by (auto simp del: map_map)
qed

lemma jobs_ok_filter: "jobs_ok n js \<Longrightarrow> jobs_ok n (filter P js)"
  by (simp add: jobs_ok_def distinct_map_filter)

lemma jobs_ok_snoc:
  "jobs_ok n js \<Longrightarrow> job_ok j \<Longrightarrow> jb_id j = n \<Longrightarrow> jb_key j \<notin> jb_key ` set js \<Longrightarrow> jobs_ok (Suc n) (js @ [j])"
  unfolding jobs_ok_def by (auto simp: less_SucI)

lemma event_ok_mono:
  "event_ok n r k e \<Longrightarrow> n \<le> n' \<Longrightarrow> r \<le> r' \<Longrightarrow> k \<le> k' \<Longrightarrow> event_ok n' r' k' e"
  unfolding event_ok_def by (auto split: option.splits)

lemma outbox_ok_mono: "outbox_ok n r k es \<Longrightarrow> n \<le> n' \<Longrightarrow> r \<le> r' \<Longrightarrow> k \<le> k' \<Longrightarrow> outbox_ok n' r' k' es"
  unfolding outbox_ok_def by (blast intro: event_ok_mono)

lemma outbox_ok_map:
  assumes "outbox_ok n r k es" "\<And>e. e \<in> set es \<Longrightarrow> event_ok n r k e \<Longrightarrow> oe_id (f e) = oe_id e \<and> oe_revision (f e) = oe_revision e \<and> event_ok n r k (f e)"
  shows "outbox_ok n r k (map f es)"
proof -
  have "map oe_id (map f es) = map oe_id es" "map oe_revision (map f es) = map oe_revision es"
    using assms by (simp_all add: outbox_ok_def)
  then show ?thesis using assms unfolding outbox_ok_def by (auto simp del: map_map)
qed

section \<open>Every operation keeps the invariant\<close>

lemma assert_revision_cases:
  "config_write actor reason scope expected body d =
     (if expected \<noteq> None \<and> expected \<noteq> Some (cr_revision (db_revision d))
      then (Inl (ConfigRevisionConflict (''Configuration changed from revision '' @ show_int (the expected) @ '' to ''
             @ show_int (cr_revision (db_revision d)) @ ''; reload before saving'')), d)
      else (case body d of (Inl e, _) \<Rightarrow> (Inl e, d)
          | (Inr x, d') \<Rightarrow> (Inr x, snd (advance_config_revision actor reason scope [] d'))))"
  by (auto simp: config_write_def assert_config_revision_def Let_def split: option.splits)

lemma upto_snoc: "0 \<le> n \<Longrightarrow> [1..n + 1] = [1..n] @ [n + 1 :: int]"
  using upto_rec2 [of 1 "n + 1"] by simp

lemma outbox_ok_snoc:
  assumes "outbox_ok n r k es" "oe_id e = n" "oe_revision e = r + 1" "event_ok (Suc n) (r + 1) k e"
  shows "outbox_ok (Suc n) (r + 1) k (es @ [e])"
proof -
  have "\<And>x. x \<in> set es \<Longrightarrow> oe_id x < n \<and> oe_revision x \<le> r" using assms(1) by (simp add: outbox_ok_def event_ok_def)
  moreover have "outbox_ok (Suc n) (r + 1) k es" by (rule outbox_ok_mono [OF assms(1)]) simp_all
  ultimately show ?thesis using assms(2-4) unfolding outbox_ok_def by fastforce
qed

lemma advance_cases:
  obtains S J E where
    "advance_config_revision actor reason scope digest d = (cr_revision (db_revision d) + 1, d\<lparr> db_revision := S,
       db_journal := db_journal d @ [J], db_outbox := db_outbox d @ [E], db_next_event := Suc (db_next_event d) \<rparr>)"
    "cr_revision S = cr_revision (db_revision d) + 1" "rv_revision J = cr_revision (db_revision d) + 1"
    "oe_id E = db_next_event d" "oe_revision E = cr_revision (db_revision d) + 1" "oe_topic E = ''config.changed''"
    "oe_status E = ''pending''" "oe_job E = None"
  by (rule that, unfold advance_config_revision_def Let_def, rule refl) simp_all

lemma advance_ok:
  assumes "queue_ok d"
  shows "queue_ok (snd (advance_config_revision actor reason scope digest d))"
proof (cases actor reason scope digest d rule: advance_cases)
  case (1 S J E)
  have "event_ok (Suc (db_next_event d)) (cr_revision (db_revision d) + 1) (db_next_job d) E"
    using 1(4-) assms by (simp add: event_ok_def queue_ok_def)
  then show ?thesis
    using 1 assms by (simp add: queue_ok_def upto_snoc outbox_ok_snoc)
qed

lemma configure_ok:
  assumes "queue_ok d"
  shows "queue_ok (perform (Configure actor reason scope expected ok) d)"
  using advance_ok [OF assms] assms
  by (auto simp: assert_revision_cases rret_def rraise_def)

lemma insert_job_cases:
  obtains "insert_job k sc key p m a d = (False, d)" "key \<in> jb_key ` set (db_jobs d)"
  | j where "insert_job k sc key p m a d = (True, d\<lparr> db_jobs := db_jobs d @ [j], db_next_job := Suc (db_next_job d) \<rparr>)"
      "jb_id j = db_next_job d" "jb_key j = key" "jb_kind j = k" "jb_scope j = sc" "jb_status j = Pending"
      "jb_payload j = p" "key \<notin> jb_key ` set (db_jobs d)" "1 \<le> m \<Longrightarrow> m \<le> 10 \<Longrightarrow> job_ok j"
proof (cases "key \<in> jb_key ` set (db_jobs d)")
  case True
  then show ?thesis by (simp add: insert_job_def that(1))
next
  case False
  show ?thesis
    by (rule that(2), unfold insert_job_def if_not_P [OF False], rule refl) (simp_all add: False job_ok_def)
qed

lemma insert_job_ok:
  assumes "queue_ok d" "1 \<le> m" "m \<le> 10"
  shows "queue_ok (snd (insert_job k sc key p m a d))"
proof (cases rule: insert_job_cases [where k = k and sc = sc and key = key and p = p and m = m and a = a and d = d])
  case (2 j)
  then show ?thesis using assms
    by (auto simp: queue_ok_def jobs_ok_snoc intro: outbox_ok_mono)
qed (use assms in simp)

lemma drop_jobs_ok: "queue_ok d \<Longrightarrow> queue_ok (d\<lparr> db_jobs := filter P (db_jobs d) \<rparr>)"
  by (simp add: queue_ok_def jobs_ok_filter)

lemma enqueue_ok: "queue_ok d \<Longrightarrow> queue_ok (perform (Enqueue k sc key p m a r) d)"
  by (simp add: enqueue_background_job_def Let_def case_prod_beta drop_jobs_ok insert_job_ok)

lemma job_ok_recover: "job_ok j \<Longrightarrow> job_ok (recover_job now j)"
  unfolding job_ok_def recover_job_def expired_def by (auto split: job_status.splits)

lemma recover_ok: "queue_ok d \<Longrightarrow> queue_ok (perform Recover d)"
  by (simp add: recover_expired_background_work_def Let_def queue_ok_def distinct_map_filter jobs_ok_map job_ok_recover)

lemma set_job_ok:
  assumes "queue_ok d"
    "\<And>j. j \<in> set (db_jobs d) \<Longrightarrow> jb_id j = i \<Longrightarrow> job_ok j \<Longrightarrow> jb_id (f j) = jb_id j \<and> jb_key (f j) = jb_key j \<and> job_ok (f j)"
  shows "queue_ok (set_job i f d)"
proof -
  have "jobs_ok (db_next_job d) (map (\<lambda>j. if jb_id j = i then f j else j) (db_jobs d))"
    by (rule jobs_ok_map) (use assms in \<open>auto simp: queue_ok_def\<close>)
  then show ?thesis using assms(1) by (simp add: queue_ok_def)
qed

lemma notified_ok [simp]: "queue_ok (d\<lparr> db_notified := n \<rparr>) = queue_ok d"
  by (simp add: queue_ok_def)

lemma jobs_same_id: "queue_ok d \<Longrightarrow> j \<in> set (db_jobs d) \<Longrightarrow> x \<in> set (db_jobs d) \<Longrightarrow> jb_id x = jb_id j \<Longrightarrow> x = j"
  unfolding queue_ok_def jobs_ok_def by (metis distinct_map inj_onD)

lemma found_leased:
  assumes "queue_ok d" "find (leased i w t) (db_jobs d) = Some j"
  shows "j \<in> set (db_jobs d)" "jb_id j = i" "jb_status j = Running" "jb_owner j = w" "jb_token j = t" "job_ok j"
    "\<And>x. x \<in> set (db_jobs d) \<Longrightarrow> jb_id x = i \<Longrightarrow> x = j"
  using find_Some_mem [OF assms(2)] assms(1) jobs_same_id [OF assms(1)]
  by (auto simp: leased_def queue_ok_def jobs_ok_def)

lemma claim_choice:
  assumes "sort_key jb_id (filter P (db_jobs d)) = j # js"
  shows "j \<in> set (db_jobs d)" "P j" "\<And>x. x \<in> set (db_jobs d) \<Longrightarrow> P x \<Longrightarrow> jb_id j \<le> jb_id x"
proof -
  have "set (sort_key jb_id (filter P (db_jobs d))) = set (j # js)" by (simp only: assms)
  then have *: "{x \<in> set (db_jobs d). P x} = insert j (set js)" by simp
  then show "j \<in> set (db_jobs d)" "P j" by auto
  show "jb_id j \<le> jb_id x" if "x \<in> set (db_jobs d)" "P x" for x
    using hd_sort_key_min [of x "filter P (db_jobs d)" jb_id] that assms by simp
qed

lemma claim_ok:
  assumes "queue_ok d"
  shows "queue_ok (perform (Claim w l ks t) d)"
proof (cases "sort_key jb_id (filter (claimable (filter (\<lambda>k. k \<noteq> []) ks) (db_clock d)) (db_jobs d))")
  case (Cons j js)
  note c = claim_choice [OF this]
  have "job_ok (claimed (take 80 (str_or w ''worker'')) t (db_clock d + max 5 (min 300 l)) (db_clock d) x)"
    if "x \<in> set (db_jobs d)" "jb_id x = jb_id j" "job_ok x" for x
    using c(2) that(3) jobs_same_id [OF assms c(1) that(1,2)]
    by (intro lifecycle_ok [OF claiming]) (simp_all add: claimable_def)
  then show ?thesis using assms Cons
    by (auto simp: claim_background_job_def Let_def intro!: set_job_ok)
qed (use assms in \<open>simp add: claim_background_job_def Let_def\<close>)

lemma settle_ok:
  assumes "queue_ok d" "find (leased i w t) (db_jobs d) = Some j" "lifecycle oper now j (f j)"
  shows "queue_ok (set_job i f d)"
  using found_leased [OF assms(1,2)] lifecycle_id [OF assms(3)] lifecycle_ok [OF assms(3)]
  by (intro set_job_ok [OF assms(1)]) fastforce

lemma leased_find: "list_ex (leased i w t) js = (find (leased i w t) js \<noteq> None)"
  by (induction js) auto

lemma find_leased: "find (leased i w t) js = Some j \<Longrightarrow> leased i w t j"
  by (drule find_Some_mem) simp

lemma settle_ops_ok:
  assumes "queue_ok d"
  shows "queue_ok (perform (Complete i w t p) d)" "queue_ok (perform (Fail i w t e) d)" "queue_ok (perform (Defer i w t n e) d)"
  using assms
  by (auto simp: complete_background_job_def fail_background_job_def defer_background_job_def leased_find Let_def
      split: option.splits intro: settle_ok [OF _ _ completing] settle_ok [OF _ _ failing] settle_ok [OF _ _ deferring]
      dest: find_leased)

lemma set_event_fields [simp]:
  "db_outbox (set_event i f d) = map (\<lambda>e. if oe_id e = i then f e else e) (db_outbox d)"
  "db_jobs (set_event i f d) = db_jobs d" "db_next_job (set_event i f d) = db_next_job d" "db_locks (set_event i f d) = db_locks d"
  "db_revision (set_event i f d) = db_revision d" "db_journal (set_event i f d) = db_journal d"
  "db_requests (set_event i f d) = db_requests d" "db_views (set_event i f d) = db_views d"
  "db_next_event (set_event i f d) = db_next_event d" "db_next_request (set_event i f d) = db_next_request d"
  "db_clock (set_event i f d) = db_clock d"
  by (simp_all add: set_event_def)

lemma insert_job_others [simp]:
  "db_outbox (snd (insert_job k sc key p m a d)) = db_outbox d" "db_locks (snd (insert_job k sc key p m a d)) = db_locks d"
  "db_revision (snd (insert_job k sc key p m a d)) = db_revision d" "db_clock (snd (insert_job k sc key p m a d)) = db_clock d"
  "db_next_event (snd (insert_job k sc key p m a d)) = db_next_event d"
  by (simp_all add: insert_job_def)

lemma insert_job_finds: "\<exists>j. find (\<lambda>j. jb_key j = key) (db_jobs (snd (insert_job k sc key p m a d))) = Some j"
proof -
  have "\<exists>j \<in> set (db_jobs (snd (insert_job k sc key p m a d))). jb_key j = key"
    by (auto simp: insert_job_def)
  then show ?thesis by (metis (mono_tags, lifting) find_None_iff not_Some_eq)
qed

lemma dispatch_ok: "queue_ok d \<Longrightarrow> (\<And>e. e \<in> set es \<Longrightarrow> oe_topic e = ''config.changed'') \<Longrightarrow> queue_ok (snd (dispatch_events es n d))"
proof (induction es arbitrary: n d)
  case (Cons e es)
  define d1 where "d1 = snd (insert_job ''analytics.config-summary'' ''analytics:config'' (''config-analytics:r'' @ show_int (oe_revision e))
                       (oe_payload e) 3 (db_clock d) d)"
  obtain j where j: "find (\<lambda>j. jb_key j = ''config-analytics:r'' @ show_int (oe_revision e)) (db_jobs d1) = Some j"
    unfolding d1_def using insert_job_finds by blast
  have d1: "queue_ok d1" unfolding d1_def by (rule insert_job_ok [OF Cons.prems(1)]) simp_all
  have "jb_id j < db_next_job d1"
    using find_Some_mem [OF j] d1 by (auto simp: queue_ok_def jobs_ok_def)
  then have "outbox_ok (db_next_event d1) (cr_revision (db_revision d1)) (db_next_job d1)
      (map (\<lambda>x. if oe_id x = oe_id e then x\<lparr> oe_status := ''dispatched'', oe_dispatched := Some (db_clock d), oe_job := Some (jb_id j) \<rparr> else x) (db_outbox d1))"
    using d1 by (intro outbox_ok_map) (auto simp: queue_ok_def event_ok_def split: option.splits)
  then have "queue_ok (set_event (oe_id e) (\<lambda>x. x\<lparr> oe_status := ''dispatched'', oe_dispatched := Some (db_clock d), oe_job := Some (jb_id j) \<rparr>) d1)"
    using d1 by (simp add: queue_ok_def)
  moreover have "dispatch_events (e # es) n d = dispatch_events es (n + 1)
      (set_event (oe_id e) (\<lambda>x. x\<lparr> oe_status := ''dispatched'', oe_dispatched := Some (db_clock d), oe_job := Some (jb_id j) \<rparr>) d1)"
    using Cons.prems(2) [of e] j unfolding d1_def by (simp add: Let_def)
  ultimately show ?case
    using Cons.IH Cons.prems(2) by simp
qed simp

lemma outbox_dispatch_ok: "queue_ok d \<Longrightarrow> queue_ok (perform (Dispatch n) d)"
  unfolding perform.simps dispatch_outbox_to_background_jobs_def Let_def case_prod_beta snd_conv
  by (rule dispatch_ok) (auto dest!: in_set_takeD simp: queue_ok_def outbox_ok_def event_ok_def)

lemma acquire_ok: "queue_ok d \<Longrightarrow> queue_ok (perform (Acquire sc w t l) d)"
  by (auto simp: acquire_background_scope_lock_def Let_def queue_ok_def distinct_map_filter find_None_iff split: option.splits)

lemma release_ok: "queue_ok d \<Longrightarrow> queue_ok (perform (Release sc w t) d)"
  by (simp add: release_background_scope_lock_def Let_def queue_ok_def distinct_map_filter)

lemma requests_ok_map:
  assumes "requests_ok n qs" "\<And>q. rq_id (f q) = rq_id q"
  shows "requests_ok n (map f qs)"
proof -
  have "map rq_id (map f qs) = map rq_id qs" using assms(2) by simp
  then show ?thesis using assms unfolding requests_ok_def by (auto simp del: map_map)
qed

lemma requests_ok_snoc: "requests_ok n qs \<Longrightarrow> rq_id q = n \<Longrightarrow> requests_ok (Suc n) (qs @ [q])"
  unfolding requests_ok_def by (auto simp: less_SucI)

lemma set_request_ok: "queue_ok d \<Longrightarrow> (\<And>q. rq_id (f q) = rq_id q) \<Longrightarrow> queue_ok (set_request i f d)"
  by (simp add: queue_ok_def set_request_def requests_ok_map)

lemma request_ops_ok:
  assumes "queue_ok d"
  shows "queue_ok (perform (RequestNew ok tg a r v) d)" "queue_ok (perform RequestRecover d)" "queue_ok (perform RequestClaim d)"
    "queue_ok (perform (RequestFinish i s ap res e) d)"
proof -
  show "queue_ok (perform (RequestNew ok tg a r v) d)"
    using assms by (simp add: enqueue_reconciliation_request_def Let_def queue_ok_def requests_ok_snoc requests_ok_map)
  show "queue_ok (perform RequestRecover d)"
    using assms by (simp add: recover_reconciliation_requests_def queue_ok_def requests_ok_map)
  show "queue_ok (perform RequestClaim d)"
    using assms by (simp add: claim_reconciliation_request_def Let_def set_request_ok split: list.splits)
  show "queue_ok (perform (RequestFinish i s ap res e) d)"
    using assms by (simp add: finish_reconciliation_request_def Let_def set_request_ok split: option.splits)
qed

lemma prune_ok: "queue_ok d \<Longrightarrow> queue_ok (perform (Prune a b c) d)"
  by (auto simp: prune_background_history_def Let_def queue_ok_def jobs_ok_filter outbox_ok_def distinct_map_filter)

lemma get_view_same [simp]: "snd (get_prepared_view k r m s d) = d"
  by (simp add: get_prepared_view_def)

lemma views_ok_update:
  assumes "views_ok vs" "\<And>v. v \<in> set vs \<Longrightarrow> pv_key (f v) = pv_key v" "\<And>v. v \<in> set vs \<Longrightarrow> length (pv_payload (f v)) \<le> 2000000"
  shows "views_ok (map f vs)"
proof -
  have "map pv_key (map f vs) = map pv_key vs" using assms(2) by simp
  then show ?thesis using assms unfolding views_ok_def by (auto simp del: map_map)
qed

lemma save_view_ok:
  assumes "queue_ok d"
  shows "queue_ok (perform (SaveView k kd sc p s t st e) d)"
proof -
  have v: "views_ok (db_views d)" using assms by (simp add: queue_ok_def)
  have upd: "queue_ok (d\<lparr> db_views := vs \<rparr>)" if "views_ok vs" for vs
    using assms that by (simp add: queue_ok_def)
  show ?thesis
    unfolding perform.simps save_prepared_view_def Let_def
    by (simp add: assms, intro impI conjI upd views_ok_update v)
      (use v in \<open>auto simp: views_ok_def\<close>)
qed

theorem perform_ok: "queue_ok d \<Longrightarrow> queue_ok (perform oper d)"
proof (cases oper)
  case (SetClock t u)
  then show "queue_ok d \<Longrightarrow> ?thesis" by (simp add: queue_ok_def)
qed (simp_all only: configure_ok enqueue_ok outbox_dispatch_ok recover_ok claim_ok acquire_ok release_ok settle_ops_ok
      request_ops_ok prune_ok save_view_ok)

lemma reachable_ok: "reachable d \<Longrightarrow> queue_ok d"
proof (induction rule: reachable.induct)
  case (created t)
  show ?case by (simp add: queue_ok_def empty_db_def jobs_ok_def outbox_ok_def requests_ok_def views_ok_def)
qed (rule perform_ok)

text \<open>C26: in every reachable state of the store (any operations, any arguments, any clock) the identifiers
  and idempotency keys of the jobs are unique; no job has been attempted more often than its maximum,
  which is at most 10; a pending job is unowned and has an attempt left, so it is never stuck; a
  running job has a lease with an expiry, so it can always be recovered; a failed job is out of
  attempts; a scope has at most one lock; the journal holds the revisions from 1 to the current one
  without gap, each with at most one outbox event.\<close>

theorem store_invariant:
  assumes "reachable d"
  shows "distinct (map jb_id (db_jobs d)) \<and> distinct (map jb_key (db_jobs d))
    \<and> (\<forall>j \<in> set (db_jobs d). 0 \<le> jb_attempts j \<and> jb_attempts j \<le> jb_max j \<and> jb_max j \<le> 10
        \<and> (jb_status j = Pending \<longrightarrow> jb_attempts j < jb_max j \<and> jb_token j = [])
        \<and> (jb_status j = Running \<longrightarrow> 1 \<le> jb_attempts j \<and> jb_expires j \<noteq> None)
        \<and> (jb_status j = Failed \<longrightarrow> jb_attempts j = jb_max j))
    \<and> distinct (map sl_scope (db_locks d))
    \<and> map rv_revision (db_journal d) = [1..cr_revision (db_revision d)]
    \<and> distinct (map oe_revision (db_outbox d)) \<and> (\<forall>e \<in> set (db_outbox d). oe_revision e \<in> set (map rv_revision (db_journal d)))"
  using reachable_ok [OF assms]
  by (auto simp: queue_ok_def jobs_ok_def job_ok_def outbox_ok_def event_ok_def)

end
