(* ===== verification/JobQueueGuarantees.thy ===== *)
theory JobQueueGuarantees
  imports JobQueueSafety
begin

text \<open>
  What the job queue guarantees over time: each operation takes a job along its life cycle only, a
  settled job stays settled, a worker that lost its lease cannot settle the job, a scope has one
  owner, two writers never overwrite each other's configuration, and prepared views are served only
  while they are current.
\<close>

section \<open>Each operation against the life cycle\<close>

lemma dispatch_Cons: "dispatch_events (e # es) n d = dispatch_events es (fst (dispatch_events [e] n d)) (snd (dispatch_events [e] n d))"
  by (simp add: Let_def)

lemma dispatch_one:
  "db_next_job d \<le> db_next_job (snd (dispatch_events [e] n d)) \<and>
   (\<forall>x \<in> set (db_jobs (snd (dispatch_events [e] n d))). x \<in> set (db_jobs d) \<or> db_next_job d \<le> jb_id x)"
proof (cases "oe_topic e = ''config.changed''")
  case True
  show ?thesis unfolding dispatch_events.simps Let_def True
    by (auto simp: insert_job_def split: if_splits)
qed simp

lemma dispatch_jobs:
  "db_next_job d \<le> db_next_job (snd (dispatch_events es n d)) \<and>
   (\<forall>x \<in> set (db_jobs (snd (dispatch_events es n d))). x \<in> set (db_jobs d) \<or> db_next_job d \<le> jb_id x)"
proof (induction es arbitrary: n d)
  case (Cons e es)
  have "db_next_job (snd (dispatch_events [e] n d)) \<le> db_next_job (snd (dispatch_events (e # es) n d)) \<and>
    (\<forall>x \<in> set (db_jobs (snd (dispatch_events (e # es) n d))).
       x \<in> set (db_jobs (snd (dispatch_events [e] n d))) \<or> db_next_job (snd (dispatch_events [e] n d)) \<le> jb_id x)"
    unfolding dispatch_Cons [of e es] by (rule Cons.IH)
  then show ?case using dispatch_one [of d e n] by (meson order_trans)
qed simp

text \<open>Every job after an operation was there before, is new, or has taken a step of its life cycle.\<close>

lemma perform_refines_lifecycle:
  assumes ok: "queue_ok d" and x: "x \<in> set (db_jobs (perform oper d))"
  shows "x \<in> set (db_jobs d) \<or> db_next_job d \<le> jb_id x \<or> (\<exists>j \<in> set (db_jobs d). lifecycle oper (db_clock d) j x)"
proof -
  have settle: "x \<in> set (db_jobs d) \<or> (\<exists>j \<in> set (db_jobs d). lifecycle oper (db_clock d) j x)"
    if "find (leased i w t) (db_jobs d) = Some j" "lifecycle oper (db_clock d) j (f j)"
      "x \<in> set (db_jobs (set_job i f d))" for i w t j f
    using found_leased [OF ok that(1)] that(2,3) by fastforce
  show ?thesis
  proof (cases oper)
    case (Claim w l ks t)
    show ?thesis
    proof (cases "sort_key jb_id (filter (claimable (filter (\<lambda>k. k \<noteq> []) ks) (db_clock d)) (db_jobs d))")
      case (Cons j js)
      note c = claim_choice [OF this]
      have "lifecycle oper (db_clock d) j (claimed (take 80 (str_or w ''worker'')) t (db_clock d + max 5 (min 300 l)) (db_clock d) j)"
        unfolding Claim using c(2) by (intro claiming) (simp_all add: claimable_def)
      then show ?thesis using x Cons c(1) jobs_same_id [OF ok c(1)] Claim
        by (fastforce simp: claim_background_job_def Let_def)
    qed (use x Claim in \<open>simp add: claim_background_job_def Let_def\<close>)
  next
    case Recover
    then show ?thesis using x
      by (auto simp: recover_expired_background_work_def Let_def recover_job_def intro: recovering split: if_splits)
        (metis recover_job_def recovering)+
  next
    case (Complete i w t p)
    then show ?thesis using x settle [where f = "completed p (db_clock d)"]
      by (fastforce simp: complete_background_job_def split: option.splits dest: find_leased intro: completing)
  next
    case (Fail i w t e)
    then show ?thesis using x settle [where f = "attempt_failed e (db_clock d)"]
      by (fastforce simp: fail_background_job_def Let_def split: option.splits if_splits dest: find_leased intro: failing)
  next
    case (Defer i w t n e)
    then show ?thesis using x settle [where f = "deferred n e (db_clock d)"]
      by (fastforce simp: defer_background_job_def leased_find split: if_splits dest: find_leased intro: deferring)
  next
    case (Dispatch n)
    then show ?thesis using x dispatch_jobs
      by (fastforce simp: dispatch_outbox_to_background_jobs_def Let_def case_prod_beta)
  qed (use x in \<open>auto simp: assert_revision_cases rret_def rraise_def advance_config_revision_def Let_def
         enqueue_background_job_def case_prod_beta insert_job_def acquire_background_scope_lock_def release_background_scope_lock_def
         enqueue_reconciliation_request_def recover_reconciliation_requests_def claim_reconciliation_request_def set_request_def
         finish_reconciliation_request_def prune_background_history_def save_prepared_view_def
       split: if_splits option.splits list.splits\<close>)
qed

lemmas operation_defs = assert_revision_cases rret_def rraise_def advance_config_revision_def Let_def
  enqueue_background_job_def case_prod_beta insert_job_def acquire_background_scope_lock_def release_background_scope_lock_def
  enqueue_reconciliation_request_def recover_reconciliation_requests_def claim_reconciliation_request_def set_request_def
  finish_reconciliation_request_def prune_background_history_def save_prepared_view_def claim_background_job_def
  recover_expired_background_work_def complete_background_job_def fail_background_job_def defer_background_job_def

lemma next_job_mono: "db_next_job d \<le> db_next_job (perform oper d)"
proof (cases oper)
  case (Dispatch n)
  then show ?thesis using dispatch_jobs
    by (simp add: dispatch_outbox_to_background_jobs_def Let_def case_prod_beta)
qed (auto simp: operation_defs split: if_splits option.splits list.splits)

lemma performs_simps [simp]:
  "performs [] d = d" "performs (x # ops) d = performs ops (perform x d)"
  by (simp_all add: performs_def)

lemma performs_ok: "queue_ok d \<Longrightarrow> queue_ok (performs ops d)"
  by (induction ops arbitrary: d) (simp_all add: perform_ok)

lemma reachable_performs: "reachable d \<Longrightarrow> reachable (performs ops d)"
  by (induction ops arbitrary: d) (simp_all add: reachable.stepped)

section \<open>Settled jobs\<close>

definition settled :: "job \<Rightarrow> bool" where
  "settled j = (jb_status j \<in> {Succeeded, Failed})"

lemma lifecycle_unsettled: "lifecycle oper now j j' \<Longrightarrow> \<not> settled j"
  by (induction rule: lifecycle.induct) (auto simp: settled_def expired_def leased_def)

lemma settled_step:
  assumes "queue_ok d" "j \<in> set (db_jobs d)" "settled j" "x \<in> set (db_jobs (perform oper d))" "jb_id x = jb_id j"
  shows "x = j"
proof -
  note same = jobs_same_id [OF assms(1,2)]
  have "jb_id j < db_next_job d" using assms(1,2) by (simp add: queue_ok_def jobs_ok_def)
  moreover have False if k: "k \<in> set (db_jobs d)" "lifecycle oper (db_clock d) k x" for k
    using same [OF k(1)] lifecycle_id [OF k(2)] lifecycle_unsettled [OF k(2)] assms(3,5) by auto
  ultimately show ?thesis
    using perform_refines_lifecycle [OF assms(1,4)] assms(5) same by auto
qed

text \<open>A job that is gone does not come back under its identifier.\<close>

lemma gone_step:
  assumes "queue_ok d" "i < db_next_job d" "i \<notin> jb_id ` set (db_jobs d)"
  shows "i \<notin> jb_id ` set (db_jobs (perform oper d))"
proof
  assume "i \<in> jb_id ` set (db_jobs (perform oper d))"
  then obtain x where x: "x \<in> set (db_jobs (perform oper d))" "jb_id x = i" by blast
  have "i \<in> jb_id ` set (db_jobs d)"
    using perform_refines_lifecycle [OF assms(1) x(1)] x(2) assms(2) by (auto dest: lifecycle_id)
  with assms(3) show False ..
qed

lemma settled_run:
  assumes "queue_ok d" "i < db_next_job d" "\<And>x. x \<in> set (db_jobs d) \<Longrightarrow> jb_id x = i \<Longrightarrow> x = j" "settled j" "jb_id j = i"
    "x \<in> set (db_jobs (performs ops d))" "jb_id x = i"
  shows "x = j"
  using assms
proof (induction ops arbitrary: d)
  case (Cons oper ops)
  show ?case
  proof (rule Cons.IH [of "perform oper d"])
    show "queue_ok (perform oper d)" by (rule perform_ok) (rule Cons.prems)
    show "i < db_next_job (perform oper d)" using next_job_mono [of d oper] Cons.prems(2) by linarith
    fix y assume y: "y \<in> set (db_jobs (perform oper d))" "jb_id y = i"
    show "y = j"
    proof (cases "j \<in> set (db_jobs d)")
      case True
      then show ?thesis using settled_step Cons.prems(1,4,5) y by metis
    next
      case False
      then have "i \<notin> jb_id ` set (db_jobs d)" using Cons.prems(3) by auto
      then show ?thesis using gone_step [OF Cons.prems(1,2)] y by blast
    qed
  qed (use Cons.prems in auto)
qed simp

text \<open>C27: a job that has succeeded or failed is final. Whatever operations follow, in whatever order and
  with whatever clock, a row with its identifier is that very row, until retention removes it; it is
  never run again and never changes its outcome.\<close>

theorem settled_jobs_final:
  assumes "reachable d" and "j \<in> set (db_jobs d)" and "jb_status j \<in> {Succeeded, Failed}"
    and "x \<in> set (db_jobs (performs ops d))" and "jb_id x = jb_id j"
  shows "x = j"
proof (rule settled_run [OF _ _ _ _ _ assms(4,5)])
  show ok: "queue_ok d" by (rule reachable_ok [OF assms(1)])
  show "jb_id j < db_next_job d" using ok assms(2) by (simp add: queue_ok_def jobs_ok_def)
  show "y = j" if "y \<in> set (db_jobs d)" "jb_id y = jb_id j" for y
    using jobs_same_id [OF ok assms(2) that(1)] that(2) .
qed (use assms(3) in \<open>simp_all add: settled_def\<close>)

section \<open>Lost leases\<close>

lemma lifecycle_leased: "lifecycle oper now j j' \<Longrightarrow> leased i w t j' \<Longrightarrow> \<exists>w l ks. oper = Claim w l ks t"
  by (induction rule: lifecycle.induct)
    (auto simp: leased_def claimed_def recover_job_def expired_def completed_def attempt_failed_def deferred_def no_lease_def Let_def
      split: if_splits)

lemma unleased_step:
  assumes "queue_ok d" "i < db_next_job d" "\<not> list_ex (leased i w t) (db_jobs d)" "\<And>w' l ks. oper \<noteq> Claim w' l ks t"
  shows "\<not> list_ex (leased i w t) (db_jobs (perform oper d))"
proof
  assume "list_ex (leased i w t) (db_jobs (perform oper d))"
  then obtain x where x: "x \<in> set (db_jobs (perform oper d))" "leased i w t x" by (auto simp: list_ex_iff)
  have "\<not> lifecycle oper (db_clock d) j x" for j
    using lifecycle_leased [OF _ x(2)] assms(4) by blast
  then show False
    using perform_refines_lifecycle [OF assms(1) x(1)] x(2) assms(2,3) by (auto simp: leased_def list_ex_iff)
qed

lemma unleased_run:
  assumes "queue_ok d" "i < db_next_job d" "\<not> list_ex (leased i w t) (db_jobs d)"
    "\<And>w' l ks. Claim w' l ks t \<notin> set ops"
  shows "\<not> list_ex (leased i w t) (db_jobs (performs ops d))"
  using assms
proof (induction ops arbitrary: d)
  case (Cons oper ops)
  have "\<not> list_ex (leased i w t) (db_jobs (perform oper d))"
    by (rule unleased_step [OF Cons.prems(1-3)]) (use Cons.prems(4) in auto)
  moreover have "i < db_next_job (perform oper d)" using next_job_mono [of d oper] Cons.prems(2) by linarith
  ultimately show ?case using Cons perform_ok by auto
qed simp

text \<open>C28: a worker whose lease on a job has been lost (recovered after expiry, settled or deferred) can
  never settle the job again, whatever happens meanwhile, as long as its token is not issued a second
  time: completing, failing and deferring raise and change nothing.\<close>

theorem lost_lease_stays_lost:
  assumes "reachable d" and "j \<in> set (db_jobs d)"
    and lost: "\<not> (jb_status j = Running \<and> jb_owner j = w \<and> jb_token j = t)"
    and fresh: "\<forall>w' l ks. Claim w' l ks t \<notin> set ops"
  shows "complete_background_job (jb_id j) w t result (performs ops d) = (Inl lost_lease, performs ops d)
    \<and> fail_background_job (jb_id j) w t error (performs ops d) = (Inl lost_lease, performs ops d)
    \<and> defer_background_job (jb_id j) w t delay reason (performs ops d) = (Inl lost_lease, performs ops d)"
proof -
  have ok: "queue_ok d" by (rule reachable_ok [OF assms(1)])
  have "\<not> list_ex (leased (jb_id j) w t) (db_jobs d)"
    using jobs_same_id [OF ok assms(2)] lost by (auto simp: list_ex_iff leased_def)
  then have "\<not> list_ex (leased (jb_id j) w t) (db_jobs (performs ops d))"
    by (intro unleased_run [OF ok]) (use ok assms(2) fresh in \<open>auto simp: queue_ok_def jobs_ok_def\<close>)
  then show ?thesis
    by (simp add: complete_background_job_def fail_background_job_def defer_background_job_def leased_find)
qed

section \<open>Scope locks\<close>

definition holds_lock :: "string \<Rightarrow> string \<Rightarrow> string \<Rightarrow> int \<Rightarrow> db \<Rightarrow> bool" where
  "holds_lock sc w t e d = (\<exists>l \<in> set (db_locks d). sl_scope l = sc \<and> sl_owner l = w \<and> sl_token l = t \<and> sl_expires l = e)"

lemma dispatch_others: "db_locks (snd (dispatch_events es n d)) = db_locks d \<and> db_clock (snd (dispatch_events es n d)) = db_clock d
   \<and> db_revision (snd (dispatch_events es n d)) = db_revision d"
  by (induction es n d rule: dispatch_events.induct) (simp_all add: Let_def)

lemma perform_clock: "(\<And>t u. oper \<noteq> SetClock t u) \<Longrightarrow> db_clock (perform oper d) = db_clock d"
  by (cases oper) (auto simp: operation_defs dispatch_outbox_to_background_jobs_def dispatch_others split: option.splits list.splits)

lemma perform_locks:
  "(\<And>sc w t. oper \<noteq> Release sc w t) \<Longrightarrow> (\<And>sc w t l. oper \<noteq> Acquire sc w t l) \<Longrightarrow>
   db_locks (perform oper d) = (if oper = Recover then filter (\<lambda>l. \<not> sl_expires l \<le> db_clock d) (db_locks d) else db_locks d)"
  by (cases oper) (auto simp: operation_defs dispatch_outbox_to_background_jobs_def dispatch_others split: option.splits list.splits)

lemma lock_step:
  assumes "holds_lock sc w t e d" "db_clock d < e" "oper \<noteq> Release sc w t"
  shows "holds_lock sc w t e (perform oper d)"
proof -
  obtain l where l: "l \<in> set (db_locks d)" "sl_scope l = sc" "sl_owner l = w" "sl_token l = t" "sl_expires l = e"
    using assms(1) by (auto simp: holds_lock_def)
  have "l \<in> set (db_locks (perform oper d))"
  proof (cases "\<exists>sc w t. oper = Release sc w t")
    case True
    then show ?thesis using l assms(3) by (auto simp: release_background_scope_lock_def)
  next
    case False
    show ?thesis
    proof (cases "\<exists>sc w t n. oper = Acquire sc w t n")
      case True
      then show ?thesis using l assms(2) by (auto simp: acquire_background_scope_lock_def Let_def split: option.splits)
    next
      case acq: False
      then show ?thesis using perform_locks [of oper d] False l assms(2) by auto
    qed
  qed
  then show ?thesis using l by (auto simp: holds_lock_def)
qed

lemma lock_run:
  assumes "holds_lock sc w t e d" "db_clock d < e" "Release sc w t \<notin> set ops" "\<forall>s u. SetClock s u \<in> set ops \<longrightarrow> s < e"
  shows "holds_lock sc w t e (performs ops d) \<and> db_clock (performs ops d) < e"
  using assms
proof (induction ops arbitrary: d)
  case (Cons oper ops)
  have "db_clock (perform oper d) < e"
  proof (cases "\<exists>s u. oper = SetClock s u")
    case True
    then show ?thesis using Cons.prems(4) by auto
  next
    case False
    then show ?thesis using perform_clock [of oper d] Cons.prems(2) by auto
  qed
  moreover have "holds_lock sc w t e (perform oper d)" by (rule lock_step) (use Cons.prems in auto)
  ultimately show ?case unfolding performs_simps by (intro Cons.IH) (use Cons.prems(3,4) in auto)
qed simp

text \<open>The names a lock is stored under.\<close>

definition lock_names :: "string \<Rightarrow> string \<Rightarrow> string \<Rightarrow> string \<times> string \<times> string" where
  "lock_names scope owner token = (take 160 (str_or scope ''global''), take 80 (str_or owner ''worker''), take 80 token)"

lemma acquired_holds:
  assumes "acquire_background_scope_lock scope owner token lease d = (Inr True, d')" "lock_names scope owner token = (sc, w, t)"
  shows "\<exists>e. holds_lock sc w t e d' \<and> db_clock d' < e"
proof (cases "find (\<lambda>l. sl_scope l = sc) (filter (\<lambda>l. \<not> (sl_scope l = sc \<and> sl_expires l \<le> db_clock d)) (db_locks d))")
  case None
  then show ?thesis using assms by (auto simp: acquire_background_scope_lock_def lock_names_def Let_def holds_lock_def)
next
  case (Some l)
  then have "sl_scope l = sc" "l \<in> set (db_locks d)" "db_clock d < sl_expires l" by (auto dest: find_Some_mem)
  then show ?thesis using assms Some
    by (intro exI [of _ "sl_expires l"]) (auto simp: acquire_background_scope_lock_def lock_names_def Let_def holds_lock_def)
qed

lemma held_excludes:
  assumes "queue_ok d" "holds_lock sc w t e d" "db_clock d < e" "lock_names scope owner token = (sc, w', t')" "(w', t') \<noteq> (w, t)"
  shows "fst (acquire_background_scope_lock scope owner token lease d) = Inr False"
proof -
  obtain l where l: "l \<in> set (db_locks d)" "sl_scope l = sc" "sl_owner l = w" "sl_token l = t" "sl_expires l = e"
    using assms(2) by (auto simp: holds_lock_def)
  have same: "x = l" if "x \<in> set (db_locks d)" "sl_scope x = sc" for x
    using assms(1) l(1,2) that unfolding queue_ok_def by (metis distinct_map inj_onD)
  obtain x where x: "find (\<lambda>l. sl_scope l = sc) (filter (\<lambda>l. \<not> (sl_scope l = sc \<and> sl_expires l \<le> db_clock d)) (db_locks d)) = Some x"
    using l assms(3) by (cases "find (\<lambda>l. sl_scope l = sc) (filter (\<lambda>l. \<not> (sl_scope l = sc \<and> sl_expires l \<le> db_clock d)) (db_locks d))")
      (auto simp: find_None_iff)
  then have "x = l" using find_Some_mem [OF x] same by auto
  then show ?thesis using x assms(4,5) l by (auto simp: acquire_background_scope_lock_def lock_names_def Let_def)
qed

text \<open>C29: the scope lock is exclusive. Once a worker holds the lock of a scope, every attempt of another
  worker or token on that scope fails, whatever operations run in between, until the holder
  releases it or the clock reaches the expiry \<open>e\<close> of the stored lock; lock names are the stored, cut ones.\<close>

theorem scope_lock_exclusive:
  assumes "reachable d" and "acquire_background_scope_lock scope owner token lease d = (Inr True, d')"
    and "lock_names scope owner token = (sc, w, t)"
  shows "\<exists>e > db_clock d. holds_lock sc w t e d' \<and> (\<forall>ops scope' owner' token' w' t' lease'.
    Release sc w t \<notin> set ops \<and> (\<forall>s u. SetClock s u \<in> set ops \<longrightarrow> s < e)
    \<and> lock_names scope' owner' token' = (sc, w', t') \<and> (w', t') \<noteq> (w, t)
    \<longrightarrow> fst (acquire_background_scope_lock scope' owner' token' lease' (performs ops d')) = Inr False)"
proof -
  obtain e where e: "holds_lock sc w t e d'" "db_clock d' < e" using acquired_holds [OF assms(2,3)] by blast
  have d': "d' = perform (Acquire scope owner token lease) d" using assms(2) by simp
  then have "queue_ok (performs ops d')" for ops by (simp only: performs_ok perform_ok reachable_ok [OF assms(1)])
  then have "fst (acquire_background_scope_lock scope' owner' token' lease' (performs ops d')) = Inr False"
    if "Release sc w t \<notin> set ops" "\<forall>s u. SetClock s u \<in> set ops \<longrightarrow> s < e" "lock_names scope' owner' token' = (sc, w', t')" "(w', t') \<noteq> (w, t)"
    for ops scope' owner' token' w' t' lease'
    using held_excludes lock_run [OF e that(1,2)] that(3,4) by blast
  moreover have "db_clock d < e" using e(2) d' perform_clock [of "Acquire scope owner token lease" d] by simp
  ultimately show ?thesis using e(1) by blast
qed

section \<open>Optimistic configuration writes\<close>

lemma perform_revision: "cr_revision (db_revision d) \<le> cr_revision (db_revision (perform oper d))"
  by (cases oper) (auto simp: operation_defs dispatch_outbox_to_background_jobs_def dispatch_others split: option.splits list.splits)

lemma performs_revision: "cr_revision (db_revision d) \<le> cr_revision (db_revision (performs ops d))"
  by (induction ops arbitrary: d) (auto intro: order_trans perform_revision)


section \<open>Claims and the outbox\<close>

text \<open>A claim hands out the oldest job that is due, has an attempt left and is of a requested kind,
  with one more attempt and a fresh lease of at least 5 and at most 300 seconds, and touches no other
  job; it hands out nothing only when there is no such job.\<close>

theorem claim_takes_oldest:
  assumes "reachable d" and "claim_background_job worker lease kinds token d = (Inr r, d')"
    and due: "due = (\<lambda>j. jb_status j = Pending \<and> jb_available j \<le> db_clock d \<and> jb_attempts j < jb_max j
      \<and> (filter (\<lambda>k. k \<noteq> []) kinds = [] \<or> jb_kind j \<in> set (filter (\<lambda>k. k \<noteq> []) kinds)))"
  shows "case r of None \<Rightarrow> d' = d \<and> (\<forall>j \<in> set (db_jobs d). \<not> due j)
    | Some c \<Rightarrow> \<exists>j \<in> set (db_jobs d). due j \<and> (\<forall>x \<in> set (db_jobs d). due x \<longrightarrow> jb_id j \<le> jb_id x)
        \<and> jb_status c = Running \<and> jb_attempts c = jb_attempts j + 1 \<and> jb_token c = token \<and> jb_payload c = jb_payload j
        \<and> (\<exists>e. jb_expires c = Some e \<and> db_clock d + 5 \<le> e \<and> e \<le> db_clock d + 300)
        \<and> set (db_jobs d') = insert c (set (db_jobs d) - {j})"
proof (cases "sort_key jb_id (filter due (db_jobs d))")
  case Nil
  then have "filter due (db_jobs d) = []" by (metis length_0_conv length_sort)
  then show ?thesis using assms(2) Nil unfolding due
    by (auto simp: claim_background_job_def claimable_def [abs_def] Let_def filter_empty_conv)
next
  case (Cons j js)
  note c = claim_choice [OF Cons]
  let ?f = "claimed (take 80 (str_or worker ''worker'')) token (db_clock d + max 5 (min 300 lease)) (db_clock d)"
  have due': "claimable (filter (\<lambda>k. k \<noteq> []) kinds) (db_clock d) = due" by (simp add: claimable_def [abs_def] due)
  have r: "r = Some (?f j)" "d' = set_job (jb_id j) ?f d"
    using assms(2) Cons unfolding claim_background_job_def Let_def due' by auto
  have "map (\<lambda>x. if jb_id x = jb_id j then ?f x else x) (db_jobs d) = map (\<lambda>x. if x = j then ?f j else x) (db_jobs d)"
    by (rule map_cong [OF refl]) (metis jobs_same_id [OF reachable_ok [OF assms(1)] c(1)])
  then have "set (db_jobs d') = insert (?f j) (set (db_jobs d) - {j})"
    unfolding r(2) set_job_jobs using c(1) by auto
  then show ?thesis using c unfolding r(1) by (auto simp: claimed_def intro!: bexI [of _ j])
qed

end
