(* ===== verification/JobQueueExamples.thy ===== *)
theory JobQueueExamples
  imports JobQueueGuarantees
begin

text \<open>The guarantees of the job queue at concrete states: one job, queued, claimed, completed, or
  recovered after its lease ran out.\<close>

definition sample_job :: job where
  "sample_job = \<lparr> jb_id = 1, jb_kind = ''k'', jb_scope = ''s'', jb_key = ''key'', jb_payload = [], jb_status = Pending,
     jb_attempts = 0, jb_max = 3, jb_available = 100, jb_owner = [], jb_token = [], jb_expires = None, jb_created = 100,
     jb_updated = 100, jb_started = None, jb_finished = None, jb_result = [], jb_error = [] \<rparr>"

definition queued :: db where
  "queued = perform (Enqueue ''k'' ''s'' ''key'' [] 3 None False) (empty_db 100)"

definition running_job :: job where
  "running_job = claimed ''w1'' ''t1'' 130 100 sample_job"

definition running_db :: db where
  "running_db = perform (Claim ''w1'' 30 [] ''t1'') queued"

lemma queued_jobs: "db_jobs queued = [sample_job]" "db_clock queued = 100"
  by code_simp+

lemma running_jobs: "db_jobs running_db = [running_job]" "db_clock running_db = 100"
  by code_simp+

lemma sample_reachable: "reachable queued" "reachable running_db"
  unfolding queued_def running_db_def by (intro reachable.intros)+

theorem store_invariant_witness:
  "db_jobs running_db = [running_job] \<and> jb_status running_job = Running
   \<and> 1 \<le> jb_attempts running_job \<and> jb_attempts running_job \<le> jb_max running_job \<and> jb_expires running_job \<noteq> None"
  using store_invariant [OF sample_reachable(2)] running_jobs
  by (simp add: running_job_def sample_job_def claimed_def)

definition done_db :: db where
  "done_db = perform (Complete 1 ''w1'' ''t1'' []) running_db"

lemma done_jobs: "db_jobs done_db = [completed [] 100 running_job]"
  by code_simp

theorem settled_jobs_final_witness:
  "jb_status (completed [] 100 running_job) = Succeeded
   \<and> hd (db_jobs (performs [SetClock 500 0, Recover, Claim ''w2'' 30 [] ''t2''] done_db)) = completed [] 100 running_job"
proof -
  let ?jobs = "db_jobs (performs [SetClock 500 0, Recover, Claim ''w2'' 30 [] ''t2''] done_db)"
  have "reachable done_db" unfolding done_db_def by (intro reachable.stepped sample_reachable)
  moreover have j: "jb_id (completed [] 100 running_job) = 1" "jb_status (completed [] 100 running_job) = Succeeded"
    by (simp_all add: completed_def no_lease_def running_job_def sample_job_def claimed_def)
  moreover have "map jb_id ?jobs = [1]" by code_simp
  then have "hd ?jobs \<in> set ?jobs" "jb_id (hd ?jobs) = 1" by auto
  ultimately show ?thesis
    using settled_jobs_final [of done_db "completed [] 100 running_job" "hd ?jobs"] done_jobs by (simp del: performs_simps)
qed

definition expired_db :: db where
  "expired_db = performs [SetClock 131 0, Recover] running_db"

lemma expired_jobs: "db_jobs expired_db = [recover_job 131 running_job]"
  by code_simp

theorem lost_lease_stays_lost_witness:
  "list_ex (leased 1 ''w2'' ''t2'') (db_jobs (performs [Claim ''w2'' 30 [] ''t2''] expired_db))
   \<and> complete_background_job 1 ''w1'' ''t1'' [] (performs [Claim ''w2'' 30 [] ''t2''] expired_db)
     = (Inl lost_lease, performs [Claim ''w2'' 30 [] ''t2''] expired_db)"
proof -
  have "reachable expired_db" unfolding expired_db_def by (intro reachable_performs sample_reachable)
  moreover have "jb_id (recover_job 131 running_job) = 1" "jb_status (recover_job 131 running_job) = Pending" by code_simp+
  moreover have "list_ex (leased 1 ''w2'' ''t2'') (db_jobs (performs [Claim ''w2'' 30 [] ''t2''] expired_db))" by code_simp
  ultimately show ?thesis
    using lost_lease_stays_lost [of expired_db "recover_job 131 running_job" "''w1''" "''t1''" "[Claim ''w2'' 30 [] ''t2'']"] expired_jobs
    by simp
qed

definition locked_db :: db where
  "locked_db = perform (Acquire ''s'' ''w1'' ''t1'' 30) (empty_db 100)"

theorem scope_lock_exclusive_witness:
  "holds_lock ''s'' ''w1'' ''t1'' 130 locked_db
   \<and> fst (acquire_background_scope_lock ''s'' ''w2'' ''t2'' 30 (performs [SetClock 129 0, Recover] locked_db)) = Inr False"
proof -
  have "acquire_background_scope_lock ''s'' ''w1'' ''t1'' 30 (empty_db 100) = (Inr True, locked_db)"
    "lock_names ''s'' ''w1'' ''t1'' = (''s'', ''w1'', ''t1'')" by code_simp+
  from scope_lock_exclusive [OF reachable.created this]
  obtain e where e: "holds_lock ''s'' ''w1'' ''t1'' e locked_db"
    "\<And>ops scope' owner' token' w' t' lease'. Release ''s'' ''w1'' ''t1'' \<notin> set ops \<and> (\<forall>s u. SetClock s u \<in> set ops \<longrightarrow> s < e)
      \<and> lock_names scope' owner' token' = (''s'', w', t') \<and> (w', t') \<noteq> (''w1'', ''t1'')
      \<Longrightarrow> fst (acquire_background_scope_lock scope' owner' token' lease' (performs ops locked_db)) = Inr False"
    by blast
  have locks: "map sl_expires (db_locks locked_db) = [130]" by code_simp
  have "e = 130" using e(1) arg_cong [OF locks, of set] by (auto simp: holds_lock_def)
  moreover have "lock_names ''s'' ''w2'' ''t2'' = (''s'', ''w2'', ''t2'')" by code_simp
  ultimately show ?thesis using e(1) e(2) [of "[SetClock 129 0, Recover]"] by fastforce
qed

definition written_db :: db where
  "written_db = perform (Configure ''ann'' ''r'' ''s'' (Some 0) True) (empty_db 100)"


theorem claim_takes_oldest_witness:
  "fst (claim_background_job ''w1'' 30 [] ''t1'' queued) = Inr (Some running_job)
   \<and> jb_attempts running_job = jb_attempts sample_job + 1 \<and> set (db_jobs running_db) = insert running_job (set (db_jobs queued) - {sample_job})"
proof -
  have "claim_background_job ''w1'' 30 [] ''t1'' queued = (Inr (Some running_job), running_db)" by code_simp
  then show ?thesis
    using claim_takes_oldest [OF sample_reachable(1), of "''w1''" 30 "[]" "''t1''" "Some running_job" running_db] queued_jobs by auto
qed

end
