(* ===== verification/Reconciler.thy ===== *)
theory Reconciler
  imports RouterTemp JobQueue
begin

text \<open>
  Reconciliation (\<open>src/app/reconciler.py\<close>, \<open>src/app/parallel_observation.py\<close> and the plan loader of
  \<open>src/app/main.py\<close>): one device is brought to its effective policy and verified; the worker observes
  the plans of all devices, gates enforcement on its mode, the cooldown hold and the security
  posture, and counts failed cycles; durable requests are consumed one at a time. What the worker
  calls is a record of ports on the world behind it; the policy store it writes is the database of
  \<open>JobQueue\<close>, each of whose transactions may fail as the fault list of the state says. Events that
  only wake the worker thread, and durations, are left out.
\<close>

section \<open>The live plan of a device\<close>

definition MASTER_RULE_COMMENT :: string where "MASTER_RULE_COMMENT = ''MASTER - Block Restricted Internet''"
definition SLOW_QUEUE_NAME :: string where "SLOW_QUEUE_NAME = ''Restricted Slow Internet''"

definition get_status :: "'s adapter \<Rightarrow> ('s, string) act" where
  "get_status ad =
     rbind (r_connect (ad_api ad)) (\<lambda>_.
     rwrap ''Unable to determine router state''
       (rbind (r_rules_by_comment (ad_api ad) MASTER_RULE_COMMENT) (\<lambda>rules.
        rbind (r_q_get (ad_api ad) SLOW_QUEUE_NAME) (\<lambda>queues.
          case rules of
            [rule] \<Rightarrow> (case queues of
                [queue] \<Rightarrow>
                  let master_enabled = (\<not> fr_disabled rule); slow_enabled = (\<not> sq_disabled queue)
                  in rret (if master_enabled \<and> slow_enabled then ''invalid'' else if master_enabled then ''blocked''
                           else if slow_enabled then ''slow'' else ''normal'')
              | _ \<Rightarrow> rraise (RouterError (''Expected exactly one slow queue, found '' @ show_nat (length queues))))
          | _ \<Rightarrow> rraise (RouterError (''Expected exactly one master rule, found '' @ show_nat (length rules)))))))"

text \<open>\<open>get_live_policy_plan(address)\<close>: the policy loader and the runtime catalogue read the policy store
  and the telemetry, which are behind the same world.\<close>

definition get_live_policy_plan ::
  "'s adapter \<Rightarrow> (string \<Rightarrow> ('s, effective_policy) act) \<Rightarrow> ('s, catalog) act \<Rightarrow> string \<Rightarrow> ('s, device_plan) act" where
  "get_live_policy_plan ad get_effective_policy runtime_service_catalog address =
     rbind (get_effective_policy address) (\<lambda>desired_policy.
     rbind (get_device_enforcement ad address) (\<lambda>live_enforcement.
     rbind (get_device_temporary_access ad address) (\<lambda>temporary_access.
     rbind runtime_service_catalog (\<lambda>service_catalog.
     rbind (get_device_service_enforcement ad address (plan_catalog service_catalog)) (\<lambda>live_services.
     rbind (get_device_bandwidth ad address) (\<lambda>live_bandwidth.
     rbind (get_status ad) (\<lambda>global_mode.
       rlift (build_device_policy_plan address desired_policy live_enforcement
         (Some (temporary_access.truncate temporary_access)) (Some live_services) (Some live_bandwidth) global_mode
         service_catalog))))))))"

section \<open>One device\<close>

record posture_check =
  pk_name :: string
  pk_severity :: string
  pk_status :: string

record posture =
  po_ready :: bool
  po_checks :: "posture_check list"

record managed_device =
  md_ip :: string
  md_address :: string
  md_name :: string
  md_comment :: string
  md_dynamic :: bool

text \<open>What the worker calls. \<open>rp_order n\<close> is the order in which the thread pool of the observer
  completes \<open>n\<close> readings; \<open>rp_render\<close> is the JSON text of a published view; the clocks are in
  microseconds and move with the world; \<open>rp_others\<close> is what the other threads of the program have
  done to the store by the time a call returns.\<close>

datatype published =
    PublishedPosture posture
  | PublishedObservation int "(string \<times> string \<times> bool) list" "(string \<times> device_plan) list" "(string \<times> string) list" nat nat
  | PublishedHealth "(string \<times> string \<times> bool \<times> string) list"
  | PublishedInventory string

record 'e ports =
  rp_plan :: "string \<Rightarrow> ('e, device_plan) act"
  rp_set_mode :: "string \<Rightarrow> string \<Rightarrow> string \<Rightarrow> ('e, live_enforcement) act"
  rp_set_bandwidth :: "string \<Rightarrow> string \<Rightarrow> string \<Rightarrow> string \<Rightarrow> string \<Rightarrow> ('e, live_bandwidth) act"
  rp_set_services :: "string \<Rightarrow> string list \<Rightarrow> string \<Rightarrow> ('e, live_services \<times> nat) act"
  rp_devices :: "('e, managed_device list) act"
  rp_posture :: "('e, posture) act"
  rp_inventory :: "('e, string) act"
  rp_lane_enter :: "string \<Rightarrow> ('e, unit) act"
  rp_lane_leave :: "'e \<Rightarrow> 'e"
  rp_settings :: "('e, (string \<times> string) list) act"
  rp_audit :: "string \<Rightarrow> string \<Rightarrow> string \<Rightarrow> ('e, unit) act"
  rp_workers :: nat
  rp_order :: "nat \<Rightarrow> nat list"
  rp_is_address :: "string \<Rightarrow> bool"
  rp_clock :: "'e \<Rightarrow> int"
  rp_monotonic :: "'e \<Rightarrow> int"
  rp_others :: "'e \<Rightarrow> db \<Rightarrow> db"
  rp_render :: "published \<Rightarrow> string"

record reconciliation =
  rn_status :: string
  rn_changes :: "string list"
  rn_plan :: device_plan
  rn_verified :: device_plan

definition reconciled :: "string \<Rightarrow> device_plan \<Rightarrow> reconciliation" where
  "reconciled status plan = \<lparr> rn_status = status, rn_changes = [], rn_plan = plan, rn_verified = plan \<rparr>"

definition plan_drifts :: "device_plan \<Rightarrow> bool" where
  "plan_drifts plan = (dp_mode_drift plan \<or> dp_service_drift plan \<or> dp_bandwidth_drift plan)"

definition apply_mode :: "'e ports \<Rightarrow> string \<Rightarrow> string \<Rightarrow> device_plan \<Rightarrow> ('e, string list) act" where
  "apply_mode P address description plan =
     (if dp_mode_drift plan then
        rbind (rp_set_mode P address (dp_desired_mode plan) description) (\<lambda>result.
          rret [''mode '' @ py_upper (dp_live_mode plan) @ ''->'' @ py_upper (le_mode result)])
      else rret [])"

definition apply_bandwidth :: "'e ports \<Rightarrow> string \<Rightarrow> string \<Rightarrow> device_plan \<Rightarrow> ('e, string list) act" where
  "apply_bandwidth P address description plan =
     (if dp_bandwidth_drift plan then
        let bw = dp_bandwidth plan;
            target_preset = (if wp_expected_active bw then wp_preset bw else ''normal'')
        in rbind (rp_set_bandwidth P address target_preset (wp_upload bw) (wp_download bw) description) (\<lambda>result.
             if lb_active result then
               (case lb_max_limit result of
                  Some l \<Rightarrow> rret [''bandwidth='' @ l]
                | None \<Rightarrow> rraise (ApiFault (''can only concatenate str (not '' @ [CHR 0x22] @ ''NoneType'' @ [CHR 0x22] @ '') to str'')))
             else rret [''bandwidth=unlimited''])
      else rret [])"

definition apply_services :: "'e ports \<Rightarrow> string \<Rightarrow> string \<Rightarrow> device_plan \<Rightarrow> ('e, string list) act" where
  "apply_services P address description plan =
     (if dp_service_drift plan then
        rbind (rp_set_services P address (dp_desired_supported plan) description) (\<lambda>(result, terminated).
          rret ([''services='' @ str_or (join_with '','' (ls_blocked_services result)) ''none'']
                @ (if terminated \<noteq> 0 then [''connections_reset='' @ show_nat terminated] else [])))
      else rret [])"

definition reconcile_device :: "'e ports \<Rightarrow> string \<Rightarrow> string \<Rightarrow> ('e, reconciliation) act" where
  "reconcile_device P address description =
     rbind (rp_plan P address) (\<lambda>plan.
     if dp_temporary_override plan then rret (reconciled ''temporary'' plan)
     else if \<not> dp_policy_actionable plan then
       rret (reconciled (if dp_status plan = ''partial'' then ''partial'' else ''synced'') plan)
     else if \<not> plan_drifts plan then rret (reconciled ''synced'' plan)
     else
       rbind (apply_mode P address description plan) (\<lambda>mode_changes.
       rbind (apply_bandwidth P address description plan) (\<lambda>bandwidth_changes.
       rbind (apply_services P address description plan) (\<lambda>service_changes.
       rbind (rp_plan P address) (\<lambda>verified.
         if plan_drifts verified then rraise (ReconciliationError (''Policy apply did not converge for '' @ address))
         else rret \<lparr> rn_status = ''applied'', rn_changes = mode_changes @ bandwidth_changes @ service_changes,
                     rn_plan = plan, rn_verified = verified \<rparr>)))))"

section \<open>The worker's state\<close>

record auto_settings =
  as_mode :: string
  as_interval :: int
  as_threshold :: int
  as_cooldown :: int

definition VALID_AUTO_MODES :: "string list" where
  "VALID_AUTO_MODES = [''off'', ''observe'', ''enforce'']"

text \<open>\<open>int(settings.get(key) or default)\<close>, with the default for any value outside the choices.\<close>

definition setting_choice :: "string \<Rightarrow> int \<Rightarrow> int list \<Rightarrow> (string \<times> string) list \<Rightarrow> int" where
  "setting_choice key fallback choices settings =
     (case map_of settings key of
        None \<Rightarrow> fallback
      | Some s \<Rightarrow> if s = [] then fallback
          else (case py_int s of None \<Rightarrow> fallback | Some n \<Rightarrow> if n \<in> set choices then n else fallback))"

definition validate_settings :: "(string \<times> string) list \<Rightarrow> auto_settings" where
  "validate_settings settings =
     (let mode = norm_key (opt_or (map_of settings ''auto_reconcile_mode'') ''off'') in
      \<lparr> as_mode = (if mode \<in> set VALID_AUTO_MODES then mode else ''off''),
        as_interval = setting_choice ''auto_reconcile_interval_seconds'' 30 [15, 30, 60, 120, 300] settings,
        as_threshold = setting_choice ''auto_reconcile_failure_threshold'' 3 [1, 2, 3, 5, 10] settings,
        as_cooldown = setting_choice ''auto_reconcile_cooldown_seconds'' 300 [60, 300, 600, 1800] settings \<rparr>)"

record counts =
  ct_devices :: nat
  ct_observed :: nat
  ct_plan_failed :: nat
  ct_drift :: nat
  ct_applied :: nat
  ct_synced :: nat
  ct_temporary :: nat
  ct_partial :: nat
  ct_failed :: nat

definition no_counts :: counts where
  "no_counts = \<lparr> ct_devices = 0, ct_observed = 0, ct_plan_failed = 0, ct_drift = 0, ct_applied = 0, ct_synced = 0,
     ct_temporary = 0, ct_partial = 0, ct_failed = 0 \<rparr>"

record observation =
  on_items :: nat
  on_workers :: nat
  on_failed :: nat

record report =
  cy_started :: int
  cy_finished :: int
  cy_trigger :: string
  cy_mode :: string
  cy_result :: string
  cy_summary :: string
  cy_counts :: counts
  cy_failures :: "string list"
  cy_observation :: observation

text \<open>\<open>w_faults\<close>: whether each coming transaction of the policy store fails. \<open>w_locked\<close> is the cycle lock,
  the next three fields are the worker's counters.\<close>

record 'e world =
  w_env :: 'e
  w_db :: db
  w_faults :: "bool list"
  w_locked :: bool
  w_failures :: int
  w_hold_until :: int
  w_inventory :: int
  w_last :: "report option"

definition on_env :: "'e ports \<Rightarrow> ('e, 'a) act \<Rightarrow> ('e world, 'a) act" where
  "on_env P m w = (case m (w_env w) of (r, e) \<Rightarrow>
     (r, w\<lparr> w_env := e, w_db := (rp_others P e (w_db w))
        \<lparr> db_clock := rp_clock P e div 1000000, db_micros := rp_clock P e mod 1000000 \<rparr> \<rparr>))"

definition store_call :: "(db, 'a) act \<Rightarrow> ('e world, 'a) act" where
  "store_call m w = (case w_faults w of
       True # fs \<Rightarrow> (Inl (ApiFault ''database is locked''), w\<lparr> w_faults := fs \<rparr>)
     | _ \<Rightarrow> (case m (w_db w) of (r, d) \<Rightarrow> (r, w\<lparr> w_db := d, w_faults := tl (w_faults w) \<rparr>)))"

definition current_config_revision :: "(db, int) act" where
  "current_config_revision d = (Inr (cr_revision (db_revision d)), d)"

definition iso_now :: "('e world, int) act" where
  "iso_now w = (Inr (db_clock (w_db w)), w)"

definition rfinally :: "('s, 'a) act \<Rightarrow> ('s \<Rightarrow> 's) \<Rightarrow> ('s, 'a) act" where
  "rfinally m f s = (case m s of (r, s') \<Rightarrow> (r, f s'))"

definition audit :: "'e ports \<Rightarrow> string \<Rightarrow> string \<Rightarrow> string \<Rightarrow> ('e world, unit) act" where
  "audit P event actor detail = on_env P (rp_audit P event actor detail)"

definition in_lane :: "'e ports \<Rightarrow> string \<Rightarrow> ('e world, 'a) act \<Rightarrow> ('e world, 'a) act" where
  "in_lane P owner m =
     rbind (on_env P (rp_lane_enter P owner)) (\<lambda>_. rfinally m (\<lambda>w. w\<lparr> w_env := rp_lane_leave P (w_env w) \<rparr>))"

definition settings :: "'e ports \<Rightarrow> ('e world, auto_settings) act" where
  "settings P = rbind (on_env P (rp_settings P)) (\<lambda>s. rret (validate_settings s))"

definition clear_hold :: "('e world, unit) act" where
  "clear_hold w = (Inr (), w\<lparr> w_failures := 0, w_hold_until := 0 \<rparr>)"

definition time_now :: "'e world \<Rightarrow> int" where
  "time_now w = db_clock (w_db w) * 1000000 + db_micros (w_db w)"

section \<open>Posture and publication\<close>

definition failed_security_names :: "posture \<Rightarrow> string list" where
  "failed_security_names p =
     (if po_ready p then [] else map pk_name (filter (\<lambda>c. pk_severity c = ''critical'' \<and> pk_status c = ''fail'') (po_checks p)))"

definition security_posture :: "'e ports \<Rightarrow> ('e world, posture \<times> string list) act" where
  "security_posture P = rbind (on_env P (rp_posture P)) (\<lambda>p. rret (p, failed_security_names p))"

definition publish :: "'e ports \<Rightarrow> string \<Rightarrow> string \<Rightarrow> int \<Rightarrow> int \<Rightarrow> published \<Rightarrow> ('e world, unit) act" where
  "publish P key scope ttl revision v =
     swallow (store_call (save_prepared_view key ''router.observation'' scope (rp_render P v) (Some revision) ttl ''ready'' []))"

definition publish_security_posture :: "'e ports \<Rightarrow> posture \<Rightarrow> ('e world, unit) act" where
  "publish_security_posture P p =
     swallow (rbind (store_call current_config_revision) (\<lambda>revision.
       publish P ''router:security-posture'' ''router:security'' 180 revision (PublishedPosture p)))"

record batch =
  ob_items :: nat
  ob_workers :: nat
  ob_results :: "(string \<times> device_plan) list"
  ob_errors :: "(string \<times> string) list"
  ob_order :: "string list"

definition device_key :: "managed_device \<Rightarrow> string" where
  "device_key d = str_or (md_ip d) (md_address d)"

definition normalized_devices :: "managed_device list \<Rightarrow> (string \<times> string \<times> bool) list" where
  "normalized_devices devices =
     map (\<lambda>d. let address = py_strip (device_key d)
              in (str_or (md_name d) (str_or (md_comment d) address), address, md_dynamic d))
       (filter (\<lambda>d. py_strip (device_key d) \<noteq> []) devices)"

text \<open>One row per service: its name, whether every plan found it available, and the first error.\<close>

definition health_row :: "(string \<times> string \<times> bool \<times> string) list \<Rightarrow> service_plan \<Rightarrow> (string \<times> string \<times> bool \<times> string) list" where
  "health_row rows state =
     (let key = py_strip (vp_key state) in
      if key = [] then rows
      else
        let (name, healthy, error) = dict_get rows key (str_or (vp_name state) key, True, []);
            row = (if vp_available state then (name, healthy, error)
                   else (name, False, str_or error (opt_or (vp_error state) ''Service contract unavailable'')))
        in AList.update key row rows)"

definition health_rows :: "device_plan list \<Rightarrow> (string \<times> string \<times> bool \<times> string) list" where
  "health_rows plans = sort_key fst (foldl health_row [] (concat (map dp_service_states plans)))"

definition publish_managed_observation :: "'e ports \<Rightarrow> managed_device list \<Rightarrow> batch \<Rightarrow> ('e world, unit) act" where
  "publish_managed_observation P devices batch =
     rcatch (rbind (store_call current_config_revision) (\<lambda>revision.
        rbind iso_now (\<lambda>observed_at.
        rbind (publish P ''router:managed-device-observation'' ''router:managed-devices'' 180 revision
                 (PublishedObservation observed_at (normalized_devices devices) (ob_results batch) (ob_errors batch)
                    (ob_items batch) (ob_workers batch))) (\<lambda>_.
        let rows = health_rows (map snd (ob_results batch)) in
        if rows = [] then rret ()
        else publish P ''router:service-contract-health'' ''router:service-contracts'' 180 revision (PublishedHealth rows)))))
       (\<lambda>_. rret ())"

definition publish_managed_inventory_observation :: "'e ports \<Rightarrow> ('e world, unit) act" where
  "publish_managed_inventory_observation P w =
     (let now = rp_monotonic P (w_env w) in
      if w_inventory w \<noteq> 0 \<and> now - w_inventory w < 120 * 1000000 then rret () w
      else swallow (rbind (on_env P (rp_inventory P)) (\<lambda>inventory.
             rbind (store_call current_config_revision) (\<lambda>revision.
               publish P ''router:managed-state-inventory'' ''router:managed-state'' 300 revision (PublishedInventory inventory))))
           (w\<lparr> w_inventory := now \<rparr>))"

section \<open>Parallel observation\<close>

fun stable_keys :: "string list \<Rightarrow> string list \<Rightarrow> string list res" where
  "stable_keys seen [] = Inr []"
| "stable_keys seen (k # ks) =
     (let key = py_strip k in
      if key = [] then Inl (ParallelObservationError ''Parallel observation item has no stable key'')
      else if key \<in> set seen then
        Inl (ParallelObservationError (''Parallel observation key '' @ py_repr key @ '' is duplicated''))
      else ebind (stable_keys (key # seen) ks) (\<lambda>rest. Inr (key # rest)))"

text \<open>The readings in the order in which they complete, each with its index.\<close>

fun readings :: "('i \<Rightarrow> ('s, 'p) act) \<Rightarrow> 'i list \<Rightarrow> nat list \<Rightarrow> ('s, (nat \<times> (string + 'p)) list) act" where
  "readings reader rows [] = rret []"
| "readings reader rows (i # is) =
     rbind (rcatch (rbind (reader (rows ! i)) (\<lambda>p. rret (Inr p))) (\<lambda>e. rret (Inl (take 300 (exc_text e))))) (\<lambda>r.
     rbind (readings reader rows is) (\<lambda>rest. rret ((i, r) # rest)))"

definition in_input_order :: "string list \<Rightarrow> (nat \<times> (string + 'p)) list \<Rightarrow> (string \<times> 'p) list \<times> (string \<times> string) list" where
  "in_input_order keys completed_readings =
     (let slots = map (\<lambda>i. (keys ! i, map_of completed_readings i)) [0..<length keys]
      in (concat (map (\<lambda>(k, r). case r of Some (Inr p) \<Rightarrow> [(k, p)] | _ \<Rightarrow> []) slots),
          concat (map (\<lambda>(k, r). case r of Some (Inl e) \<Rightarrow> [(k, e)] | _ \<Rightarrow> []) slots)))"

definition observe :: "nat \<Rightarrow> (nat \<Rightarrow> nat list) \<Rightarrow> ('i \<Rightarrow> string) \<Rightarrow> ('i \<Rightarrow> ('s, device_plan) act) \<Rightarrow> 'i list \<Rightarrow> ('s, batch) act" where
  "observe max_workers order key reader rows =
     (if rows = [] then rret \<lparr> ob_items = 0, ob_workers = 0, ob_results = [], ob_errors = [], ob_order = [] \<rparr>
      else
        rbind (rlift (stable_keys [] (map key rows))) (\<lambda>keys.
        let workers = min max_workers (length rows) in
        rbind (readings reader rows (if workers = 1 then [0..<length rows] else order (length rows))) (\<lambda>completed_readings.
          let (results, errors) = in_input_order keys completed_readings in
          rret \<lparr> ob_items = length rows, ob_workers = workers, ob_results = results, ob_errors = errors, ob_order = keys \<rparr>)))"

definition observe_plans :: "'e ports \<Rightarrow> managed_device list \<Rightarrow> ('e world, batch) act" where
  "observe_plans P devices =
     observe (rp_workers P) (rp_order P) device_key (\<lambda>d. on_env P (rp_plan P (device_key d)))
       (filter (\<lambda>d. py_strip (device_key d) \<noteq> []) devices)"

end
