(* ===== verification/ReconcilerCycle.thy ===== *)
theory ReconcilerCycle
  imports Reconciler
begin

text \<open>
  The operations of the reconciliation worker (\<open>src/app/reconciler.py\<close>, \<open>AutoReconciler\<close>): a cycle over
  all devices with its gates and its circuit breaker, the consumption of one durable request, the
  authority transfer guard, and one turn of the worker's loop.
\<close>

section \<open>Bookkeeping of a cycle\<close>

definition finish_cycle ::
  "int \<Rightarrow> string \<Rightarrow> string \<Rightarrow> string \<Rightarrow> string \<Rightarrow> counts \<Rightarrow> string list \<Rightarrow> observation \<Rightarrow> ('e world, report) act" where
  "finish_cycle started trigger mode result summary c failures obs w =
     (let r = \<lparr> cy_started = started, cy_finished = db_clock (w_db w), cy_trigger = trigger, cy_mode = mode, cy_result = result,
                cy_summary = summary, cy_counts = c, cy_failures = take 12 failures, cy_observation = obs \<rparr>
      in (Inr r, w\<lparr> w_last := Some r \<rparr>))"

definition record_successful_cycle :: "('e world, unit) act" where
  "record_successful_cycle w = (Inr (), w\<lparr> w_failures := 0, w_hold_until := 0 \<rparr>)"

definition record_failed_cycle :: "'e ports \<Rightarrow> auto_settings \<Rightarrow> string \<Rightarrow> string list \<Rightarrow> ('e world, unit) act" where
  "record_failed_cycle P st actor failures w =
     (let n = w_failures w + 1; opened = (as_threshold st \<le> n);
          w' = w\<lparr> w_failures := n, w_hold_until := (if opened then time_now w + as_cooldown st * 1000000 else w_hold_until w) \<rparr>
      in rbind (audit P ''AUTO_RECONCILE_FAILED'' actor (join_with ''; '' (take 6 failures))) (\<lambda>_.
           if opened then audit P ''AUTO_RECONCILE_HOLD'' actor
             (''threshold='' @ show_int (as_threshold st) @ '' cooldown='' @ show_int (as_cooldown st) @ ''s'')
           else rret ()) w')"

text \<open>The devices that drift, in the order of the observation.\<close>

fun classify :: "(string \<times> device_plan) list \<Rightarrow> string list \<Rightarrow> counts \<Rightarrow> counts \<times> string list" where
  "classify results [] c = (c, [])"
| "classify results (address # order) c =
     (case map_of results address of
        None \<Rightarrow> classify results order c
      | Some plan \<Rightarrow>
          if dp_temporary_override plan then classify results order (c\<lparr> ct_temporary := ct_temporary c + 1 \<rparr>)
          else if \<not> dp_policy_actionable plan then
            classify results order (c\<lparr> ct_synced := ct_synced c + 1,
              ct_partial := ct_partial c + (if dp_status plan = ''partial'' then 1 else 0) \<rparr>)
          else
            let (c', rest) = classify results order (c\<lparr> ct_drift := ct_drift c + 1 \<rparr>) in (c', address # rest))"

definition outcome_counts :: "string \<Rightarrow> counts \<Rightarrow> counts" where
  "outcome_counts status c =
     (if status = ''applied'' then c\<lparr> ct_applied := ct_applied c + 1 \<rparr>
      else if status = ''temporary'' then c\<lparr> ct_temporary := ct_temporary c + 1 \<rparr>
      else if status = ''partial'' then c\<lparr> ct_partial := ct_partial c + 1, ct_synced := ct_synced c + 1 \<rparr>
      else c\<lparr> ct_synced := ct_synced c + 1 \<rparr>)"

text \<open>One candidate: whatever fails is recorded and the loop goes on.\<close>

definition enforce_device :: "'e ports \<Rightarrow> string \<Rightarrow> string \<Rightarrow> counts \<times> string list \<Rightarrow> ('e world, counts \<times> string list) act" where
  "enforce_device P actor address = (\<lambda>(c, failures).
     rcatch (rbind (on_env P (reconcile_device P address ''auto:effective-policy'')) (\<lambda>r.
         rcatch
           (rbind (if rn_status r = ''applied''
                   then audit P ''AUTO_POLICY_APPLIED'' actor
                          (address @ '': '' @ str_or (join_with ''; '' (rn_changes r)) ''converged'')
                   else rret ())
              (\<lambda>_. rret (outcome_counts (rn_status r) c, failures)))
           (\<lambda>e. rret ((outcome_counts (rn_status r) c)\<lparr> ct_failed := ct_failed c + 1 \<rparr>, failures @ [address @ '': '' @ exc_text e]))))
       (\<lambda>e. rret (c\<lparr> ct_failed := ct_failed c + 1 \<rparr>, failures @ [address @ '': '' @ exc_text e])))"

fun enforce_devices :: "'e ports \<Rightarrow> string \<Rightarrow> string list \<Rightarrow> counts \<times> string list \<Rightarrow> ('e world, counts \<times> string list) act" where
  "enforce_devices P actor [] acc = rret acc"
| "enforce_devices P actor (a # rest) acc = rbind (enforce_device P actor a acc) (\<lambda>acc'. enforce_devices P actor rest acc')"

definition degraded :: "string \<Rightarrow> string list \<Rightarrow> string" where
  "degraded msg names = msg @ str_or (join_with '', '' (take 6 names)) ''critical hardening check failed''"

definition security_failures :: "string list \<Rightarrow> string list" where
  "security_failures names = [''security: '' @ join_with '', '' (take 8 names)]"

definition conclude_cycle ::
  "'e ports \<Rightarrow> int \<Rightarrow> string \<Rightarrow> string \<Rightarrow> string \<Rightarrow> auto_settings \<Rightarrow> observation \<Rightarrow> counts \<times> string list \<Rightarrow> ('e world, report) act" where
  "conclude_cycle P started trigger actor mode st obs = (\<lambda>(c, failures).
     let n = show_nat in
     if failures \<noteq> [] then
       rbind (if mode = ''enforce'' then record_failed_cycle P st actor failures
              else audit P ''AUTO_POLICY_OBSERVE_FAILED'' actor (join_with ''; '' (take 6 failures))) (\<lambda>_.
         finish_cycle started trigger mode ''failed''
           (n (ct_failed c) @ '' device(s) failed; '' @ n (ct_applied c) @ '' applied, '' @ n (ct_drift c) @ '' drifted.'') c failures obs)
     else
       rbind (if mode = ''enforce'' then record_successful_cycle else rret ()) (\<lambda>_.
         if mode = ''observe'' then
           rbind (if ct_drift c \<noteq> 0
                  then audit P ''AUTO_POLICY_OBSERVED_DRIFT'' actor (''drift='' @ n (ct_drift c) @ '' devices='' @ n (ct_devices c))
                  else rret ()) (\<lambda>_.
             finish_cycle started trigger mode (if ct_drift c \<noteq> 0 then ''drift'' else ''ok'')
               (''Observe-only: '' @ n (ct_drift c) @ '' drifted, '' @ n (ct_synced c) @ '' synced, '' @ n (ct_temporary c)
                @ '' temporary; planned with '' @ n (on_workers obs) @ '' worker(s).'') c failures obs)
         else
           rbind (if ct_applied c \<noteq> 0
                  then audit P ''AUTO_RECONCILE_CYCLE'' actor
                         (''applied='' @ n (ct_applied c) @ '' synced='' @ n (ct_synced c) @ '' temporary='' @ n (ct_temporary c)
                          @ '' partial='' @ n (ct_partial c))
                  else rret ()) (\<lambda>_.
             finish_cycle started trigger mode (if ct_applied c \<noteq> 0 then ''applied'' else ''ok'')
               (''Enforce: '' @ n (ct_applied c) @ '' applied, '' @ n (ct_synced c) @ '' synced, '' @ n (ct_temporary c)
                @ '' temporary, '' @ n (ct_partial c) @ '' partial; observation workers='' @ n (on_workers obs) @ ''.'') c failures obs)))"

section \<open>The cycle\<close>

definition no_observation :: observation where
  "no_observation = \<lparr> on_items = 0, on_workers = 0, on_failed = 0 \<rparr>"

text \<open>The serialized mutation phase. \<open>Inl\<close> is the report of a cycle that is held because the posture
  changed after the observation.\<close>

definition enforce_phase ::
  "'e ports \<Rightarrow> int \<Rightarrow> string \<Rightarrow> string \<Rightarrow> string \<Rightarrow> observation \<Rightarrow> string list \<Rightarrow> counts \<times> string list
   \<Rightarrow> ('e world, report + counts \<times> string list) act" where
  "enforce_phase P started trigger actor mode obs candidates acc =
     in_lane P (''reconciler:'' @ trigger)
       (rbind (security_posture P) (\<lambda>(_, failed_names).
        if failed_names \<noteq> [] then
          rbind (audit P ''AUTO_RECONCILE_SECURITY_HOLD'' actor (hd (security_failures failed_names))) (\<lambda>_.
          rbind (finish_cycle started trigger mode ''security_hold''
                   (degraded ''Automatic enforcement is SECURITY HELD because authority changed after parallel observation: '' failed_names)
                   (fst acc) (security_failures failed_names) obs) (\<lambda>r. rret (Inl r)))
        else rbind (enforce_devices P actor candidates acc) (\<lambda>acc'. rret (Inr acc'))))"

definition observe_phase ::
  "'e ports \<Rightarrow> int \<Rightarrow> string \<Rightarrow> string \<Rightarrow> string \<Rightarrow> auto_settings \<Rightarrow> ('e world, report) act" where
  "observe_phase P started trigger actor mode st =
     rbind (on_env P (rp_devices P)) (\<lambda>devices.
     rbind (observe_plans P devices) (\<lambda>batch.
     let obs = \<lparr> on_items = ob_items batch, on_workers = ob_workers batch, on_failed = length (ob_errors batch) \<rparr>;
         c0 = no_counts\<lparr> ct_devices := length devices, ct_observed := length (ob_results batch),
                ct_plan_failed := length (ob_errors batch), ct_failed := length (ob_errors batch) \<rparr>;
         failures = map (\<lambda>(a, e). a @ '': observation failed: '' @ e) (ob_errors batch);
         (c1, candidates) = classify (ob_results batch) (ob_order batch) c0
     in rbind (publish_managed_observation P devices batch) (\<lambda>_.
        rbind (publish_managed_inventory_observation P) (\<lambda>_.
        if mode = ''enforce'' \<and> candidates \<noteq> [] then
          rbind (enforce_phase P started trigger actor mode obs candidates (c1, failures)) (\<lambda>outcome. case outcome of
              Inl held \<Rightarrow> rret held
            | Inr acc \<Rightarrow> conclude_cycle P started trigger actor mode st obs acc)
        else conclude_cycle P started trigger actor mode st obs (c1, failures)))))"

definition cycle_body ::
  "'e ports \<Rightarrow> int \<Rightarrow> string \<Rightarrow> string \<Rightarrow> string \<Rightarrow> auto_settings \<Rightarrow> bool \<Rightarrow> ('e world, report) act" where
  "cycle_body P started trigger actor mode st ignore_hold w =
     (let hold_active = (w_hold_until w > time_now w) in
      if mode = ''off'' then
        finish_cycle started trigger mode ''disabled''
          ''Automatic reconciliation is OFF. No RouterOS reads or writes were performed.'' no_counts [] no_observation w
      else if mode = ''enforce'' \<and> hold_active \<and> \<not> ignore_hold then
        finish_cycle started trigger mode ''hold''
          ''Automatic enforcement is in cooldown hold after repeated failed cycles. Observe-only checks remain available.''
          no_counts [] no_observation w
      else if mode = ''enforce'' then
        rbind (security_posture P) (\<lambda>(p, failed_names).
        rbind (publish_security_posture P p) (\<lambda>_.
        if failed_names \<noteq> [] then
          rbind (audit P ''AUTO_RECONCILE_SECURITY_HOLD'' actor (hd (security_failures failed_names))) (\<lambda>_.
            finish_cycle started trigger mode ''security_hold''
              (degraded ''Automatic enforcement is SECURITY HELD because the RouterOS enforcement contract is degraded: '' failed_names)
              no_counts (security_failures failed_names) no_observation)
        else observe_phase P started trigger actor mode st)) w
      else observe_phase P started trigger actor mode st w)"

definition unlock :: "'e world \<Rightarrow> 'e world" where
  "unlock w = w\<lparr> w_locked := False \<rparr>"

text \<open>\<open>settings()\<close> runs after the lock is taken and before the \<open>try\<close> that releases it.\<close>

definition run_cycle :: "'e ports \<Rightarrow> string \<Rightarrow> string \<Rightarrow> string option \<Rightarrow> bool \<Rightarrow> ('e world, report) act" where
  "run_cycle P trigger actor mode_override ignore_hold w =
     (if w_locked w then (Inl (ReconciliationError ''A reconciliation cycle is already running''), w)
      else
        rbind iso_now (\<lambda>started.
        rbind (settings P) (\<lambda>st.
        let mode = norm_key (opt_or mode_override (as_mode st)) in
        if mode \<notin> set VALID_AUTO_MODES then
          rfinally (rraise (ReconciliationError (''Invalid reconciliation mode '' @ sq mode))) unlock
        else
          rfinally
            (rcatch (cycle_body P started trigger actor mode st ignore_hold) (\<lambda>e.
               rbind (if mode = ''enforce'' then record_failed_cycle P st actor [''cycle-level: '' @ exc_text e]
                      else audit P ''AUTO_POLICY_OBSERVE_FAILED'' actor (''cycle-level: '' @ exc_text e)) (\<lambda>_. rraise e)))
            unlock)) (w\<lparr> w_locked := True \<rparr>))"

section \<open>Durable requests\<close>

definition request_reconciliation :: "'e ports \<Rightarrow> string \<Rightarrow> string \<Rightarrow> string \<Rightarrow> ('e world, request) act" where
  "request_reconciliation P target actor reason =
     rbind (store_call current_config_revision) (\<lambda>revision.
       store_call (enqueue_reconciliation_request (rp_is_address P) target actor reason (Some revision)))"

fun reconcile_addresses ::
  "'e ports \<Rightarrow> string list \<Rightarrow> (string \<times> string \<times> string list) list \<times> string list
   \<Rightarrow> ('e world, (string \<times> string \<times> string list) list \<times> string list) act" where
  "reconcile_addresses P [] acc = rret acc"
| "reconcile_addresses P (address # rest) (outcomes, failures) =
     rbind (rcatch (rbind (on_env P (reconcile_device P address ''requested:effective-policy'')) (\<lambda>r.
                      rret (outcomes @ [(address, rn_status r, rn_changes r)], failures)))
              (\<lambda>e. rret (outcomes, failures @ [address @ '': '' @ exc_text e])))
       (\<lambda>acc. reconcile_addresses P rest acc)"

definition requested_addresses :: "'e ports \<Rightarrow> string \<Rightarrow> ('e world, string list) act" where
  "requested_addresses P target =
     (if target = ''*'' then
        rbind (on_env P (rp_devices P)) (\<lambda>devices. rret (filter (\<lambda>a. a \<noteq> []) (map (\<lambda>d. py_strip (device_key d)) devices)))
      else rret [target])"

definition requested_status :: "(string \<times> string \<times> string list) list \<Rightarrow> string list \<Rightarrow> bool \<Rightarrow> string \<times> string" where
  "requested_status outcomes failures changed =
     (if failures \<noteq> [] then (''failed'', join_with ''; '' (take 6 failures))
      else if changed then (''superseded'', ''Desired state changed during reconciliation; latest revision re-queued'')
      else if list_ex (\<lambda>(_, s, _). s = ''temporary'') outcomes then (''temporary'', [])
      else if list_ex (\<lambda>(_, s, _). s = ''partial'') outcomes then (''partial'', [])
      else (''succeeded'', []))"

definition process_request :: "'e ports \<Rightarrow> string \<Rightarrow> request \<Rightarrow> ('e world, request option) act" where
  "process_request P actor q =
     (let target = str_or (rq_target q) ''*''; request_actor = str_or (rq_actor q) actor in
      rbind (store_call current_config_revision) (\<lambda>started.
      rbind (in_lane P (''requested-reconcile:'' @ show_nat (rq_id q))
               (rbind (security_posture P) (\<lambda>(_, failed_names).
                if failed_names \<noteq> [] then
                  rraise (ReconciliationError (degraded ''RouterOS enforcement contract is degraded: '' failed_names))
                else rbind (requested_addresses P target) (\<lambda>addresses. reconcile_addresses P addresses ([], []))))) (\<lambda>(outcomes, failures).
      rbind (store_call current_config_revision) (\<lambda>finished.
      let (status, error) = requested_status outcomes failures (finished \<noteq> started);
          result = RunResult \<lparr> rr_target = target, rr_requested = rq_requested q, rr_started = started, rr_finished = finished,
                     rr_outcomes = outcomes, rr_failures = failures \<rparr>
      in rbind (store_call (finish_reconciliation_request (rq_id q) status finished result error)) (\<lambda>row.
         rbind (if status = ''superseded''
                then rbind (request_reconciliation P target request_actor
                       (''Superseding request '' @ show_nat (rq_id q) @ '' at revision '' @ show_int finished)) (\<lambda>_. rret ())
                else rret ()) (\<lambda>_.
         rbind (audit P (if status = ''failed'' then ''POLICY_RECONCILE_REQUEST_FAILED'' else ''POLICY_RECONCILE_REQUEST_COMPLETED'')
                  request_actor (''id='' @ show_nat (rq_id q) @ '' target='' @ target @ '' status='' @ status @ '' revision=''
                    @ show_int finished @ '' outcomes='' @ show_nat (length outcomes) @ '' failures='' @ show_nat (length failures))) (\<lambda>_.
           rret row)))))))"

definition abandon_request :: "'e ports \<Rightarrow> string \<Rightarrow> request \<Rightarrow> exc \<Rightarrow> ('e world, request option) act" where
  "abandon_request P actor q e =
     rbind (swallow (rbind (store_call current_config_revision) (\<lambda>revision.
        store_call (finish_reconciliation_request (rq_id q) ''failed'' revision (Interrupted (rq_target q)) (exc_text e))))) (\<lambda>_.
     rbind (swallow (audit P ''POLICY_RECONCILE_REQUEST_FAILED'' (str_or (rq_actor q) actor)
        (''id='' @ show_nat (rq_id q) @ '' target='' @ rq_target q @ '' error='' @ exc_text e))) (\<lambda>_.
       rret None))"

definition run_requested_reconciliation :: "'e ports \<Rightarrow> string \<Rightarrow> ('e world, request option) act" where
  "run_requested_reconciliation P actor w =
     (if w_locked w then (Inr None, w)
      else
        rfinally
          (rbind (rcatch (store_call claim_reconciliation_request) (\<lambda>_. rret None)) (\<lambda>claimed. case claimed of
               None \<Rightarrow> rret None
             | Some q \<Rightarrow> rcatch (process_request P actor q) (abandon_request P actor q)))
          unlock (w\<lparr> w_locked := True \<rparr>))"

section \<open>The worker\<close>

text \<open>\<open>with authority_transfer_guard(): body\<close>; the timeout of the lock acquisition has passed when the
  lock is taken.\<close>

definition authority_transfer_guard :: "'e ports \<Rightarrow> ('e world, 'a) act \<Rightarrow> ('e world, 'a) act" where
  "authority_transfer_guard P body w =
     (if w_locked w then
        (Inl (ReconciliationError ''Automatic reconciliation is busy; retry authority transfer after the current cycle completes''), w)
      else rfinally (in_lane P ''authority-transfer'' body) unlock (w\<lparr> w_locked := True \<rparr>))"

fun consume_requests :: "nat \<Rightarrow> 'e ports \<Rightarrow> ('e world, unit) act" where
  "consume_requests 0 P = rret ()"
| "consume_requests (Suc n) P =
     rbind (rcatch (run_requested_reconciliation P ''system:requested'')
              (\<lambda>e. rbind (audit P ''REQUESTED_RECONCILE_WORKER_ERROR'' ''system:requested'' (exc_text e)) (\<lambda>_. rret None)))
       (\<lambda>handled. case handled of None \<Rightarrow> rret () | Some _ \<Rightarrow> consume_requests n P)"

text \<open>One turn of the loop, between two waits.\<close>

definition worker_turn :: "'e ports \<Rightarrow> ('e world, unit) act" where
  "worker_turn P =
     rbind (settings P) (\<lambda>st.
     rbind (consume_requests 4 P) (\<lambda>_.
       if as_mode st \<noteq> ''off'' then
         rcatch (rbind (run_cycle P ''background'' ''system:auto'' None False) (\<lambda>_. rret ()))
           (\<lambda>e. audit P ''AUTO_RECONCILE_WORKER_ERROR'' ''system:auto'' (exc_text e))
       else rret ()))"

definition worker_start :: "('e world, unit) act" where
  "worker_start = swallow (store_call recover_reconciliation_requests)"

end
