(* ===== verification/ReconcilerPlan.thy ===== *)
theory ReconcilerPlan
  imports ReconcilerCycle RouterServices RouterTempSafety
begin

text \<open>
  Reconciling one device, end to end. The worker relies on its plan source only through the laws of
  \<open>plan_source\<close>: reading a plan changes nothing, and a plan without drift means that the router is
  as the policy of the plan says. The adapter of \<open>RouterDevice\<close> with the planner of \<open>PolicyEngine\<close>
  keeps these laws, so that what is reported as applied is in force.
\<close>

section \<open>What a plan without drift says of the router\<close>

definition in_force :: "string \<Rightarrow> tables \<Rightarrow> device_plan \<Rightarrow> bool" where
  "in_force a t p =
     (table_mode t a = norm_key (ep_mode (dp_policy p))
      \<and> (\<forall>s \<in> set (dp_service_states p). vp_available s \<longrightarrow>
           (length (list_entries t (vp_source_list s) a) = 1) = (vp_key s \<in> norm_key ` set (ep_blocked_services (dp_policy p))))
      \<and> bandwidth_matches (dp_policy p) (dp_global_mode p) (bandwidth_of a (named_queues t (device_bandwidth_queue_name a))))"

lemma mode_of_norm: "norm_key (device_mode_of B S Q) = device_mode_of B S Q"
proof -
  have "norm_key ''normal'' = ''normal''" "norm_key ''blocked'' = ''blocked''" "norm_key ''slow'' = ''slow''" "norm_key ''invalid'' = ''invalid''"
    by code_simp+
  then show ?thesis by (simp add: device_mode_of_def)
qed

lemma service_read_map_of:
  assumes "list_all2 (service_read a t) catalog ys" "distinct (map fst catalog)" "(key, service) \<in> set catalog"
  shows "\<exists>live. map_of ys key = Some live \<and> lv_blocked live = (length (list_entries t (sv_source_list service) a) = 1)"
  using assms
proof (induction rule: list_all2_induct)
  case (Cons x xs y ys)
  have k: "fst x = fst y" using Cons.hyps(1) by (auto simp: service_read_def split: prod.splits)
  show ?case
  proof (cases "x = (key, service)")
    case True
    then show ?thesis using Cons.hyps(1) by (cases y) (auto simp: service_read_def)
  next
    case False
    then have m: "(key, service) \<in> set xs" using Cons.prems(2) by auto
    then have "key \<in> fst ` set xs" by (metis fst_conv image_eqI)
    then have "key \<noteq> fst x" using Cons.prems(1) by (metis distinct.simps(2) list.simps(9) set_map)
    then show ?thesis using Cons.IH Cons.prems(1) m k by (cases y) auto
  qed
qed simp

lemma plan_common_more:
  "dp_policy (plan_common a pol dm lm g live lbw bw cat) = pol" "dp_global_mode (plan_common a pol dm lm g live lbw bw cat) = g"
  by (simp_all add: plan_common_def Let_def)

lemma vp_source: "vp_source_list (plan_service ds live kv) = sv_source_list (snd kv)"
  by (simp add: plan_service_def Let_def case_prod_beta)


lemma no_drift_in_force:
  assumes b: "build_device_policy_plan a0 pol (table_enforcement a t) ta (Some (live_services_of ys)) (Some bw) g cat = Inr p"
    and bw: "bw = bandwidth_of a (named_queues t (device_bandwidth_queue_name a))"
    and ys: "list_all2 (service_read a t) (plan_catalog cat) ys" and d: "distinct (map fst (plan_catalog cat))"
    and p: "\<not> dp_temporary_override p" "\<not> plan_drifts p"
  shows "in_force a t p"
proof -
  let ?live = "live_services_of ys"
  have lbw: "plan_live_bandwidth (Some bw) = bw" "plan_live (Some ?live) = ?live" by (simp_all add: plan_live_bandwidth_def plan_live_def)
  obtain w where g: "norm_key (str_or g ''normal'') \<in> set VALID_MODES"
    and w: "plan_bandwidth a0 pol (norm_key (ep_mode pol)) (norm_key (str_or g ''normal'')) bw = Inr w"
    and c: "p = (let c = plan_common a0 pol (norm_key (ep_mode pol)) (norm_key (le_mode (table_enforcement a t))) (norm_key (str_or g ''normal''))
                    ?live bw w (plan_catalog cat)
          in case active_temporary ta of Some x \<Rightarrow> under_temporary x c | None \<Rightarrow> c)"
    by (rule plan_Inr [OF b, unfolded lbw])
  have act: "active_temporary ta = None" using p(1) unfolding c by (cases "active_temporary ta") (simp_all add: under_temporary_def)
  let ?c = "plan_common a0 pol (norm_key (ep_mode pol)) (table_mode t a) (norm_key (str_or g ''normal'')) ?live bw w (plan_catalog cat)"
  have pc: "p = ?c"
    unfolding c Let_def act by (simp add: table_enforcement_def Let_def table_mode_def mode_of_norm)
  have "norm_key (str_or g ''normal'') \<noteq> []" using g by (auto simp: VALID_MODES_def)
  then have nn: "norm_key (str_or (norm_key (str_or g ''normal'')) ''normal'') = norm_key (str_or g ''normal'')"
    by (simp add: str_or_def [of "norm_key _"] norm_key_idem)
  have "bandwidth_matches pol (norm_key (str_or g ''normal'')) bw"
    using bandwidth_matches_drift [OF w] p(2) unfolding pc plan_drifts_def bandwidth_matches_def nn by (simp add: plan_common_fields)
  moreover have "table_mode t a = norm_key (ep_mode pol)"
    using p(2) unfolding pc plan_drifts_def by (simp add: plan_common_fields)
  moreover have "(length (list_entries t (vp_source_list s) a) = 1) = (vp_key s \<in> norm_key ` set (ep_blocked_services pol))"
    if s: "s \<in> set (dp_service_states p)" "vp_available s" for s
  proof -
    obtain kv where kv: "kv \<in> set (plan_catalog cat)" "s = plan_service (desired_in pol (plan_catalog cat)) ?live kv"
      using s(1) unfolding pc by (auto simp: plan_common_fields)
    have "\<not> vp_drift s" using p(2) s(1) unfolding pc plan_drifts_def by (auto simp: plan_common_fields)
    then have "(fst kv \<in> set (desired_in pol (plan_catalog cat))) = service_blocked ?live (fst kv)"
      using s(2) unfolding kv(2) by (simp add: plan_service_fields)
    moreover have "service_blocked ?live (fst kv) = (length (list_entries t (sv_source_list (snd kv)) a) = 1)"
      using service_read_map_of [OF ys d, of "fst kv" "snd kv"] kv(1) by (auto simp: service_blocked_def live_services_of_def)
    moreover have "fst kv \<in> set (dict_keys (plan_catalog cat))" using kv(1) by (simp add: dict_keys_def)
    ultimately show ?thesis unfolding kv(2) by (auto simp: set_desired_in vp_source plan_service_fields)
  qed
  ultimately show ?thesis unfolding in_force_def pc by (simp add: plan_common_more bw [symmetric])
qed

section \<open>The interface of the plan source\<close>

text \<open>What enforcement consists of: everything but the schedulers and scripts of temporary access, of
  which reading a plan may remove stale ones.\<close>

definition still :: "tables \<Rightarrow> tables" where
  "still t = t\<lparr> t_scheds := [], t_scripts := [] \<rparr>"

locale plan_source =
  fixes P :: "'e ports" and view :: "'e \<Rightarrow> tables" and promise :: "string \<Rightarrow> tables \<Rightarrow> device_plan \<Rightarrow> bool"
  assumes plan_keeps: "keeps view (rp_plan P a)"
    and plan_promise: "rp_plan P a s = (Inr p, s') \<Longrightarrow> \<not> dp_temporary_override p \<Longrightarrow> \<not> plan_drifts p \<Longrightarrow> promise a (view s') p"

lemma rbind_Inr:
  assumes "rbind m f s = (Inr y, s')"
  obtains x s1 where "m s = (Inr x, s1)" "f x s1 = (Inr y, s')"
  using assms by (auto simp: rbind_def split: prod.splits sum.splits)

lemma rret_iff: "rret x s = (r, s') \<longleftrightarrow> r = Inr x \<and> s' = s"
  by (auto simp: rret_def)

lemma rraise_iff: "rraise e s = (r, s') \<longleftrightarrow> r = Inl e \<and> s' = s"
  by (auto simp: rraise_def)

lemma keepsD: "keeps view m \<Longrightarrow> m s = (r, s') \<Longrightarrow> view s' = view s"
  unfolding keeps_def by (metis snd_conv)

context plan_source begin

text \<open>A report of \<open>applied\<close> is verified; every other report comes without a write.\<close>

lemma applied_promise:
  assumes "reconcile_device P a d s = (Inr r, s')" "rn_status r = ''applied''"
  shows "\<not> plan_drifts (rn_verified r) \<and> (dp_temporary_override (rn_verified r) \<or> promise a (view s') (rn_verified r))"
proof -
  obtain plan s1 where p: "rp_plan P a s = (Inr plan, s1)"
    and rest: "(if dp_temporary_override plan then rret (reconciled ''temporary'' plan)
     else if \<not> dp_policy_actionable plan then
       rret (reconciled (if dp_status plan = ''partial'' then ''partial'' else ''synced'') plan)
     else if \<not> plan_drifts plan then rret (reconciled ''synced'' plan)
     else
       rbind (apply_mode P a d plan) (\<lambda>mode_changes.
       rbind (apply_bandwidth P a d plan) (\<lambda>bandwidth_changes.
       rbind (apply_services P a d plan) (\<lambda>service_changes.
       rbind (rp_plan P a) (\<lambda>verified.
         if plan_drifts verified then rraise (ReconciliationError (''Policy apply did not converge for '' @ a))
         else rret \<lparr> rn_status = ''applied'', rn_changes = mode_changes @ bandwidth_changes @ service_changes,
                     rn_plan = plan, rn_verified = verified \<rparr>))))) s1 = (Inr r, s')"
    using assms(1) unfolding reconcile_device_def by (rule rbind_Inr)
  then obtain m b c verified s2 where v: "rp_plan P a s2 = (Inr verified, s')"
    "\<not> plan_drifts verified" "r = \<lparr> rn_status = ''applied'', rn_changes = m @ b @ c, rn_plan = plan, rn_verified = verified \<rparr>"
    using assms(2) by (auto simp: rret_iff rraise_iff reconciled_def split: if_splits elim!: rbind_Inr)
  then show ?thesis using plan_promise [OF v(1)] by auto
qed

lemma unapplied_keeps:
  assumes "reconcile_device P a d s = (Inr r, s')" "rn_status r \<noteq> ''applied''"
  shows "view s' = view s"
  using assms unfolding reconcile_device_def
  by (auto simp: rret_iff rraise_iff reconciled_def split: if_splits elim!: rbind_Inr dest: keepsD [OF plan_keeps])

end

section \<open>The adapter and the planner keep the interface\<close>

lemma keeps_still: "keeps tab m \<Longrightarrow> keeps (\<lambda>s. still (tab s)) m"
  unfolding keeps_def by simp

lemma keeps_still_writes: "writes tab m step \<Longrightarrow> (\<And>t t'. step t t' \<Longrightarrow> still t' = still t) \<Longrightarrow> keeps (\<lambda>s. still (tab s)) m"
  unfolding keeps_def writes_def by (metis prod.collapse)

lemma keeps_rwhen: "keeps tab m \<Longrightarrow> keeps tab (rwhen b m)"
  by (simp add: rwhen_def keeps_rules)

lemma keeps_rfor: "(\<And>x. x \<in> set xs \<Longrightarrow> keeps tab (f x)) \<Longrightarrow> keeps tab (rfor xs f)"
  by (induction xs) (auto intro!: keeps_rules)

lemma keeps_counting: "(\<And>i. keeps tab (rm i)) \<Longrightarrow> keeps tab (remove_counting ident rm xs n)"
  by (induction xs arbitrary: n) (auto intro!: keeps_rules)

context device_adapter begin

lemma keeps_removals:
  "keeps (\<lambda>s. still (tab s)) (r_sched_remove (ad_api ad) i)" "keeps (\<lambda>s. still (tab s)) (r_script_remove (ad_api ad) i)"
  by (rule keeps_still_writes [OF sched_remove], simp add: still_def sched_removed_def)
     (rule keeps_still_writes [OF script_remove], simp add: still_def script_removed_def)

lemma keeps_get_temp: "keeps (\<lambda>s. still (tab s)) (get_device_temporary_access ad a)"
proof -
  note reads_still = keeps_still [OF keeps_reads [OF sched_get]] keeps_still [OF keeps_reads [OF script_get]]
  have clean: "keeps (\<lambda>s. still (tab s)) (cleanup_device_temp_resources ad x)" for x
    unfolding cleanup_device_temp_resources_def
    by (intro keeps_rules reads_still keeps_counting keeps_removals)
  have ovr: "keeps (\<lambda>s. still (tab s)) (read_override ad x ss e)" for x ss e
    unfolding read_override_def Let_def by (auto intro!: keeps_rules clean)
  show ?thesis
    unfolding get_device_temporary_access_def read_temporary_access_def Let_def
    by (auto intro!: keeps_rules keeps_still [OF keeps_checks(4)] keeps_still [OF keeps_checks(2)] reads_still ovr keeps_rfor
        keeps_rwhen keeps_removals split: list.split)
qed

lemma keeps_get_status: "keeps tab (get_status ad)"
  unfolding get_status_def Let_def
  by (auto intro!: keeps_rules keeps_checks(4) keeps_reads [OF rules_by_comment] keeps_reads [OF q_get] split: list.split)

end

text \<open>The worker's ports wired to the adapter: \<open>pol\<close> loads the effective policy, \<open>cat\<close> the runtime
  catalogue. A service change is made without the runtime catalogue, hence with the built-in one.\<close>

definition app_ports :: "'s adapter \<Rightarrow> (string \<Rightarrow> ('s, effective_policy) act) \<Rightarrow> ('s, catalog) act \<Rightarrow> 's ports \<Rightarrow> 's ports" where
  "app_ports ad pol cat rest = rest\<lparr>
     rp_plan := get_live_policy_plan ad pol cat,
     rp_set_mode := set_device_mode ad,
     rp_set_bandwidth := set_device_bandwidth ad,
     rp_set_services := (\<lambda>address keys description. set_device_services ad address keys description SERVICE_ENFORCEMENT) \<rparr>"

locale policy_router = device_adapter ad tab for ad :: "'s adapter" and tab :: "'s \<Rightarrow> tables" +
  fixes pol :: "string \<Rightarrow> ('s, effective_policy) act" and cat :: "('s, catalog) act" and rest :: "'s ports"
  assumes pol_keeps: "keeps tab (pol a)" and cat_keeps: "keeps tab cat"
    and cat_distinct: "cat s = (Inr c, s') \<Longrightarrow> distinct (dict_keys c)"

definition promised :: "string \<Rightarrow> tables \<Rightarrow> device_plan \<Rightarrow> bool" where
  "promised a0 t p = (\<exists>a. validate_ipv4 a0 = Inr a \<and> in_force a t p)"

lemma in_force_still: "in_force a (still t) p = in_force a t p"
  by (simp add: in_force_def still_def table_mode_def list_entries_def named_queues_def)

lemma table_still: "table_enforcement a (still t) = table_enforcement a t" "named_queues (still t) n = named_queues t n"
  "service_read a (still t) = service_read a t"
  by (simp_all add: still_def table_enforcement_def table_mode_def list_entries_def named_queues_def service_read_def fun_eq_iff)

context device_adapter begin

lemma read_services_run:
  assumes "validate_ipv4 a0 = Inr a" "get_device_service_enforcement ad a0 catalog s = (r, s')"
  shows "tab s' = tab s \<and> (\<forall>x. r = Inr x \<longrightarrow> (\<exists>ys. list_all2 (service_read a (tab s)) catalog ys \<and> x = live_services_of ys))"
  using read_services [OF assms(1), of "tab s" catalog] assms(2) unfolding triple_def by (fastforce split: sum.splits)

lemma invalid_read:
  assumes "validate_ipv4 a0 = Inl e"
  shows "get_device_enforcement ad a0 = rraise e" "get_device_service_enforcement ad a0 c = rraise e" "get_device_bandwidth ad a0 = rraise e"
  by (simp_all add: get_device_enforcement_def get_device_service_enforcement_def get_device_bandwidth_def assms)

lemma keeps_reads_of_device:
  "keeps tab (get_device_enforcement ad a0)" "keeps tab (get_device_service_enforcement ad a0 c)" "keeps tab (get_device_bandwidth ad a0)"
proof -
  show "keeps tab (get_device_enforcement ad a0)"
    by (cases "validate_ipv4 a0") (simp_all only: invalid_read keeps_rules keeps_reads [OF get_device_enforcement_reads])
  show "keeps tab (get_device_bandwidth ad a0)"
    by (cases "validate_ipv4 a0") (simp_all only: invalid_read keeps_rules keeps_reads [OF get_device_bandwidth_reads])
  show "keeps tab (get_device_service_enforcement ad a0 c)"
  proof (cases "validate_ipv4 a0")
    case (Inr a)
    then show ?thesis using read_services_run unfolding keeps_def by (metis prod.collapse)
  qed (simp only: invalid_read keeps_rules)
qed

end

sublocale policy_router \<subseteq> plan: plan_source "app_ports ad pol cat rest" "\<lambda>s. still (tab s)" promised
proof
  show "keeps (\<lambda>s. still (tab s)) (rp_plan (app_ports ad pol cat rest) a)" for a
    unfolding app_ports_def get_live_policy_plan_def
    by (auto intro!: keeps_rules keeps_get_temp keeps_still [OF pol_keeps] keeps_still [OF cat_keeps]
        keeps_still [OF keeps_get_status] keeps_reads_of_device [THEN keeps_still])
next
  fix a0 s p s'
  assume run: "rp_plan (app_ports ad pol cat rest) a0 s = (Inr p, s')" and p: "\<not> dp_temporary_override p" "\<not> plan_drifts p"
  from run obtain policy s1 live s2 ta s3 c s4 sv s5 bw s6 g s7 where
    r: "pol a0 s = (Inr policy, s1)" "get_device_enforcement ad a0 s1 = (Inr live, s2)"
       "get_device_temporary_access ad a0 s2 = (Inr ta, s3)" "cat s3 = (Inr c, s4)"
       "get_device_service_enforcement ad a0 (plan_catalog c) s4 = (Inr sv, s5)" "get_device_bandwidth ad a0 s5 = (Inr bw, s6)"
       "get_status ad s6 = (Inr g, s7)"
    and b: "rlift (build_device_policy_plan a0 policy live (Some (temporary_access.truncate ta)) (Some sv) (Some bw) g c) s7 = (Inr p, s')"
    unfolding app_ports_def get_live_policy_plan_def by (simp, elim rbind_Inr) blast
  obtain a where a: "validate_ipv4 a0 = Inr a" using r(2) invalid_read(1) by (cases "validate_ipv4 a0") (auto simp: rraise_def)
  have e: "still (tab s7) = still (tab s1)" "still (tab s6) = still (tab s1)" "still (tab s5) = still (tab s1)" "still (tab s4) = still (tab s1)"
    using keepsD [OF keeps_reads_of_device(1) r(2)] keepsD [OF keeps_get_temp r(3)] keepsD [OF cat_keeps r(4)]
      keepsD [OF keeps_reads_of_device(2) r(5)] keepsD [OF keeps_reads_of_device(3) r(6)] keepsD [OF keeps_get_status r(7)] by simp_all
  let ?t = "still (tab s1)"
  have live: "live = table_enforcement a ?t"
    using get_device_enforcement_reads [OF a] r(2) unfolding reads_def table_still by blast
  have bw: "bw = bandwidth_of a (named_queues ?t (device_bandwidth_queue_name a))"
    using get_device_bandwidth_reads [OF a] r(6) e(3) unfolding reads_def by (metis table_still(2))
  obtain ys where ys: "list_all2 (service_read a ?t) (plan_catalog c) ys" "sv = live_services_of ys"
    using read_services_run [OF a r(5)] e(4) by (metis table_still(3))
  have d: "distinct (map fst (plan_catalog c))"
    using cat_distinct [OF r(4)] builtin_keys_distinct by (simp add: plan_catalog_def dict_keys_def)
  have s': "s' = s7" "build_device_policy_plan a0 policy live (Some (temporary_access.truncate ta)) (Some sv) (Some bw) g c = Inr p"
    using b by (auto simp: rlift_def)
  have "in_force a ?t p"
    by (rule no_drift_in_force [OF _ bw ys(1) d p]) (use s'(2) live ys(2) in simp)
  then show "promised a0 (still (tab s')) p" using a e(1) s'(1) by (auto simp: promised_def in_force_still)
qed

context policy_router begin

lemmas reconciled = plan.applied_promise plan.unapplied_keeps

end

text \<open>C10: reconciling a device is sound from the policy to the tables of the router. When it reports
  \<open>applied\<close>, the router as it was read last has the mode, the service memberships (of the available
  services) and the bandwidth queue that the effective policy asks for, unless a temporary override
  has taken effect meanwhile; when it reports anything else, it has written nothing to rules, lists
  or queues.\<close>

theorem reconcile_establishes_policy:
  assumes "device_adapter ad tab" and "\<And>a. keeps tab (pol a)" and "keeps tab cat"
    and "\<And>s c s'. cat s = (Inr c, s') \<Longrightarrow> distinct (dict_keys c)"
    and run: "reconcile_device (app_ports ad pol cat rest) address description s = (Inr r, s')"
  shows "if rn_status r = ''applied''
    then dp_temporary_override (rn_verified r) \<or> (\<exists>a. validate_ipv4 address = Inr a \<and> in_force a (tab s') (rn_verified r))
    else (t_rules (tab s'), t_al (tab s'), t_queues (tab s')) = (t_rules (tab s), t_al (tab s), t_queues (tab s))"
proof -
  have R: "policy_router ad tab pol cat"
    by (intro policy_router.intro policy_router_axioms.intro) (use assms(1-4) in blast)+
  show ?thesis
  proof (cases "rn_status r = ''applied''")
    case True
    then show ?thesis using policy_router.reconciled(1) [OF R run] by (auto simp: promised_def in_force_still)
  next
    case False
    have "still (tab s') = still (tab s)" by (rule policy_router.reconciled(2) [OF R run False])
    then have "t_rules (still (tab s')) = t_rules (still (tab s))" "t_al (still (tab s')) = t_al (still (tab s))"
      "t_queues (still (tab s')) = t_queues (still (tab s))" by simp_all
    then show ?thesis using False by (simp add: still_def)
  qed
qed

end
