(* ===== verification/ReconcilerSafety.thy ===== *)
theory ReconcilerSafety
  imports ReconcilerPlan
begin

text \<open>
  The worker: what it may do without authority, when its circuit breaker opens, that its lock is
  released, that a request it has claimed is settled, and that the order in which the observers
  finish does not matter.
\<close>

section \<open>Parallel observation\<close>

lemma readings_run:
  assumes "\<And>i s. i \<in> set is \<Longrightarrow> fst (reader (rows ! i) s) = res i"
  shows "fst (readings reader rows is s) = Inr (map (\<lambda>i. (i, case res i of Inl e \<Rightarrow> Inl (take 300 (exc_text e)) | Inr p \<Rightarrow> Inr p)) is)"
  using assms
proof (induction "is" arbitrary: s)
  case (Cons i "is")
  obtain s1 where s1: "reader (rows ! i) s = (res i, s1)" using Cons.prems [of i s] by (metis list.set_intros(1) prod.collapse)
  have "fst (readings reader rows is s1) = Inr (map (\<lambda>i. (i, case res i of Inl e \<Rightarrow> Inl (take 300 (exc_text e)) | Inr p \<Rightarrow> Inr p)) is)"
    by (rule Cons.IH) (use Cons.prems in auto)
  then show ?case using s1
    by (cases "readings reader rows is s1") (auto simp: rbind_def rcatch_def rret_def split: sum.splits)
qed (simp add: rret_def)

lemma in_input_order_cong: "(\<And>i. i < length keys \<Longrightarrow> map_of d i = map_of d' i) \<Longrightarrow> in_input_order keys d = in_input_order keys d'"
proof -
  assume "\<And>i. i < length keys \<Longrightarrow> map_of d i = map_of d' i"
  then have "map (\<lambda>i. (keys ! i, map_of d i)) [0..<length keys] = map (\<lambda>i. (keys ! i, map_of d' i)) [0..<length keys]" by simp
  then show ?thesis unfolding in_input_order_def by (simp only:)
qed

lemma map_of_graph: "map_of (map (\<lambda>i. (i, f i)) is) i = (if i \<in> set is then Some (f i) else None)"
  by (induction "is") auto

lemma stable_keys_length: "stable_keys seen ks = Inr keys \<Longrightarrow> length keys = length ks"
  by (induction seen ks arbitrary: keys rule: stable_keys.induct) (auto simp: Let_def ebind_eq_Inr split: if_splits)

text \<open>C14: the result of a parallel observation does not depend on the order in which the readings complete:
  for every complete order it is the batch of a sequential run in input order, with the same keys,
  results and errors.\<close>

theorem observation_order_irrelevant:
  assumes "\<And>i s. i < length rows \<Longrightarrow> fst (reader (rows ! i) s) = res i"
    and "set (order (length rows)) = {..<length rows}"
  shows "fst (observe max_workers order key reader rows s) = fst (observe max_workers (\<lambda>n. [0..<n]) key reader rows s')"
proof (cases "rows = [] \<or> isl (stable_keys [] (map key rows))")
  case True
  then show ?thesis by (auto simp: observe_def rret_def rraise_def isl_def)
next
  case False
  then obtain keys where keys: "stable_keys [] (map key rows) = Inr keys" by (cases "stable_keys [] (map key rows)") auto
  let ?g = "\<lambda>i. case res i of Inl e \<Rightarrow> Inl (take 300 (exc_text e)) | Inr p \<Rightarrow> Inr p"
  have run: "fst (readings reader rows is s) = Inr (map (\<lambda>i. (i, ?g i)) is)" if "set is \<subseteq> {..<length rows}" for "is" s
    by (rule readings_run) (use that assms(1) in auto)
  have same: "in_input_order keys (map (\<lambda>i. (i, ?g i)) (order (length rows))) = in_input_order keys (map (\<lambda>i. (i, ?g i)) [0..<length rows])"
    by (rule in_input_order_cong) (use stable_keys_length [OF keys] assms(2) in \<open>simp add: map_of_graph\<close>)
  have one: "fst (rbind (readings reader rows is) (\<lambda>c. case in_input_order keys c of (a, b) \<Rightarrow> rret (h a b)) s)
      = Inr (case in_input_order keys (map (\<lambda>i. (i, ?g i)) is) of (a, b) \<Rightarrow> h a b)"
    if "set is \<subseteq> {..<length rows}" for "is" s and h :: "(string \<times> device_plan) list \<Rightarrow> (string \<times> string) list \<Rightarrow> batch"
    using run [OF that, of s] by (cases "readings reader rows is s") (simp add: rbind_def rret_def case_prod_beta)
  show ?thesis
    using False keys unfolding observe_def Let_def
    by (simp add: one assms(2) same atLeast0LessThan)
qed

section \<open>No writes without authority\<close>

lemma keeps_rcatch: "keeps tab m \<Longrightarrow> (\<And>e. keeps tab (h e)) \<Longrightarrow> keeps tab (rcatch m h)"
  by (auto simp: keeps_def rcatch_def split: prod.splits sum.splits) (metis snd_conv)+

lemma keeps_swallow: "keeps tab m \<Longrightarrow> keeps tab (swallow m)"
  unfolding swallow_def by (intro keeps_rcatch keeps_rules)

lemma keeps_rfinally: "keeps tab m \<Longrightarrow> (\<And>s. tab (f s) = tab s) \<Longrightarrow> keeps tab (rfinally m f)"
  unfolding keeps_def rfinally_def by (simp add: case_prod_beta)

lemma keeps_readings: "(\<And>x. keeps tab (reader x)) \<Longrightarrow> keeps tab (readings reader rows is)"
  by (induction "is") (auto intro!: keeps_rules keeps_rcatch)

definition env_view :: "('e \<Rightarrow> tables) \<Rightarrow> 'e world \<Rightarrow> tables" where
  "env_view view w = view (w_env w)"

lemma keeps_on_env: "keeps view m \<Longrightarrow> keeps (env_view view) (on_env P m)"
  by (auto simp: keeps_def on_env_def env_view_def split: prod.splits) (metis snd_conv)

lemma keeps_store: "keeps (env_view view) (store_call m)"
  by (auto simp: keeps_def store_call_def env_view_def split: prod.splits list.splits bool.splits)

lemma keeps_local:
  "keeps (env_view view) iso_now" "keeps (env_view view) (finish_cycle a b c d e f g h)" "keeps (env_view view) record_successful_cycle"
  by (simp_all add: keeps_def iso_now_def finish_cycle_def record_successful_cycle_def Let_def env_view_def)

locale worker_ports = plan_source P view promise
  for P :: "'e ports" and view promise +
  assumes devices_keep: "keeps view (rp_devices P)" and posture_keep: "keeps view (rp_posture P)"
    and inventory_keep: "keeps view (rp_inventory P)" and settings_keep: "keeps view (rp_settings P)"
    and audit_keep: "keeps view (rp_audit P e a t)"
    and lane_keep: "keeps view (rp_lane_enter P w)" "view (rp_lane_leave P x) = view x"

text \<open>The reports of a cycle that was not given authority.\<close>

definition HELD :: "string list" where
  "HELD = [''disabled'', ''hold'', ''security_hold'']"

definition held_quiet :: "('e \<Rightarrow> tables) \<Rightarrow> ('e world, report) act \<Rightarrow> bool" where
  "held_quiet view m = (\<forall>w rep w'. m w = (Inr rep, w') \<and> cy_result rep \<in> set HELD \<longrightarrow> env_view view w' = env_view view w)"

lemma held_keeps: "keeps (env_view view) m \<Longrightarrow> held_quiet view m"
  unfolding held_quiet_def by (metis keepsD)

lemma held_bind:
  assumes "keeps (env_view view) m" "\<And>x. held_quiet view (f x)"
  shows "held_quiet view (rbind m f)"
  unfolding held_quiet_def
proof (intro allI impI, elim conjE)
  fix w rep w' assume r: "rbind m f w = (Inr rep, w')" "cy_result rep \<in> set HELD"
  obtain x w1 where "m w = (Inr x, w1)" "f x w1 = (Inr rep, w')" by (rule rbind_Inr [OF r(1)])
  then show "env_view view w' = env_view view w"
    using keepsD [OF assms(1)] assms(2) r(2) unfolding held_quiet_def by metis
qed

lemma finish_result: "finish_cycle a b c res d e f g w = (Inr rep, w') \<Longrightarrow> cy_result rep = res \<and> cy_mode rep = c \<and> w_env w' = w_env w
    \<and> w_failures w' = w_failures w \<and> w_hold_until w' = w_hold_until w"
  by (auto simp: finish_cycle_def Let_def)

lemma conclude_result:
  "conclude_cycle P a b c mode st obs acc w = (Inr rep, w') \<Longrightarrow> cy_result rep \<in> {''failed'', ''drift'', ''applied'', ''ok''} \<and> cy_mode rep = mode"
  unfolding conclude_cycle_def Let_def
  by (auto split: prod.splits if_splits elim!: rbind_Inr dest!: finish_result)

context worker_ports begin

lemma keeps_audit: "keeps (env_view view) (audit P e a t)"
  unfolding audit_def by (intro keeps_on_env audit_keep)

lemma keeps_posture: "keeps (env_view view) (security_posture P)"
  unfolding security_posture_def by (intro keeps_rules keeps_on_env posture_keep)

lemma keeps_publications:
  "keeps (env_view view) (publish_security_posture P p)" "keeps (env_view view) (publish_managed_observation P ds b)"
  "keeps (env_view view) (publish_managed_inventory_observation P)"
proof -
  have p: "keeps (env_view view) (publish P k s t v r)" for k s t v r
    unfolding publish_def by (intro keeps_swallow keeps_store)
  show "keeps (env_view view) (publish_security_posture P p)"
    unfolding publish_security_posture_def by (intro keeps_swallow keeps_rules keeps_store p)
  show "keeps (env_view view) (publish_managed_observation P ds b)"
    unfolding publish_managed_observation_def Let_def
    by (intro keeps_rcatch keeps_rules keeps_store keeps_local p) (simp add: keeps_rules p)
  have "keeps (env_view view) (swallow (rbind (on_env P (rp_inventory P)) (\<lambda>i. rbind (store_call current_config_revision)
      (\<lambda>r. publish P k s t r (PublishedInventory i)))))" for k s t
    by (intro keeps_swallow keeps_rules keeps_store keeps_on_env inventory_keep p)
  then show "keeps (env_view view) (publish_managed_inventory_observation P)"
    unfolding keeps_def publish_managed_inventory_observation_def Let_def by (auto simp: rret_def env_view_def)
qed

lemma keeps_observe: "keeps (env_view view) (observe_plans P ds)"
  unfolding observe_plans_def observe_def Let_def
  by (auto intro!: keeps_rules keeps_readings keeps_on_env plan_keeps split: prod.split)

lemma keeps_failed: "keeps (env_view view) (record_failed_cycle P st a fs)"
proof -
  have "keeps (env_view view) (rbind (audit P e a t) (\<lambda>_. if b then audit P e' a t' else rret ()))" for e t b e' t'
    by (auto intro!: keeps_rules keeps_audit)
  then show ?thesis unfolding record_failed_cycle_def keeps_def Let_def by (auto simp: env_view_def)
qed

lemma keeps_conclude: "keeps (env_view view) (conclude_cycle P a b c mode st obs acc)"
  unfolding conclude_cycle_def Let_def
  by (auto intro!: keeps_rules keeps_failed keeps_audit keeps_local split: prod.split)

lemma held_enforce:
  assumes "enforce_phase P a b c mode obs cs acc w = (Inr (Inl rep), w')"
  shows "env_view view w' = env_view view w"
proof -
  let ?m = "rbind (security_posture P) (\<lambda>(_, names). if names \<noteq> [] then
      rbind (audit P ''AUTO_RECONCILE_SECURITY_HOLD'' c (hd (security_failures names))) (\<lambda>_.
      rbind (finish_cycle a b mode ''security_hold''
               (degraded ''Automatic enforcement is SECURITY HELD because authority changed after parallel observation: '' names)
               (fst acc) (security_failures names) obs) (\<lambda>r. rret (Inl r)))
    else rbind (enforce_devices P c cs acc) (\<lambda>acc'. rret (Inr acc')))"
  obtain w1 u where l: "on_env P (rp_lane_enter P (''reconciler:'' @ b)) w = (Inr u, w1)"
    and f: "rfinally ?m (\<lambda>w. w\<lparr> w_env := rp_lane_leave P (w_env w) \<rparr>) w1 = (Inr (Inl rep), w')"
    using assms unfolding enforce_phase_def in_lane_def by (rule rbind_Inr)
  obtain w2 where m: "?m w1 = (Inr (Inl rep), w2)" and w': "w' = w2\<lparr> w_env := rp_lane_leave P (w_env w2) \<rparr>"
    using f by (auto simp: rfinally_def split: prod.splits)
  obtain pn w3 where p: "security_posture P w1 = (Inr pn, w3)" and rest: "(case pn of (_, names) \<Rightarrow> if names \<noteq> [] then
      rbind (audit P ''AUTO_RECONCILE_SECURITY_HOLD'' c (hd (security_failures names))) (\<lambda>_.
      rbind (finish_cycle a b mode ''security_hold''
               (degraded ''Automatic enforcement is SECURITY HELD because authority changed after parallel observation: '' names)
               (fst acc) (security_failures names) obs) (\<lambda>r. rret (Inl r)))
    else rbind (enforce_devices P c cs acc) (\<lambda>acc'. rret (Inr acc'))) w3 = (Inr (Inl rep), w2)"
    using m by (rule rbind_Inr)
  have "env_view view w2 = env_view view w3"
    using rest by (auto simp: rret_iff split: prod.splits if_splits elim!: rbind_Inr dest!: keepsD [OF keeps_audit] finish_result)
       (simp add: env_view_def)
  then show ?thesis
    using keepsD [OF keeps_on_env [OF lane_keep(1)] l] keepsD [OF keeps_posture p] lane_keep(2) by (simp add: env_view_def w')
qed

lemma held_observe: "held_quiet view (observe_phase P a b c mode st)"
proof -
  have con: "held_quiet view (conclude_cycle P a b c mode st obs acc)" for obs acc mode
    by (rule held_keeps) (rule keeps_conclude)
  have ph: "held_quiet view (rbind (enforce_phase P a b c mode obs cs acc) (\<lambda>out. case out of
      Inl held \<Rightarrow> rret held | Inr acc \<Rightarrow> conclude_cycle P a b c mode st obs acc))" for obs cs acc mode
    unfolding held_quiet_def
  proof (intro allI impI, elim conjE)
    fix w rep w'
    assume r: "rbind (enforce_phase P a b c mode obs cs acc) (\<lambda>out. case out of
      Inl held \<Rightarrow> rret held | Inr acc \<Rightarrow> conclude_cycle P a b c mode st obs acc) w = (Inr rep, w')" "cy_result rep \<in> set HELD"
    obtain out w1 where e: "enforce_phase P a b c mode obs cs acc w = (Inr out, w1)"
      "(case out of Inl held \<Rightarrow> rret held | Inr acc \<Rightarrow> conclude_cycle P a b c mode st obs acc) w1 = (Inr rep, w')"
      by (rule rbind_Inr [OF r(1)])
    show "env_view view w' = env_view view w"
    proof (cases out)
      case (Inl held)
      then show ?thesis using held_enforce e by (auto simp: rret_iff)
    next
      case (Inr acc')
      then show ?thesis using conclude_result e(2) r(2) by (fastforce simp: HELD_def)
    qed
  qed
  show ?thesis
    unfolding observe_phase_def Let_def
    by (intro held_bind keeps_on_env devices_keep keeps_observe)
      (simp split: prod.split, intro allI impI conjI, (rule ph con held_bind keeps_publications | (intro conjI impI))+)
qed

lemma quiet_observe: "mode \<noteq> ''enforce'' \<Longrightarrow> keeps (env_view view) (observe_phase P a b c mode st)"
  unfolding observe_phase_def Let_def
  by (auto intro!: keeps_rules keeps_on_env devices_keep keeps_observe keeps_publications keeps_conclude split: prod.split)

lemma held_body: "held_quiet view (cycle_body P a b c mode st ign)"
proof -
  have f: "held_quiet view (finish_cycle a b c d e f g h)" for a b c d e f g h
    by (rule held_keeps) (rule keeps_local)
  have e: "held_quiet view (rbind (security_posture P) (\<lambda>(p, names). rbind (publish_security_posture P p) (\<lambda>_.
        if names \<noteq> [] then
          rbind (audit P x c (hd (security_failures names))) (\<lambda>_.
            finish_cycle a b mode y (degraded z names) no_counts (security_failures names) no_observation)
        else observe_phase P a b c mode st)))" for x y z
    by (auto intro!: held_bind keeps_posture keeps_publications keeps_audit f held_observe split: prod.split)
  show ?thesis
    using f e held_observe unfolding held_quiet_def cycle_body_def Let_def by (auto split: if_splits)
qed

lemma quiet_body: "mode \<noteq> ''enforce'' \<Longrightarrow> keeps (env_view view) (cycle_body P a b c mode st ign)"
  using quiet_observe [of mode] keeps_local(2) [of view] unfolding keeps_def cycle_body_def Let_def by auto

end

lemma run_cycle_unfold:
  assumes "\<not> w_locked w" "on_env P (rp_settings P) (w\<lparr> w_locked := True \<rparr>) = (Inr ss, w1)"
    "mode = norm_key (opt_or override (as_mode (validate_settings ss)))"
  shows "run_cycle P trigger actor override ign w =
    (if mode \<notin> set VALID_AUTO_MODES then (Inl (ReconciliationError (''Invalid reconciliation mode '' @ sq mode)), unlock w1)
     else rfinally (rcatch (cycle_body P (db_clock (w_db w)) trigger actor mode (validate_settings ss) ign) (\<lambda>e.
            rbind (if mode = ''enforce'' then record_failed_cycle P (validate_settings ss) actor [''cycle-level: '' @ exc_text e]
                   else audit P ''AUTO_POLICY_OBSERVE_FAILED'' actor (''cycle-level: '' @ exc_text e)) (\<lambda>_. rraise e))) unlock w1)"
  using assms by (simp add: run_cycle_def settings_def iso_now_def rbind_def rret_def rfinally_def rraise_def Let_def)

end
