(* ===== verification/ReconcilerBreaker.thy ===== *)
theory ReconcilerBreaker
  imports ReconcilerSafety
begin

text \<open>
  Authority and the circuit breaker of the worker (\<open>src/app/reconciler.py\<close>, \<open>run_cycle\<close>): what a cycle
  without authority leaves alone, and how the failure count and the cooldown hold follow the
  outcome of an enforcing cycle.
\<close>

text \<open>C11: without authority nothing is written. A cycle in mode off or observe, whatever fails in it, and
  an enforcing cycle that reports that it is disabled, in cooldown hold or security held, leaves the
  rules, lists and queues of the router as they were.\<close>

theorem no_authority_no_writes:
  assumes "worker_ports P view promise" and "\<not> w_locked w"
    and "on_env P (rp_settings P) (w\<lparr> w_locked := True \<rparr>) = (Inr ss, w1)"
    and mode: "mode = norm_key (opt_or override (as_mode (validate_settings ss)))"
    and run: "run_cycle P trigger actor override ign w = (r, w')"
    and idle: "mode \<noteq> ''enforce'' \<or> (\<exists>rep. r = Inr rep \<and> cy_result rep \<in> {''disabled'', ''hold'', ''security_hold''})"
  shows "view (w_env w') = view (w_env w)"
proof -
  note L = assms(1)
  let ?h = "\<lambda>e. rbind (if mode = ''enforce'' then record_failed_cycle P (validate_settings ss) actor [''cycle-level: '' @ exc_text e]
                   else audit P ''AUTO_POLICY_OBSERVE_FAILED'' actor (''cycle-level: '' @ exc_text e)) (\<lambda>_. rraise e)"
  let ?b = "cycle_body P (db_clock (w_db w)) trigger actor mode (validate_settings ss) ign"
  have 1: "view (w_env w1) = view (w_env w)"
    using keepsD [OF keeps_on_env [OF worker_ports.settings_keep [OF L]] assms(3)] by (simp add: env_view_def)
  note run = run [unfolded run_cycle_unfold [OF assms(2,3) mode]]
  show ?thesis
  proof (cases "mode \<in> set VALID_AUTO_MODES")
    case True
    then obtain w2 where w2: "rcatch ?b ?h w1 = (r, w2)" "w' = unlock w2"
      using run by (auto simp: rfinally_def split: prod.splits)
    have "env_view view w2 = env_view view w1"
    proof (cases "mode = ''enforce''")
      case False
      then have "keeps (env_view view) (rcatch ?b ?h)"
        by (auto intro!: keeps_rcatch keeps_rules worker_ports.quiet_body [OF L] worker_ports.keeps_audit [OF L])
      then show ?thesis by (rule keepsD) (rule w2(1))
    next
      case True
      then obtain rep where rep: "r = Inr rep" "cy_result rep \<in> set HELD" using idle by (auto simp: HELD_def)
      have "?b w1 = (Inr rep, w2)"
        using w2(1) rep(1) by (auto simp: rcatch_def rraise_iff split: prod.splits sum.splits elim!: rbind_Inr)
      then show ?thesis using worker_ports.held_body [OF L] rep(2) unfolding held_quiet_def by blast
    qed
    then show ?thesis using 1 w2(2) by (simp add: env_view_def unlock_def)
  qed (use run 1 in \<open>auto simp: unlock_def\<close>)
qed

section \<open>The circuit breaker\<close>

text \<open>\<open>inv I m\<close>: \<open>m\<close> keeps \<open>I\<close>, returning or raising. \<open>calm P I\<close>: so do the primitive calls of a cycle.\<close>

definition inv :: "('s \<Rightarrow> bool) \<Rightarrow> ('s, 'a) act \<Rightarrow> bool" where
  "inv I m = (\<forall>s. I s \<longrightarrow> I (snd (m s)))"

lemma invD: "inv I m \<Longrightarrow> m s = (r, s') \<Longrightarrow> I s \<Longrightarrow> I s'"
  unfolding inv_def by (metis snd_conv)

lemma inv_rules:
  "inv I (rret x)" "inv I (rraise e)" "inv I (rlift r)"
  "inv I m \<Longrightarrow> (\<And>x. inv I (g x)) \<Longrightarrow> inv I (rbind m g)"
  "inv I m \<Longrightarrow> (\<And>e. inv I (h e)) \<Longrightarrow> inv I (rcatch m h)"
  "inv I m \<Longrightarrow> (\<And>s. I s \<Longrightarrow> I (fin s)) \<Longrightarrow> inv I (rfinally m fin)"
  by (auto simp: inv_def rret_def rraise_def rlift_def rbind_def rcatch_def rfinally_def
      split: prod.splits sum.splits) (metis snd_conv)?

lemma inv_swallow: "inv I m \<Longrightarrow> inv I (swallow m)"
  unfolding swallow_def by (intro inv_rules)

lemma inv_readings: "(\<And>x. inv I (reader x)) \<Longrightarrow> inv I (readings reader rows is)"
  by (induction "is") (auto intro!: inv_rules)

definition calm :: "'e ports \<Rightarrow> ('e world \<Rightarrow> bool) \<Rightarrow> bool" where
  "calm P I = ((\<forall>w e d. I w \<longrightarrow> I (w\<lparr> w_env := e,
        w_db := d\<lparr> db_clock := rp_clock P e div 1000000, db_micros := rp_clock P e mod 1000000 \<rparr> \<rparr>))
     \<and> (\<forall>w d. I w \<and> db_clock d = db_clock (w_db w) \<and> db_micros d = db_micros (w_db w) \<longrightarrow>
         I (w\<lparr> w_db := d, w_faults := tl (w_faults w) \<rparr>))
     \<and> (\<forall>w e n l. I w \<longrightarrow> I (w\<lparr> w_env := e \<rparr>) \<and> I (w\<lparr> w_inventory := n \<rparr>) \<and> I (w\<lparr> w_last := l \<rparr>)))"

lemma inv_on_env: "calm P I \<Longrightarrow> inv I (on_env P m)"
  by (simp add: inv_def on_env_def calm_def split: prod.split)

lemma inv_store:
  assumes "calm P I" "\<And>d. db_clock (snd (m d)) = db_clock d \<and> db_micros (snd (m d)) = db_micros d"
  shows "inv I (store_call m)"
proof -
  have "I (w\<lparr> w_db := snd (m (w_db w)), w_faults := tl (w_faults w) \<rparr>)" "I (w\<lparr> w_faults := tl (w_faults w) \<rparr>)" if "I w" for w
  proof -
    have u: "I (w\<lparr> w_db := d, w_faults := tl (w_faults w) \<rparr>)" if "db_clock d = db_clock (w_db w)" "db_micros d = db_micros (w_db w)" for d
      using assms(1) \<open>I w\<close> that unfolding calm_def by blast
    show "I (w\<lparr> w_db := snd (m (w_db w)), w_faults := tl (w_faults w) \<rparr>)" by (rule u) (simp_all add: assms(2))
    show "I (w\<lparr> w_faults := tl (w_faults w) \<rparr>)" using u [of "w_db w"] by simp
  qed
  then show ?thesis
    by (auto simp: inv_def store_call_def split: prod.split list.split bool.split) (metis snd_conv list.sel(3) list.sel(2))+
qed

lemma inv_revision: "calm P I \<Longrightarrow> inv I (store_call current_config_revision)"
  by (rule inv_store) (simp_all add: current_config_revision_def)

lemma save_prepared_view_clock:
  "db_clock (snd (save_prepared_view a b c e f g h i d)) = db_clock d \<and> db_micros (snd (save_prepared_view a b c e f g h i d)) = db_micros d"
proof -
  have "db_clock (snd (get_prepared_view k kd r x d)) = db_clock d \<and> db_micros (snd (get_prepared_view k kd r x d)) = db_micros d" for k kd r x d
    by (simp add: get_prepared_view_def Let_def split: option.split)
  then show ?thesis by (simp add: save_prepared_view_def Let_def)
qed

lemma inv_publish: "calm P I \<Longrightarrow> inv I (publish P k s t v r)"
  unfolding publish_def by (intro inv_swallow inv_store) (auto simp: save_prepared_view_clock)

lemma inv_calls:
  assumes "calm P I"
  shows "inv I iso_now" "inv I (finish_cycle a b c d e f g h)" "inv I (audit P x y z)"
  using inv_on_env [OF assms] assms
  by (simp_all add: inv_def iso_now_def finish_cycle_def audit_def Let_def calm_def)

lemma inv_lane:
  assumes "calm P I" "inv I m"
  shows "inv I (in_lane P w m)"
  unfolding in_lane_def by (intro inv_rules inv_on_env assms) (use assms(1) in \<open>simp add: calm_def\<close>)

lemma inv_observation:
  assumes "calm P I"
  shows "inv I (security_posture P)" "inv I (publish_security_posture P p)" "inv I (observe_plans P ds)"
    "inv I (publish_managed_observation P ds b)" "inv I (publish_managed_inventory_observation P)"
proof -
  note o = inv_on_env [OF assms] and st = inv_revision [OF assms] and p = inv_publish [OF assms]
  show "inv I (security_posture P)" unfolding security_posture_def by (intro inv_rules o)
  show "inv I (publish_security_posture P p)"
    unfolding publish_security_posture_def by (intro inv_swallow inv_rules st p)
  show "inv I (observe_plans P ds)"
    unfolding observe_plans_def observe_def Let_def by (auto intro!: inv_rules inv_readings o split: prod.split)
  show "inv I (publish_managed_observation P ds b)"
    unfolding publish_managed_observation_def Let_def
    by (auto intro!: inv_rules st inv_calls(1) [OF assms] p)
  have "inv I (swallow (rbind (on_env P (rp_inventory P)) (\<lambda>i. rbind (store_call current_config_revision)
      (\<lambda>r. publish P k s t r (PublishedInventory i)))))" for k s t
    by (intro inv_swallow inv_rules st o p)
  then show "inv I (publish_managed_inventory_observation P)"
    using assms unfolding inv_def calm_def publish_managed_inventory_observation_def Let_def by (auto simp: rret_def)
qed

lemma inv_enforce:
  assumes "calm P I"
  shows "inv I (enforce_phase P a b c mode obs cs acc)"
proof -
  have d: "inv I (enforce_device P c x y)" for x y
    unfolding enforce_device_def by (auto intro!: inv_rules inv_on_env inv_calls assms split: prod.split)
  have ds: "inv I (enforce_devices P c xs y)" for xs y
    by (induction xs arbitrary: y) (auto intro!: inv_rules d)
  show ?thesis
    unfolding enforce_phase_def
    by (intro inv_lane inv_rules inv_observation assms) (auto intro!: inv_rules inv_calls assms ds split: prod.split)
qed

definition counters :: "'e world \<Rightarrow> int \<times> int" where
  "counters w = (w_failures w, w_hold_until w)"

lemma calm_counters: "calm P (\<lambda>w. counters w = x)" "calm P (\<lambda>w. w_locked w = b)"
  by (simp_all add: calm_def counters_def)

lemma calm_clock: "(\<And>e. t \<le> rp_clock P e) \<Longrightarrow> calm P (\<lambda>w. t \<le> time_now w)"
  by (simp add: calm_def time_now_def mult.commute)


lemma calm_conj: "calm P I \<Longrightarrow> calm P J \<Longrightarrow> calm P (\<lambda>w. I w \<and> J w)"
  by (simp add: calm_def)

text \<open>A triple whose postcondition sees the result of a return and of a raise.\<close>

definition outcome :: "('s \<Rightarrow> bool) \<Rightarrow> ('s, 'a) act \<Rightarrow> (exc + 'a \<Rightarrow> 's \<Rightarrow> bool) \<Rightarrow> bool" where
  "outcome I m Q = (\<forall>s. I s \<longrightarrow> Q (fst (m s)) (snd (m s)))"

lemma outcomeD: "outcome I m Q \<Longrightarrow> m s = (r, s') \<Longrightarrow> I s \<Longrightarrow> Q r s'"
  unfolding outcome_def by (metis fst_conv snd_conv)

lemma outcome_bind:
  assumes "inv I m" "\<And>e s. I s \<Longrightarrow> Q (Inl e) s" "\<And>x. outcome I (f x) Q"
  shows "outcome I (rbind m f) Q"
  unfolding outcome_def
proof (intro allI impI)
  fix s assume "I s"
  obtain r s1 where m: "m s = (r, s1)" by (cases "m s")
  have "I s1" by (rule invD [OF assms(1) m \<open>I s\<close>])
  then show "Q (fst (rbind m f s)) (snd (rbind m f s))"
    using assms(2,3) unfolding outcome_def by (cases r) (auto simp: rbind_def m)
qed

definition tripped :: "auto_settings \<Rightarrow> int \<Rightarrow> int \<times> int \<Rightarrow> int \<times> int \<Rightarrow> bool" where
  "tripped st t = (\<lambda>(f, h) (f', h'). f' = f + 1 \<and> (if as_threshold st \<le> f + 1 then t + as_cooldown st * 1000000 \<le> h' else h' = h))"

definition breaker :: "auto_settings \<Rightarrow> int \<Rightarrow> int \<times> int \<Rightarrow> exc + report \<Rightarrow> 'e world \<Rightarrow> bool" where
  "breaker st t c r w = (case r of
       Inl e \<Rightarrow> counters w = c \<or> counters w = (0, 0) \<or> tripped st t c (counters w)
     | Inr rep \<Rightarrow>
         if cy_result rep = ''failed'' then tripped st t c (counters w)
         else if cy_result rep = ''security_hold'' then counters w = c
         else cy_result rep \<in> {''applied'', ''ok''} \<and> counters w = (0, 0))"

abbreviation at_least :: "int \<Rightarrow> int \<times> int \<Rightarrow> 'e world \<Rightarrow> bool" where
  "at_least t c \<equiv> (\<lambda>w. counters w = c \<and> t \<le> time_now w)"

lemma record_failed_counters:
  assumes "record_failed_cycle P st actor failures w = (r, w')" "t \<le> time_now w"
  shows "tripped st t (counters w) (counters w')"
proof -
  let ?opened = "as_threshold st \<le> w_failures w + 1"
  have "inv (\<lambda>w. counters w = x) (rbind (audit P a b c) (\<lambda>_. if ?opened then audit P d b y else rret ()))" for a b c d x y
    by (auto intro!: inv_rules inv_calls calm_counters)
  from invD [OF this assms(1) [unfolded record_failed_cycle_def Let_def] refl] assms(2)
  show ?thesis by (auto simp: counters_def tripped_def)
qed

lemma finish_breaker: "finish_cycle a b mode res d e f g w = (r, w') \<Longrightarrow> \<exists>rep. r = Inr rep \<and> cy_result rep = res \<and> counters w' = counters w"
  by (auto simp: finish_cycle_def Let_def counters_def)

lemma conclude_breaker: "outcome (at_least t c) (conclude_cycle P a b actor ''enforce'' st obs acc) (breaker st t c)"
  unfolding outcome_def
proof (intro allI impI)
  fix w :: "'a world" assume w: "at_least t c w"
  obtain cs failures where acc: "acc = (cs, failures)" by (cases acc)
  obtain r w' where run: "conclude_cycle P a b actor ''enforce'' st obs acc w = (r, w')" by (rule prod.exhaust)
  have "breaker st t c r w'"
  proof (cases "failures = []")
    case False
    obtain rf wf where f: "record_failed_cycle P st actor failures w = (rf, wf)" by (rule prod.exhaust)
    have "tripped st t c (counters wf)" using record_failed_counters [OF f] w by simp
    then show ?thesis
      using run False f unfolding conclude_cycle_def acc prod.case Let_def
      by (cases rf) (auto simp: rbind_def breaker_def dest!: finish_breaker)
  next
    case True
    let ?res = "if ct_applied cs \<noteq> 0 then ''applied'' else ''ok''"
    let ?tail = "\<lambda>y z. rbind (if ct_applied cs \<noteq> 0 then audit P ''AUTO_RECONCILE_CYCLE'' actor y else rret ())
      (\<lambda>_. finish_cycle a b ''enforce'' ?res z cs failures obs)"
    obtain y z where f: "?tail y z (w\<lparr> w_failures := 0, w_hold_until := 0 \<rparr>) = (r, w')"
      using run True unfolding conclude_cycle_def acc prod.case Let_def
      by (auto simp: record_successful_cycle_def rbind_def [of record_successful_cycle])
    have p: "outcome (\<lambda>w. counters w = (0, 0)) (?tail y z) (breaker st t c)"
    proof (rule outcome_bind)
      show "inv (\<lambda>w. counters w = (0, 0)) (if ct_applied cs \<noteq> 0 then audit P ''AUTO_RECONCILE_CYCLE'' actor y else rret ())"
        by (auto intro!: inv_rules inv_calls calm_counters)
    qed (auto simp: breaker_def outcome_def finish_cycle_def Let_def counters_def)
    show ?thesis by (rule outcomeD [OF p f]) (simp add: counters_def)
  qed
  then show "breaker st t c (fst (conclude_cycle P a b actor ''enforce'' st obs acc w)) (snd (conclude_cycle P a b actor ''enforce'' st obs acc w))"
    by (simp add: run)
qed


lemma enforce_held:
  assumes "enforce_phase P a b c mode obs cs acc w = (Inr (Inl rep), w')"
  shows "cy_result rep = ''security_hold''"
proof -
  obtain u w1 where "rfinally (rbind (security_posture P) (\<lambda>(_, names). if names \<noteq> [] then
      rbind (audit P ''AUTO_RECONCILE_SECURITY_HOLD'' c (hd (security_failures names))) (\<lambda>_.
      rbind (finish_cycle a b mode ''security_hold''
               (degraded ''Automatic enforcement is SECURITY HELD because authority changed after parallel observation: '' names)
               (fst acc) (security_failures names) obs) (\<lambda>r. rret (Inl r)))
    else rbind (enforce_devices P c cs acc) (\<lambda>acc'. rret (Inr acc')))) (\<lambda>w. w\<lparr> w_env := rp_lane_leave P (w_env w) \<rparr>) w1
      = (Inr (Inl rep), w')"
    using assms unfolding enforce_phase_def in_lane_def by (rule rbind_Inr)
  then show ?thesis
    by (auto simp: rfinally_def rret_iff split: prod.splits if_splits elim!: rbind_Inr dest!: finish_result)
qed

lemma enforce_breaker:
  fixes P :: "'a ports"
  assumes "calm P (at_least t c)"
  shows "outcome (at_least t c) (rbind (enforce_phase P a b actor ''enforce'' obs cs acc) (\<lambda>out. case out of
      Inl held \<Rightarrow> rret held | Inr acc \<Rightarrow> conclude_cycle P a b actor ''enforce'' st obs acc)) (breaker st t c)"
  unfolding outcome_def
proof (intro allI impI)
  let ?rest = "\<lambda>out. case out of Inl held \<Rightarrow> rret held | Inr acc \<Rightarrow> conclude_cycle P a b actor ''enforce'' st obs acc"
  fix w :: "'a world" assume w: "at_least t c w"
  obtain r w1 where m: "enforce_phase P a b actor ''enforce'' obs cs acc w = (r, w1)" by (rule prod.exhaust)
  have w1: "at_least t c w1" by (rule invD [OF inv_enforce [OF assms] m w])
  have "breaker st t c (fst (rbind (enforce_phase P a b actor ''enforce'' obs cs acc) ?rest w))
      (snd (rbind (enforce_phase P a b actor ''enforce'' obs cs acc) ?rest w))"
  proof (cases r)
    case (Inl e)
    then show ?thesis using w1 by (simp add: rbind_def m breaker_def)
  next
    case out: (Inr out)
    show ?thesis
    proof (cases out)
      case (Inl held)
      then have "cy_result held = ''security_hold''" using enforce_held m out by blast
      then show ?thesis using w1 Inl out by (simp add: rbind_def m rret_def breaker_def)
    next
      case (Inr acc')
      have "breaker st t c (fst (conclude_cycle P a b actor ''enforce'' st obs acc' w1))
          (snd (conclude_cycle P a b actor ''enforce'' st obs acc' w1))"
        by (rule conclude_breaker [unfolded outcome_def, rule_format, OF w1])
      then show ?thesis using Inr out by (simp add: rbind_def m)
    qed
  qed
  then show "breaker st t c (fst (rbind (enforce_phase P a b actor ''enforce'' obs cs acc) ?rest w))
      (snd (rbind (enforce_phase P a b actor ''enforce'' obs cs acc) ?rest w))" .
qed

lemma observe_breaker:
  fixes P :: "'a ports"
  assumes "calm P (at_least t c)"
  shows "outcome (at_least t c) (observe_phase P a b actor ''enforce'' st) (breaker st t c)"
proof -
  have e: "breaker st t c (Inl e) s" if "at_least t c s" for e and s :: "'a world" using that by (simp add: breaker_def)
  have c: "outcome (at_least t c) (rbind (publish_managed_observation P ds b) (\<lambda>_. rbind (publish_managed_inventory_observation P) (\<lambda>_.
      if cs \<noteq> [] then rbind (enforce_phase P a x actor ''enforce'' obs cs acc) (\<lambda>out. case out of
        Inl held \<Rightarrow> rret held | Inr acc \<Rightarrow> conclude_cycle P a x actor ''enforce'' st obs acc)
      else conclude_cycle P a x actor ''enforce'' st obs acc))) (breaker st t c)" for ds b cs acc obs x
    by (cases "cs \<noteq> []") (simp_all only: if_True if_False simp_thms,
        (rule outcome_bind inv_observation [OF assms] e enforce_breaker [OF assms] conclude_breaker | assumption)+)
  show ?thesis
    unfolding observe_phase_def Let_def
    by (rule outcome_bind inv_on_env inv_observation assms e | assumption)+ (simp add: c split: prod.split)
qed

lemma authority_breaker:
  fixes P :: "'a ports"
  assumes "calm P (at_least t c)"
  shows "outcome (at_least t c) (rbind (security_posture P) (\<lambda>(p, names). rbind (publish_security_posture P p) (\<lambda>_.
        if names \<noteq> [] then rbind (audit P x actor (y names)) (\<lambda>_.
            finish_cycle a b ''enforce'' ''security_hold'' (z names) no_counts (v names) no_observation)
        else observe_phase P a b actor ''enforce'' st))) (breaker st t c)"
proof -
  have e: "breaker st t c (Inl e) s" if "at_least t c s" for e and s :: "'a world" using that by (simp add: breaker_def)
  have f: "outcome (at_least t c) (finish_cycle a b ''enforce'' ''security_hold'' z no_counts v no_observation) (breaker st t c)" for z v
    by (simp add: outcome_def finish_cycle_def breaker_def counters_def Let_def)
  have r: "outcome (at_least t c) (if names \<noteq> [] then rbind (audit P x actor (y names)) (\<lambda>_.
            finish_cycle a b ''enforce'' ''security_hold'' (z names) no_counts (v names) no_observation)
        else observe_phase P a b actor ''enforce'' st) (breaker st t c)" for names
    by (cases "names \<noteq> []") (simp_all only: if_True if_False simp_thms,
        (rule outcome_bind inv_calls [OF assms] f e observe_breaker [OF assms] | assumption)+)
  show ?thesis
    by (rule outcome_bind inv_observation assms e | assumption)+
       (simp only: split: prod.split, intro allI impI, (rule outcome_bind inv_observation [OF assms] e r | assumption)+)
qed


lemma inv_cycle:
  assumes "calm P I" "\<And>w f h. I w \<Longrightarrow> I (w\<lparr> w_failures := f, w_hold_until := h \<rparr>)"
  shows "inv I (record_failed_cycle P st actor fs)" "inv I (conclude_cycle P a b actor mode st obs acc)"
    "inv I (cycle_body P a b actor mode st ign)"
proof -
  show f: "inv I (record_failed_cycle P st actor fs)" for fs
  proof -
    have "inv I (rbind (audit P x actor y) (\<lambda>_. if c then audit P x' actor y' else rret ()))" for x y c x' y'
      by (auto intro!: inv_rules inv_calls assms(1))
    then show ?thesis using assms(2) unfolding inv_def record_failed_cycle_def Let_def by blast
  qed
  have s: "inv I record_successful_cycle" using assms(2) by (simp add: inv_def record_successful_cycle_def)
  show con: "inv I (conclude_cycle P a b actor mode st obs acc)" for obs acc mode
    unfolding conclude_cycle_def Let_def by (auto intro!: inv_rules f s inv_calls assms(1) split: prod.split)
  have o: "inv I (observe_phase P a b actor mode st)"
    unfolding observe_phase_def Let_def
    by (auto intro!: inv_rules inv_on_env inv_observation inv_enforce con assms(1) split: prod.split sum.split)
  show "inv I (cycle_body P a b actor mode st ign)"
  proof -
    have "inv I (rbind (security_posture P) (\<lambda>(p, names). rbind (publish_security_posture P p) (\<lambda>_.
        if names \<noteq> [] then rbind (audit P x actor (y names)) (\<lambda>_.
            finish_cycle a b mode z (u names) no_counts (v names) no_observation)
        else observe_phase P a b actor mode st)))" for x y z u v
      by (auto intro!: inv_rules inv_calls inv_observation o assms(1) split: prod.split)
    then show ?thesis
      using o inv_calls(2) [OF assms(1)] unfolding inv_def cycle_body_def Let_def by (simp split: if_split)
  qed
qed

text \<open>C12: the circuit breaker of enforcement. A cycle during a cooldown hold does nothing. Otherwise a
  failed cycle counts once and, when the count reaches the configured threshold, holds enforcement
  for the configured cooldown; a security-held cycle leaves the count alone; a successful cycle
  resets it; a cycle that raises leaves a positive count, and a hold when the count is at the
  threshold.\<close>

theorem circuit_breaker:
  assumes "\<not> w_locked w" and read: "on_env P (rp_settings P) (w\<lparr> w_locked := True \<rparr>) = (Inr ss, w1)"
    and mode: "norm_key (opt_or override (as_mode st)) = ''enforce''" and st: "st = validate_settings ss"
    and run: "run_cycle P trigger actor override ign w = (r, w')" and clock: "\<And>e. t \<le> rp_clock P e"
  shows "if w_hold_until w > time_now w1 \<and> \<not> ign
    then (\<exists>rep. r = Inr rep \<and> cy_result rep = ''hold'') \<and> w_env w' = w_env w1 \<and> counters w' = counters w
    else case r of
        Inl e \<Rightarrow> w_failures w' \<in> {1, w_failures w + 1, w_failures w + 2} \<and>
          (as_threshold st \<le> w_failures w' \<longrightarrow> t + as_cooldown st * 1000000 \<le> w_hold_until w')
      | Inr rep \<Rightarrow>
          if cy_result rep = ''failed'' then w_failures w' = w_failures w + 1 \<and>
            (if as_threshold st \<le> w_failures w' then t + as_cooldown st * 1000000 \<le> w_hold_until w' else w_hold_until w' = w_hold_until w)
          else if cy_result rep = ''security_hold'' then counters w' = counters w
          else cy_result rep \<in> {''applied'', ''ok''} \<and> counters w' = (0, 0)"
proof -
  have c: "calm P (at_least t (counters w))" by (intro calm_conj calm_counters calm_clock clock)
  have "counters w1 = counters (w\<lparr> w_locked := True \<rparr>)"
    by (rule invD [OF inv_on_env read, where I = "\<lambda>v. counters v = counters (w\<lparr> w_locked := True \<rparr>)"]) (simp_all add: calm_counters)
  moreover have "t \<le> time_now w1"
    using read clock by (auto simp: on_env_def time_now_def mult.commute split: prod.splits)
  ultimately have w1: "at_least t (counters w) w1" by (simp add: counters_def)
  let ?b = "cycle_body P (db_clock (w_db w)) trigger actor ''enforce'' st ign"
  obtain rb wb where b: "?b w1 = (rb, wb)" by (rule prod.exhaust)
  obtain rf wf where f: "\<And>e. rb = Inl e \<Longrightarrow> record_failed_cycle P st actor [''cycle-level: '' @ exc_text e] wb = (rf, wf)"
    by (cases rb) (auto intro: prod.exhaust)
  have w': "w' = unlock (if isl rb then wf else wb)" "isl r = isl rb" "\<not> isl rb \<Longrightarrow> r = rb"
    using run b f unfolding run_cycle_unfold [OF assms(1) read mode [symmetric, unfolded st]]
    by (auto simp: VALID_AUTO_MODES_def rfinally_def rcatch_def rbind_def rraise_def st [symmetric] split: sum.splits)
  show ?thesis
  proof (cases "w_hold_until w > time_now w1 \<and> \<not> ign")
    case True
    then have "\<exists>rep. rb = Inr rep \<and> cy_result rep = ''hold'' \<and> wb = w1\<lparr> w_last := Some rep \<rparr>"
      using b w1 by (auto simp: cycle_body_def finish_cycle_def counters_def Let_def)
    then show ?thesis using True w' w1 by (auto simp: unlock_def counters_def)
  next
    case False
    then have "?b w1 = rbind (security_posture P) (\<lambda>(p, names). rbind (publish_security_posture P p) (\<lambda>_.
        if names \<noteq> [] then rbind (audit P ''AUTO_RECONCILE_SECURITY_HOLD'' actor (hd (security_failures names))) (\<lambda>_.
            finish_cycle (db_clock (w_db w)) trigger ''enforce'' ''security_hold''
              (degraded ''Automatic enforcement is SECURITY HELD because the RouterOS enforcement contract is degraded: '' names)
              no_counts (security_failures names) no_observation)
        else observe_phase P (db_clock (w_db w)) trigger actor ''enforce'' st)) w1"
      using w1 by (auto simp: cycle_body_def counters_def)
    then have q: "breaker st t (counters w) rb wb"
      using outcomeD [OF authority_breaker [OF c] _ w1] b by simp
    show ?thesis
    proof (cases rb)
      case (Inr rep)
      then show ?thesis using False q w' by (auto simp: breaker_def tripped_def counters_def unlock_def)
    next
      case (Inl e)
      have "t \<le> time_now wb"
        by (rule invD [OF inv_cycle(3) b, where I = "\<lambda>w. t \<le> time_now w"]) (use w1 clock in \<open>simp_all add: calm_clock\<close>, simp add: time_now_def)
      then have "tripped st t (counters wb) (counters wf)" using record_failed_counters [OF f [OF Inl]] by simp
      then show ?thesis using False q w' Inl by (cases r) (auto simp: breaker_def tripped_def counters_def unlock_def split: if_splits)
    qed
  qed
qed

end
