(* ===== verification/ReconcilerRequests.thy ===== *)
theory ReconcilerRequests
  imports ReconcilerBreaker
begin

text \<open>
  The worker's lock and its durable requests (\<open>src/app/reconciler.py\<close>, \<open>run_cycle\<close>,
  \<open>run_requested_reconciliation\<close>, \<open>authority_transfer_guard\<close>): when the lock is released, and that a
  request the worker has claimed leaves the running state.
\<close>

section \<open>The lock\<close>

lemma rfinally_unlock: "\<not> w_locked (snd (rfinally m unlock w))"
  by (simp add: rfinally_def unlock_def split: prod.split)

text \<open>C15: the cycle lock. A consumed request and an authority transfer always release it. A cycle releases
  it unless the read of its settings raises: then it stays taken, and while it is taken every later
  cycle is refused, no request is consumed and no transfer is admitted.\<close>

theorem lock_kept_iff_settings_failed:
  "if w_locked w
   then (\<exists>e. run_cycle P trigger actor override ign w = (Inl e, w)) \<and> run_requested_reconciliation P actor w = (Inr None, w)
      \<and> (\<exists>e. authority_transfer_guard P body w = (Inl e, w))
   else (w_locked (snd (run_cycle P trigger actor override ign w)) \<longleftrightarrow> isl (fst (on_env P (rp_settings P) (w\<lparr> w_locked := True \<rparr>))))
      \<and> \<not> w_locked (snd (run_requested_reconciliation P actor w)) \<and> \<not> w_locked (snd (authority_transfer_guard P body w))"
proof (cases "w_locked w")
  case True
  then show ?thesis by (simp add: run_requested_reconciliation_def authority_transfer_guard_def run_cycle_def)
next
  case False
  obtain x w1 where x: "on_env P (rp_settings P) (w\<lparr> w_locked := True \<rparr>) = (x, w1)" by (rule prod.exhaust)
  have "w_locked (snd (run_cycle P trigger actor override ign w)) \<longleftrightarrow> isl x"
  proof (cases x)
    case (Inl e)
    have "w_locked w1" using x by (auto simp: on_env_def split: prod.splits)
    then show ?thesis using False x Inl by (simp add: run_cycle_def iso_now_def settings_def rbind_def)
  next
    case (Inr ss)
    then show ?thesis
      using False x by (simp add: run_cycle_unfold [OF False x [unfolded Inr] refl] rfinally_unlock) (simp add: unlock_def)
  qed
  then show ?thesis
    using False x by (simp add: run_requested_reconciliation_def authority_transfer_guard_def rfinally_unlock)
qed

text \<open>The loop reads the settings outside every handler: when that raises, the turn raises and the worker ends.\<close>

lemma worker_turn_needs_settings: "on_env P (rp_settings P) w = (Inl e, w1) \<Longrightarrow> worker_turn P w = (Inl e, w1)"
  by (simp add: worker_turn_def settings_def rbind_def)

section \<open>Requests\<close>

definition settled :: "nat \<Rightarrow> db \<Rightarrow> bool" where
  "settled i d = (\<forall>q\<in>set (db_requests d). rq_id q = i \<longrightarrow> rq_status q \<noteq> InProgress)"

lemma settled_clock [simp]: "settled i (d\<lparr> db_clock := a, db_micros := b \<rparr>) = settled i d"
  by (simp add: settled_def)

lemma settled_enqueue: "settled i d \<Longrightarrow> settled i (snd (enqueue_reconciliation_request isa t a r v d))"
  by (auto simp: settled_def enqueue_reconciliation_request_def Let_def)

lemma settled_finish: "settled i d \<Longrightarrow> settled i (snd (finish_reconciliation_request j s a r e d))"
  by (auto simp: settled_def finish_reconciliation_request_def set_request_def request_outcome_def split: option.split if_splits)

lemma failed_key: "norm_key (str_or ''failed'' ''failed'') = ''failed''"
  by code_simp

lemma settled_after_finish:
  "finish_reconciliation_request i s a r e d = (Inr row, d') \<Longrightarrow> settled i d'"
  "finish_reconciliation_request i ''failed'' a r e d = (x, d') \<Longrightarrow> settled i d'"
  by (auto simp: settled_def finish_reconciliation_request_def set_request_def request_outcome_def Let_def list_ex_iff failed_key
      split: option.splits if_splits)


text \<open>No transaction of the store fails; the other threads of the program do not put a request back to
  running.\<close>

definition faultless :: "'e world \<Rightarrow> bool" where
  "faultless w = (w_faults w = [])"

definition settles :: "nat \<Rightarrow> 'e world \<Rightarrow> bool" where
  "settles i w = (w_faults w = [] \<and> settled i (w_db w))"

lemma faultless_on_env: "inv faultless (on_env P m)"
  by (simp add: inv_def on_env_def faultless_def split: prod.split)

lemma faultless_store: "inv faultless (store_call m)"
  by (simp add: inv_def store_call_def faultless_def split: prod.split)

lemma faultless_lane: "inv faultless b \<Longrightarrow> inv faultless (in_lane P x b)"
  unfolding in_lane_def by (intro inv_rules faultless_on_env) (simp_all add: faultless_def)

lemma faultless_addresses: "inv faultless (reconcile_addresses P as acc)"
proof (induction "as" arbitrary: acc)
  case (Cons a "as")
  then show ?case by (cases acc) (auto intro!: inv_rules faultless_on_env)
qed (auto intro: inv_rules)

lemma faultless_run:
  "inv faultless (in_lane P x (rbind (security_posture P) (\<lambda>(_, names).
      if names \<noteq> [] then rraise (e names)
      else rbind (requested_addresses P target) (\<lambda>addresses. reconcile_addresses P addresses ([], [])))))"
  unfolding security_posture_def requested_addresses_def
  by (auto intro!: faultless_lane inv_rules faultless_on_env faultless_addresses split: prod.split)

definition others_settle :: "'e ports \<Rightarrow> nat \<Rightarrow> bool" where
  "others_settle P i = (\<forall>e d. settled i d \<longrightarrow> settled i (rp_others P e d))"

lemma settles_on_env: "others_settle P i \<Longrightarrow> inv (settles i) (on_env P m)"
  by (simp add: inv_def on_env_def settles_def others_settle_def split: prod.split)

lemma settles_store: "(\<And>d. settled i d \<Longrightarrow> settled i (snd (m d))) \<Longrightarrow> inv (settles i) (store_call m)"
  by (auto simp: inv_def store_call_def settles_def split: prod.split) (metis snd_conv)

lemma settles_request: "inv (settles i) (request_reconciliation P t a r)"
  unfolding request_reconciliation_def
  by (intro inv_rules settles_store settled_enqueue) (simp_all add: current_config_revision_def)

lemma settles_audit: "others_settle P i \<Longrightarrow> inv (settles i) (audit P x a t)"
  unfolding audit_def by (rule settles_on_env)

lemma store_faultless: "store_call m w = (r, w') \<Longrightarrow> faultless w \<Longrightarrow> \<exists>d. m (w_db w) = (r, d) \<and> w' = w\<lparr> w_db := d \<rparr>"
  by (cases "m (w_db w)") (auto simp: store_call_def faultless_def)

text \<open>After a return the request is settled; after a raise the store is still faultless.\<close>

definition settles_on_return :: "nat \<Rightarrow> exc + 'a \<Rightarrow> 'e world \<Rightarrow> bool" where
  "settles_on_return i r w = (case r of Inl e \<Rightarrow> faultless w | Inr x \<Rightarrow> settles i w)"

lemma finish_outcome:
  assumes "\<And>x. inv (settles i) (f x)"
  shows "outcome faultless (rbind (store_call (finish_reconciliation_request i s a r e)) f) (settles_on_return i)"
  unfolding outcome_def
proof (intro allI impI)
  fix w :: "'a world" assume w: "faultless w"
  obtain x w1 where x: "store_call (finish_reconciliation_request i s a r e) w = (x, w1)" by (rule prod.exhaust)
  then obtain d where d: "finish_reconciliation_request i s a r e (w_db w) = (x, d)" "w1 = w\<lparr> w_db := d \<rparr>"
    using store_faultless w by blast
  show "settles_on_return i (fst (rbind (store_call (finish_reconciliation_request i s a r e)) f w))
      (snd (rbind (store_call (finish_reconciliation_request i s a r e)) f w))"
  proof (cases x)
    case (Inl e')
    then show ?thesis using x d w by (simp add: rbind_def settles_on_return_def faultless_def)
  next
    case (Inr row)
    then have "settles i w1" using settled_after_finish(1) d w by (simp add: settles_def faultless_def)
    then have "settles i (snd (f row w1))" using assms unfolding inv_def by blast
    then show ?thesis using x Inr by (simp add: rbind_def settles_on_return_def settles_def faultless_def split: sum.split)
  qed
qed

lemma process_settles:
  assumes "others_settle P (rq_id q)"
  shows "outcome faultless (process_request P actor q) (settles_on_return (rq_id q))"
proof -
  have e: "settles_on_return (rq_id q) (Inl e) w" if "faultless w" for e and w :: "'a world"
    using that by (simp add: settles_on_return_def)
  have c: "inv (settles (rq_id q)) (rbind (if s = ''superseded'' then rbind (request_reconciliation P t a r) (\<lambda>_. rret ()) else rret ())
      (\<lambda>_. rbind (audit P x y z) (\<lambda>_. rret row)))" for s t a r x y z and row :: "request option"
    by (auto intro!: inv_rules settles_request settles_audit assms)
  show ?thesis
    unfolding process_request_def Let_def
    by (rule outcome_bind faultless_store faultless_run e | assumption)+
       (simp only: split: prod.split, intro allI impI,
        (rule outcome_bind faultless_store e | assumption)+,
        simp only: split: prod.split, intro allI impI, rule finish_outcome, rule c)
qed

lemma abandon_settles:
  assumes "faultless w" "others_settle P (rq_id q)"
  shows "\<exists>w'. abandon_request P actor q e w = (Inr None, w') \<and> settles (rq_id q) w'"
proof -
  let ?fin = "finish_reconciliation_request (rq_id q) ''failed'' (cr_revision (db_revision (w_db w))) (Interrupted (rq_target q)) (exc_text e)"
  obtain x d where x: "?fin (w_db w) = (x, d)" by (rule prod.exhaust)
  have s: "settles (rq_id q) (w\<lparr> w_db := d \<rparr>)"
    using settled_after_finish(2) [OF x] assms(1) by (simp add: settles_def faultless_def)
  have 1: "swallow (rbind (store_call current_config_revision) (\<lambda>revision.
        store_call (finish_reconciliation_request (rq_id q) ''failed'' revision (Interrupted (rq_target q)) (exc_text e)))) w
     = (Inr (), w\<lparr> w_db := d \<rparr>)"
    using x assms(1) by (cases x) (auto simp: swallow_def rcatch_def rbind_def rret_def store_call_def faultless_def current_config_revision_def)
  have 2: "swallow m v = (Inr (), snd (m v))" for m :: "('a world, unit) act" and v
    by (auto simp: swallow_def rcatch_def rbind_def rret_def split: prod.split sum.split)
  show ?thesis
    using settles_audit [OF assms(2)] s unfolding abandon_request_def inv_def by (auto simp: rbind_def 1 2 rret_def)
qed


text \<open>C13: a claimed request never stays running. When the worker takes the oldest queued request and no
  transaction of the store fails, then, whatever the router, the plans, the posture or the audit do,
  the call returns, the lock is free again and the request has left the running state.\<close>

theorem request_never_stuck:
  assumes "\<not> w_locked w" "w_faults w = []" "claim_reconciliation_request (w_db w) = (Inr (Some q), d)"
    and "\<And>e d. settled (rq_id q) d \<Longrightarrow> settled (rq_id q) (rp_others P e d)"
  shows "\<exists>row w'. run_requested_reconciliation P actor w = (Inr row, w') \<and> \<not> w_locked w'
    \<and> (\<forall>p. p \<in> set (db_requests (w_db w')) \<and> rq_id p = rq_id q \<longrightarrow> rq_status p \<noteq> InProgress)"
proof -
  have o: "others_settle P (rq_id q)" using assms(4) by (simp add: others_settle_def)
  let ?w = "w\<lparr> w_locked := True, w_db := d \<rparr>"
  have f: "faultless ?w" using assms(2) by (simp add: faultless_def)
  have claim: "store_call claim_reconciliation_request (w\<lparr> w_locked := True \<rparr>) = (Inr (Some q), ?w)"
    using assms(2,3) by (simp add: store_call_def)
  obtain row w' where w': "rcatch (process_request P actor q) (abandon_request P actor q) ?w = (Inr row, w')" "settles (rq_id q) w'"
  proof (cases "process_request P actor q ?w")
    case (Pair x w1)
    have s: "settles_on_return (rq_id q) x w1" by (rule outcomeD [OF process_settles [OF o] Pair f])
    show ?thesis
    proof (cases x)
      case (Inr row)
      then show ?thesis using that Pair s by (simp add: rcatch_def settles_on_return_def)
    next
      case (Inl e)
      then obtain w2 where "abandon_request P actor q e w1 = (Inr None, w2)" "settles (rq_id q) w2"
        using abandon_settles [OF _ o, of w1] s by (auto simp: settles_on_return_def)
      then show ?thesis using that Pair Inl by (simp add: rcatch_def)
    qed
  qed
  have run: "run_requested_reconciliation P actor w = (Inr row, unlock w')"
    using assms(1) claim w'(1) by (simp add: run_requested_reconciliation_def rfinally_def rbind_def rcatch_def [of "store_call claim_reconciliation_request"])
  show ?thesis
  proof (intro exI conjI)
    show "run_requested_reconciliation P actor w = (Inr row, unlock w')" by (rule run)
    show "\<not> w_locked (unlock w')" by (simp add: unlock_def)
    show "\<forall>p. p \<in> set (db_requests (w_db (unlock w'))) \<and> rq_id p = rq_id q \<longrightarrow> rq_status p \<noteq> InProgress"
      using w'(2) by (simp add: settles_def settled_def unlock_def)
  qed
qed

end
