(* ===== verification/ReconcilerExamples.thy ===== *)
theory ReconcilerExamples
  imports ReconcilerRequests RouterServicesExamples RouterTempExamples PolicyEngineExamples JobQueueExamples
begin

text \<open>Reconciliation on the simulated router: a device is slowed from its policy to the tables, and a
  concurrent read takes away the fail-safe of a grant that is being prepared; then the worker at
  concrete worlds.\<close>

definition slow_policy :: effective_policy where
  "slow_policy = sample_effective\<lparr> ep_mode := ''slow'', ep_blocked_services := [], ep_requested_blocked_services := [] \<rparr>"

definition idle_ports :: "sim ports" where
  "idle_ports = \<lparr> rp_plan = (\<lambda>_. rraise (ApiFault [])), rp_set_mode = (\<lambda>_ _ _. rraise (ApiFault [])),
     rp_set_bandwidth = (\<lambda>_ _ _ _ _. rraise (ApiFault [])), rp_set_services = (\<lambda>_ _ _. rraise (ApiFault [])),
     rp_devices = rret [\<lparr> md_ip = ''192.168.88.10'', md_address = [], md_name = ''tablet'', md_comment = [], md_dynamic = False \<rparr>],
     rp_posture = rret \<lparr> po_ready = True, po_checks = [] \<rparr>, rp_inventory = rret ''{}'',
     rp_lane_enter = (\<lambda>_. rret ()), rp_lane_leave = id, rp_settings = rret [(''auto_reconcile_mode'', ''enforce'')],
     rp_audit = (\<lambda>_ _ _. rret ()), rp_workers = 4, rp_order = (\<lambda>n. rev [0..<n]), rp_is_address = (\<lambda>_. True),
     rp_clock = (\<lambda>_. 1000000000), rp_monotonic = (\<lambda>_. 5000000), rp_others = (\<lambda>_ d. d), rp_render = (\<lambda>_. ''{}'') \<rparr>"

definition sample_ports :: "sim ports" where
  "sample_ports = app_ports (sim_adapter True True True ''2M/2M'') (\<lambda>_. rret slow_policy) (rret sample_catalog) idle_ports"

definition home_tables :: tables where
  "home_tables = (sample_tables [])\<lparr>
     t_rules := [sample_rule, sample_rule\<lparr> fr_comment := MASTER_RULE_COMMENT, fr_disabled := True \<rparr>],
     t_queues := [\<lparr> sq_id = ''*9'', sq_name = SLOW_QUEUE_NAME, sq_target = [], sq_max_limit = [], sq_queue = [], sq_comment = [], sq_disabled = True \<rparr>] \<rparr>"

definition slowing :: "reconciliation res \<times> sim" where
  "slowing = reconcile_device sample_ports ''192.168.88.10'' [] (home_tables, [])"

lemma slowing_runs:
  "case fst slowing of Inl _ \<Rightarrow> False | Inr r \<Rightarrow> rn_status r = ''applied'' \<and> \<not> dp_temporary_override (rn_verified r)
     \<and> ep_mode (dp_policy (rn_verified r)) = ''slow''"
  by code_simp


interpretation home: policy_router "sim_adapter True True True ''2M/2M''" fst "\<lambda>_. rret slow_policy" "rret sample_catalog" idle_ports
proof unfold_locales
  show "keeps fst (rret slow_policy)" "keeps fst (rret sample_catalog)" by (rule keeps_rules)+
  show "distinct (dict_keys c)" if "rret sample_catalog s = (Inr c, s')" for s c and s' :: sim
    using that by (auto simp: rret_def sample_catalog_def dict_keys_def)
qed

theorem reconcile_establishes_policy_witness:
  "\<exists>r s'. reconcile_device sample_ports ''192.168.88.10'' [] (home_tables, []) = (Inr r, s') \<and> rn_status r = ''applied''
     \<and> table_mode (fst s') ''192.168.88.10'' = ''slow''"
proof -
  obtain x s' where x: "slowing = (x, s')" by (rule prod.exhaust)
  then obtain r where r: "x = Inr r" "rn_status r = ''applied''" "\<not> dp_temporary_override (rn_verified r)"
    "ep_mode (dp_policy (rn_verified r)) = ''slow''"
    using slowing_runs [unfolded x fst_conv] by (cases x) simp_all
  note run = x [unfolded r(1)] r(2-4)
  have k: "validate_ipv4 ''192.168.88.10'' = Inr ''192.168.88.10''" "norm_key ''slow'' = ''slow''" by code_simp+
  have "in_force ''192.168.88.10'' (fst s') (rn_verified r)"
    using reconcile_establishes_policy [OF sample_router home.pol_keeps home.cat_keeps home.cat_distinct
        run(1) [unfolded slowing_def sample_ports_def]] run(2,3) k(1) by auto
  then show ?thesis using run k(2) unfolding slowing_def by (auto simp: in_force_def)
qed

text \<open>Reading temporary access is not a pure observation. A read that runs between the creation of the
  restore script and of its scheduler (both under the mutation lane, which reads do not take) deletes
  the script as stale; the grant then goes on, and the device is in mode normal with a scheduler
  whose script is gone, which every later read reports as an error.\<close>

theorem observation_breaks_fail_safe:
  "let ad = sim_adapter True True True ''2M/2M''; a = ''192.168.88.10'';
       sn = device_temp_scheduler_name a; xn = device_temp_script_name a;
       s0 = (blocked_tables, []);
       s1 = snd (rbind (cleanup_device_temp_resources ad a) (\<lambda>_. r_script_add (ad_api ad) (temp_script xn a blocked_source)) s0);
       s2 = snd (get_device_temporary_access ad a s1);
       s3 = snd (r_sched_add (ad_api ad) (temp_scheduler sn xn (started_comment 30) 0) s2);
       s4 = snd (release_for_access ad a False [] s3)
   in named_scripts (fst s1) xn \<noteq> [] \<and> named_scripts (fst s2) xn = []
      \<and> table_mode (fst s0) a = ''blocked'' \<and> table_mode (fst s4) a = ''normal''
      \<and> map sc_disabled (named_scheds (fst s4) sn) = [False] \<and> named_scripts (fst s4) xn = []
      \<and> isl (fst (get_device_temporary_access ad a s4))"
  by code_simp

section \<open>The worker\<close>

interpretation worker: worker_ports sample_ports "\<lambda>s. still (fst s)" promised
proof -
  have k: "keeps (\<lambda>s. still (fst s)) (rret x)" for x :: 'x and y :: sim by (rule keeps_rules)
  show "worker_ports sample_ports (\<lambda>s. still (fst s)) promised"
    unfolding sample_ports_def worker_ports_def worker_ports_axioms_def
    by (intro conjI allI home.plan.plan_source_axioms) (simp_all add: app_ports_def idle_ports_def keeps_rules)
qed

definition home_world :: "sim world" where
  "home_world = \<lparr> w_env = (home_tables, []), w_db = queued, w_faults = [], w_locked = False, w_failures = 0, w_hold_until = 0,
     w_inventory = 0, w_last = None \<rparr>"

theorem no_authority_no_writes_witness:
  "still (fst (w_env (snd (run_cycle sample_ports ''manual'' ''admin'' (Some ''observe'') False home_world)))) = still home_tables"
proof -
  obtain r w' where run: "run_cycle sample_ports ''manual'' ''admin'' (Some ''observe'') False home_world = (r, w')" by (rule prod.exhaust)
  obtain w1 where read: "on_env sample_ports (rp_settings sample_ports) (home_world\<lparr> w_locked := True \<rparr>)
      = (Inr [(''auto_reconcile_mode'', ''enforce'')], w1)"
    by (auto simp: sample_ports_def app_ports_def idle_ports_def on_env_def rret_def)
  have m: "''observe'' = norm_key (opt_or (Some ''observe'') (as_mode (validate_settings [(''auto_reconcile_mode'', ''enforce'')])))"
    by code_simp
  show ?thesis
    using no_authority_no_writes [OF worker.worker_ports_axioms _ read m run] run by (simp add: home_world_def)
qed

text \<open>Two readings, one of which fails, completed in the reverse order.\<close>

definition sample_reading :: "string \<Rightarrow> (unit, device_plan) act" where
  "sample_reading k u = (if k = ''10.0.0.3'' then Inl (ApiFault ''timeout'')
     else build_device_policy_plan k sample_effective sample_live None None None ''normal'' [], u)"

theorem observation_order_irrelevant_witness:
  "fst (observe 4 (\<lambda>n. rev [0..<n]) id sample_reading [''10.0.0.3'', ''10.0.0.2''] ())
     = fst (observe 4 (\<lambda>n. [0..<n]) id sample_reading [''10.0.0.3'', ''10.0.0.2''] ())
   \<and> (case fst (observe 4 (\<lambda>n. rev [0..<n]) id sample_reading [''10.0.0.3'', ''10.0.0.2''] ()) of
        Inl _ \<Rightarrow> False
      | Inr b \<Rightarrow> map fst (ob_results b) = [''10.0.0.2''] \<and> ob_errors b = [(''10.0.0.3'', ''timeout'')]
          \<and> ob_order b = [''10.0.0.3'', ''10.0.0.2''])"
proof
  show "fst (observe 4 (\<lambda>n. rev [0..<n]) id sample_reading [''10.0.0.3'', ''10.0.0.2''] ())
      = fst (observe 4 (\<lambda>n. [0..<n]) id sample_reading [''10.0.0.3'', ''10.0.0.2''] ())"
    by (rule observation_order_irrelevant [where res = "\<lambda>i. fst (sample_reading ([''10.0.0.3'', ''10.0.0.2''] ! i) ())"])
       (auto simp: sample_reading_def)
  show "case fst (observe 4 (\<lambda>n. rev [0..<n]) id sample_reading [''10.0.0.3'', ''10.0.0.2''] ()) of
        Inl _ \<Rightarrow> False
      | Inr b \<Rightarrow> map fst (ob_results b) = [''10.0.0.2''] \<and> ob_errors b = [(''10.0.0.3'', ''timeout'')]
          \<and> ob_order b = [''10.0.0.3'', ''10.0.0.2'']"
    by code_simp
qed

text \<open>The router's plans cannot be read: with the threshold at one the first failed cycle opens the breaker.\<close>

definition failing_ports :: "sim ports" where
  "failing_ports = idle_ports\<lparr> rp_settings := rret [(''auto_reconcile_mode'', ''enforce''), (''auto_reconcile_failure_threshold'', ''1'')] \<rparr>"

definition failing_cycle :: "report res \<times> sim world" where
  "failing_cycle = run_cycle failing_ports ''manual'' ''admin'' None False home_world"

lemma failing_cycle_runs: "case fst failing_cycle of Inl _ \<Rightarrow> False | Inr rep \<Rightarrow> cy_result rep = ''failed''"
  by code_simp

theorem circuit_breaker_witness:
  "w_failures (snd failing_cycle) = 1 \<and> 1000000000 + 300 * 1000000 \<le> w_hold_until (snd failing_cycle)"
proof -
  let ?ss = "[(''auto_reconcile_mode'', ''enforce''), (''auto_reconcile_failure_threshold'', ''1'')]"
  obtain r w' where run: "failing_cycle = (r, w')" by (rule prod.exhaust)
  obtain rep where rep: "r = Inr rep" "cy_result rep = ''failed''"
    using failing_cycle_runs [unfolded run fst_conv] by (cases r) simp_all
  obtain w1 where read: "on_env failing_ports (rp_settings failing_ports) (home_world\<lparr> w_locked := True \<rparr>) = (Inr ?ss, w1)"
    by (auto simp: failing_ports_def on_env_def rret_def)
  have m: "norm_key (opt_or None (as_mode (validate_settings ?ss))) = ''enforce''"
    "as_threshold (validate_settings ?ss) = 1" "as_cooldown (validate_settings ?ss) = 300"
    by code_simp+
  have w': "snd failing_cycle = w'" by (simp only: run snd_conv)
  have "0 \<le> time_now w1" using read by (auto simp: on_env_def time_now_def failing_ports_def idle_ports_def split: prod.splits)
  then show ?thesis
    using circuit_breaker [OF _ read m(1) refl run [unfolded failing_cycle_def], of 1000000000] m(2,3) rep run
    unfolding w' by (auto simp: home_world_def failing_ports_def idle_ports_def)
qed

text \<open>A queued request for a device whose plan cannot be read.\<close>

definition requested_world :: "sim world" where
  "requested_world = home_world\<lparr> w_db := snd (enqueue_reconciliation_request (\<lambda>_. True) ''10.0.0.2'' ''admin'' [] None queued) \<rparr>"

lemma requested_claim:
  "case fst (claim_reconciliation_request (w_db requested_world)) of
     Inl _ \<Rightarrow> False | Inr q \<Rightarrow> (case q of None \<Rightarrow> False | Some q \<Rightarrow> rq_id q = 1 \<and> rq_status q = InProgress)"
  by code_simp

theorem request_never_stuck_witness:
  "\<exists>row w'. run_requested_reconciliation failing_ports ''worker'' requested_world = (Inr row, w') \<and> \<not> w_locked w'
     \<and> InProgress \<notin> rq_status ` {p \<in> set (db_requests (w_db w')). rq_id p = 1}"
proof -
  obtain x d where x: "claim_reconciliation_request (w_db requested_world) = (x, d)" by (rule prod.exhaust)
  then obtain q where q: "x = Inr (Some q)" "rq_id q = 1"
    using requested_claim by (auto split: sum.splits option.splits)
  obtain row w' where "run_requested_reconciliation failing_ports ''worker'' requested_world = (Inr row, w')" "\<not> w_locked w'"
    "\<forall>p. p \<in> set (db_requests (w_db w')) \<and> rq_id p = 1 \<longrightarrow> rq_status p \<noteq> InProgress"
    using request_never_stuck [OF _ _ x [unfolded q(1)], of failing_ports "''worker''"] q(2)
    by (auto simp: requested_world_def home_world_def failing_ports_def idle_ports_def)
  then show ?thesis by auto
qed

end
