(* ===== verification/PolicyEditing.thy ===== *)
theory PolicyEditing
  imports PolicyEngine JobQueue
begin

text \<open>
  Editing the household's policy (\<open>PolicyStore\<close> in \<open>src/app/policy_store.py\<close>, profiles to date
  exceptions): the tables with all their columns, and every operation that creates, changes or
  deletes a row. An edit validates its arguments against the store, then runs as one configuration
  transaction, which advances the revision; when it raises, nothing is written. \<open>store_of\<close> is what the
  resolvers read: the rows in the order of the \<open>SELECT\<close>s. The parsers of IP addresses and the random
  identity of a new device are arguments.
\<close>

section \<open>Tables\<close>

record preset_row = bandwidth_preset +
  pr_description :: string
  pr_builtin :: bool

record device_entry = device_row +
  dn_notes :: string
  dn_favourite :: bool

record exception_row = date_exception +
  ex_notes :: string

record template_row = schedule_template +
  tw_description :: string

record service_entry = service_row +
  cs_description :: string
  cs_classifier :: bool
  cs_approved_at :: "int option"

record collection =
  co_id :: int
  co_name :: string
  co_description :: string
  co_services :: "string list"

record identity =
  mi_id :: string
  mi_since :: int
  mi_name :: string

text \<open>The \<open>pd_next\<close> fields are the \<open>AUTOINCREMENT\<close> sequences; a policy template has the columns of a profile.\<close>

record policy_db =
  pd_settings :: "(string \<times> string) list"
  pd_profiles :: "profile list"
  pd_devices :: "(string \<times> device_entry) list"
  pd_identities :: "(string \<times> identity) list"
  pd_policy_templates :: "profile list"
  pd_plans :: "schedule_plan list"
  pd_templates :: "template_row list"
  pd_exceptions :: "exception_row list"
  pd_groups :: "group_def list"
  pd_services :: "service_entry list"
  pd_collections :: "collection list"
  pd_presets :: "preset_row list"
  pd_next_profile :: int
  pd_next_policy_template :: int
  pd_next_plan :: int
  pd_next_template :: int
  pd_next_exception :: int
  pd_next_collection :: int
  pd_queue :: db

section \<open>What the resolvers read\<close>

definition nocase :: "string \<Rightarrow> string" where
  "nocase s = py_lower s"

definition list_profiles :: "policy_db \<Rightarrow> profile list" where
  "list_profiles d = sort_key (\<lambda>p. nocase (pf_name p)) (pd_profiles d)"

definition list_templates :: "policy_db \<Rightarrow> profile list" where
  "list_templates d = sort_key (\<lambda>p. nocase (pf_name p)) (pd_policy_templates d)"

definition list_device_policy :: "policy_db \<Rightarrow> (string \<times> device_entry) list" where
  "list_device_policy d = sort_key fst (pd_devices d)"

definition list_bandwidth_presets :: "policy_db \<Rightarrow> preset_row list" where
  "list_bandwidth_presets d = sort_key (\<lambda>p. (\<not> pr_builtin p, nocase (bp_name p))) (pd_presets d)"

definition service_list :: "string list \<Rightarrow> string list" where
  "service_list xs = filter (\<lambda>x. x \<noteq> []) (map py_strip xs)"

definition list_services :: "policy_db \<Rightarrow> service_entry list" where
  "list_services d =
     map (\<lambda>s. s\<lparr> sr_dns_suffixes := service_list (sr_dns_suffixes s), sr_tls_patterns := service_list (sr_tls_patterns s) \<rparr>)
       (sort_key (\<lambda>s. (\<not> sr_builtin s, nocase (sr_name s))) (pd_services d))"

definition list_schedule_plans :: "policy_db \<Rightarrow> schedule_plan list" where
  "list_schedule_plans d = sort_key (\<lambda>p. (sp_clock_time p, nocase (sp_label p))) (pd_plans d)"

definition list_schedule_templates :: "policy_db \<Rightarrow> template_row list" where
  "list_schedule_templates d = sort_key (\<lambda>t. nocase (tp_name t)) (pd_templates d)"

definition list_date_exceptions :: "policy_db \<Rightarrow> exception_row list" where
  "list_date_exceptions d = sort_key (\<lambda>e. (de_start_date e, nocase (de_label e))) (pd_exceptions d)"

definition list_policy_groups :: "policy_db \<Rightarrow> group_def list" where
  "list_policy_groups d =
     map (\<lambda>g. g\<lparr> gr_members := sorted_set (clean_keys (gr_members g)) \<rparr>) (sort_key (\<lambda>g. nocase (gr_name g)) (pd_groups d))"

definition list_service_groups :: "policy_db \<Rightarrow> collection list" where
  "list_service_groups d = sort_key (\<lambda>c. nocase (co_name c)) (pd_collections d)"

definition store_of :: "policy_db \<Rightarrow> store" where
  "store_of d =
     \<lparr> st_settings = pd_settings d, st_profiles = list_profiles d,
       st_devices = map (\<lambda>(ip, r). (ip, device_row.truncate r)) (list_device_policy d),
       st_plans = list_schedule_plans d,
       st_templates = map schedule_template.truncate (list_schedule_templates d),
       st_exceptions = map date_exception.truncate (list_date_exceptions d),
       st_groups = py_dict (map (\<lambda>g. (gr_key g, g)) (list_policy_groups d)),
       st_services = map service_row.truncate (list_services d),
       st_presets = map bandwidth_preset.truncate (list_bandwidth_presets d) \<rparr>"

section \<open>Transactions\<close>

definition policy_write :: "string \<Rightarrow> string \<Rightarrow> (policy_db \<Rightarrow> ('a \<times> policy_db) res) \<Rightarrow> (policy_db, 'a) act" where
  "policy_write scope reason body d =
     (case body d of
        Inl e \<Rightarrow> (Inl e, d)
      | Inr (x, d') \<Rightarrow>
          (case config_write ''system:policy-store'' reason scope None (\<lambda>q. (Inr x, q)) (pd_queue d') of
             (Inl e, _) \<Rightarrow> (Inl e, d)
           | (Inr x, q) \<Rightarrow> (Inr x, d'\<lparr> pd_queue := q \<rparr>)))"

text \<open>Validation first, on the state as it is; then the transaction with what the validation returned.\<close>

definition checked :: "'v res \<Rightarrow> ('v \<Rightarrow> (policy_db, 'a) act) \<Rightarrow> (policy_db, 'a) act" where
  "checked r f = (case r of Inl e \<Rightarrow> rraise e | Inr v \<Rightarrow> f v)"

definition require :: "bool \<Rightarrow> string \<Rightarrow> unit res" where
  "require b msg = (if b then Inr () else Inl (ValueError msg))"

lemma require_Inr: "require b m = Inr u \<longleftrightarrow> b"
  by (simp add: require_def)

definition named :: "string \<Rightarrow> string \<Rightarrow> string res" where
  "named what raw = (let name = py_strip raw in
     if name = [] \<or> length name > 50 then Inl (ValueError (what @ '' name must be 1-50 characters'')) else Inr name)"

section \<open>Profiles\<close>

definition profile_values ::
  "policy_db \<Rightarrow> string \<Rightarrow> string \<Rightarrow> string \<Rightarrow> string \<Rightarrow> string list \<Rightarrow> pyval \<Rightarrow> string option \<Rightarrow> (string \<times> pyval) list
   \<Rightarrow> (int \<Rightarrow> profile) res" where
  "profile_values d name0 desired_mode preset notes blocked_services quota_mb quota_action quotas =
     (let st = store_of d in
      ebind (named ''Profile'' name0) (\<lambda>name.
      ebind (validate_mode desired_mode False) (\<lambda>mode.
      ebind (validate_preset st preset) (\<lambda>bandwidth.
      ebind (normalize_quota_mb quota_mb ''Daily data quota'') (\<lambda>daily.
      ebind (normalize_quota_action quota_action) (\<lambda>action.
      ebind (normalize_service_quotas quotas (routeros_supported_service_keys st @ policy_group_keys st)) (\<lambda>service_quotas.
        Inr (\<lambda>i. \<lparr> pf_id = i, pf_name = name, pf_desired_mode = mode, pf_bandwidth_preset = bandwidth,
                   pf_notes = take 250 (py_strip notes), pf_blocked_services = validate_services st blocked_services,
                   pf_daily_quota_mb = daily, pf_daily_quota_action = action, pf_service_quotas = service_quotas \<rparr>))))))))"

definition create_profile ::
  "string \<Rightarrow> string \<Rightarrow> string \<Rightarrow> string \<Rightarrow> string list \<Rightarrow> pyval \<Rightarrow> string option \<Rightarrow> (string \<times> pyval) list
   \<Rightarrow> (policy_db, profile option) act" where
  "create_profile name mode preset notes blocked quota_mb quota_action quotas d =
     checked (profile_values d name mode preset notes blocked quota_mb quota_action quotas) (\<lambda>row.
       rbind (policy_write ''profiles'' ''Profile created'' (\<lambda>d.
         let p = row (pd_next_profile d) in
         if pf_name p \<in> pf_name ` set (pd_profiles d) then Inl (ValueError ''A profile with that name already exists'')
         else Inr (pf_id p, d\<lparr> pd_profiles := pd_profiles d @ [p], pd_next_profile := pd_next_profile d + 1 \<rparr>)))
       (\<lambda>i d. (Inr (get_profile (store_of d) i), d))) d"

definition update_profile ::
  "int \<Rightarrow> string \<Rightarrow> string \<Rightarrow> string \<Rightarrow> string \<Rightarrow> string list \<Rightarrow> pyval \<Rightarrow> string option \<Rightarrow> (string \<times> pyval) list
   \<Rightarrow> (policy_db, profile option) act" where
  "update_profile i name mode preset notes blocked quota_mb quota_action quotas d =
     checked (profile_values d name mode preset notes blocked quota_mb quota_action quotas) (\<lambda>row.
       rbind (policy_write ''profiles'' ''Profile updated'' (\<lambda>d.
         if i \<notin> pf_id ` set (pd_profiles d) then Inl (ValueError ''Profile not found'')
         else if list_ex (\<lambda>p. pf_id p \<noteq> i \<and> pf_name p = pf_name (row i)) (pd_profiles d)
         then Inl (ValueError ''A profile with that name already exists'')
         else Inr ((), d\<lparr> pd_profiles := map (\<lambda>p. if pf_id p = i then row i else p) (pd_profiles d) \<rparr>)))
       (\<lambda>_ d. (Inr (get_profile (store_of d) i), d))) d"

definition delete_profile :: "int \<Rightarrow> (policy_db, unit) act" where
  "delete_profile i =
     policy_write ''profiles'' ''Profile deleted'' (\<lambda>d.
       if i \<notin> pf_id ` set (pd_profiles d) then Inl (ValueError ''Profile not found'')
       else Inr ((), d\<lparr>
         pd_devices := map (\<lambda>(ip, r). (ip, if dv_profile_id r = Some i then r\<lparr> dv_profile_id := None \<rparr> else r)) (pd_devices d),
         pd_profiles := filter (\<lambda>p. pf_id p \<noteq> i) (pd_profiles d) \<rparr>))"

section \<open>Devices\<close>

definition DEVICE_CATEGORIES :: "string list" where
  "DEVICE_CATEGORIES = [''phone'', ''tablet'', ''laptop'', ''tv'', ''console'', ''iot'', ''other'']"

definition managed_identity_name :: "string \<Rightarrow> string \<Rightarrow> string" where
  "managed_identity_name alias ip = (let a = py_strip alias in if a \<noteq> [] then take 50 a else ip)"

definition ensure_managed_device_identity :: "string \<Rightarrow> string \<Rightarrow> string \<Rightarrow> policy_db \<Rightarrow> policy_db" where
  "ensure_managed_device_identity uuid ip alias d =
     (let name = managed_identity_name alias ip in
      case map_of (pd_identities d) ip of
        Some m \<Rightarrow> d\<lparr> pd_identities := AList.update ip (m\<lparr> mi_name := name \<rparr>) (pd_identities d) \<rparr>
      | None \<Rightarrow> d\<lparr> pd_identities := pd_identities d @
            [(ip, \<lparr> mi_id = ''mdi_'' @ uuid, mi_since = db_clock (pd_queue d), mi_name = name \<rparr>)] \<rparr>)"

definition selected_profile :: "policy_db \<Rightarrow> pyval \<Rightarrow> int option res" where
  "selected_profile d profile_id =
     (if is_zero_form profile_id then Inr None
      else case pyval_int profile_id of
             None \<Rightarrow> Inl (ValueError ''invalid literal for int()'')
           | Some i \<Rightarrow> if get_profile (store_of d) i = None then Inl (ValueError ''Selected profile does not exist'')
                       else Inr (Some i))"

definition update_device ::
  "string \<Rightarrow> string \<Rightarrow> string \<Rightarrow> string \<Rightarrow> pyval \<Rightarrow> string \<Rightarrow> string \<Rightarrow> bool \<Rightarrow> (policy_db, unit) act" where
  "update_device uuid ip alias0 notes profile_id mode_override category favourite d =
     checked (ebind (validate_mode mode_override True) (\<lambda>mode. ebind (selected_profile d profile_id) (\<lambda>pid. Inr (mode, pid)))) (\<lambda>(mode, pid).
       let alias = take 50 (py_strip alias0);
           row = \<lparr> dv_alias = alias, dv_profile_id = pid, dv_mode_override = mode,
                   dv_category = (if category \<in> set DEVICE_CATEGORIES then category else ''other''),
                   dn_notes = take 250 (py_strip notes), dn_favourite = favourite \<rparr>
       in policy_write ''devices'' ''Managed device policy updated'' (\<lambda>d.
            Inr ((), ensure_managed_device_identity uuid ip alias (d\<lparr> pd_devices := AList.update ip row (pd_devices d) \<rparr>)))) d"

definition bulk_row :: "int option \<Rightarrow> string \<Rightarrow> string option \<Rightarrow> device_entry option \<Rightarrow> device_entry" where
  "bulk_row pid mode category current =
     (let r = (case current of None \<Rightarrow> \<lparr> dv_alias = [], dv_profile_id = None, dv_mode_override = ''inherit'', dv_category = ''other'',
                                dn_notes = [], dn_favourite = False \<rparr> | Some r \<Rightarrow> r)
      in r\<lparr> dv_profile_id := pid, dv_mode_override := mode,
            dv_category := (case category of Some c \<Rightarrow> if c \<in> set DEVICE_CATEGORIES then c else dv_category r | None \<Rightarrow> dv_category r) \<rparr>)"

fun bulk_devices :: "int option \<Rightarrow> string \<Rightarrow> string option \<Rightarrow> (string \<times> string) list \<Rightarrow> policy_db \<Rightarrow> policy_db" where
  "bulk_devices pid mode category [] d = d"
| "bulk_devices pid mode category ((ip, uuid) # rest) d =
     (let row = bulk_row pid mode category (map_of (pd_devices d) ip)
      in bulk_devices pid mode category rest
           (ensure_managed_device_identity uuid ip (dv_alias row) (d\<lparr> pd_devices := AList.update ip row (pd_devices d) \<rparr>)))"

definition bulk_update_devices :: "(string \<times> string) list \<Rightarrow> pyval \<Rightarrow> string \<Rightarrow> string option \<Rightarrow> (policy_db, unit) act" where
  "bulk_update_devices ips profile_id mode_override category d =
     checked (ebind (require (ips \<noteq> []) ''Select at least one device'') (\<lambda>_.
              ebind (validate_mode mode_override True) (\<lambda>mode. ebind (selected_profile d profile_id) (\<lambda>pid. Inr (mode, pid))))) (\<lambda>(mode, pid).
       policy_write ''devices'' ''Managed device policies bulk updated'' (\<lambda>d. Inr ((), bulk_devices pid mode category ips d))) d"

section \<open>Policy templates\<close>

definition save_template_from_profile :: "string \<Rightarrow> int \<Rightarrow> (policy_db, int) act" where
  "save_template_from_profile name0 profile_id d =
     checked (case get_profile (store_of d) profile_id of
         None \<Rightarrow> Inl (ValueError ''Profile not found'')
       | Some p \<Rightarrow> ebind (named ''Template'' name0) (\<lambda>name. Inr (name, p))) (\<lambda>(name, p).
       policy_write ''templates'' ''Policy template created'' (\<lambda>d.
         if name \<in> pf_name ` set (pd_policy_templates d) then Inl (ValueError ''A template with that name already exists'')
         else let i = pd_next_policy_template d in
           Inr (i, d\<lparr> pd_policy_templates := pd_policy_templates d @ [p\<lparr> pf_id := i, pf_name := name \<rparr>],
                      pd_next_policy_template := i + 1 \<rparr>))) d"

definition apply_template :: "int \<Rightarrow> int \<Rightarrow> (policy_db, unit) act" where
  "apply_template template_id profile_id =
     policy_write ''profiles'' ''Policy template applied'' (\<lambda>d.
       case find (\<lambda>t. pf_id t = template_id) (pd_policy_templates d) of
         None \<Rightarrow> Inl (ValueError ''Template not found'')
       | Some t \<Rightarrow>
           if profile_id \<notin> pf_id ` set (pd_profiles d) then Inl (ValueError ''Profile not found'')
           else Inr ((), d\<lparr> pd_profiles := map (\<lambda>p. if pf_id p = profile_id
                then t\<lparr> pf_id := pf_id p, pf_name := pf_name p \<rparr> else p) (pd_profiles d) \<rparr>))"

definition delete_template :: "int \<Rightarrow> (policy_db, unit) act" where
  "delete_template i =
     policy_write ''templates'' ''Policy template deleted'' (\<lambda>d.
       if i \<notin> pf_id ` set (pd_policy_templates d) then Inl (ValueError ''Template not found'')
       else Inr ((), d\<lparr> pd_policy_templates := filter (\<lambda>t. pf_id t \<noteq> i) (pd_policy_templates d) \<rparr>))"

section \<open>Bandwidth presets\<close>

text \<open>\<open>re.sub(r"[^a-z0-9_]+", "_", s).strip("_")\<close> of a normalised text.\<close>

fun underscored :: "bool \<Rightarrow> string \<Rightarrow> string" where
  "underscored prev [] = []"
| "underscored prev (c # cs) =
     (if is_key_char c \<or> c = CHR ''_'' then c # underscored False cs
      else if prev then underscored True cs else CHR ''_'' # underscored True cs)"

definition strip_char :: "char \<Rightarrow> string \<Rightarrow> string" where
  "strip_char c s = rev (dropWhile (\<lambda>x. x = c) (rev (dropWhile (\<lambda>x. x = c) s)))"

definition slug :: "string \<Rightarrow> string" where
  "slug s = strip_char CHR ''_'' (underscored False (norm_key s))"

text \<open>\<open>except BandwidthRateError as exc: raise ValueError(str(exc))\<close>\<close>

definition as_value_error :: "'a res \<Rightarrow> 'a res" where
  "as_value_error r = (case r of Inl (BandwidthRateError m) \<Rightarrow> Inl (ValueError m) | _ \<Rightarrow> r)"

definition save_bandwidth_preset :: "string \<Rightarrow> string \<Rightarrow> string \<Rightarrow> string \<Rightarrow> string \<Rightarrow> (policy_db, unit) act" where
  "save_bandwidth_preset key0 name0 upload0 download0 description d =
     (let key = slug key0; name = take 50 (py_strip name0) in
      checked (ebind (require (key \<noteq> [] \<and> length key \<le> 40) ''Preset key must contain letters/numbers'') (\<lambda>_.
               ebind (require (py_strip name0 \<noteq> []) ''Preset name is required'') (\<lambda>_.
               ebind (as_value_error (normalize_rate upload0)) (\<lambda>upload.
               ebind (as_value_error (normalize_rate download0)) (\<lambda>download. Inr (upload, download)))))) (\<lambda>(upload, download).
        policy_write ''bandwidth-presets'' ''Bandwidth preset saved'' (\<lambda>d.
          let existing = find (\<lambda>p. bp_key p = key) (pd_presets d);
              row = \<lparr> bp_key = key, bp_name = name, bp_upload = upload, bp_download = download,
                      pr_description = take 160 (py_strip description), pr_builtin = False \<rparr>
          in if (case existing of None \<Rightarrow> False | Some p \<Rightarrow> pr_builtin p) then Inl (ValueError ''Built-in presets cannot be replaced'')
             else if list_ex (\<lambda>p. bp_key p \<noteq> key \<and> bp_name p = name) (pd_presets d)
             then Inl (ApiFault ''UNIQUE constraint failed: bandwidth_presets.name'')
             else Inr ((), d\<lparr> pd_presets :=
               (if existing = None then pd_presets d @ [row]
                else map (\<lambda>p. if bp_key p = key then row else p) (pd_presets d)) \<rparr>))) d)"

definition delete_bandwidth_preset :: "string \<Rightarrow> (policy_db, unit) act" where
  "delete_bandwidth_preset key =
     policy_write ''bandwidth-presets'' ''Bandwidth preset deleted'' (\<lambda>d.
       case find (\<lambda>p. bp_key p = key) (pd_presets d) of
         None \<Rightarrow> Inl (ValueError ''Preset not found'')
       | Some p \<Rightarrow>
           if pr_builtin p then Inl (ValueError ''Built-in presets cannot be deleted'')
           else if list_ex (\<lambda>q. pf_bandwidth_preset q = key) (pd_profiles d) then Inl (ValueError ''Preset is in use by a profile'')
           else Inr ((), d\<lparr> pd_presets := filter (\<lambda>q. bp_key q \<noteq> key) (pd_presets d) \<rparr>))"

end
