(* ===== verification/PolicyRules.thy ===== *)
theory PolicyRules
  imports PolicyEditing
begin

text \<open>
  Editing the rules of the household (\<open>PolicyStore\<close> in \<open>src/app/policy_store.py\<close>): custom services and
  their enforcement approval, aggregate groups, service collections, schedule plans, schedule
  templates and date exceptions, and what refers to a service.
\<close>

section \<open>Services\<close>

datatype raw_list = Text string | Items "string list"

text \<open>\<open>re.split(r"[,\n\r\t ]+", text)\<close>; the empty parts are skipped by the callers.\<close>

definition is_separator :: "char \<Rightarrow> bool" where
  "is_separator c = (c \<in> {CHR '','', CHR 0x0A, CHR 0x0D, CHR 0x09, CHR '' ''})"

fun fields_of :: "string \<Rightarrow> string list" where
  "fields_of [] = []"
| "fields_of (c # cs) =
     (if is_separator c then fields_of cs
      else case cs of
          [] \<Rightarrow> [[c]]
        | x # _ \<Rightarrow> (if is_separator x then [c] # fields_of cs
                     else (case fields_of cs of [] \<Rightarrow> [[c]] | w # ws \<Rightarrow> (c # w) # ws)))"

definition raw_items :: "raw_list \<Rightarrow> string list" where
  "raw_items v = (case v of Text s \<Rightarrow> fields_of s | Items xs \<Rightarrow> xs)"

definition remove_prefix :: "string \<Rightarrow> string \<Rightarrow> string" where
  "remove_prefix p s = (if starts_with p s then drop (length p) s else s)"

text \<open>The cleaned items in the order of their first occurrence.\<close>

fun collect :: "(string \<Rightarrow> string res) \<Rightarrow> string list \<Rightarrow> string list \<Rightarrow> string list res" where
  "collect clean [] acc = Inr acc"
| "collect clean (raw # rest) acc =
     ebind (clean raw) (\<lambda>v. collect clean rest (if v = [] \<or> v \<in> set acc then acc else acc @ [v]))"

definition dns_suffix :: "string \<Rightarrow> string res" where
  "dns_suffix raw =
     (let v0 = rev (dropWhile (\<lambda>c. c = CHR ''.'') (rev (norm_key raw)));
          v1 = takeWhile (\<lambda>c. c \<noteq> CHR ''/'') (remove_prefix ''http://'' (remove_prefix ''https://'' v0));
          v = (if starts_with ''*.'' v1 then drop 2 v1 else v1);
          edge = is_key_char; inner = (\<lambda>c. is_key_char c \<or> c = CHR ''.'' \<or> c = CHR ''-'')
      in if v = [] then Inr []
         else if length v > 253 \<or> \<not> (edge (hd v) \<and> edge (last v) \<and> list_all inner v)
         then Inl (ValueError (''Invalid DNS suffix: '' @ raw)) else Inr v)"

definition tls_pattern :: "string \<Rightarrow> string res" where
  "tls_pattern raw =
     (let v = norm_key raw
      in if v = [] then Inr []
         else if length v > 200 \<or> \<not> list_all (\<lambda>c. is_key_char c \<or> c \<in> {CHR ''.'', CHR ''*'', CHR ''_'', CHR ''-''}) v
         then Inl (ValueError (''Invalid TLS/SNI pattern: '' @ raw)) else Inr v)"

definition normalize_dns_suffixes :: "raw_list \<Rightarrow> string list res" where
  "normalize_dns_suffixes v = ebind (collect dns_suffix (raw_items v) []) (\<lambda>xs. Inr (take 80 xs))"

definition normalize_tls_patterns :: "raw_list \<Rightarrow> string list res" where
  "normalize_tls_patterns v = ebind (collect tls_pattern (raw_items v) []) (\<lambda>xs. Inr (take 40 xs))"

definition get_service :: "policy_db \<Rightarrow> string \<Rightarrow> service_entry option" where
  "get_service d key = find (\<lambda>s. sr_key s = norm_key key) (list_services d)"

definition set_service_enforcement_approved :: "string \<Rightarrow> bool \<Rightarrow> (policy_db, service_entry option) act" where
  "set_service_enforcement_approved key0 approved d =
     (let key = norm_key key0 in
      checked (case get_service d key of
          None \<Rightarrow> Inl (ValueError ''Service not found'')
        | Some s \<Rightarrow>
            if sr_builtin s then Inl (ValueError ''Built-in RouterOS contracts are manually owned and cannot be reprovisioned'')
            else if approved then ebind (build_custom_service_contract (service_row.truncate s)) (\<lambda>_. Inr ()) else Inr ()) (\<lambda>_.
        rbind (policy_write ''services'' ''Service enforcement approval changed'' (\<lambda>d.
          Inr ((), d\<lparr> pd_services := map (\<lambda>s. if sr_key s = key
            then s\<lparr> sr_enforcement_approved := approved, cs_approved_at := (if approved then Some (db_clock (pd_queue d)) else None) \<rparr>
            else s) (pd_services d) \<rparr>)))
        (\<lambda>_ d. (Inr (get_service d key), d))) d)"

definition save_service ::
  "string \<Rightarrow> string \<Rightarrow> string \<Rightarrow> string \<Rightarrow> raw_list \<Rightarrow> raw_list \<Rightarrow> bool \<Rightarrow> (policy_db, service_entry option) act" where
  "save_service key0 name0 description category0 dns0 tls0 enabled d =
     (let key = slug key0; name = take 50 (py_strip name0);
          category = str_or (filter (\<lambda>c. is_key_char c \<or> c = CHR ''_'' \<or> c = CHR ''-'') (norm_key (str_or category0 ''other''))) ''other'' in
      checked (ebind (require (key \<noteq> [] \<and> length key \<le> 40) ''Service key must contain letters/numbers'') (\<lambda>_.
               ebind (require (py_strip name0 \<noteq> []) ''Service name is required'') (\<lambda>_.
               ebind (require (length category \<le> 30) ''Service category is too long'') (\<lambda>_.
               ebind (normalize_dns_suffixes dns0) (\<lambda>dns.
               ebind (normalize_tls_patterns tls0) (\<lambda>tls. Inr (dns, tls))))))) (\<lambda>(dns, tls).
        rbind (policy_write ''services'' ''Custom service saved'' (\<lambda>d.
          let existing = find (\<lambda>s. sr_key s = key) (pd_services d);
              fresh = \<lparr> sr_key = key, sr_name = name, sr_builtin = False, sr_category = category, sr_dns_suffixes = dns,
                        sr_tls_patterns = tls, sr_enforcement_approved = False, cs_description = take 160 (py_strip description),
                        cs_classifier = enabled, cs_approved_at = None \<rparr>
          in if (case existing of None \<Rightarrow> False | Some s \<Rightarrow> sr_builtin s) then Inl (ValueError ''Built-in services cannot be replaced'')
             else if (case existing of None \<Rightarrow> False | Some s \<Rightarrow> sr_enforcement_approved s \<and> service_list (sr_tls_patterns s) \<noteq> tls)
             then Inl (ValueError ''Remove the approved RouterOS contract before changing TLS/SNI patterns'')
             else if list_ex (\<lambda>s. sr_key s \<noteq> key \<and> sr_name s = name) (pd_services d)
             then Inl (ApiFault ''UNIQUE constraint failed: services.name'')
             else Inr ((), d\<lparr> pd_services :=
               (if existing = None then pd_services d @ [fresh]
                else map (\<lambda>s. if sr_key s = key
                  then fresh\<lparr> sr_builtin := sr_builtin s, sr_enforcement_approved := sr_enforcement_approved s,
                              cs_approved_at := cs_approved_at s \<rparr>
                  else s) (pd_services d)) \<rparr>)))
        (\<lambda>_ d. (Inr (find (\<lambda>s. sr_key s = key) (list_services d)), d))) d)"

section \<open>References to a service or group\<close>

record usage =
  us_profiles :: "(int \<times> string) list"
  us_quotas :: "(int \<times> string) list"
  us_templates :: "(int \<times> string) list"
  us_schedules :: "(int \<times> string) list"
  us_collections :: "(int \<times> string) list"

text \<open>\<open>_schedule_plan_dict\<close>: the service of a plan, none when its action is invalid; \<open>policy_group_usage\<close>
  then takes what stands before the colon.\<close>

definition listed_service :: "policy_db \<Rightarrow> schedule_plan \<Rightarrow> string" where
  "listed_service d p = (case normalize_service_schedule_action (store_of d) (sp_action_value p) of Inl _ \<Rightarrow> [] | Inr (_, k, _) \<Rightarrow> k)"

definition action_service :: "policy_db \<Rightarrow> schedule_plan \<Rightarrow> string" where
  "action_service d p =
     str_or (listed_service d p) (takeWhile (\<lambda>c. c \<noteq> CHR '':'') (sp_action_value p))"

definition policy_group_usage :: "policy_db \<Rightarrow> string \<Rightarrow> usage" where
  "policy_group_usage d key0 =
     (let key = norm_key key0; refs = (\<lambda>P. map (\<lambda>p. (pf_id p, pf_name p)) \<circ> filter P);
          blocks = (\<lambda>p. key \<in> set (pf_blocked_services p)); limits = (\<lambda>p. key \<in> set (dict_keys (pf_service_quotas p)))
      in \<lparr> us_profiles = refs blocks (list_profiles d), us_quotas = refs limits (list_profiles d),
           us_templates = refs (\<lambda>p. blocks p \<or> limits p) (list_templates d),
           us_schedules = map (\<lambda>p. (sp_id p, sp_label p))
             (filter (\<lambda>p. sp_action_type p = ''service'' \<and> action_service d p = key) (list_schedule_plans d)),
           us_collections = map (\<lambda>c. (co_id c, co_name c)) (filter (\<lambda>c. key \<in> set (co_services c)) (list_service_groups d)) \<rparr>)"

definition usage_total :: "usage \<Rightarrow> nat" where
  "usage_total u = length (us_profiles u) + length (us_quotas u) + length (us_templates u) + length (us_schedules u)
     + length (us_collections u)"

text \<open>\<open>service_usage\<close> adds the aggregate groups that contain the service.\<close>

definition service_usage :: "policy_db \<Rightarrow> string \<Rightarrow> usage \<times> (string \<times> string) list" where
  "service_usage d key0 =
     (let key = norm_key key0
      in (policy_group_usage d key, map (\<lambda>g. (gr_key g, gr_name g)) (filter (\<lambda>g. key \<in> set (gr_members g)) (list_policy_groups d))))"

definition usage_label :: "string \<Rightarrow> 'a list \<Rightarrow> string list" where
  "usage_label label xs = (if xs = [] then [] else [label @ (if length xs \<noteq> 1 then ''s'' else [])])"

definition delete_service :: "string \<Rightarrow> (policy_db, unit) act" where
  "delete_service key0 d =
     (let key = norm_key key0; (u, groups) = service_usage d key; total = usage_total u + length groups in
      checked (case find (\<lambda>s. sr_key s = key) (pd_services d) of
          None \<Rightarrow> Inl (ValueError ''Service not found'')
        | Some s \<Rightarrow>
            if sr_builtin s then Inl (ValueError ''Built-in services cannot be deleted'')
            else if sr_enforcement_approved s
            then Inl (ValueError ''Remove the custom RouterOS enforcement contract before deleting this service'')
            else require (total = 0)
              (''Custom service is still referenced by '' @ show_nat total @ '' policy/configuration reference(s) (''
               @ join_with '', '' (usage_label ''profile'' (us_profiles u) @ usage_label ''service quota'' (us_quotas u)
                   @ usage_label ''policy template'' (us_templates u) @ usage_label ''schedule'' (us_schedules u)
                   @ usage_label ''reusable service collection'' (us_collections u) @ usage_label ''aggregate policy group'' groups)
               @ ''); remove those references before deleting it'')) (\<lambda>_.
        policy_write ''services'' ''Custom service deleted'' (\<lambda>d.
          Inr ((), d\<lparr> pd_services := filter (\<lambda>s. sr_key s \<noteq> key) (pd_services d) \<rparr>))) d)"

section \<open>Aggregate groups\<close>

definition policy_group_members :: "policy_db \<Rightarrow> string list \<Rightarrow> string list res" where
  "policy_group_members d members =
     (let clean = sorted_set (clean_keys members); group_keys = policy_group_keys (store_of d);
          nested = filter (\<lambda>k. k \<in> set group_keys) clean; missing = filter (\<lambda>k. k \<notin> sr_key ` set (pd_services d)) clean
      in ebind (require (clean \<noteq> []) ''Aggregate policy group must contain at least one concrete service'') (\<lambda>_.
         ebind (require (nested = []) (''Aggregate policy groups cannot contain other aggregate groups: '' @ join_with '', '' nested)) (\<lambda>_.
         ebind (require (missing = []) (''Unknown concrete service(s): '' @ join_with '', '' missing)) (\<lambda>_. Inr clean))))"

definition new_policy_group_key :: "policy_db \<Rightarrow> string \<Rightarrow> string res" where
  "new_policy_group_key d name =
     (let base = take 32 (str_or (slug name) ''group'');
          reserved = map sr_key (pd_services d) @ policy_group_keys (store_of d)
      in if base \<notin> set reserved then Inr base
         else case find (\<lambda>k. k \<notin> set reserved) (map (\<lambda>n. take 27 base @ ''_'' @ show_nat n) [2..<1000]) of
                Some k \<Rightarrow> Inr k
              | None \<Rightarrow> Inl (ValueError ''Unable to allocate a unique aggregate policy-group key''))"

definition group_taken :: string where
  "group_taken = ''An aggregate policy group with that name already exists''"

definition create_policy_group :: "string \<Rightarrow> string \<Rightarrow> string list \<Rightarrow> (policy_db, group_def option) act" where
  "create_policy_group name0 description members d =
     checked (ebind (named ''Aggregate policy group'' name0) (\<lambda>name.
              ebind (require (py_lower name \<notin> (\<lambda>g. py_lower (gr_name g)) ` set (pd_groups d)) group_taken) (\<lambda>_.
              ebind (policy_group_members d members) (\<lambda>clean.
              ebind (new_policy_group_key d name) (\<lambda>key. Inr (name, clean, key)))))) (\<lambda>(name, clean, key).
       rbind (policy_write ''policy-groups'' ''Aggregate policy group created'' (\<lambda>d.
         if list_ex (\<lambda>g. gr_key g = key \<or> gr_name g = name) (pd_groups d) then Inl (ValueError group_taken)
         else Inr ((), d\<lparr> pd_groups := pd_groups d @ [\<lparr> gr_key = key, gr_name = name,
                 gr_description = take 250 (py_strip description), gr_members = clean, gr_builtin = False \<rparr>] \<rparr>)))
       (\<lambda>_ d. (Inr (find (\<lambda>g. gr_key g = key) (list_policy_groups d)), d))) d"

definition update_policy_group :: "string \<Rightarrow> string \<Rightarrow> string \<Rightarrow> string list \<Rightarrow> (policy_db, group_def option) act" where
  "update_policy_group key0 name0 description members d =
     (let key = norm_key key0 in
      checked (ebind (require (key \<in> gr_key ` set (pd_groups d)) ''Aggregate policy group not found'') (\<lambda>_.
               ebind (named ''Aggregate policy group'' name0) (\<lambda>name.
               ebind (require (\<not> list_ex (\<lambda>g. gr_key g \<noteq> key \<and> py_lower (gr_name g) = py_lower name) (pd_groups d)) group_taken) (\<lambda>_.
               ebind (policy_group_members d members) (\<lambda>clean. Inr (name, clean)))))) (\<lambda>(name, clean).
        rbind (policy_write ''policy-groups'' ''Aggregate policy group updated'' (\<lambda>d.
          Inr ((), d\<lparr> pd_groups := map (\<lambda>g. if gr_key g = key
            then g\<lparr> gr_name := name, gr_description := take 250 (py_strip description), gr_members := clean \<rparr> else g) (pd_groups d) \<rparr>)))
        (\<lambda>_ d. (Inr (find (\<lambda>g. gr_key g = key) (list_policy_groups d)), d))) d)"

definition delete_policy_group :: "string \<Rightarrow> (policy_db, unit) act" where
  "delete_policy_group key0 d =
     (let key = norm_key key0; total = usage_total (policy_group_usage d key) in
      checked (case find (\<lambda>g. gr_key g = key) (pd_groups d) of
          None \<Rightarrow> Inl (ValueError ''Aggregate policy group not found'')
        | Some g \<Rightarrow>
            if gr_builtin g
            then Inl (ValueError ''Built-in aggregate policy groups cannot be deleted; rename or update their membership instead'')
            else require (total = 0) (''Aggregate policy group is still referenced by '' @ show_nat total
                   @ '' policy reference(s); remove those references before deleting it'')) (\<lambda>_.
        policy_write ''policy-groups'' ''Aggregate policy group deleted'' (\<lambda>d.
          Inr ((), d\<lparr> pd_groups := filter (\<lambda>g. gr_key g \<noteq> key) (pd_groups d) \<rparr>))) d)"

section \<open>Service collections\<close>

definition save_service_group :: "string \<Rightarrow> string \<Rightarrow> string list \<Rightarrow> (policy_db, int) act" where
  "save_service_group name0 description services d =
     checked (ebind (named ''Service group'' name0) (\<lambda>name. Inr (name, validate_services (store_of d) services))) (\<lambda>(name, clean).
       policy_write ''service-groups'' ''Service collection created'' (\<lambda>d.
         if name \<in> co_name ` set (pd_collections d) then Inl (ValueError ''A service group with that name already exists'')
         else let i = pd_next_collection d in
           Inr (i, d\<lparr> pd_collections := pd_collections d @ [\<lparr> co_id = i, co_name = name,
                  co_description = take 200 (py_strip description), co_services = clean \<rparr>], pd_next_collection := i + 1 \<rparr>))) d"

definition apply_service_group :: "int \<Rightarrow> int \<Rightarrow> string \<Rightarrow> (policy_db, profile option) act" where
  "apply_service_group group_id profile_id action0 d =
     (let action = norm_key action0; st = store_of d in
      checked (ebind (require (action \<in> {''block'', ''allow''}) ''Service collection action must be block or allow'') (\<lambda>_.
               case find (\<lambda>c. co_id c = group_id) (list_service_groups d) of
                 None \<Rightarrow> Inl (ValueError ''Service collection not found'')
               | Some c \<Rightarrow> (case get_profile st profile_id of
                     None \<Rightarrow> Inl (ValueError ''Profile not found'') | Some p \<Rightarrow> Inr (c, p)))) (\<lambda>(c, p).
        let members = map norm_key (co_services c);
            expanded = expand_policy_keys members (routeros_supported_service_keys st) (Some (policy_group_catalog st));
            current = (if action = ''block'' then pf_blocked_services p @ members
                       else filter (\<lambda>k. k \<notin> set members \<and> k \<notin> set (ex_effective_services expanded)) (pf_blocked_services p))
        in update_profile profile_id (pf_name p) (pf_desired_mode p) (pf_bandwidth_preset p) (pf_notes p) (sorted_set current)
             (PInt (pf_daily_quota_mb p)) (Some (pf_daily_quota_action p)) (map (\<lambda>(k, n). (k, PInt n)) (pf_service_quotas p))) d)"

definition delete_service_group :: "int \<Rightarrow> (policy_db, unit) act" where
  "delete_service_group i =
     policy_write ''service-groups'' ''Service collection deleted'' (\<lambda>d.
       if i \<notin> co_id ` set (pd_collections d) then Inl (ValueError ''Service group not found'')
       else Inr ((), d\<lparr> pd_collections := filter (\<lambda>c. co_id c \<noteq> i) (pd_collections d) \<rparr>))"

section \<open>Schedule plans\<close>

definition schedule_target :: "(string \<Rightarrow> string option) \<Rightarrow> policy_db \<Rightarrow> string \<Rightarrow> string \<Rightarrow> (string \<times> string) res" where
  "schedule_target ip_address d type0 value0 =
     (let target_type = norm_key type0; target_value = py_strip value0
      in if target_type \<notin> {''all'', ''profile'', ''device''} then Inl (ValueError ''Invalid schedule target'')
         else if target_type = ''all'' then Inr (target_type, [])
         else if target_type = ''profile'' then
           (case py_int target_value of
              None \<Rightarrow> Inl (ValueError ''Select a valid profile target'')
            | Some i \<Rightarrow> if get_profile (store_of d) i = None then Inl (ValueError ''Schedule profile target does not exist'')
                        else Inr (target_type, show_int i))
         else (case ip_address target_value of
              None \<Rightarrow> Inl (ValueError ''Schedule device target must be a valid IP address'')
            | Some ip \<Rightarrow> Inr (target_type, ip)))"

text \<open>\<open>re.fullmatch(r"(?:[01]\d|2[0-3]):[0-5]\d", s)\<close>\<close>

definition is_clock :: "string \<Rightarrow> bool" where
  "is_clock s = (case s of
       [a, b, c, x, y] \<Rightarrow> c = CHR '':'' \<and> is_digit a \<and> is_digit b \<and> is_digit x \<and> is_digit y
          \<and> 10 * digit_val a + digit_val b \<le> 23 \<and> digit_val x \<le> 5
     | _ \<Rightarrow> False)"

definition clean_days :: "string list \<Rightarrow> string list" where
  "clean_days days = foldl (\<lambda>acc x. if x \<in> set WEEKDAYS \<and> x \<notin> set acc then acc @ [x] else acc) [] (map norm_key days)"

definition schedule_plan_fields ::
  "(string \<Rightarrow> string option) \<Rightarrow> policy_db \<Rightarrow> string \<Rightarrow> string \<Rightarrow> string \<Rightarrow> string \<Rightarrow> string \<Rightarrow> string \<Rightarrow> string list
   \<Rightarrow> (int \<Rightarrow> bool \<Rightarrow> schedule_plan) res" where
  "schedule_plan_fields ip_address d label0 target_type0 target_value0 action_type0 action_value0 clock0 days0 =
     ebind (schedule_target ip_address d target_type0 target_value0) (\<lambda>(target_type, target_value).
     let action_type = norm_key action_type0; label = py_strip label0; days = clean_days days0; clock = py_strip clock0 in
     ebind (require (action_type \<in> {''mode'', ''service''}) ''Invalid schedule action'') (\<lambda>_.
     ebind (require (label \<noteq> []) ''Schedule label is required'') (\<lambda>_.
     ebind (require (days \<noteq> []) ''Select at least one day'') (\<lambda>_.
     ebind (require (is_clock clock) ''Time must be HH:MM'') (\<lambda>_.
     ebind (if action_type = ''mode'' then validate_mode (norm_key action_value0) False
            else ebind (normalize_service_schedule_action (store_of d) action_value0) (\<lambda>(v, _, _). Inr v)) (\<lambda>action_value.
       Inr (\<lambda>i enabled. \<lparr> sp_id = i, sp_label = take 60 label, sp_days = days, sp_clock_time = clock, sp_action_type = action_type,
                 sp_action_value = action_value, sp_target_type = target_type, sp_target_value = target_value,
                 sp_enabled = enabled \<rparr>)))))))"

definition create_schedule_plan ::
  "(string \<Rightarrow> string option) \<Rightarrow> string \<Rightarrow> string \<Rightarrow> string \<Rightarrow> string \<Rightarrow> string \<Rightarrow> string \<Rightarrow> string list \<Rightarrow> (policy_db, int) act" where
  "create_schedule_plan ip_address label target_type target_value action_type action_value clock days d =
     checked (schedule_plan_fields ip_address d label target_type target_value action_type action_value clock days) (\<lambda>row.
       policy_write ''schedules'' ''Schedule plan created'' (\<lambda>d. let i = pd_next_plan d in
         Inr (i, d\<lparr> pd_plans := pd_plans d @ [row i True], pd_next_plan := i + 1 \<rparr>))) d"

definition get_schedule_plan :: "policy_db \<Rightarrow> int \<Rightarrow> schedule_plan option" where
  "get_schedule_plan d i = find (\<lambda>p. sp_id p = i) (pd_plans d)"

definition update_schedule_plan ::
  "(string \<Rightarrow> string option) \<Rightarrow> int \<Rightarrow> string \<Rightarrow> string \<Rightarrow> string \<Rightarrow> string \<Rightarrow> string \<Rightarrow> string \<Rightarrow> string list
   \<Rightarrow> (policy_db, schedule_plan option) act" where
  "update_schedule_plan ip_address i label target_type target_value action_type action_value clock days d =
     checked (schedule_plan_fields ip_address d label target_type target_value action_type action_value clock days) (\<lambda>row.
       rbind (policy_write ''schedules'' ''Schedule plan updated'' (\<lambda>d.
         if i \<notin> sp_id ` set (pd_plans d) then Inl (ValueError ''Schedule plan not found'')
         else Inr ((), d\<lparr> pd_plans := map (\<lambda>p. if sp_id p = i then row i (sp_enabled p) else p) (pd_plans d) \<rparr>)))
       (\<lambda>_ d. (Inr (get_schedule_plan d i), d))) d"

definition set_schedule_plan_enabled :: "int \<Rightarrow> bool \<Rightarrow> (policy_db, unit) act" where
  "set_schedule_plan_enabled i enabled =
     policy_write ''schedules'' ''Schedule plan state updated'' (\<lambda>d.
       if i \<notin> sp_id ` set (pd_plans d) then Inl (ValueError ''Schedule plan not found'')
       else Inr ((), d\<lparr> pd_plans := map (\<lambda>p. if sp_id p = i then p\<lparr> sp_enabled := enabled \<rparr> else p) (pd_plans d) \<rparr>))"

definition delete_schedule_plan :: "int \<Rightarrow> (policy_db, unit) act" where
  "delete_schedule_plan i =
     policy_write ''schedules'' ''Schedule plan deleted'' (\<lambda>d.
       if i \<notin> sp_id ` set (pd_plans d) then Inl (ValueError ''Schedule plan not found'')
       else Inr ((), d\<lparr> pd_plans := filter (\<lambda>p. sp_id p \<noteq> i) (pd_plans d) \<rparr>))"

text \<open>\<open>detect_schedule_conflicts\<close>: pairs of enabled plans that ask different things at one time.\<close>

definition plans_conflict :: "policy_db \<Rightarrow> schedule_plan \<Rightarrow> schedule_plan \<Rightarrow> bool" where
  "plans_conflict d a b =
     (sp_target_type a = sp_target_type b \<and> sp_target_value a = sp_target_value b
      \<and> set (sp_days a) \<inter> set (sp_days b) \<noteq> {} \<and> sp_clock_time a = sp_clock_time b
      \<and> (if sp_action_type a = ''service'' \<and> sp_action_type b = ''service''
         then listed_service d a = listed_service d b else sp_action_type a = sp_action_type b)
      \<and> sp_action_value a \<noteq> sp_action_value b)"

fun unordered_pairs :: "'a list \<Rightarrow> ('a \<times> 'a) list" where
  "unordered_pairs [] = []"
| "unordered_pairs (x # xs) = map (Pair x) xs @ unordered_pairs xs"

definition detect_schedule_conflicts :: "policy_db \<Rightarrow> string list" where
  "detect_schedule_conflicts d =
     map (\<lambda>(a, b). sp_label a @ '' conflicts with '' @ sp_label b @ '' at '' @ sp_clock_time a @ '' on ''
            @ join_with '', '' (sorted_set (filter (\<lambda>x. x \<in> set (sp_days b)) (sp_days a))))
       (filter (\<lambda>(a, b). plans_conflict d a b) (unordered_pairs (filter sp_enabled (list_schedule_plans d))))"

section \<open>Schedule templates\<close>

text \<open>The entry dictionaries have string values; the slots map a day and a time to the mode they ask for.\<close>

fun template_slots :: "string \<Rightarrow> string \<Rightarrow> string list \<Rightarrow> ((string \<times> string) \<times> string) list \<Rightarrow> ((string \<times> string) \<times> string) list res" where
  "template_slots clock mode [] slots = Inr slots"
| "template_slots clock mode (day # days) slots =
     (case map_of slots (day, clock) of
        Some previous \<Rightarrow>
          if previous \<noteq> mode then Inl (ValueError (''Schedule template has conflicting modes for '' @ py_upper day @ '' at '' @ clock
                                         @ '': '' @ py_upper previous @ '' and '' @ py_upper mode))
          else template_slots clock mode days slots
      | None \<Rightarrow> template_slots clock mode days (((day, clock), mode) # slots))"

fun template_entries :: "template_entry list \<Rightarrow> ((string \<times> string) \<times> string) list \<Rightarrow> template_entry list res" where
  "template_entries [] slots = Inr []"
| "template_entries (e # es) slots =
     (let days = clean_days (te_days e); clock = py_strip (te_time e); mode = norm_key (te_mode e) in
      ebind (require (is_clock clock) ''Template times must use a valid 24-hour HH:MM value'') (\<lambda>_.
      ebind (require (mode \<in> {''normal'', ''slow'', ''blocked''}) ''Template modes must be normal, slow or blocked'') (\<lambda>_.
      ebind (require (days \<noteq> []) ''Each template entry needs at least one day'') (\<lambda>_.
      ebind (template_slots clock mode days slots) (\<lambda>slots'.
      ebind (template_entries es slots') (\<lambda>rest. Inr (\<lparr> te_days = days, te_time = clock, te_mode = mode \<rparr> # rest)))))))"

definition normalize_schedule_template_entries :: "template_entry list \<Rightarrow> template_entry list res" where
  "normalize_schedule_template_entries entries =
     ebind (template_entries entries []) (\<lambda>clean.
     ebind (require (clean \<noteq> []) ''A schedule template needs at least one entry'') (\<lambda>_. Inr clean))"

definition save_schedule_template :: "string \<Rightarrow> string \<Rightarrow> template_entry list \<Rightarrow> (policy_db, int) act" where
  "save_schedule_template name0 description entries d =
     checked (ebind (named ''Template'' name0) (\<lambda>name.
              ebind (normalize_schedule_template_entries entries) (\<lambda>clean. Inr (name, clean)))) (\<lambda>(name, clean).
       policy_write ''schedule-templates'' ''Schedule template created'' (\<lambda>d.
         if name \<in> tp_name ` set (pd_templates d) then Inl (ValueError ''A schedule template with that name already exists'')
         else let i = pd_next_template d in
           Inr (i, d\<lparr> pd_templates := pd_templates d @ [\<lparr> tp_id = i, tp_name = name, tp_entries = clean,
                  tw_description = take 200 (py_strip description) \<rparr>], pd_next_template := i + 1 \<rparr>))) d"

definition delete_schedule_template :: "int \<Rightarrow> (policy_db, unit) act" where
  "delete_schedule_template i =
     policy_write ''schedule-templates'' ''Schedule template deleted'' (\<lambda>d.
       if list_ex (\<lambda>e. de_template_id e = Some i) (pd_exceptions d)
       then Inl (ValueError ''Schedule template is used by a date exception; remove the exception first'')
       else if i \<notin> tp_id ` set (pd_templates d) then Inl (ValueError ''Schedule template not found'')
       else Inr ((), d\<lparr> pd_templates := filter (\<lambda>t. tp_id t \<noteq> i) (pd_templates d) \<rparr>))"

section \<open>Date exceptions\<close>

definition leap_year :: "int \<Rightarrow> bool" where
  "leap_year y = (y mod 4 = 0 \<and> (y mod 100 \<noteq> 0 \<or> y mod 400 = 0))"

definition month_days :: "int \<Rightarrow> int \<Rightarrow> int" where
  "month_days y m = (if m = 2 then (if leap_year y then 29 else 28) else if m \<in> {4, 6, 9, 11} then 30 else 31)"

text \<open>The day ordinal of a proleptic Gregorian date, the inverse of \<open>civil_from_days\<close>.\<close>

definition days_from_civil :: "int \<Rightarrow> int \<Rightarrow> int \<Rightarrow> int" where
  "days_from_civil y0 m d =
     (let y = (if m \<le> 2 then y0 - 1 else y0); era = y div 400; yoe = y mod 400;
          mp = (if m > 2 then m - 3 else m + 9); doy = (153 * mp + 2) div 5 + d - 1;
          doe = 365 * yoe + yoe div 4 - yoe div 100 + doy
      in era * 146097 + doe - 719468)"

text \<open>\<open>re.fullmatch(r"\d{4}-\d{2}-\d{2}", s)\<close> and \<open>date.fromisoformat(s)\<close>\<close>

definition is_iso_date :: "string \<Rightarrow> bool" where
  "is_iso_date s = (length s = 10 \<and> list_all is_digit (take 4 s) \<and> s ! 4 = CHR ''-'' \<and> list_all is_digit (take 2 (drop 5 s))
     \<and> s ! 7 = CHR ''-'' \<and> list_all is_digit (drop 8 s))"

definition from_iso_date :: "string \<Rightarrow> int option" where
  "from_iso_date s =
     (let y = int (val_digits (take 4 s)); m = int (val_digits (take 2 (drop 5 s))); x = int (val_digits (drop 8 s))
      in if 1 \<le> y \<and> 1 \<le> m \<and> m \<le> 12 \<and> 1 \<le> x \<and> x \<le> month_days y m then Some (days_from_civil y m x) else None)"

definition save_date_exception ::
  "(string \<Rightarrow> string option) \<Rightarrow> string \<Rightarrow> string \<Rightarrow> string \<Rightarrow> string \<Rightarrow> string \<Rightarrow> string \<Rightarrow> int option \<Rightarrow> string \<Rightarrow> (policy_db, int) act" where
  "save_date_exception ip_address label0 start_date end_date target_type0 target_value0 mode template_id0 notes d =
     checked
       (let label = py_strip label0 in
        ebind (require (label \<noteq> []) ''Exception label is required'') (\<lambda>_.
        ebind (schedule_target ip_address d target_type0 target_value0) (\<lambda>(target_type, target_value).
        ebind (require (mode \<in> {''normal'', ''slow'', ''blocked'', ''template''}) ''Invalid exception mode'') (\<lambda>_.
        ebind (require (is_iso_date start_date \<and> is_iso_date end_date) ''Dates must use YYYY-MM-DD'') (\<lambda>_.
        ebind (case (from_iso_date start_date, from_iso_date end_date) of
                 (Some s, Some e) \<Rightarrow> Inr (s, e)
               | _ \<Rightarrow> Inl (ValueError ''Date exception contains an invalid calendar date'')) (\<lambda>(first, last).
        ebind (require (first \<le> last) ''End date must not be before start date'') (\<lambda>_.
        ebind (if mode \<noteq> ''template'' then Inr None
               else case template_id0 of
                   None \<Rightarrow> Inl (ValueError ''Select a schedule template'')
                 | Some t \<Rightarrow> if t = 0 then Inl (ValueError ''Select a schedule template'')
                             else if t \<notin> tp_id ` set (pd_templates d) then Inl (ValueError ''Schedule template not found'')
                             else Inr (Some t)) (\<lambda>template_id.
          Inr (\<lambda>i. \<lparr> de_id = i, de_label = take 60 label, de_start_date = first, de_end_date = last, de_target_type = target_type,
                     de_target_value = target_value, de_mode = mode, de_template_id = template_id,
                     ex_notes = take 200 (py_strip notes) \<rparr>))))))))) (\<lambda>row.
       policy_write ''date-exceptions'' ''Date exception created'' (\<lambda>d. let i = pd_next_exception d in
         Inr (i, d\<lparr> pd_exceptions := pd_exceptions d @ [row i], pd_next_exception := i + 1 \<rparr>))) d"

definition delete_date_exception :: "int \<Rightarrow> (policy_db, unit) act" where
  "delete_date_exception i =
     policy_write ''date-exceptions'' ''Date exception deleted'' (\<lambda>d.
       if i \<notin> de_id ` set (pd_exceptions d) then Inl (ValueError ''Date exception not found'')
       else Inr ((), d\<lparr> pd_exceptions := filter (\<lambda>e. de_id e \<noteq> i) (pd_exceptions d) \<rparr>))"

definition exceptions_conflict :: "exception_row \<Rightarrow> exception_row \<Rightarrow> bool" where
  "exceptions_conflict a b =
     (de_target_type a = de_target_type b \<and> de_target_value a = de_target_value b
      \<and> \<not> (de_end_date a < de_start_date b \<or> de_end_date b < de_start_date a)
      \<and> (de_mode a, de_template_id a) \<noteq> (de_mode b, de_template_id b))"

definition detect_date_exception_conflicts :: "policy_db \<Rightarrow> string list" where
  "detect_date_exception_conflicts d =
     map (\<lambda>(a, b). ''Date exception '' @ de_label a @ '' overlaps '' @ de_label b @ '' for '' @ de_target_type a @ '' ''
            @ str_or (de_target_value a) ''all'')
       (filter (\<lambda>(a, b). exceptions_conflict a b) (unordered_pairs (list_date_exceptions d)))"

end
