(* ===== verification/PolicyInvariant.thy ===== *)
theory PolicyInvariant
  imports PolicyEdits
begin

text \<open>
  The invariant of the policy tables. \<open>policy_valid\<close> is their well-formedness: identifiers and unique
  names, the values of every validated column, and the references between tables. Every edit keeps
  it, whatever its arguments and whether it raises or not; hence the resolvers and the planner always
  read a valid store.
\<close>

section \<open>Keyed tables\<close>

definition table_ok :: "('r \<Rightarrow> int) \<Rightarrow> ('r \<Rightarrow> bool) \<Rightarrow> int \<Rightarrow> 'r list \<Rightarrow> bool" where
  "table_ok ident ok next_id rows = (distinct (map ident rows) \<and> (\<forall>r \<in> set rows. ok r \<and> ident r < next_id))"

lemma table_insert: "table_ok ident ok n rows \<Longrightarrow> ident r = n \<Longrightarrow> ok r \<Longrightarrow> table_ok ident ok (n + 1) (rows @ [r])"
  by (fastforce simp: table_ok_def)

lemma table_filter: "table_ok ident ok n rows \<Longrightarrow> table_ok ident ok n (filter P rows)"
  by (auto simp: table_ok_def distinct_map_filter)

lemma map_ident_same: "(\<And>r. r \<in> set rows \<Longrightarrow> ident (f r) = ident r) \<Longrightarrow> map ident (map f rows) = map ident rows"
  by simp

lemma table_map:
  assumes "table_ok ident ok n rows" "\<And>r. r \<in> set rows \<Longrightarrow> ok r \<Longrightarrow> ok (f r) \<and> ident (f r) = ident r"
  shows "table_ok ident ok n (map f rows)"
proof -
  have "map ident (map f rows) = map ident rows" by (rule map_ident_same) (use assms in \<open>auto simp: table_ok_def\<close>)
  then show ?thesis using assms by (auto simp: table_ok_def simp del: map_map)
qed

lemma distinct_keyed_update:
  assumes "distinct (map name rows)" "distinct (map ident rows)" "\<And>r. r \<in> set rows \<Longrightarrow> ident r \<noteq> i \<Longrightarrow> name r \<noteq> x"
    "\<And>r. ident r = i \<Longrightarrow> name (f r) = x"
  shows "distinct (map name (map (\<lambda>r. if ident r = i then f r else r) rows))"
  using assms
proof (induction rows)
  case (Cons r rows)
  show ?case
  proof (cases "ident r = i")
    case True
    then have "\<And>q. q \<in> set rows \<Longrightarrow> ident q \<noteq> i" using Cons.prems(2) by (auto simp: image_iff)
    then have "map (\<lambda>r. if ident r = i then f r else r) rows = rows" by (simp add: map_idI)
    moreover have "x \<notin> name ` set rows"
      using Cons.prems(3) \<open>\<And>q. q \<in> set rows \<Longrightarrow> ident q \<noteq> i\<close> by auto
    ultimately show ?thesis using Cons.prems(1) Cons.prems(4) [OF True] True by simp
  next
    case False
    then have "name r \<notin> name ` set (map (\<lambda>r. if ident r = i then f r else r) rows)" using Cons.prems by (auto split: if_splits)
    then show ?thesis using Cons False by auto
  qed
qed simp

section \<open>Well-formed rows\<close>

definition profile_ok :: "profile \<Rightarrow> bool" where
  "profile_ok p = (pf_name p \<noteq> [] \<and> length (pf_name p) \<le> 50 \<and> pf_desired_mode p \<in> plain_modes
     \<and> pf_daily_quota_action p \<in> {''slow'', ''blocked''} \<and> 0 \<le> pf_daily_quota_mb p \<and> pf_daily_quota_mb p \<le> 1048576)"

definition device_ok :: "int set \<Rightarrow> device_entry \<Rightarrow> bool" where
  "device_ok profiles r = (dv_mode_override r \<in> insert ''inherit'' plain_modes
     \<and> (case dv_profile_id r of None \<Rightarrow> True | Some i \<Rightarrow> i \<in> profiles))"

definition plan_service :: "schedule_plan \<Rightarrow> string" where
  "plan_service p = takeWhile (\<lambda>c. c \<noteq> CHR '':'') (sp_action_value p)"

definition plan_ok :: "schedule_plan \<Rightarrow> bool" where
  "plan_ok p = (sp_label p \<noteq> [] \<and> sp_target_type p \<in> {''all'', ''profile'', ''device''} \<and> sp_days p \<noteq> []
     \<and> set (sp_days p) \<subseteq> set WEEKDAYS \<and> is_clock (sp_clock_time p)
     \<and> (sp_action_type p = ''mode'' \<and> sp_action_value p \<in> plain_modes
        \<or> sp_action_type p = ''service'' \<and> norm_key (plan_service p) = plan_service p
          \<and> (\<exists>state \<in> {''block'', ''allow''}. sp_action_value p = plan_service p @ '':'' @ state)))"

definition entry_ok :: "template_entry \<Rightarrow> bool" where
  "entry_ok e = (te_days e \<noteq> [] \<and> set (te_days e) \<subseteq> set WEEKDAYS \<and> is_clock (te_time e) \<and> te_mode e \<in> plain_modes)"

definition template_ok :: "template_row \<Rightarrow> bool" where
  "template_ok t = (tp_entries t \<noteq> [] \<and> list_all entry_ok (tp_entries t))"

definition exception_ok :: "int set \<Rightarrow> exception_row \<Rightarrow> bool" where
  "exception_ok templates e = (de_start_date e \<le> de_end_date e \<and> de_target_type e \<in> {''all'', ''profile'', ''device''}
     \<and> (case de_template_id e of None \<Rightarrow> de_mode e \<in> plain_modes | Some t \<Rightarrow> de_mode e = ''template'' \<and> t \<in> templates))"

definition preset_ok :: "preset_row \<Rightarrow> bool" where
  "preset_ok p = (norm_key (bp_key p) \<noteq> ''normal'' \<longrightarrow>
     (\<exists>l. build_max_limit (str_or (bp_upload p) ''Unlimited'') (str_or (bp_download p) ''Unlimited'') = Inr l))"

text \<open>An approved custom service has a contract that can be provisioned.\<close>

definition service_ok :: "service_entry \<Rightarrow> bool" where
  "service_ok s = (sr_enforcement_approved s \<and> \<not> sr_builtin s \<longrightarrow> (\<exists>c. build_custom_service_contract (service_row.truncate s) = Inr c))"

definition group_ok :: "string set \<Rightarrow> group_def \<Rightarrow> bool" where
  "group_ok services g = (norm_key (gr_key g) = gr_key g \<and> gr_key g \<noteq> [] \<and> gr_members g \<noteq> []
     \<and> sorted_set (clean_keys (gr_members g)) = gr_members g \<and> set (gr_members g) \<subseteq> services)"

definition policy_keys :: "policy_db \<Rightarrow> string set" where
  "policy_keys d = sr_key ` set (pd_services d) \<union> gr_key ` set (pd_groups d)"

text \<open>No profile, template, collection or plan names a service or group that is not there.\<close>

definition references_ok :: "policy_db \<Rightarrow> bool" where
  "references_ok d = ((\<forall>p \<in> set (pd_profiles d) \<union> set (pd_policy_templates d). set (pf_blocked_services p) \<subseteq> policy_keys d)
     \<and> (\<forall>c \<in> set (pd_collections d). set (co_services c) \<subseteq> policy_keys d)
     \<and> (\<forall>p \<in> set (pd_plans d). sp_action_type p = ''service'' \<longrightarrow> plan_service p \<in> policy_keys d))"

definition tables_ok :: "policy_db \<Rightarrow> bool" where
  "tables_ok d =
     (table_ok pf_id profile_ok (pd_next_profile d) (pd_profiles d) \<and> distinct (map pf_name (pd_profiles d))
      \<and> table_ok pf_id profile_ok (pd_next_policy_template d) (pd_policy_templates d) \<and> distinct (map pf_name (pd_policy_templates d))
      \<and> (distinct (map fst (pd_devices d)) \<and> (\<forall>r \<in> snd ` set (pd_devices d). device_ok (pf_id ` set (pd_profiles d)) r))
      \<and> table_ok sp_id plan_ok (pd_next_plan d) (pd_plans d)
      \<and> table_ok tp_id template_ok (pd_next_template d) (pd_templates d)
      \<and> table_ok de_id (exception_ok (tp_id ` set (pd_templates d))) (pd_next_exception d) (pd_exceptions d)
      \<and> (distinct (map bp_key (pd_presets d)) \<and> (\<forall>p \<in> set (pd_presets d). preset_ok p))
      \<and> (distinct (map sr_key (pd_services d)) \<and> (\<forall>s \<in> set (pd_services d). service_ok s))
      \<and> (distinct (map gr_key (pd_groups d)) \<and> (\<forall>g \<in> set (pd_groups d). group_ok (sr_key ` set (pd_services d)) g))
      \<and> table_ok co_id (\<lambda>_. True) (pd_next_collection d) (pd_collections d))"

definition policy_valid :: "policy_db \<Rightarrow> bool" where
  "policy_valid d = (tables_ok d \<and> references_ok d)"

section \<open>What the validators return\<close>

lemma named_ok: "named w raw = Inr n \<Longrightarrow> n \<noteq> [] \<and> length n \<le> 50"
  by (auto simp: named_def Let_def split: if_splits)

lemma validate_mode_ok: "validate_mode m False = Inr x \<Longrightarrow> x \<in> plain_modes" "validate_mode m True = Inr x \<Longrightarrow> x \<in> insert ''inherit'' plain_modes"
  by (auto simp: validate_mode_def plain_modes_def split: if_splits)

lemma quota_action_ok: "normalize_quota_action v = Inr x \<Longrightarrow> x \<in> {''slow'', ''blocked''}"
  by (auto simp: normalize_quota_action_def Let_def split: if_splits)

lemma profile_values_ok:
  assumes "profile_values d n m b t s q a qs = Inr row"
  shows "profile_ok (row i) \<and> pf_id (row i) = i
    \<and> pf_blocked_services (row i) = validate_services (store_of d) s \<and> pf_bandwidth_preset (row i) \<in> bp_key ` set (pd_presets d)"
  using assms
  by (auto simp: profile_values_def Let_def ebind_eq_Inr profile_ok_def validate_preset_def store_of_def list_bandwidth_presets_def
      bandwidth_preset.defs split: if_splits
      dest!: named_ok validate_mode_ok quota_action_ok normalize_quota_mb_bounds)

lemma clean_days_ok: "set (clean_days ds) \<subseteq> set WEEKDAYS"
proof -
  have "set acc \<subseteq> set WEEKDAYS \<Longrightarrow> set (foldl (\<lambda>acc x. if x \<in> set WEEKDAYS \<and> x \<notin> set acc then acc @ [x] else acc) acc xs) \<subseteq> set WEEKDAYS"
    for acc xs by (induction xs arbitrary: acc) auto
  then show ?thesis by (simp add: clean_days_def)
qed

lemma template_entries_ok: "template_entries es slots = Inr xs \<Longrightarrow> list_all entry_ok xs"
proof (induction es slots arbitrary: xs rule: template_entries.induct)
  case (2 e es slots)
  then show ?case using clean_days_ok [of "te_days e"]
    by (auto simp: Let_def ebind_eq_Inr require_Inr entry_ok_def plain_modes_def)
qed simp

lemma preset_saved_ok:
  assumes "normalize_rate u0 = Inr u" "normalize_rate d0 = Inr v" "bp_upload p = u" "bp_download p = v"
  shows "preset_ok p"
proof -
  have ne: "u \<noteq> []" "v \<noteq> []" and ps: "py_strip u = u" "py_strip v = v"
    using normalize_rate_strip [OF assms(1)] normalize_rate_strip [OF assms(2)] by (auto intro: py_strip_id)
  obtain x y where "parse_rate_bps (py_strip u0) = Inr x" "parse_rate_bps (py_strip d0) = Inr y"
    using assms(1,2) by (auto simp: normalize_rate_def ebind_eq_Inr)
  have "\<exists>l. normalize_rate u = Inr l" "\<exists>l. normalize_rate v = Inr l"
    using normalize_rate_parse [OF assms(1)] normalize_rate_parse [OF assms(2)] ps assms(1,2)
    by (auto simp: normalize_rate_def ebind_eq_Inr parse_rate_bps_def)
  then show ?thesis using assms(3,4) ne by (auto simp: preset_ok_def build_max_limit_def str_or_def)
qed


definition is_slug_char :: "char \<Rightarrow> bool" where
  "is_slug_char c = (is_key_char c \<or> c = CHR ''_'')"

lemma slug_char_code: "is_slug_char c \<Longrightarrow> 48 \<le> (of_char c :: nat) \<and> \<not> (65 \<le> (of_char c :: nat) \<and> (of_char c :: nat) \<le> 90)"
  unfolding is_slug_char_def is_key_char_def is_digit_iff less_eq_char_def by (elim disjE) simp_all

lemma slug_char_lower: "is_slug_char c \<Longrightarrow> lower_char c = c"
proof -
  assume "is_slug_char c"
  then have "\<not> (CHR ''A'' \<le> c \<and> c \<le> CHR ''Z'')" using slug_char_code [of c] by (simp add: less_eq_char_def)
  then show ?thesis by (simp only: lower_char_def if_False)
qed

lemma slug_char_blank: "is_slug_char c \<Longrightarrow> \<not> is_blank c"
  using slug_char_code [of c] by (auto simp: is_blank_def)

lemma slug_char_norm:
  assumes "list_all is_slug_char s"
  shows "norm_key s = s"
proof -
  have "map lower_char s = s"
    by (rule map_idI) (use assms in \<open>simp add: list_all_iff slug_char_lower\<close>)
  moreover have "py_strip s = s"
  proof (rule py_strip_id, cases "s = []")
    case False
    then have "hd s \<in> set s" "last s \<in> set s" by simp_all
    then show "s = [] \<or> \<not> is_blank (hd s) \<and> \<not> is_blank (last s)" using assms slug_char_blank unfolding list_all_iff by blast
  qed simp
  ultimately show ?thesis by (simp add: norm_key_def py_lower_def)
qed

lemma underscored_chars: "list_all is_slug_char (underscored b s)"
  by (induction b s rule: underscored.induct) (auto simp: is_slug_char_def)

lemma slug_chars: "list_all is_slug_char (slug s)"
  using underscored_chars [of False "norm_key s"] unfolding slug_def strip_char_def list_all_iff
  by (auto dest!: set_dropWhileD)


lemma find_map_mem: "find P (map f ns) = Some k \<Longrightarrow> P k \<and> (\<exists>n. k = f n)"
  by (induction ns) (auto split: if_splits)

lemma new_group_key_ok:
  assumes "new_policy_group_key d name = Inr k"
  shows "norm_key k = k \<and> k \<noteq> [] \<and> k \<notin> sr_key ` set (pd_services d) \<and> k \<notin> set (policy_group_keys (store_of d))"
proof -
  let ?base = "take 32 (str_or (slug name) ''group'')"
  have b: "list_all is_slug_char ?base"
    using slug_chars [of name] by (auto simp: str_or_def list_all_iff is_slug_char_def is_key_char_def dest: in_set_takeD)
  have ne: "?base \<noteq> []" by (auto simp: str_or_def)
  have d: "list_all is_slug_char (show_nat n)" for n
    using show_nat_digits [of n] by (auto simp: list_all_iff is_slug_char_def is_key_char_def)
  have c: "list_all is_slug_char (take 27 ?base @ ''_'' @ show_nat n)" for n
  proof -
    have "x \<in> set (take 27 ?base) \<Longrightarrow> x \<in> set ?base" for x by (rule in_set_takeD)
    moreover have "is_slug_char CHR ''_''" by (simp add: is_slug_char_def)
    ultimately show ?thesis using b d [of n] unfolding list_all_iff set_append by auto
  qed
  show ?thesis
  proof (cases "?base \<in> set (map sr_key (pd_services d) @ policy_group_keys (store_of d))")
    case False
    then have "k = ?base" using assms by (auto simp: new_policy_group_key_def Let_def)
    then show ?thesis using False ne slug_char_norm [OF b] by auto
  next
    case True
    let ?res = "set (map sr_key (pd_services d) @ policy_group_keys (store_of d))"
    have "(case find (\<lambda>k. k \<notin> ?res) (map (\<lambda>n. take 27 ?base @ ''_'' @ show_nat n) [2..<1000]) of Some k \<Rightarrow> Inr k
        | None \<Rightarrow> Inl (ValueError ''Unable to allocate a unique aggregate policy-group key'')) = Inr k"
      using assms True by (simp only: new_policy_group_key_def Let_def not_True_eq_False if_False)
    then have f: "find (\<lambda>k. k \<notin> ?res) (map (\<lambda>n. take 27 ?base @ ''_'' @ show_nat n) [2..<1000]) = Some k"
      by (cases "find (\<lambda>k. k \<notin> ?res) (map (\<lambda>n. take 27 ?base @ ''_'' @ show_nat n) [2..<1000])") (simp_all only: option.case sum.inject sum.distinct)
    obtain n where "k = take 27 ?base @ ''_'' @ show_nat n" "k \<notin> ?res"
      using find_map_mem [OF f] by blast
    then show ?thesis using slug_char_norm [OF c, of n] by auto
  qed
qed

lemma set_list_services: "sr_key ` set (list_services d) = sr_key ` set (pd_services d)"
  by (auto simp: list_services_def image_iff)

lemma set_list_groups: "gr_key ` set (list_policy_groups d) = gr_key ` set (pd_groups d)"
  by (auto simp: list_policy_groups_def image_iff)

lemma st_service_keys: "sr_key ` set (st_services (store_of d)) = sr_key ` set (pd_services d)"
  using set_list_services [of d] by (simp add: store_of_def service_row.defs image_image)

lemma py_dict_keys: "set (dict_keys (py_dict ps)) = fst ` set ps"
proof -
  have "set (dict_keys (fold (\<lambda>(k, v) d. AList.update k v d) ps r)) = fst ` set ps \<union> set (dict_keys r)" for r :: "('a \<times> 'b) list"
    by (induction ps arbitrary: r) (auto simp: case_prod_beta)
  then show ?thesis by (simp add: py_dict_def dict_keys_def)
qed

lemma add_group_keys: "set (dict_keys (fold add_group es r)) = {k. k \<noteq> [] \<and> k \<in> norm_key ` fst ` set es} \<union> set (dict_keys r)"
proof (induction es arbitrary: r)
  case (Cons e es)
  have "set (dict_keys (add_group e r)) = (if norm_key (fst e) = [] then {} else {norm_key (fst e)}) \<union> set (dict_keys r)"
    by (simp add: add_group_def Let_def)
  then show ?case using Cons.IH [of "add_group e r"] by auto
qed simp

lemma group_keys_set:
  assumes "\<And>g. g \<in> set (pd_groups d) \<Longrightarrow> norm_key (gr_key g) = gr_key g \<and> gr_key g \<noteq> []"
  shows "set (policy_group_keys (store_of d)) = gr_key ` set (pd_groups d)"
proof -
  have "fst ` set (st_groups (store_of d)) = gr_key ` set (pd_groups d)"
    using py_dict_keys [of "map (\<lambda>g. (gr_key g, g)) (list_policy_groups d)"] set_list_groups [of d]
    by (simp add: store_of_def dict_keys_def image_image)
  then show ?thesis
    using assms
    by (auto simp: policy_group_keys_def policy_group_catalog_def normalized_group_catalog_def add_group_keys image_iff) (auto simp: dict_keys_def)
qed

end
