(* ===== verification/PolicySafety.thy ===== *)
theory PolicySafety
  imports PolicyInvariant
begin

text \<open>Edits of profiles, devices and their deletions keep the invariant of the policy tables.\<close>

section \<open>Edits keep the invariant\<close>

text \<open>\<open>safe d out\<close>: the state after the edit is valid.\<close>

abbreviation safe :: "'a res \<times> policy_db \<Rightarrow> bool" where
  "safe out \<equiv> policy_valid (snd out)"

lemma policy_valid_queue [simp]: "policy_valid (d\<lparr> pd_queue := q \<rparr>) = policy_valid d"
  by (simp add: policy_valid_def tables_ok_def references_ok_def policy_keys_def)

lemma safe_write:
  assumes "policy_valid d" "\<And>x d'. body d = Inr (x, d') \<Longrightarrow> policy_valid d'"
  shows "safe (policy_write scope reason body d)"
  using assms by (cases rule: policy_write_cases [of body d scope reason]) auto

lemma safe_checked: "policy_valid d \<Longrightarrow> (\<And>v. r = Inr v \<Longrightarrow> safe (f v d)) \<Longrightarrow> safe (checked r f d)"
  by (cases r) (auto simp: checked_def rraise_def)

lemma safe_then: "safe (m d) \<Longrightarrow> safe (rbind m (\<lambda>x d. (Inr (f x d), d)) d)"
  by (cases "m d") (auto simp: rbind_def split: sum.splits)

lemma safe_ignore: "safe (m d) \<Longrightarrow> safe (ignore_result m d)"
  unfolding ignore_result_def rret_def by (rule safe_then)

lemmas safe_rules = safe_checked safe_then safe_write

lemma validD:
  assumes "policy_valid d"
  shows "table_ok pf_id profile_ok (pd_next_profile d) (pd_profiles d)" "distinct (map pf_name (pd_profiles d))"
    "table_ok pf_id profile_ok (pd_next_policy_template d) (pd_policy_templates d)" "distinct (map pf_name (pd_policy_templates d))"
    "distinct (map fst (pd_devices d))" "\<forall>r \<in> snd ` set (pd_devices d). device_ok (pf_id ` set (pd_profiles d)) r"
    "table_ok sp_id plan_ok (pd_next_plan d) (pd_plans d)" "table_ok tp_id template_ok (pd_next_template d) (pd_templates d)"
    "table_ok de_id (exception_ok (tp_id ` set (pd_templates d))) (pd_next_exception d) (pd_exceptions d)"
    "distinct (map bp_key (pd_presets d))" "\<forall>p \<in> set (pd_presets d). preset_ok p"
    "distinct (map sr_key (pd_services d))" "\<forall>s \<in> set (pd_services d). service_ok s"
    "distinct (map gr_key (pd_groups d))" "\<forall>g \<in> set (pd_groups d). group_ok (sr_key ` set (pd_services d)) g"
    "table_ok co_id (\<lambda>_. True) (pd_next_collection d) (pd_collections d)"
    "\<forall>p \<in> set (pd_profiles d) \<union> set (pd_policy_templates d). set (pf_blocked_services p) \<subseteq> policy_keys d"
    "\<forall>c \<in> set (pd_collections d). set (co_services c) \<subseteq> policy_keys d"
    "\<forall>p \<in> set (pd_plans d). sp_action_type p = ''service'' \<longrightarrow> plan_service p \<in> policy_keys d"
  using assms by (simp_all add: policy_valid_def tables_ok_def references_ok_def)

lemma policy_keys_simps [simp]:
  "policy_keys (d\<lparr> pd_profiles := a \<rparr>) = policy_keys d" "policy_keys (d\<lparr> pd_policy_templates := a \<rparr>) = policy_keys d"
  "policy_keys (d\<lparr> pd_devices := b \<rparr>) = policy_keys d" "policy_keys (d\<lparr> pd_plans := c \<rparr>) = policy_keys d"
  "policy_keys (d\<lparr> pd_templates := e \<rparr>) = policy_keys d" "policy_keys (d\<lparr> pd_exceptions := f \<rparr>) = policy_keys d"
  "policy_keys (d\<lparr> pd_presets := g \<rparr>) = policy_keys d" "policy_keys (d\<lparr> pd_collections := h \<rparr>) = policy_keys d"
  "policy_keys (d\<lparr> pd_next_profile := i \<rparr>) = policy_keys d" "policy_keys (d\<lparr> pd_next_policy_template := i \<rparr>) = policy_keys d"
  "policy_keys (d\<lparr> pd_next_plan := i \<rparr>) = policy_keys d" "policy_keys (d\<lparr> pd_next_template := i \<rparr>) = policy_keys d"
  "policy_keys (d\<lparr> pd_next_exception := i \<rparr>) = policy_keys d" "policy_keys (d\<lparr> pd_next_collection := i \<rparr>) = policy_keys d"
  by (simp_all add: policy_keys_def)

text \<open>Replacing the rows of one table.\<close>

lemma valid_profiles:
  assumes "policy_valid d" "table_ok pf_id profile_ok n ps" "distinct (map pf_name ps)" "pf_id ` set (pd_profiles d) \<subseteq> pf_id ` set ps"
    "\<forall>p \<in> set ps. set (pf_blocked_services p) \<subseteq> policy_keys d"
  shows "policy_valid (d\<lparr> pd_profiles := ps, pd_next_profile := n \<rparr>)" "n = pd_next_profile d \<Longrightarrow> policy_valid (d\<lparr> pd_profiles := ps \<rparr>)"
proof -
  have "\<forall>r \<in> snd ` set (pd_devices d). device_ok (pf_id ` set ps) r"
    using validD(6) [OF assms(1)] assms(4) by (fastforce simp: device_ok_def split: option.splits)
  then show "policy_valid (d\<lparr> pd_profiles := ps, pd_next_profile := n \<rparr>)" "n = pd_next_profile d \<Longrightarrow> policy_valid (d\<lparr> pd_profiles := ps \<rparr>)"
    using validD [OF assms(1)] assms(2,3,5) by (simp_all add: policy_valid_def tables_ok_def references_ok_def ball_Un)
qed

lemma valid_policy_templates:
  assumes "policy_valid d" "table_ok pf_id profile_ok n ps" "distinct (map pf_name ps)"
    "\<forall>p \<in> set ps. set (pf_blocked_services p) \<subseteq> policy_keys d"
  shows "policy_valid (d\<lparr> pd_policy_templates := ps, pd_next_policy_template := n \<rparr>)"
    "n = pd_next_policy_template d \<Longrightarrow> policy_valid (d\<lparr> pd_policy_templates := ps \<rparr>)"
  using validD [OF assms(1)] assms(2-4) by (simp_all add: policy_valid_def tables_ok_def references_ok_def ball_Un)

lemma valid_devices:
  assumes "policy_valid d" "distinct (map fst ds)" "\<forall>r \<in> snd ` set ds. device_ok (pf_id ` set (pd_profiles d)) r"
  shows "policy_valid (d\<lparr> pd_devices := ds \<rparr>)"
  using validD [OF assms(1)] assms(2,3) by (simp add: policy_valid_def tables_ok_def references_ok_def)

lemma valid_identities [simp]: "policy_valid (d\<lparr> pd_identities := is \<rparr>) = policy_valid d"
  by (simp add: policy_valid_def tables_ok_def references_ok_def policy_keys_def)

lemma valid_plans:
  assumes "policy_valid d" "table_ok sp_id plan_ok n ps" "\<forall>p \<in> set ps. sp_action_type p = ''service'' \<longrightarrow> plan_service p \<in> policy_keys d"
  shows "policy_valid (d\<lparr> pd_plans := ps, pd_next_plan := n \<rparr>)" "n = pd_next_plan d \<Longrightarrow> policy_valid (d\<lparr> pd_plans := ps \<rparr>)"
  using validD [OF assms(1)] assms(2,3) by (simp_all add: policy_valid_def tables_ok_def references_ok_def)

lemma valid_schedule_templates:
  assumes "policy_valid d" "table_ok tp_id template_ok n ts"
    "\<forall>e \<in> set (pd_exceptions d). \<forall>i. de_template_id e = Some i \<longrightarrow> i \<in> tp_id ` set (pd_templates d) \<longrightarrow> i \<in> tp_id ` set ts"
  shows "policy_valid (d\<lparr> pd_templates := ts, pd_next_template := n \<rparr>)" "n = pd_next_template d \<Longrightarrow> policy_valid (d\<lparr> pd_templates := ts \<rparr>)"
proof -
  have "table_ok de_id (exception_ok (tp_id ` set ts)) (pd_next_exception d) (pd_exceptions d)"
  proof -
    have "exception_ok (tp_id ` set ts) e" if "e \<in> set (pd_exceptions d)" "exception_ok (tp_id ` set (pd_templates d)) e" for e
      using assms(3) that by (cases "de_template_id e") (auto simp: exception_ok_def)
    then show ?thesis using validD(9) [OF assms(1)] by (simp add: table_ok_def)
  qed
  then show "policy_valid (d\<lparr> pd_templates := ts, pd_next_template := n \<rparr>)" "n = pd_next_template d \<Longrightarrow> policy_valid (d\<lparr> pd_templates := ts \<rparr>)"
    using validD [OF assms(1)] assms(2) by (simp_all add: policy_valid_def tables_ok_def references_ok_def)
qed

lemma valid_exceptions:
  assumes "policy_valid d" "table_ok de_id (exception_ok (tp_id ` set (pd_templates d))) n es"
  shows "policy_valid (d\<lparr> pd_exceptions := es, pd_next_exception := n \<rparr>)" "n = pd_next_exception d \<Longrightarrow> policy_valid (d\<lparr> pd_exceptions := es \<rparr>)"
  using validD [OF assms(1)] assms(2) by (simp_all add: policy_valid_def tables_ok_def references_ok_def)

lemma valid_presets:
  assumes "policy_valid d" "distinct (map bp_key ps)" "\<forall>p \<in> set ps. preset_ok p"
  shows "policy_valid (d\<lparr> pd_presets := ps \<rparr>)"
  using validD [OF assms(1)] assms(2,3) by (simp add: policy_valid_def tables_ok_def references_ok_def)

lemma valid_collections:
  assumes "policy_valid d" "table_ok co_id (\<lambda>_. True) n cs" "\<forall>c \<in> set cs. set (co_services c) \<subseteq> policy_keys d"
  shows "policy_valid (d\<lparr> pd_collections := cs, pd_next_collection := n \<rparr>)" "n = pd_next_collection d \<Longrightarrow> policy_valid (d\<lparr> pd_collections := cs \<rparr>)"
  using validD [OF assms(1)] assms(2,3) by (simp_all add: policy_valid_def tables_ok_def references_ok_def)

text \<open>Nothing that the policy refers to has gone.\<close>

definition still_referenced :: "policy_db \<Rightarrow> string set \<Rightarrow> bool" where
  "still_referenced d keys = ((\<forall>p \<in> set (pd_profiles d) \<union> set (pd_policy_templates d). set (pf_blocked_services p) \<inter> policy_keys d \<subseteq> keys)
     \<and> (\<forall>c \<in> set (pd_collections d). set (co_services c) \<inter> policy_keys d \<subseteq> keys)
     \<and> (\<forall>p \<in> set (pd_plans d). sp_action_type p = ''service'' \<longrightarrow> plan_service p \<in> policy_keys d \<longrightarrow> plan_service p \<in> keys))"

lemma valid_services:
  assumes "policy_valid d" "distinct (map sr_key ss)" "\<forall>s \<in> set ss. service_ok s"
    "still_referenced d (sr_key ` set ss \<union> gr_key ` set (pd_groups d))"
    "\<forall>g \<in> set (pd_groups d). set (gr_members g) \<inter> sr_key ` set (pd_services d) \<subseteq> sr_key ` set ss"
  shows "policy_valid (d\<lparr> pd_services := ss \<rparr>)"
proof -
  have g: "\<forall>g \<in> set (pd_groups d). group_ok (sr_key ` set ss) g"
    using validD(15) [OF assms(1)] assms(5) unfolding group_ok_def by blast
  have k: "policy_keys (d\<lparr> pd_services := ss \<rparr>) = sr_key ` set ss \<union> gr_key ` set (pd_groups d)" by (simp add: policy_keys_def)
  have "references_ok (d\<lparr> pd_services := ss \<rparr>)"
    using validD(17-19) [OF assms(1)] assms(4) unfolding references_ok_def k still_referenced_def by (simp add: subset_eq)
  then show ?thesis using validD [OF assms(1)] assms(2,3) g by (simp add: policy_valid_def tables_ok_def)
qed

lemma valid_groups:
  assumes "policy_valid d" "distinct (map gr_key gs)" "\<forall>g \<in> set gs. group_ok (sr_key ` set (pd_services d)) g"
    "still_referenced d (sr_key ` set (pd_services d) \<union> gr_key ` set gs)"
  shows "policy_valid (d\<lparr> pd_groups := gs \<rparr>)"
proof -
  have k: "policy_keys (d\<lparr> pd_groups := gs \<rparr>) = sr_key ` set (pd_services d) \<union> gr_key ` set gs" by (simp add: policy_keys_def)
  have "references_ok (d\<lparr> pd_groups := gs \<rparr>)"
    using validD(17-19) [OF assms(1)] assms(4) unfolding references_ok_def k still_referenced_def by (simp add: subset_eq)
  then show ?thesis using validD [OF assms(1)] assms(2,3) by (simp add: policy_valid_def tables_ok_def)
qed


section \<open>Deletions and simple changes\<close>

lemma mem_policy_keys: "k \<in> sr_key ` set (pd_services d) \<Longrightarrow> k \<in> policy_keys d" "k \<in> gr_key ` set (pd_groups d) \<Longrightarrow> k \<in> policy_keys d"
  by (simp_all add: policy_keys_def)

lemma safe_deletes:
  assumes "policy_valid d"
  shows "safe (delete_template i d)" "safe (delete_service_group i d)" "safe (delete_schedule_plan i d)" "safe (delete_date_exception i d)"
    "safe (delete_schedule_template i d)" "safe (set_schedule_plan_enabled i b d)" "safe (delete_bandwidth_preset k d)"
proof -
  note v = validD [OF assms]
  show "safe (delete_template i d)"
    unfolding delete_template_def
    by (rule safe_write [OF assms])
      (use v(3,4,17) in \<open>auto intro!: valid_policy_templates [OF assms] table_filter split: if_splits simp: distinct_map_filter\<close>)
  show "safe (delete_service_group i d)"
    unfolding delete_service_group_def
    by (rule safe_write [OF assms]) (use v(16,18) in \<open>auto intro!: valid_collections [OF assms] table_filter split: if_splits\<close>)
  show "safe (delete_schedule_plan i d)"
    unfolding delete_schedule_plan_def
    by (rule safe_write [OF assms]) (use v(7,19) in \<open>auto intro!: valid_plans [OF assms] table_filter split: if_splits\<close>)
  show "safe (delete_date_exception i d)"
    unfolding delete_date_exception_def
    by (rule safe_write [OF assms]) (use v(9) in \<open>auto intro!: valid_exceptions [OF assms] table_filter split: if_splits\<close>)
  show "safe (delete_schedule_template i d)"
    unfolding delete_schedule_template_def
    by (rule safe_write [OF assms])
      (use v(8) in \<open>auto intro!: valid_schedule_templates(2) [OF assms] table_filter split: if_splits simp: list_ex_iff\<close>)
  show "safe (set_schedule_plan_enabled i b d)"
    unfolding set_schedule_plan_enabled_def
    by (rule safe_write [OF assms])
      (use v(7,19) in \<open>auto intro!: valid_plans(2) [OF assms] table_map split: if_splits simp: plan_ok_def plan_service_def\<close>)
  show "safe (delete_bandwidth_preset k d)"
    unfolding delete_bandwidth_preset_def
    by (rule safe_write [OF assms])
      (use v(10,11) in \<open>auto intro!: valid_presets [OF assms] split: if_splits option.splits simp: distinct_map_filter\<close>)
qed


section \<open>Profiles and devices\<close>

text \<open>The keys that validation accepts are there.\<close>

lemma group_rows_ok: "policy_valid d \<Longrightarrow> g \<in> set (pd_groups d) \<Longrightarrow> norm_key (gr_key g) = gr_key g \<and> gr_key g \<noteq> []"
  using validD(15) by (simp add: group_ok_def)

lemma accepted_keys: "policy_valid d \<Longrightarrow> set (map sr_key (st_services (store_of d)) @ policy_group_keys (store_of d)) = policy_keys d"
  using group_keys_set [of d] group_rows_ok [of d] st_service_keys [of d] by (simp add: policy_keys_def)

lemma validated_services: "policy_valid d \<Longrightarrow> set (validate_services (store_of d) xs) \<subseteq> policy_keys d"
  using accepted_keys [of d] by (auto simp: validate_services_def Let_def)

lemma stored_profile: "get_profile (store_of d) i = Some p \<Longrightarrow> p \<in> set (pd_profiles d) \<and> pf_id p = i"
  unfolding get_profile_def store_of_def store.simps list_profiles_def by (drule find_Some_mem) simp

lemma selected_profile_ok: "selected_profile d v = Inr pid \<Longrightarrow> case pid of None \<Rightarrow> True | Some i \<Rightarrow> i \<in> pf_id ` set (pd_profiles d)"
  by (auto simp: selected_profile_def dest!: stored_profile split: if_splits option.splits)

lemma ident_image: "(\<And>r. r \<in> set rows \<Longrightarrow> ident (f r) = ident r) \<Longrightarrow> ident ` set (map f rows) = ident ` set rows"
  unfolding list.set_map image_image by (rule image_cong) (rule refl)

lemma safe_create_profile:
  assumes "policy_valid d"
  shows "safe (create_profile n m b t s q a qs d)"
  unfolding create_profile_def
proof (rule safe_checked [OF assms], rule safe_then, rule safe_write [OF assms])
  fix row x d'
  assume row: "profile_values d n m b t s q a qs = Inr row"
    and w: "(let p = row (pd_next_profile d) in if pf_name p \<in> pf_name ` set (pd_profiles d)
      then Inl (ValueError ''A profile with that name already exists'')
      else Inr (pf_id p, d\<lparr> pd_profiles := pd_profiles d @ [p], pd_next_profile := pd_next_profile d + 1 \<rparr>)) = Inr (x, d')"
  let ?p = "row (pd_next_profile d)"
  have d': "d' = d\<lparr> pd_profiles := pd_profiles d @ [?p], pd_next_profile := pd_next_profile d + 1 \<rparr>" "pf_name ?p \<notin> pf_name ` set (pd_profiles d)"
    using w unfolding Let_def by (simp_all split: if_split_asm)
  have p: "profile_ok ?p" "pf_id ?p = pd_next_profile d" "set (pf_blocked_services ?p) \<subseteq> policy_keys d"
    using profile_values_ok [OF row, of "pd_next_profile d"] validated_services [OF assms, of s] by simp_all
  show "policy_valid d'"
    unfolding d'(1)
  proof (rule valid_profiles(1) [OF assms table_insert [OF validD(1) [OF assms] p(2,1)]])
    show "distinct (map pf_name (pd_profiles d @ [?p]))" using validD(2) [OF assms] d'(2) by simp
    show "\<forall>r \<in> set (pd_profiles d @ [?p]). set (pf_blocked_services r) \<subseteq> policy_keys d"
      using validD(17) [OF assms] p(3) by (simp add: ball_Un)
  qed auto
qed

lemma safe_update_profile:
  assumes "policy_valid d"
  shows "safe (update_profile i n m b t s q a qs d)"
  unfolding update_profile_def
proof (rule safe_checked [OF assms], rule safe_then, rule safe_write [OF assms])
  fix row x d'
  assume row: "profile_values d n m b t s q a qs = Inr row"
    and w: "(if i \<notin> pf_id ` set (pd_profiles d) then Inl (ValueError ''Profile not found'')
      else if list_ex (\<lambda>p. pf_id p \<noteq> i \<and> pf_name p = pf_name (row i)) (pd_profiles d)
      then Inl (ValueError ''A profile with that name already exists'')
      else Inr ((), d\<lparr> pd_profiles := map (\<lambda>p. if pf_id p = i then row i else p) (pd_profiles d) \<rparr>)) = Inr (x, d')"
  let ?ps = "map (\<lambda>p. if pf_id p = i then row i else p) (pd_profiles d)"
  have d': "d' = d\<lparr> pd_profiles := ?ps \<rparr>" "\<And>p. p \<in> set (pd_profiles d) \<Longrightarrow> pf_id p \<noteq> i \<Longrightarrow> pf_name p \<noteq> pf_name (row i)"
    using w by (auto simp: list_ex_iff split: if_splits)
  have p: "profile_ok (row i)" "pf_id (row i) = i" "set (pf_blocked_services (row i)) \<subseteq> policy_keys d"
    using profile_values_ok [OF row, of i] validated_services [OF assms, of s] by simp_all
  have t: "table_ok pf_id profile_ok (pd_next_profile d) ?ps" by (rule table_map [OF validD(1) [OF assms]]) (use p in auto)
  have u: "distinct (map pf_name ?ps)"
    by (rule distinct_keyed_update [OF validD(2) [OF assms] _ d'(2)]) (use validD(1) [OF assms] in \<open>auto simp: table_ok_def\<close>)
  have m: "pf_id ` set ?ps = pf_id ` set (pd_profiles d)" by (rule ident_image) (simp add: p(2))
  show "policy_valid d'"
    unfolding d'(1) by (rule valid_profiles(2) [OF assms t u]; (simp only: m)?) (use validD(17) [OF assms] p(3) in auto)
qed

lemma safe_apply_template:
  assumes "policy_valid d"
  shows "safe (apply_template t i d)"
  unfolding apply_template_def
proof (rule safe_write [OF assms])
  fix x d'
  assume w: "(case find (\<lambda>q. pf_id q = t) (pd_policy_templates d) of
      None \<Rightarrow> Inl (ValueError ''Template not found'')
    | Some q \<Rightarrow> if i \<notin> pf_id ` set (pd_profiles d) then Inl (ValueError ''Profile not found'')
        else Inr ((), d\<lparr> pd_profiles := map (\<lambda>p. if pf_id p = i then q\<lparr> pf_id := pf_id p, pf_name := pf_name p \<rparr> else p) (pd_profiles d) \<rparr>)) = Inr (x, d')"
  then obtain q where q: "q \<in> set (pd_policy_templates d)"
    and d': "d' = d\<lparr> pd_profiles := map (\<lambda>p. if pf_id p = i then q\<lparr> pf_id := pf_id p, pf_name := pf_name p \<rparr> else p) (pd_profiles d) \<rparr>"
    by (auto split: option.splits if_splits dest: find_Some_mem)
  let ?f = "\<lambda>p. if pf_id p = i then q\<lparr> pf_id := pf_id p, pf_name := pf_name p \<rparr> else p"
  have k: "profile_ok q" "set (pf_blocked_services q) \<subseteq> policy_keys d" using validD(3,17) [OF assms] q by (auto simp: table_ok_def)
  have t: "table_ok pf_id profile_ok (pd_next_profile d) (map ?f (pd_profiles d))"
    by (rule table_map [OF validD(1) [OF assms]]) (use k(1) in \<open>auto simp: profile_ok_def\<close>)
  have n: "map pf_name (map ?f (pd_profiles d)) = map pf_name (pd_profiles d)" by simp
  have m: "pf_id ` set (map ?f (pd_profiles d)) = pf_id ` set (pd_profiles d)" by (rule ident_image) simp
  show "policy_valid d'"
    unfolding d' by (rule valid_profiles(2) [OF assms t]; (simp only: n m)?) (use validD(2,17) [OF assms] k(2) in auto)
qed


lemma safe_delete_profile:
  assumes "policy_valid d"
  shows "safe (delete_profile i d)"
  unfolding delete_profile_def
proof (rule safe_write [OF assms])
  let ?clear = "\<lambda>(ip, r :: device_entry). (ip, if dv_profile_id r = Some i then r\<lparr> dv_profile_id := None \<rparr> else r)"
  let ?ds = "map ?clear (pd_devices d)" and ?ps = "filter (\<lambda>p. pf_id p \<noteq> i) (pd_profiles d)"
  fix x d'
  assume "(if i \<notin> pf_id ` set (pd_profiles d) then Inl (ValueError ''Profile not found'')
    else Inr ((), d\<lparr> pd_devices := ?ds, pd_profiles := ?ps \<rparr>)) = Inr (x, d')"
  then have d': "d' = d\<lparr> pd_devices := ?ds, pd_profiles := ?ps \<rparr>" by (auto split: if_splits)
  define ds where "ds = ?ds"
  have "map fst ds = map fst (pd_devices d)" by (auto simp: ds_def)
  then have m: "distinct (map fst ds)" using validD(5) [OF assms] by simp
  have k: "device_ok (pf_id ` set ?ps) (snd (?clear e))" if "e \<in> set (pd_devices d)" for e
    using validD(6) [OF assms] that by (cases e) (force simp: device_ok_def split: option.splits)
  then have "\<forall>r \<in> snd ` set ds. device_ok (pf_id ` set ?ps) r" by (auto simp: ds_def)
  then show "policy_valid d'"
    using validD [OF assms] m unfolding d' ds_def [symmetric]
    by (simp add: policy_valid_def tables_ok_def references_ok_def table_filter distinct_map_filter ball_Un)
qed

lemma safe_device_write:
  assumes "policy_valid d" "device_ok (pf_id ` set (pd_profiles d)) row"
  shows "policy_valid (ensure_managed_device_identity uuid ip alias (d\<lparr> pd_devices := AList.update ip row (pd_devices d) \<rparr>))"
proof -
  have "snd e = row \<or> e \<in> set (pd_devices d)" if "e \<in> set (AList.update ip row (pd_devices d))" for e
    using set_alist_update [OF that] by auto
  then have "\<forall>r \<in> snd ` set (AList.update ip row (pd_devices d)). device_ok (pf_id ` set (pd_profiles d)) r"
    using validD(6) [OF assms(1)] assms(2) by fastforce
  then have "policy_valid (d\<lparr> pd_devices := AList.update ip row (pd_devices d) \<rparr>)"
    by (intro valid_devices assms(1) distinct_update) (rule validD(5) [OF assms(1)])
  then show ?thesis by (simp add: ensure_managed_device_identity_def Let_def split: option.split)
qed

lemma safe_update_device:
  assumes "policy_valid d"
  shows "safe (update_device u ip al t v m c f d)"
  unfolding update_device_def
proof (rule safe_checked [OF assms])
  fix x assume "ebind (validate_mode m True) (\<lambda>mode. ebind (selected_profile d v) (\<lambda>pid. Inr (mode, pid))) = Inr x"
  then obtain mode pid where x: "x = (mode, pid)" "validate_mode m True = Inr mode" "selected_profile d v = Inr pid"
    by (auto simp: ebind_eq_Inr)
  then have "device_ok (pf_id ` set (pd_profiles d)) r" if "dv_mode_override r = mode" "dv_profile_id r = pid" for r
    using that validate_mode_ok(2) [OF x(2)] selected_profile_ok [OF x(3)] by (simp add: device_ok_def)
  then show "safe ((case x of (mode, pid) \<Rightarrow>
      let alias = take 50 (py_strip al); row = \<lparr> dv_alias = alias, dv_profile_id = pid, dv_mode_override = mode,
            dv_category = (if c \<in> set DEVICE_CATEGORIES then c else ''other''), dn_notes = take 250 (py_strip t), dn_favourite = f \<rparr>
      in policy_write ''devices'' ''Managed device policy updated'' (\<lambda>d.
            Inr ((), ensure_managed_device_identity u ip alias (d\<lparr> pd_devices := AList.update ip row (pd_devices d) \<rparr>)))) d)"
    unfolding x(1) prod.case Let_def by (intro safe_write [OF assms]) (auto intro!: safe_device_write [OF assms])
qed

lemma bulk_row_ok:
  assumes "mode \<in> insert ''inherit'' plain_modes" "case pid of None \<Rightarrow> True | Some i \<Rightarrow> i \<in> P"
  shows "device_ok P (bulk_row pid mode category current)"
  using assms by (simp add: device_ok_def bulk_row_def Let_def split: option.splits)

lemma identity_profiles [simp]: "pd_profiles (ensure_managed_device_identity u ip a d) = pd_profiles d"
  by (simp add: ensure_managed_device_identity_def Let_def split: option.split)

lemma bulk_devices_valid:
  assumes "mode \<in> insert ''inherit'' plain_modes" "case pid of None \<Rightarrow> True | Some i \<Rightarrow> i \<in> pf_id ` set (pd_profiles d)" "policy_valid d"
  shows "policy_valid (bulk_devices pid mode category ips d)"
  using assms
proof (induction pid mode category ips d rule: bulk_devices.induct)
  case (2 pid mode category ip uuid rest d)
  let ?row = "bulk_row pid mode category (map_of (pd_devices d) ip)"
  show ?case
    unfolding bulk_devices.simps Let_def
  proof (rule "2.IH" [OF refl])
    show "policy_valid (ensure_managed_device_identity uuid ip (dv_alias ?row) (d\<lparr> pd_devices := AList.update ip ?row (pd_devices d) \<rparr>))"
      by (rule safe_device_write [OF "2.prems"(3) bulk_row_ok [OF "2.prems"(1,2)]])
  qed (use "2.prems" in \<open>simp_all split: option.splits\<close>)
qed simp

lemma safe_bulk:
  assumes "policy_valid d"
  shows "safe (bulk_update_devices ips v m c d)"
  unfolding bulk_update_devices_def
proof (rule safe_checked [OF assms])
  fix x assume "ebind (require (ips \<noteq> []) ''Select at least one device'') (\<lambda>_.
      ebind (validate_mode m True) (\<lambda>mode. ebind (selected_profile d v) (\<lambda>pid. Inr (mode, pid)))) = Inr x"
  then obtain mode pid where x: "x = (mode, pid)" "validate_mode m True = Inr mode" "selected_profile d v = Inr pid"
    by (auto simp: ebind_eq_Inr)
  show "safe ((case x of (mode, pid) \<Rightarrow> policy_write ''devices'' ''Managed device policies bulk updated''
      (\<lambda>d. Inr ((), bulk_devices pid mode c ips d))) d)"
    unfolding x(1) prod.case
    by (rule safe_write [OF assms])
       (use bulk_devices_valid [OF validate_mode_ok(2) [OF x(2)] selected_profile_ok [OF x(3)] assms] in auto)
qed

end
