(* ===== verification/PolicyRulesSafety.thy ===== *)
theory PolicyRulesSafety
  imports PolicySafety
begin

text \<open>
  Edits of policy templates, presets, collections, schedule plans, schedule templates and date
  exceptions keep the invariant.
\<close>

section \<open>Templates, presets and collections\<close>

lemma safe_save_template:
  assumes "policy_valid d"
  shows "safe (save_template_from_profile n i d)"
  unfolding save_template_from_profile_def
proof (rule safe_checked [OF assms])
  fix v assume "(case get_profile (store_of d) i of None \<Rightarrow> Inl (ValueError ''Profile not found'')
    | Some p \<Rightarrow> ebind (named ''Template'' n) (\<lambda>name. Inr (name, p))) = Inr v"
  then obtain name p where v: "v = (name, p)" "get_profile (store_of d) i = Some p" "named ''Template'' n = Inr name"
    by (auto simp: ebind_eq_Inr split: option.splits)
  have p: "profile_ok p" "set (pf_blocked_services p) \<subseteq> policy_keys d"
    using stored_profile [OF v(2)] validD(1,17) [OF assms] by (auto simp: table_ok_def)
  let ?i = "pd_next_policy_template d"
  let ?p = "p\<lparr> pf_id := ?i, pf_name := name \<rparr>"
  have t: "table_ok pf_id profile_ok (?i + 1) (pd_policy_templates d @ [?p])"
    by (rule table_insert [OF validD(3) [OF assms]]) (use p(1) named_ok [OF v(3)] in \<open>simp_all add: profile_ok_def\<close>)
  have r: "\<forall>p \<in> set (pd_policy_templates d @ [?p]). set (pf_blocked_services p) \<subseteq> policy_keys d"
    using validD(17) [OF assms] p(2) by (simp add: ball_Un)
  have ok: "policy_valid (d\<lparr> pd_policy_templates := pd_policy_templates d @ [?p], pd_next_policy_template := ?i + 1 \<rparr>)"
    if "name \<notin> pf_name ` set (pd_policy_templates d)"
    by (rule valid_policy_templates(1) [OF assms t _ r]) (use validD(4) [OF assms] that in simp)
  show "safe ((case v of (name, p) \<Rightarrow> policy_write ''templates'' ''Policy template created'' (\<lambda>d.
      if name \<in> pf_name ` set (pd_policy_templates d) then Inl (ValueError ''A template with that name already exists'')
      else let i = pd_next_policy_template d in
        Inr (i, d\<lparr> pd_policy_templates := pd_policy_templates d @ [p\<lparr> pf_id := i, pf_name := name \<rparr>],
                   pd_next_policy_template := i + 1 \<rparr>))) d)"
    unfolding v(1) prod.case Let_def
    by (rule safe_write [OF assms])
       (use ok in \<open>auto split: if_splits\<close>)
qed

lemma map_update_fresh: "k \<notin> ident ` set rows \<Longrightarrow> map (\<lambda>r. if ident r = k then f r else r) rows = rows"
  by (rule map_idI) auto

lemma find_None_keys: "find (\<lambda>r. ident r = k) rows = None \<longleftrightarrow> k \<notin> ident ` set rows"
  by (auto simp: find_None_iff)

lemma safe_save_preset:
  assumes "policy_valid d"
  shows "safe (save_bandwidth_preset k0 n0 u0 w0 t d)"
  unfolding save_bandwidth_preset_def Let_def
proof (rule safe_checked [OF assms])
  let ?k = "slug k0"
  fix v assume "ebind (require (?k \<noteq> [] \<and> length ?k \<le> 40) ''Preset key must contain letters/numbers'') (\<lambda>_.
      ebind (require (py_strip n0 \<noteq> []) ''Preset name is required'') (\<lambda>_.
      ebind (as_value_error (normalize_rate u0)) (\<lambda>u. ebind (as_value_error (normalize_rate w0)) (\<lambda>w. Inr (u, w))))) = Inr v"
  then obtain u w where v: "v = (u, w)" "normalize_rate u0 = Inr u" "normalize_rate w0 = Inr w"
    by (auto simp: ebind_eq_Inr as_value_error_def split: sum.splits exc.splits)
  let ?row = "\<lparr> bp_key = ?k, bp_name = take 50 (py_strip n0), bp_upload = u, bp_download = w,
      pr_description = take 160 (py_strip t), pr_builtin = False \<rparr>"
  let ?ps = "if find (\<lambda>p. bp_key p = ?k) (pd_presets d) = None then pd_presets d @ [?row]
      else map (\<lambda>p. if bp_key p = ?k then ?row else p) (pd_presets d)"
  have r: "preset_ok ?row" by (rule preset_saved_ok [OF v(2,3)]) simp_all
  have m: "map bp_key (map (\<lambda>p. if bp_key p = ?k then ?row else p) (pd_presets d)) = map bp_key (pd_presets d)" by simp
  have d: "distinct (map bp_key ?ps)"
    using validD(10) [OF assms] m by (simp add: find_None_keys del: map_map)
  have o: "\<forall>p \<in> set ?ps. preset_ok p" using validD(11) [OF assms] r by auto
  show "safe ((case v of (upload, download) \<Rightarrow> policy_write ''bandwidth-presets'' ''Bandwidth preset saved'' (\<lambda>d.
      if (case find (\<lambda>p. bp_key p = ?k) (pd_presets d) of None \<Rightarrow> False | Some p \<Rightarrow> pr_builtin p)
      then Inl (ValueError ''Built-in presets cannot be replaced'')
      else if list_ex (\<lambda>p. bp_key p \<noteq> ?k \<and> bp_name p = take 50 (py_strip n0)) (pd_presets d)
      then Inl (ApiFault ''UNIQUE constraint failed: bandwidth_presets.name'')
      else Inr ((), d\<lparr> pd_presets := (if find (\<lambda>p. bp_key p = ?k) (pd_presets d) = None
          then pd_presets d @ [\<lparr> bp_key = ?k, bp_name = take 50 (py_strip n0), bp_upload = upload, bp_download = download,
            pr_description = take 160 (py_strip t), pr_builtin = False \<rparr>]
          else map (\<lambda>p. if bp_key p = ?k then \<lparr> bp_key = ?k, bp_name = take 50 (py_strip n0), bp_upload = upload,
            bp_download = download, pr_description = take 160 (py_strip t), pr_builtin = False \<rparr> else p) (pd_presets d)) \<rparr>))) d)"
    unfolding v(1) prod.case
    by (rule safe_write [OF assms]) (use valid_presets [OF assms d o] in \<open>simp split: if_split_asm option.splits\<close>)
qed

lemma safe_save_collection:
  assumes "policy_valid d"
  shows "safe (save_service_group n t ss d)"
  unfolding save_service_group_def
proof (rule safe_checked [OF assms])
  fix v assume "ebind (named ''Service group'' n) (\<lambda>name. Inr (name, validate_services (store_of d) ss)) = Inr v"
  then obtain name where v: "v = (name, validate_services (store_of d) ss)" by (auto simp: ebind_eq_Inr)
  let ?c = "\<lparr> co_id = pd_next_collection d, co_name = name, co_description = take 200 (py_strip t),
      co_services = validate_services (store_of d) ss \<rparr>"
  have t: "table_ok co_id (\<lambda>_. True) (pd_next_collection d + 1) (pd_collections d @ [?c])"
    by (rule table_insert [OF validD(16) [OF assms]]) simp_all
  have r: "\<forall>c \<in> set (pd_collections d @ [?c]). set (co_services c) \<subseteq> policy_keys d"
    using validD(18) [OF assms] validated_services [OF assms, of ss] by (simp add: ball_Un)
  show "safe ((case v of (name, clean) \<Rightarrow> policy_write ''service-groups'' ''Service collection created'' (\<lambda>d.
      if name \<in> co_name ` set (pd_collections d) then Inl (ValueError ''A service group with that name already exists'')
      else let i = pd_next_collection d in
        Inr (i, d\<lparr> pd_collections := pd_collections d @ [\<lparr> co_id = i, co_name = name,
               co_description = take 200 (py_strip t), co_services = clean \<rparr>], pd_next_collection := i + 1 \<rparr>))) d)"
    unfolding v prod.case Let_def
    by (rule safe_write [OF assms])
       (use valid_collections(1) [OF assms t r] in \<open>auto split: if_splits\<close>)
qed

lemma safe_apply_collection:
  assumes "policy_valid d"
  shows "safe (apply_service_group g i a d)"
  unfolding apply_service_group_def Let_def
  by (rule safe_checked [OF assms]) (auto split: prod.split intro!: safe_update_profile [OF assms])


section \<open>Schedules\<close>

lemma set_py_strip: "set (py_strip s) \<subseteq> set s"
  unfolding py_strip_def by (auto dest!: set_dropWhileD)

lemma lower_fixed: "c \<in> set (norm_key s) \<Longrightarrow> lower_char c = c"
  by (auto simp: norm_key_def py_lower_def)

lemma lower_norm: "(\<And>c. c \<in> set s \<Longrightarrow> lower_char c = c) \<Longrightarrow> norm_key (py_strip s) = py_strip s"
  using set_py_strip [of s] by (auto simp: norm_key_def py_lower_def intro!: map_idI)

lemma scheduled_service_ok:
  assumes "normalize_service_schedule_action st v = Inr (w, k, state)"
  shows "w = k @ '':'' @ state \<and> state \<in> {''block'', ''allow''} \<and> norm_key k = k \<and> CHR '':'' \<notin> set k
    \<and> k \<in> set (map sr_key (st_services st) @ policy_group_keys st)"
proof -
  obtain k0 s0 where s: "split_once (CHR '':'') (norm_key v) = Some (k0, s0)"
    using assms by (auto simp: normalize_service_schedule_action_def split: option.splits)
  have k0: "k0 = takeWhile (\<lambda>x. x \<noteq> CHR '':'') (norm_key v)" using s by (auto simp: split_once_def split: if_splits)
  have r: "k = py_strip k0" "w = k @ '':'' @ state" "map_of state_map (py_strip s0) = Some state"
    "k \<in> set (map sr_key (st_services st) @ policy_group_keys st)"
    using assms s by (auto simp: normalize_service_schedule_action_def Let_def split: if_splits option.splits)
  have m: "x \<in> set k0 \<Longrightarrow> x \<in> set (norm_key v) \<and> x \<noteq> CHR '':''" for x
    unfolding k0 by (auto dest: set_takeWhileD)
  have "norm_key k = k" unfolding r(1) by (rule lower_norm) (use m lower_fixed in blast)
  moreover have "CHR '':'' \<notin> set k" using m set_py_strip [of k0] r(1) by blast
  moreover have "state \<in> {''block'', ''allow''}"
    using map_of_SomeD [OF r(3)] by (auto simp: state_map_def)
  ultimately show ?thesis using r(2,4) by blast
qed

lemma takeWhile_upto: "c \<notin> set k \<Longrightarrow> takeWhile (\<lambda>x. x \<noteq> c) (k @ c # xs) = k"
  by (induction k) auto

lemma plan_fields_ok:
  assumes v: "policy_valid d" and f: "schedule_plan_fields ip d l tt tv a av c ds = Inr row"
  shows "plan_ok (row i b) \<and> sp_id (row i b) = i \<and> (sp_action_type (row i b) = ''service'' \<longrightarrow> plan_service (row i b) \<in> policy_keys d)"
proof -
  obtain x y w where p: "schedule_target ip d tt tv = Inr (x, y)" "norm_key a \<in> {''mode'', ''service''}" "py_strip l \<noteq> []"
    "clean_days ds \<noteq> []" "is_clock (py_strip c)"
    "(if norm_key a = ''mode'' then validate_mode (norm_key av) False
      else ebind (normalize_service_schedule_action (store_of d) av) (\<lambda>(v, _, _). Inr v)) = Inr w"
    and row: "row = (\<lambda>i enabled. \<lparr> sp_id = i, sp_label = take 60 (py_strip l), sp_days = clean_days ds, sp_clock_time = py_strip c,
      sp_action_type = norm_key a, sp_action_value = w, sp_target_type = x, sp_target_value = y, sp_enabled = enabled \<rparr>)"
    using f by (auto simp: schedule_plan_fields_def ebind_eq_Inr require_Inr Let_def)
  have x: "x \<in> {''all'', ''profile'', ''device''}"
    using p(1) by (auto simp: schedule_target_def Let_def split: if_splits option.splits)
  show ?thesis
  proof (cases "norm_key a = ''mode''")
    case True
    then have "w \<in> plain_modes" using p(6) validate_mode_ok(1) by simp
    then show ?thesis using p(3-5) x True clean_days_ok unfolding row by (simp add: plan_ok_def)
  next
    case False
    then obtain k state where k: "normalize_service_schedule_action (store_of d) av = Inr (w, k, state)"
      using p(6) by (auto simp: ebind_eq_Inr)
    note s = scheduled_service_ok [OF k]
    have ps: "plan_service (row i b) = k" using s takeWhile_upto [of "CHR '':''" k state] by (simp add: plan_service_def row)
    have "k \<in> policy_keys d" using s accepted_keys [OF v] by blast
    then show ?thesis using p(2-5) x False clean_days_ok s ps unfolding row by (auto simp: plan_ok_def)
  qed
qed


lemma safe_create_plan:
  assumes "policy_valid d"
  shows "safe (create_schedule_plan ip l tt tv a av c ds d)"
  unfolding create_schedule_plan_def
proof (rule safe_checked [OF assms])
  fix row assume f: "schedule_plan_fields ip d l tt tv a av c ds = Inr row"
  note ok = plan_fields_ok [OF assms f, of "pd_next_plan d" True]
  let ?ps = "pd_plans d @ [row (pd_next_plan d) True]"
  have t: "table_ok sp_id plan_ok (pd_next_plan d + 1) ?ps" by (rule table_insert [OF validD(7) [OF assms]]) (use ok in simp_all)
  have r: "\<forall>p \<in> set ?ps. sp_action_type p = ''service'' \<longrightarrow> plan_service p \<in> policy_keys d"
    using validD(19) [OF assms] ok by simp
  show "safe (policy_write ''schedules'' ''Schedule plan created'' (\<lambda>d. let i = pd_next_plan d in
      Inr (i, d\<lparr> pd_plans := pd_plans d @ [row i True], pd_next_plan := i + 1 \<rparr>)) d)"
    by (rule safe_write [OF assms]) (use valid_plans(1) [OF assms t r] in \<open>simp add: Let_def; blast?\<close>)
qed

lemma safe_update_plan:
  assumes "policy_valid d"
  shows "safe (update_schedule_plan ip i l tt tv a av c ds d)"
  unfolding update_schedule_plan_def
proof (rule safe_checked [OF assms], rule safe_then, rule safe_write [OF assms])
  fix row x d'
  assume f: "schedule_plan_fields ip d l tt tv a av c ds = Inr row"
    and w: "(if i \<notin> sp_id ` set (pd_plans d) then Inl (ValueError ''Schedule plan not found'')
      else Inr ((), d\<lparr> pd_plans := map (\<lambda>p. if sp_id p = i then row i (sp_enabled p) else p) (pd_plans d) \<rparr>)) = Inr (x, d')"
  let ?ps = "map (\<lambda>p. if sp_id p = i then row i (sp_enabled p) else p) (pd_plans d)"
  have ok: "plan_ok (row i b) \<and> sp_id (row i b) = i \<and> (sp_action_type (row i b) = ''service'' \<longrightarrow> plan_service (row i b) \<in> policy_keys d)" for b
    by (rule plan_fields_ok [OF assms f])
  have t: "table_ok sp_id plan_ok (pd_next_plan d) ?ps" by (rule table_map [OF validD(7) [OF assms]]) (use ok in auto)
  have r: "\<forall>p \<in> set ?ps. sp_action_type p = ''service'' \<longrightarrow> plan_service p \<in> policy_keys d"
    using validD(19) [OF assms] ok by auto
  show "policy_valid d'" using w valid_plans(2) [OF assms t r] by (auto split: if_splits)
qed

lemma safe_save_schedule_template:
  assumes "policy_valid d"
  shows "safe (save_schedule_template n t es d)"
  unfolding save_schedule_template_def
proof (rule safe_checked [OF assms])
  fix v assume "ebind (named ''Template'' n) (\<lambda>name. ebind (normalize_schedule_template_entries es) (\<lambda>clean. Inr (name, clean))) = Inr v"
  then obtain name clean where v: "v = (name, clean)" "clean \<noteq> []" "list_all entry_ok clean"
    by (auto simp: ebind_eq_Inr normalize_schedule_template_entries_def require_Inr dest: template_entries_ok)
  let ?t = "\<lparr> tp_id = pd_next_template d, tp_name = name, tp_entries = clean, tw_description = take 200 (py_strip t) \<rparr>"
  have o: "table_ok tp_id template_ok (pd_next_template d + 1) (pd_templates d @ [?t])"
    by (rule table_insert [OF validD(8) [OF assms]]) (use v(2,3) in \<open>simp_all add: template_ok_def\<close>)
  have ok: "policy_valid (d\<lparr> pd_templates := pd_templates d @ [?t], pd_next_template := pd_next_template d + 1 \<rparr>)"
    by (rule valid_schedule_templates(1) [OF assms o]) auto
  show "safe ((case v of (name, clean) \<Rightarrow> policy_write ''schedule-templates'' ''Schedule template created'' (\<lambda>d.
      if name \<in> tp_name ` set (pd_templates d) then Inl (ValueError ''A schedule template with that name already exists'')
      else let i = pd_next_template d in
        Inr (i, d\<lparr> pd_templates := pd_templates d @ [\<lparr> tp_id = i, tp_name = name, tp_entries = clean,
               tw_description = take 200 (py_strip t) \<rparr>], pd_next_template := i + 1 \<rparr>))) d)"
    unfolding v(1) prod.case Let_def by (rule safe_write [OF assms]) (use ok in \<open>auto split: if_splits\<close>)
qed


lemma safe_save_exception:
  assumes "policy_valid d"
  shows "safe (save_date_exception ip l s e tt tv m t n d)"
  unfolding save_date_exception_def
proof (rule safe_checked [OF assms])
  fix row
  assume "(let label = py_strip l in
        ebind (require (label \<noteq> []) ''Exception label is required'') (\<lambda>_.
        ebind (schedule_target ip d tt tv) (\<lambda>(target_type, target_value).
        ebind (require (m \<in> {''normal'', ''slow'', ''blocked'', ''template''}) ''Invalid exception mode'') (\<lambda>_.
        ebind (require (is_iso_date s \<and> is_iso_date e) ''Dates must use YYYY-MM-DD'') (\<lambda>_.
        ebind (case (from_iso_date s, from_iso_date e) of
                 (Some s, Some e) \<Rightarrow> Inr (s, e)
               | _ \<Rightarrow> Inl (ValueError ''Date exception contains an invalid calendar date'')) (\<lambda>(first, last).
        ebind (require (first \<le> last) ''End date must not be before start date'') (\<lambda>_.
        ebind (if m \<noteq> ''template'' then Inr None
               else case t of
                   None \<Rightarrow> Inl (ValueError ''Select a schedule template'')
                 | Some t \<Rightarrow> if t = 0 then Inl (ValueError ''Select a schedule template'')
                             else if t \<notin> tp_id ` set (pd_templates d) then Inl (ValueError ''Schedule template not found'')
                             else Inr (Some t)) (\<lambda>template_id.
          Inr (\<lambda>i. \<lparr> de_id = i, de_label = take 60 label, de_start_date = first, de_end_date = last, de_target_type = target_type,
                     de_target_value = target_value, de_mode = m, de_template_id = template_id,
                     ex_notes = take 200 (py_strip n) \<rparr>))))))))) = Inr row"
  then obtain first last x y template where c: "schedule_target ip d tt tv = Inr (x, y)" "m \<in> {''normal'', ''slow'', ''blocked'', ''template''}"
    "first \<le> last" "(if m \<noteq> ''template'' then Inr None
               else case t of
                   None \<Rightarrow> Inl (ValueError ''Select a schedule template'')
                 | Some t \<Rightarrow> if t = 0 then Inl (ValueError ''Select a schedule template'')
                             else if t \<notin> tp_id ` set (pd_templates d) then Inl (ValueError ''Schedule template not found'')
                             else Inr (Some t)) = Inr template"
    and row: "row = (\<lambda>i. \<lparr> de_id = i, de_label = take 60 (py_strip l), de_start_date = first, de_end_date = last, de_target_type = x,
                     de_target_value = y, de_mode = m, de_template_id = template, ex_notes = take 200 (py_strip n) \<rparr>)"
    unfolding Let_def ebind_eq_Inr require_Inr by (auto simp: ebind_eq_Inr require_Inr)
  have x: "x \<in> {''all'', ''profile'', ''device''}"
    using c(1) by (auto simp: schedule_target_def Let_def split: if_splits option.splits)
  have "case template of None \<Rightarrow> m \<in> plain_modes | Some t \<Rightarrow> m = ''template'' \<and> t \<in> tp_id ` set (pd_templates d)"
    using c(2,4) by (auto simp: plain_modes_def split: if_splits option.splits)
  then have ok: "exception_ok (tp_id ` set (pd_templates d)) (row (pd_next_exception d)) \<and> de_id (row (pd_next_exception d)) = pd_next_exception d"
    using c(3) x by (simp add: exception_ok_def row split: option.splits)
  have o: "table_ok de_id (exception_ok (tp_id ` set (pd_templates d))) (pd_next_exception d + 1)
      (pd_exceptions d @ [row (pd_next_exception d)])"
    by (rule table_insert [OF validD(9) [OF assms]]) (use ok in simp_all)
  show "safe (policy_write ''date-exceptions'' ''Date exception created'' (\<lambda>d. let i = pd_next_exception d in
      Inr (i, d\<lparr> pd_exceptions := pd_exceptions d @ [row i], pd_next_exception := i + 1 \<rparr>)) d)"
    by (rule safe_write [OF assms]) (use valid_exceptions(1) [OF assms o] in \<open>simp add: Let_def; blast?\<close>)
qed

section \<open>Services and groups\<close>

lemma still_mono: "policy_keys d \<subseteq> keys \<Longrightarrow> still_referenced d keys"
  unfolding still_referenced_def by blast

lemma norm_key_of_strip: "norm_key (py_strip x) = norm_key x" "py_strip x = [] \<longleftrightarrow> norm_key x = []"
  by (simp_all add: norm_key_def py_lower_def)

lemma filter_service_list: "filter (\<lambda>p. p \<noteq> []) (map norm_key (service_list xs)) = filter (\<lambda>p. p \<noteq> []) (map norm_key xs)"
  by (induction xs) (simp_all add: service_list_def norm_key_of_strip)

lemma buildable_iff:
  "(\<exists>c. build_custom_service_contract s = Inr c) \<longleftrightarrow>
     \<not> sr_builtin s \<and> filter (\<lambda>p. p \<noteq> []) (map norm_key (sr_tls_patterns s)) \<noteq> []
     \<and> length (filter (\<lambda>p. p \<noteq> []) (map norm_key (sr_tls_patterns s))) \<le> 40 \<and> (\<exists>t. service_token (norm_key (sr_key s)) = Inr t)"
  by (cases "service_token (norm_key (sr_key s))") (simp_all add: build_custom_service_contract_def Let_def)

lemma service_ok_cong:
  assumes "service_ok r" "sr_key s = sr_key r" "sr_builtin s = sr_builtin r" "sr_enforcement_approved s = sr_enforcement_approved r"
    "sr_enforcement_approved r \<Longrightarrow> service_list (sr_tls_patterns r) = service_list (sr_tls_patterns s)"
  shows "service_ok s"
proof -
  have "filter (\<lambda>p. p \<noteq> []) (map norm_key (sr_tls_patterns s)) = filter (\<lambda>p. p \<noteq> []) (map norm_key (sr_tls_patterns r))"
    if "sr_enforcement_approved r"
    using assms(5) [OF that] filter_service_list [of "sr_tls_patterns s"] filter_service_list [of "sr_tls_patterns r"] by simp
  then show ?thesis using assms(1-4) unfolding service_ok_def buildable_iff by (simp add: service_row.defs)
qed

end
