(* ===== verification/PolicyServicesSafety.thy ===== *)
theory PolicyServicesSafety
  imports PolicyRulesSafety
begin

text \<open>
  Edits of services and aggregate groups keep the invariant: a service or group that anything still
  refers to is never deleted, and an approved service keeps a contract that can be provisioned.
\<close>

section \<open>Services\<close>

lemma raises_Inr [simp]: "(if c then Inl e else r) = Inr x \<longleftrightarrow> \<not> c \<and> r = Inr x"
  by simp

lemma services_appended:
  assumes "policy_valid d" "sr_key s \<notin> sr_key ` set (pd_services d)" "service_ok s"
  shows "policy_valid (d\<lparr> pd_services := pd_services d @ [s] \<rparr>)"
proof (rule valid_services [OF assms(1)])
  show "distinct (map sr_key (pd_services d @ [s]))" using validD(12) [OF assms(1)] assms(2) by simp
  show "\<forall>q \<in> set (pd_services d @ [s]). service_ok q" using validD(13) [OF assms(1)] assms(3) by simp
  show "still_referenced d (sr_key ` set (pd_services d @ [s]) \<union> gr_key ` set (pd_groups d))"
    by (rule still_mono) (auto simp: policy_keys_def)
qed auto

lemma services_replaced:
  assumes "policy_valid d" "\<And>s. s \<in> set (pd_services d) \<Longrightarrow> sr_key s = k \<Longrightarrow> sr_key (f s) = k \<and> service_ok (f s)"
  shows "policy_valid (d\<lparr> pd_services := map (\<lambda>s. if sr_key s = k then f s else s) (pd_services d) \<rparr>)"
proof -
  let ?ss = "map (\<lambda>s. if sr_key s = k then f s else s) (pd_services d)"
  have m: "map sr_key ?ss = map sr_key (pd_services d)" by (rule map_ident_same) (use assms(2) in auto)
  then have i: "sr_key ` set ?ss = sr_key ` set (pd_services d)" by (metis set_map)
  show ?thesis
  proof (rule valid_services [OF assms(1)])
    show "distinct (map sr_key ?ss)" unfolding m by (rule validD(12) [OF assms(1)])
    show "\<forall>q \<in> set ?ss. service_ok q" using validD(13) [OF assms(1)] assms(2) by auto
    show "still_referenced d (sr_key ` set ?ss \<union> gr_key ` set (pd_groups d))"
      unfolding i by (rule still_mono) (auto simp: policy_keys_def)
    show "\<forall>g \<in> set (pd_groups d). set (gr_members g) \<inter> sr_key ` set (pd_services d) \<subseteq> sr_key ` set ?ss"
      unfolding i by blast
  qed
qed

lemma service_unique:
  "policy_valid d \<Longrightarrow> r \<in> set (pd_services d) \<Longrightarrow> q \<in> set (pd_services d) \<Longrightarrow> sr_key q = sr_key r \<Longrightarrow> q = r"
  using validD(12) [of d] by (auto simp: distinct_map inj_on_def)

lemma service_list_twice: "service_list (service_list xs) = service_list xs"
  by (induction xs) (simp_all add: service_list_def)

lemma safe_approve:
  assumes "policy_valid d"
  shows "safe (set_service_enforcement_approved k0 b d)"
  unfolding set_service_enforcement_approved_def Let_def
proof (rule safe_checked [OF assms], rule safe_then, rule safe_write [OF assms])
  let ?k = "norm_key k0"
  let ?f = "\<lambda>s. s\<lparr> sr_enforcement_approved := b, cs_approved_at := (if b then Some (db_clock (pd_queue d)) else None) \<rparr>"
  fix v x d'
  assume c: "(case get_service d ?k of None \<Rightarrow> Inl (ValueError ''Service not found'')
      | Some s \<Rightarrow> if sr_builtin s then Inl (ValueError ''Built-in RouterOS contracts are manually owned and cannot be reprovisioned'')
          else if b then ebind (build_custom_service_contract (service_row.truncate s)) (\<lambda>_. Inr ()) else Inr ()) = Inr v"
    and w: "Inr ((), d\<lparr> pd_services := map (\<lambda>s. if sr_key s = ?k then ?f s else s) (pd_services d) \<rparr>) = Inr (x, d')"
  obtain s where s: "s \<in> set (list_services d)" "sr_key s = ?k" "b \<Longrightarrow> \<exists>c. build_custom_service_contract (service_row.truncate s) = Inr c"
    using c by (auto simp: get_service_def ebind_eq_Inr split: option.splits if_splits dest!: find_Some_mem)
  obtain r where r: "r \<in> set (pd_services d)" "s = r\<lparr> sr_dns_suffixes := service_list (sr_dns_suffixes r),
      sr_tls_patterns := service_list (sr_tls_patterns r) \<rparr>"
    using s(1) by (auto simp: list_services_def)
  have "b \<Longrightarrow> \<exists>c. build_custom_service_contract (service_row.truncate r) = Inr c"
    using s(3) unfolding buildable_iff r(2) by (simp add: service_row.defs filter_service_list)
  then have "sr_key (?f q) = ?k \<and> service_ok (?f q)" if "q \<in> set (pd_services d)" "sr_key q = ?k" for q
    using service_unique [OF assms r(1) that(1)] that(2) s(2) r(2) unfolding service_ok_def buildable_iff
    by (auto simp: service_row.defs)
  then have "policy_valid (d\<lparr> pd_services := map (\<lambda>s. if sr_key s = ?k then ?f s else s) (pd_services d) \<rparr>)"
    by (intro services_replaced [OF assms]) blast
  then show "policy_valid d'" using w by simp
qed

lemma safe_save_service:
  assumes "policy_valid d"
  shows "safe (save_service k0 n0 t c0 dns0 tls0 b d)"
  unfolding save_service_def Let_def
proof (rule safe_checked [OF assms], simp only: split_beta, rule safe_then, rule safe_write [OF assms], unfold raises_Inr,
    elim conjE, goal_cases)
  case (1 v x d')
  let ?k = "slug k0" and ?d = "fst v" and ?t = "snd v" and ?n = "take 50 (py_strip n0)"
    and ?c = "str_or (filter (\<lambda>c. is_key_char c \<or> c = CHR ''_'' \<or> c = CHR ''-'') (norm_key (str_or c0 ''other''))) ''other''"
  let ?fresh = "\<lparr> sr_key = ?k, sr_name = ?n, sr_builtin = False, sr_category = ?c, sr_dns_suffixes = ?d,
      sr_tls_patterns = ?t, sr_enforcement_approved = False, cs_description = take 160 (py_strip t), cs_classifier = b, cs_approved_at = None \<rparr>"
  let ?f = "\<lambda>s. ?fresh\<lparr> sr_builtin := sr_builtin s, sr_enforcement_approved := sr_enforcement_approved s, cs_approved_at := cs_approved_at s \<rparr>"
  let ?old = "find (\<lambda>s. sr_key s = ?k) (pd_services d)"
  have d': "d' = d\<lparr> pd_services := (if ?old = None then pd_services d @ [?fresh]
      else map (\<lambda>s. if sr_key s = ?k then ?f s else s) (pd_services d)) \<rparr>"
    using 1(5) by (simp only: sum.inject prod.inject)
  show ?case
  proof (cases ?old)
    case None
    have "policy_valid (d\<lparr> pd_services := pd_services d @ [?fresh] \<rparr>)"
      by (rule services_appended [OF assms]) (use None in \<open>simp_all add: find_None_keys service_ok_def\<close>)
    then show ?thesis unfolding d' using None by (simp only: if_True simp_thms)
  next
    case (Some r)
    have r: "r \<in> set (pd_services d)" "sr_key r = ?k" using find_Some_mem [OF Some] by auto
    have u: "sr_enforcement_approved r \<Longrightarrow> service_list (sr_tls_patterns r) = ?t" using 1(3) Some by auto
    have u2: "sr_enforcement_approved r \<Longrightarrow> service_list ?t = ?t"
      using u service_list_twice [of "sr_tls_patterns r"] by simp
    have ok: "service_ok (?f r)"
      by (rule service_ok_cong [of r]) (use validD(13) [OF assms] r u u2 in simp_all)
    have "policy_valid (d\<lparr> pd_services := map (\<lambda>s. if sr_key s = ?k then ?f s else s) (pd_services d) \<rparr>)"
    proof (rule services_replaced [OF assms])
      fix q assume "q \<in> set (pd_services d)" "sr_key q = ?k"
      then have "q = r" using service_unique [OF assms r(1)] r(2) by simp
      then show "sr_key (?f q) = ?k \<and> service_ok (?f q)" using ok by simp
    qed
    then show ?thesis unfolding d' using Some by (simp only: option.distinct simp_thms if_False)
  qed
qed

section \<open>Deleting what is referred to\<close>

lemma dropWhile_upto: "c \<notin> set k \<Longrightarrow> dropWhile (\<lambda>x. x \<noteq> c) (k @ c # xs) = c # xs"
  by (induction k) auto

lemma action_service_valid:
  assumes "plan_ok p" "sp_action_type p = ''service''"
  shows "action_service d p = plan_service p"
proof -
  let ?k = "plan_service p"
  obtain s where s: "s \<in> {''block'', ''allow''}" "sp_action_value p = ?k @ '':'' @ s" and k: "norm_key ?k = ?k"
    using assms by (auto simp: plan_ok_def)
  have kc: "CHR '':'' \<notin> set ?k" by (auto simp: plan_service_def dest: set_takeWhileD)
  have ks: "py_strip ?k = ?k" using k norm_key_strip [of ?k] by simp
  have "?k = [] \<or> \<not> is_blank (hd ?k)" using py_strip_ends [of ?k] ks by auto
  then have "\<not> is_blank (hd (?k @ '':'' @ s))" by (cases ?k) (auto simp: is_blank_def)
  moreover have "\<not> is_blank (last (?k @ '':'' @ s))" using s(1) by (auto simp: is_blank_def)
  ultimately have st: "py_strip (?k @ '':'' @ s) = ?k @ '':'' @ s" by (intro py_strip_id) auto
  have "map lower_char ?k = ?k" using k ks by (simp add: norm_key_def py_lower_def)
  moreover have "py_lower ('':'' @ s) = '':'' @ s" using s(1) by (auto simp: py_lower_def lower_char_def)
  ultimately have n: "norm_key (?k @ '':'' @ s) = ?k @ '':'' @ s" by (simp only: norm_key_def st) (simp add: py_lower_def)
  have "dropWhile (\<lambda>x. x \<noteq> CHR '':'') (?k @ CHR '':'' # s) = CHR '':'' # s" by (rule dropWhile_upto [OF kc])
  then have sp: "split_once (CHR '':'') (?k @ '':'' @ s) = Some (?k, s)"
    using takeWhile_upto [OF kc, of s] kc by (simp add: split_once_def)
  have "listed_service d p \<in> {[], ?k}"
    unfolding listed_service_def s(2) normalize_service_schedule_action_def n sp
    by (auto simp: Let_def ks split: sum.splits option.splits if_splits)
  then show ?thesis using takeWhile_upto [OF kc, of s] unfolding action_service_def by (auto simp: s(2) str_or_def)
qed



lemma usage_zeroD:
  assumes "usage_total (policy_group_usage d k) = 0"
  shows "\<forall>p \<in> set (pd_profiles d) \<union> set (pd_policy_templates d). norm_key k \<notin> set (pf_blocked_services p)"
    "\<forall>c \<in> set (pd_collections d). norm_key k \<notin> set (co_services c)"
    "\<forall>p \<in> set (pd_plans d). sp_action_type p = ''service'' \<longrightarrow> action_service d p \<noteq> norm_key k"
  using assms
  by (auto simp: usage_total_def policy_group_usage_def Let_def filter_empty_conv list_profiles_def list_templates_def
      list_schedule_plans_def list_service_groups_def)

lemma unused_still:
  assumes "policy_valid d" "usage_total (policy_group_usage d k) = 0" "policy_keys d \<subseteq> insert (norm_key k) keys"
  shows "still_referenced d keys"
proof -
  have "plan_service p \<noteq> norm_key k" if "p \<in> set (pd_plans d)" "sp_action_type p = ''service''" for p
    using usage_zeroD(3) [OF assms(2)] that action_service_valid [of p d] validD(7) [OF assms(1)] by (auto simp: table_ok_def)
  then show ?thesis using usage_zeroD(1,2) [OF assms(2)] assms(3) unfolding still_referenced_def by (auto; blast)
qed

lemma safe_delete_service:
  assumes "policy_valid d"
  shows "safe (delete_service k0 d)"
  unfolding delete_service_def Let_def service_usage_def prod.case
proof (rule safe_checked [OF assms], rule safe_write [OF assms], goal_cases)
  case (1 v x d')
  let ?k = "norm_key k0" and ?ss = "filter (\<lambda>s. sr_key s \<noteq> norm_key k0) (pd_services d)"
  have u: "usage_total (policy_group_usage d ?k) = 0" "filter (\<lambda>g. ?k \<in> set (gr_members g)) (list_policy_groups d) = []"
    using 1(1) by (auto simp: require_Inr split: option.splits if_splits)
  have g: "?k \<notin> set (gr_members g)" if g: "g \<in> set (pd_groups d)" for g
  proof -
    have "g\<lparr> gr_members := sorted_set (clean_keys (gr_members g)) \<rparr> \<in> set (list_policy_groups d)"
      using g by (auto simp: list_policy_groups_def)
    then have "?k \<notin> set (gr_members (g\<lparr> gr_members := sorted_set (clean_keys (gr_members g)) \<rparr>))"
      using u(2) unfolding filter_empty_conv by blast
    moreover have "sorted_set (clean_keys (gr_members g)) = gr_members g"
      using validD(15) [OF assms] g by (simp add: group_ok_def)
    ultimately show ?thesis by simp
  qed
  have "policy_valid (d\<lparr> pd_services := ?ss \<rparr>)"
  proof (rule valid_services [OF assms])
    show "distinct (map sr_key ?ss)" using validD(12) [OF assms] by (simp add: distinct_map_filter)
    show "\<forall>s \<in> set ?ss. service_ok s" using validD(13) [OF assms] by simp
    show "still_referenced d (sr_key ` set ?ss \<union> gr_key ` set (pd_groups d))"
      by (rule unused_still [OF assms u(1)]) (auto simp: policy_keys_def)
    show "\<forall>g \<in> set (pd_groups d). set (gr_members g) \<inter> sr_key ` set (pd_services d) \<subseteq> sr_key ` set ?ss"
      using g by fastforce
  qed
  then show ?case using 1(2) by simp
qed

section \<open>Aggregate groups\<close>

lemma group_members_ok:
  assumes "policy_group_members d ms = Inr clean"
  shows "clean \<noteq> [] \<and> sorted_set (clean_keys clean) = clean \<and> set clean \<subseteq> sr_key ` set (pd_services d)"
  using assms
  by (auto simp: policy_group_members_def Let_def ebind_eq_Inr require_Inr sorted_set_clean_idem filter_empty_conv)

lemma safe_create_group:
  assumes "policy_valid d"
  shows "safe (create_policy_group n0 t ms d)"
  unfolding create_policy_group_def Let_def
proof (rule safe_checked [OF assms], simp only: split_beta, rule safe_then, rule safe_write [OF assms], unfold raises_Inr,
    elim conjE, goal_cases)
  case (1 v x d')
  obtain name clean key where v: "v = (name, clean, key)" by (cases v)
  have m: "policy_group_members d ms = Inr clean" and k: "new_policy_group_key d name = Inr key"
    using 1(1) by (auto simp: v ebind_eq_Inr)
  note gk = group_keys_set [of d] and ok = validD(15) [OF assms]
  have "key \<notin> gr_key ` set (pd_groups d)" "norm_key key = key" "key \<noteq> []"
    using new_group_key_ok [OF k] gk ok by (auto simp: group_ok_def)
  then have "policy_valid (d\<lparr> pd_groups := pd_groups d @ [\<lparr> gr_key = key, gr_name = name, gr_description = take 250 (py_strip t),
      gr_members = clean, gr_builtin = False \<rparr>] \<rparr>)"
    using validD(14) [OF assms] ok group_members_ok [OF m]
    by (intro valid_groups [OF assms]) (auto simp: group_ok_def policy_keys_def intro!: still_mono)
  then show ?case using 1(3) by (simp add: v)
qed

lemma safe_update_group:
  assumes "policy_valid d"
  shows "safe (update_policy_group k0 n0 t ms d)"
  unfolding update_policy_group_def Let_def
proof (rule safe_checked [OF assms], simp only: split_beta, rule safe_then, rule safe_write [OF assms], goal_cases)
  case (1 v x d')
  let ?k = "norm_key k0"
  let ?f = "\<lambda>g. if gr_key g = ?k then g\<lparr> gr_name := fst v, gr_description := take 250 (py_strip t), gr_members := snd v \<rparr> else g"
  let ?gs = "map ?f (pd_groups d)"
  have m: "policy_group_members d ms = Inr (snd v)" using 1(1) by (auto simp: ebind_eq_Inr)
  have e: "map gr_key ?gs = map gr_key (pd_groups d)" by (rule map_ident_same) simp
  then have i: "gr_key ` set ?gs = gr_key ` set (pd_groups d)" by (metis set_map)
  have "policy_valid (d\<lparr> pd_groups := ?gs \<rparr>)"
  proof (rule valid_groups [OF assms])
    show "distinct (map gr_key ?gs)" unfolding e by (rule validD(14) [OF assms])
    show "\<forall>g \<in> set ?gs. group_ok (sr_key ` set (pd_services d)) g"
      using validD(15) [OF assms] group_members_ok [OF m] by (auto simp: group_ok_def)
    show "still_referenced d (sr_key ` set (pd_services d) \<union> gr_key ` set ?gs)"
      unfolding i by (rule still_mono) (simp add: policy_keys_def)
  qed
  then show ?case using 1(2) by simp
qed

lemma safe_delete_group:
  assumes "policy_valid d"
  shows "safe (delete_policy_group k0 d)"
  unfolding delete_policy_group_def Let_def
proof (rule safe_checked [OF assms], rule safe_write [OF assms], goal_cases)
  case (1 v x d')
  let ?gs = "filter (\<lambda>g. gr_key g \<noteq> norm_key k0) (pd_groups d)"
  have u: "usage_total (policy_group_usage d (norm_key k0)) = 0"
    using 1(1) by (auto simp: require_Inr split: option.splits if_splits)
  have "policy_valid (d\<lparr> pd_groups := ?gs \<rparr>)"
  proof (rule valid_groups [OF assms])
    show "distinct (map gr_key ?gs)" using validD(14) [OF assms] by (simp add: distinct_map_filter)
    show "\<forall>g \<in> set ?gs. group_ok (sr_key ` set (pd_services d)) g" using validD(15) [OF assms] by simp
    show "still_referenced d (sr_key ` set (pd_services d) \<union> gr_key ` set ?gs)"
      by (rule unused_still [OF assms u]) (auto simp: policy_keys_def)
  qed
  then show ?case using 1(2) by simp
qed

end
