(* ===== verification/PolicyGuarantees.thy ===== *)
theory PolicyGuarantees
  imports PolicyServicesSafety
begin

text \<open>
  What the household can rely on after any sequence of edits: the policy tables stay well formed,
  and the planner accepts every policy that is computed from them.
\<close>

section \<open>The invariant\<close>

lemma safe_edit: "policy_valid d \<Longrightarrow> safe (perform_edit ip e d)"
proof (cases e)
qed (auto intro!: safe_ignore safe_create_profile safe_update_profile safe_delete_profile safe_update_device safe_bulk
    safe_save_template safe_apply_template safe_deletes safe_save_preset safe_approve safe_save_service safe_delete_service
    safe_create_group safe_update_group safe_delete_group safe_save_collection safe_apply_collection safe_create_plan
    safe_update_plan safe_save_schedule_template safe_save_exception)

text \<open>The edits one after the other; an edit that raises leaves the store to the next one.\<close>

fun run_edits :: "(string \<Rightarrow> string option) \<Rightarrow> edit list \<Rightarrow> policy_db \<Rightarrow> policy_db" where
  "run_edits ip [] d = d"
| "run_edits ip (e # es) d = run_edits ip es (snd (perform_edit ip e d))"

lemma run_edits_invariant:
  "(\<And>d e. P d \<Longrightarrow> e \<in> set es \<Longrightarrow> P (snd (perform_edit ip e d))) \<Longrightarrow> P d \<Longrightarrow> P (run_edits ip es d)"
  by (induction es arbitrary: d) auto

lemma run_edits_valid: "policy_valid d \<Longrightarrow> policy_valid (run_edits ip es d)"
  by (rule run_edits_invariant) (rule safe_edit)


section \<open>Edited stores can be planned\<close>

lemma valid_store: "policy_valid d \<Longrightarrow> store_valid (store_of d)"
proof -
  assume v: "policy_valid d"
  have t: "\<forall>e \<in> set (tp_entries t). te_mode e \<in> plain_modes" if "t \<in> set (pd_templates d)" for t
    using validD(8) [OF v] that by (auto simp: table_ok_def template_ok_def entry_ok_def list_all_iff)
  have p: "pf_desired_mode p \<in> plain_modes \<and> pf_daily_quota_action p \<in> plain_modes" if "p \<in> set (pd_profiles d)" for p
    using validD(1) [OF v] that by (auto simp: table_ok_def profile_ok_def plain_modes_def)
  have r: "dv_mode_override r = ''inherit''" if "(ip, r) \<in> set (pd_devices d)" "dv_mode_override r \<notin> plain_modes" for ip r
    using validD(6) [OF v] that by (force simp: device_ok_def)
  have b: "norm_key (bp_key b) \<noteq> ''normal'' \<longrightarrow>
      (\<exists>l. build_max_limit (str_or (bp_upload b) ''Unlimited'') (str_or (bp_download b) ''Unlimited'') = Inr l)"
    if "b \<in> set (pd_presets d)" for b
    using validD(11) [OF v] that by (auto simp: preset_ok_def)
  show ?thesis
    unfolding store_valid_def store_of_def
    using t p b
    by (auto dest: r simp: list_profiles_def list_device_policy_def list_schedule_templates_def list_bandwidth_presets_def
        schedule_template.defs bandwidth_preset.defs device_row.defs)
qed

text \<open>C33: after any sequence of edits the planner accepts the policy of every device: whatever the
  administrator did, a computed policy is never one that cannot be enforced.\<close>

theorem edited_store_plans:
  assumes "policy_valid d" "compute_effective_policy (store_of (run_edits ip es d)) env addr at usage supported = Inr p"
    "norm_key (str_or global ''normal'') \<in> set VALID_MODES"
  shows "\<exists>plan. build_device_policy_plan addr p le t ls lb global cat = Inr plan"
  by (rule valid_store_plans [OF valid_store [OF run_edits_valid [OF assms(1)]] assms(2,3)])

section \<open>Bandwidth presets of the profiles\<close>

definition presets_there :: "policy_db \<Rightarrow> bool" where
  "presets_there d = (\<forall>p \<in> set (pd_profiles d). pf_bandwidth_preset p \<in> bp_key ` set (pd_presets d))"

text \<open>The preset of the template that an edit applies still exists.\<close>

fun template_preset_there :: "policy_db \<Rightarrow> edit \<Rightarrow> bool" where
  "template_preset_there d (ApplyTemplate i _) =
     (case find (\<lambda>t. pf_id t = i) (pd_policy_templates d) of
        None \<Rightarrow> True | Some t \<Rightarrow> pf_bandwidth_preset t \<in> bp_key ` set (pd_presets d))"
| "template_preset_there d _ = True"

lemma presets_queue [simp]: "presets_there (d\<lparr> pd_queue := q \<rparr>) = presets_there d"
  by (simp add: presets_there_def)

lemma presets_write:
  "presets_there d \<Longrightarrow> (\<And>x d'. body d = Inr (x, d') \<Longrightarrow> presets_there d') \<Longrightarrow> presets_there (snd (policy_write scope reason body d))"
  by (cases rule: policy_write_cases [of body d scope reason]) auto

lemma presets_checked: "presets_there d \<Longrightarrow> (\<And>v. r = Inr v \<Longrightarrow> presets_there (snd (f v d))) \<Longrightarrow> presets_there (snd (checked r f d))"
  by (cases r) (auto simp: checked_def rraise_def)

lemma presets_then: "presets_there (snd (m d)) \<Longrightarrow> presets_there (snd (rbind m (\<lambda>x d. (Inr (f x d), d)) d))"
  by (cases "m d") (auto simp: rbind_def split: sum.splits)

lemma presets_ignore: "presets_there (snd (m d)) \<Longrightarrow> presets_there (snd (ignore_result m d))"
  unfolding ignore_result_def rret_def by (rule presets_then)

lemma bulk_presets: "pd_profiles (bulk_devices p m c ips d) = pd_profiles d \<and> pd_presets (bulk_devices p m c ips d) = pd_presets d"
  by (induction p m c ips d rule: bulk_devices.induct) (auto simp: Let_def ensure_managed_device_identity_def split: option.split)

text \<open>The other edits touch neither profiles nor presets.\<close>

definition apart :: "policy_db \<Rightarrow> 'a res \<times> policy_db \<Rightarrow> bool" where
  "apart d out = (pd_profiles (snd out) = pd_profiles d \<and> pd_presets (snd out) = pd_presets d)"

lemma apart_write:
  "(\<And>x d'. body d = Inr (x, d') \<Longrightarrow> pd_profiles d' = pd_profiles d \<and> pd_presets d' = pd_presets d)
     \<Longrightarrow> apart d (policy_write scope reason body d)"
  by (cases rule: policy_write_cases [of body d scope reason]) (auto simp: apart_def)

lemma apart_checked: "(\<And>v. apart d (f v d)) \<Longrightarrow> apart d (checked r f d)"
  by (cases r) (auto simp: checked_def rraise_def apart_def)

lemma apart_then: "apart d (m d) \<Longrightarrow> apart d (rbind m (\<lambda>x d. (Inr (f x d), d)) d)"
  by (cases "m d") (auto simp: apart_def rbind_def split: sum.splits)

lemma apart_ignore: "apart d (m d) \<Longrightarrow> apart d (ignore_result m d)"
  unfolding ignore_result_def rret_def by (rule apart_then)

lemma apart_presets: "presets_there d \<Longrightarrow> apart d out \<Longrightarrow> presets_there (snd out)"
  by (simp add: presets_there_def apart_def)

fun on_profiles :: "edit \<Rightarrow> bool" where
  "on_profiles (CreateProfile n m b t s q a qs) = True"
| "on_profiles (UpdateProfile i n m b t s q a qs) = True"
| "on_profiles (DeleteProfile i) = True"
| "on_profiles (ApplyTemplate t i) = True"
| "on_profiles (ApplyCollection g i a) = True"
| "on_profiles (SavePreset k n u d t) = True"
| "on_profiles (DeletePreset k) = True"
| "on_profiles _ = False"

lemma apart_edit: "\<not> on_profiles e \<Longrightarrow> apart d (perform_edit ip e d)"
  by (cases e) (auto simp: edit_defs Let_def case_prod_beta ensure_managed_device_identity_def bulk_presets
      intro!: apart_ignore apart_checked apart_then apart_write split: if_splits option.splits)

lemma presets_create: "presets_there d \<Longrightarrow> presets_there (snd (create_profile n m b t s q a qs d))"
  unfolding create_profile_def
  by (intro presets_checked presets_then presets_write)
     (auto simp: Let_def presets_there_def split: if_splits dest!: profile_values_ok)

lemma presets_update: "presets_there d \<Longrightarrow> presets_there (snd (update_profile i n m b t s q a qs d))"
  unfolding update_profile_def
  by (intro presets_checked presets_then presets_write)
     (auto simp: Let_def presets_there_def split: if_splits dest!: profile_values_ok [where i = i])

lemma presets_saved: "presets_there d \<Longrightarrow> presets_there (snd (save_bandwidth_preset k n u v t d))"
proof -
  assume p: "presets_there d"
  have "presets_there (d\<lparr> pd_presets := (if find (\<lambda>q. bp_key q = key) (pd_presets d) = None then pd_presets d @ [row]
      else map (\<lambda>q. if bp_key q = key then row else q) (pd_presets d)) \<rparr>)" if "bp_key row = key" for key row
  proof -
    have "bp_key ` set (map (\<lambda>q. if bp_key q = key then row else q) (pd_presets d)) = bp_key ` set (pd_presets d)"
      by (rule ident_image) (use that in simp)
    then show ?thesis using p by (simp add: presets_there_def del: set_map)
  qed
  note m = this
  show ?thesis
    unfolding save_bandwidth_preset_def Let_def
  proof (rule presets_checked [OF p], simp only: split_beta, rule presets_write [OF p], unfold raises_Inr, elim conjE, goal_cases)
    case (1 w x d')
    show ?case
      by (rule subst [OF 1(4) [unfolded sum.inject prod.inject, THEN conjunct2], of presets_there], rule m) simp
  qed
qed

lemma presets_applied: "presets_there d \<Longrightarrow> template_preset_there d (ApplyTemplate t i) \<Longrightarrow> presets_there (snd (apply_template t i d))"
  unfolding apply_template_def by (rule presets_write) (auto simp: presets_there_def split: if_splits option.splits)

lemma presets_deleted: "presets_there d \<Longrightarrow> presets_there (snd (delete_bandwidth_preset k d))"
  unfolding delete_bandwidth_preset_def
  by (rule presets_write) (fastforce simp: presets_there_def list_ex_iff split: if_splits option.splits)+

lemma presets_profile_deleted: "presets_there d \<Longrightarrow> presets_there (snd (delete_profile i d))"
  unfolding delete_profile_def by (rule presets_write) (auto simp: presets_there_def split: if_splits)

text \<open>C34: no edit leaves a profile with a preset that does not exist, when a template that it applies has
  a preset that still exists. Deleting a preset looks at the profiles only, so that a template may lose
  its preset; the profile that it is applied to then has none.\<close>

theorem edits_keep_profile_presets:
  assumes "presets_there d" "template_preset_there d e"
  shows "presets_there (snd (perform_edit ip e d))"
proof -
  have c: "presets_there (snd (apply_service_group g i a d))" for g i a
    unfolding apply_service_group_def Let_def by (rule presets_checked [OF assms(1)]) (auto intro: presets_update assms(1))
  show ?thesis
  proof (cases "on_profiles e")
    case True
    then show ?thesis
      using assms c presets_create presets_update presets_saved presets_applied presets_deleted presets_profile_deleted
      by (cases e) (simp_all add: presets_ignore)
  next
    case False
    then show ?thesis using apart_presets [OF assms(1) apart_edit] by blast
  qed
qed

end
