(* ===== verification/PolicyEditingExamples.thy ===== *)
theory PolicyEditingExamples
  imports PolicyGuarantees EffectivePolicyExamples JobQueueSafety
begin

text \<open>
  A small household that is edited: the properties of \<open>PolicyGuarantees\<close> where their hypotheses hold,
  and how a policy template loses its bandwidth preset.
\<close>

definition kids :: profile where
  "kids = \<lparr> pf_id = 1, pf_name = ''Kids'', pf_desired_mode = ''normal'', pf_bandwidth_preset = ''study'', pf_notes = [],
     pf_blocked_services = [''youtube''], pf_daily_quota_mb = 0, pf_daily_quota_action = ''blocked'', pf_service_quotas = [] \<rparr>"

definition household :: policy_db where
  "household =
     \<lparr> pd_settings = [], pd_profiles = [kids],
       pd_devices = [(''10.0.0.2'', \<lparr> dv_alias = ''Tablet'', dv_profile_id = Some 1, dv_mode_override = ''inherit'',
          dv_category = ''tablet'', dn_notes = [], dn_favourite = False \<rparr>)],
       pd_identities = [], pd_policy_templates = [kids], pd_plans = [], pd_templates = [], pd_exceptions = [], pd_groups = [],
       pd_services = [\<lparr> sr_key = ''youtube'', sr_name = ''YouTube'', sr_builtin = True, sr_category = ''video'',
          sr_dns_suffixes = [''youtube.com''], sr_tls_patterns = [''*.youtube.com''], sr_enforcement_approved = True,
          cs_description = [], cs_classifier = True, cs_approved_at = None \<rparr>],
       pd_collections = [],
       pd_presets = [\<lparr> bp_key = ''normal'', bp_name = ''Normal'', bp_upload = ''Unlimited'', bp_download = ''Unlimited'',
            pr_description = [], pr_builtin = True \<rparr>,
          \<lparr> bp_key = ''study'', bp_name = ''Study'', bp_upload = ''2M'', bp_download = ''10M'', pr_description = [],
            pr_builtin = False \<rparr>],
       pd_next_profile = 2, pd_next_policy_template = 2, pd_next_plan = 1, pd_next_template = 1, pd_next_exception = 1,
       pd_next_collection = 1, pd_queue = empty_db 100 \<rparr>"

lemma household_valid: "policy_valid household"
proof -
  have "norm_key ''normal'' = ''normal''" by code_simp
  moreover have "case build_max_limit (str_or ''2M'' ''Unlimited'') (str_or ''10M'' ''Unlimited'') of Inr l \<Rightarrow> True | Inl _ \<Rightarrow> False"
    by code_simp
  then have "\<exists>l. build_max_limit (str_or ''2M'' ''Unlimited'') (str_or ''10M'' ''Unlimited'') = Inr l"
    by (auto split: sum.splits)
  ultimately show ?thesis
    by (simp add: policy_valid_def tables_ok_def references_ok_def policy_keys_def household_def kids_def table_ok_def profile_ok_def
        plain_modes_def device_ok_def preset_ok_def service_ok_def)
qed

definition some_edits :: "edit list" where
  "some_edits = [UpdateProfile 1 ''Teens'' ''slow'' ''study'' [] [''youtube''] (PInt 100) None [], DeletePreset ''study'', EnablePlan 9 True]"

lemma edited_profiles:
  "map pf_name (pd_profiles (run_edits (\<lambda>_. None) some_edits household)) = [''Teens'']
   \<and> map bp_key (pd_presets (run_edits (\<lambda>_. None) some_edits household)) = [''normal'', ''study'']"
  by code_simp


theorem edited_store_plans_witness:
  "\<exists>p. compute_effective_policy (store_of (run_edits (\<lambda>_. None) some_edits household)) sample_env ''10.0.0.2'' None
       (Some sample_usage) None = Inr p
     \<and> (\<forall>le. \<exists>plan. build_device_policy_plan ''10.0.0.2'' p le None None None ''normal'' [] = Inr plan)"
proof -
  have "case compute_effective_policy (store_of (run_edits (\<lambda>_. None) some_edits household)) sample_env ''10.0.0.2'' None
       (Some sample_usage) None of Inr p \<Rightarrow> True | Inl _ \<Rightarrow> False"
    by code_simp
  then obtain p where p: "compute_effective_policy (store_of (run_edits (\<lambda>_. None) some_edits household)) sample_env ''10.0.0.2'' None
       (Some sample_usage) None = Inr p"
    by (auto split: sum.splits)
  have "norm_key (str_or ''normal'' ''normal'') \<in> set VALID_MODES" by code_simp
  then show ?thesis using edited_store_plans [OF household_valid p] p by blast
qed

theorem edits_keep_profile_presets_witness:
  "presets_there (snd (perform_edit (\<lambda>_. None) (ApplyTemplate 1 1) household))"
  by (rule edits_keep_profile_presets) (simp_all add: presets_there_def household_def kids_def)

text \<open>The profile leaves the preset, the preset is deleted, and the template brings the deleted preset back.\<close>

lemma template_loses_preset:
  "case compute_effective_policy
     (store_of (run_edits (\<lambda>_. None) [UpdateProfile 1 ''Kids'' ''normal'' ''normal'' [] [] (PInt 0) None [], DeletePreset ''study'',
        ApplyTemplate 1 1] household)) sample_env ''10.0.0.2'' None (Some sample_usage) None of
   Inl (ValueError m) \<Rightarrow> starts_with ''Bandwidth preset '' m | _ \<Rightarrow> False"
  by code_simp

end
