(* ===== verification/Rewards.thy ===== *)
theory Rewards
  imports PolicyEditing
begin

text \<open>
  The reward bank (\<open>PolicyStore\<close> in \<open>src/app/policy_store.py\<close>, reward settings to the retirement of a
  device): minutes that the parents grant to a device, kept as a balance with a ledger, and the
  redemptions that spend them. A redemption is debited when it is reserved and is then applied or
  refunded. The tables belong to the database of the policy store (\<open>rb_policy\<close>), whose settings hold
  the limits and whose device rows go with the bank when a device leaves management. Instants are in
  seconds.
\<close>

section \<open>Tables\<close>

record reward_account =
  ra_balance :: int
  ra_updated :: int

record ledger_row =
  lr_id :: int
  lr_ip :: string
  lr_delta :: int
  lr_after :: int
  lr_kind :: string
  lr_reason :: string
  lr_actor :: string
  lr_reference :: string
  lr_created :: int

record redemption =
  rd_id :: int
  rd_ip :: string
  rd_minutes :: int
  rd_actor :: string
  rd_status :: string
  rd_created :: int
  rd_updated :: int
  rd_restore_at :: string
  rd_note :: string

record bank =
  rb_policy :: policy_db
  rb_accounts :: "(string \<times> reward_account) list"
  rb_ledger :: "ledger_row list"
  rb_redemptions :: "redemption list"
  rb_next_ledger :: int
  rb_next_redemption :: int

definition bank_now :: "bank \<Rightarrow> int" where
  "bank_now b = db_clock (pd_queue (rb_policy b))"

text \<open>The validation of the arguments, then one transaction: a raise of either leaves the bank as it was.\<close>

definition bank_step :: "(bank \<Rightarrow> ('a \<times> bank) res) \<Rightarrow> (bank, 'a) act" where
  "bank_step f b = (case f b of Inl e \<Rightarrow> (Inl e, b) | Inr (x, b') \<Rightarrow> (Inr x, b'))"

section \<open>Settings\<close>

record reward_limits =
  rl_enabled :: bool
  rl_max_minutes :: int
  rl_max_redeem :: int

definition set_setting :: "string \<Rightarrow> string \<Rightarrow> policy_db \<Rightarrow> policy_db" where
  "set_setting k v d = d\<lparr> pd_settings := AList.update k v (pd_settings d) \<rparr>"

definition whole_minutes :: "pyval \<Rightarrow> string \<Rightarrow> int res" where
  "whole_minutes v msg = (case pyval_int v of None \<Rightarrow> Inl (ValueError msg) | Some n \<Rightarrow> Inr n)"

definition reward_values :: "string \<Rightarrow> pyval \<Rightarrow> pyval \<Rightarrow> pyval \<Rightarrow> (string \<times> string) list res" where
  "reward_values enabled0 maximum0 grant0 redeem0 =
     (let enabled = (if norm_key enabled0 \<in> {''1'', ''true'', ''yes'', ''on''} then ''1'' else ''0'');
          whole = ''Reward settings must be whole minutes'' in
      ebind (whole_minutes maximum0 whole) (\<lambda>maximum.
      ebind (whole_minutes grant0 whole) (\<lambda>grant.
      ebind (whole_minutes redeem0 whole) (\<lambda>redeem.
      ebind (require (maximum \<in> {120, 240, 480, 720, 1440}) ''Reward bank maximum must be 120, 240, 480, 720 or 1440 minutes'') (\<lambda>_.
      ebind (require (grant \<in> {15, 30, 60}) ''Default reward grant must be 15, 30 or 60 minutes'') (\<lambda>_.
      ebind (require (redeem \<in> {15, 30, 60}) ''Maximum reward redemption must be 15, 30 or 60 minutes'') (\<lambda>_.
      ebind (require (redeem \<le> maximum) ''Maximum reward redemption cannot exceed the bank maximum'') (\<lambda>_.
        Inr [(''reward_bank_enabled'', enabled), (''reward_bank_max_minutes'', show_int maximum),
             (''reward_default_grant_minutes'', show_int grant), (''reward_max_redeem_minutes'', show_int redeem)]))))))))"

definition save_reward_settings ::
  "string \<Rightarrow> pyval \<Rightarrow> pyval \<Rightarrow> pyval \<Rightarrow> int option \<Rightarrow> string \<Rightarrow> (bank, (string \<times> string) list) act" where
  "save_reward_settings enabled maximum grant redeem expected actor =
     bank_step (\<lambda>b.
       ebind (reward_values enabled maximum grant redeem) (\<lambda>values.
         case config_write actor ''Reward settings updated'' ''settings:rewards'' expected (rret ()) (pd_queue (rb_policy b)) of
           (Inl e, _) \<Rightarrow> Inl e
         | (Inr _, q) \<Rightarrow> Inr (values, b\<lparr> rb_policy := (fold (\<lambda>(k, v). set_setting k v) values (rb_policy b))\<lparr> pd_queue := q \<rparr> \<rparr>)))"

definition int_setting :: "(string \<times> string) list \<Rightarrow> string \<Rightarrow> int \<Rightarrow> int" where
  "int_setting settings key fallback =
     (case map_of settings key of None \<Rightarrow> fallback | Some s \<Rightarrow> (case py_int s of None \<Rightarrow> fallback | Some n \<Rightarrow> n))"

definition reward_limits_of :: "bank \<Rightarrow> reward_limits" where
  "reward_limits_of b =
     (let settings = pd_settings (rb_policy b)
      in \<lparr> rl_enabled = (opt_or (map_of settings ''reward_bank_enabled'') ''1'' = ''1''),
           rl_max_minutes = int_setting settings ''reward_bank_max_minutes'' 240,
           rl_max_redeem = int_setting settings ''reward_max_redeem_minutes'' 60 \<rparr>)"

section \<open>Balances\<close>

definition balance :: "bank \<Rightarrow> string \<Rightarrow> int" where
  "balance b ip = (case map_of (rb_accounts b) ip of None \<Rightarrow> 0 | Some a \<Rightarrow> ra_balance a)"

text \<open>The upsert of the account and the ledger row that goes with it.\<close>

definition post_minutes :: "string \<Rightarrow> int \<Rightarrow> string \<Rightarrow> string \<Rightarrow> string \<Rightarrow> string \<Rightarrow> bank \<Rightarrow> bank" where
  "post_minutes ip delta kind reason actor reference b =
     (let after = balance b ip + delta; now = bank_now b in
      b\<lparr> rb_accounts := AList.update ip \<lparr> ra_balance = after, ra_updated = now \<rparr> (rb_accounts b),
         rb_ledger := rb_ledger b @ [\<lparr> lr_id = rb_next_ledger b, lr_ip = ip, lr_delta = delta, lr_after = after, lr_kind = kind,
           lr_reason = reason, lr_actor = actor, lr_reference = reference, lr_created = now \<rparr>],
         rb_next_ledger := rb_next_ledger b + 1 \<rparr>)"

record reward_status =
  rw_ip :: string
  rw_balance :: int
  rw_updated :: "int option"
  rw_limits :: reward_limits
  rw_ledger :: "ledger_row list"
  rw_pending :: "redemption list"

definition get_reward_account :: "string \<Rightarrow> pyval \<Rightarrow> (bank, reward_status) act" where
  "get_reward_account ip0 limit0 =
     bank_step (\<lambda>b.
       let ip = py_strip ip0; limit = (case pyval_int limit0 of None \<Rightarrow> 8 | Some n \<Rightarrow> max 0 (min n 50))
       in ebind (require (ip \<noteq> []) ''Reward account requires a device IP'') (\<lambda>_.
            Inr (\<lparr> rw_ip = ip, rw_balance = balance b ip, rw_updated = map_option ra_updated (map_of (rb_accounts b) ip),
                   rw_limits = reward_limits_of b,
                   rw_ledger = take (nat limit) (rev (filter (\<lambda>r. lr_ip r = ip) (rb_ledger b))),
                   rw_pending = rev (filter (\<lambda>r. rd_ip r = ip \<and> rd_status r = ''reserved'') (rb_redemptions b)) \<rparr>, b)))"

definition adjust_reward_minutes ::
  "string \<Rightarrow> pyval \<Rightarrow> string \<Rightarrow> string \<Rightarrow> string \<Rightarrow> string \<Rightarrow> bool \<Rightarrow> (bank, ledger_row) act" where
  "adjust_reward_minutes ip0 delta0 reason0 actor0 kind0 reference0 allow_above_cap =
     bank_step (\<lambda>b.
       let ip = py_strip ip0; limits = reward_limits_of b in
       ebind (whole_minutes delta0 ''Reward adjustment must be whole minutes'') (\<lambda>delta.
       ebind (require (ip \<noteq> []) ''Reward account requires a device IP'') (\<lambda>_.
       ebind (require (\<not> (delta = 0 \<or> abs delta > 1440)) ''Reward adjustment must be between -1440 and 1440 minutes and not zero'') (\<lambda>_.
       ebind (require (rl_enabled limits) ''Reward bank is disabled'') (\<lambda>_.
       let reason = take 200 (py_strip reason0); actor = take 80 (py_strip actor0);
           kind = take 40 (py_strip (str_or kind0 ''adjustment'')); reference = take 120 (py_strip reference0);
           before = balance b ip; after = before + delta in
       ebind (require (\<not> after < 0) (''Insufficient reward balance: '' @ show_int before @ '' minutes available'')) (\<lambda>_.
       ebind (require (\<not> (after > rl_max_minutes limits \<and> \<not> allow_above_cap))
                (''Reward bank maximum is '' @ show_int (rl_max_minutes limits) @ '' minutes; this adjustment would produce ''
                 @ show_int after @ '' minutes'')) (\<lambda>_.
       let b' = post_minutes ip delta kind reason actor reference b in Inr (last (rb_ledger b'), b'))))))))"

section \<open>Redemptions\<close>

definition reward_redemption_reference :: "int \<Rightarrow> string" where
  "reward_redemption_reference i = ''redemption:'' @ show_int i"

definition get_redemption :: "bank \<Rightarrow> int \<Rightarrow> redemption option" where
  "get_redemption b i = find (\<lambda>r. rd_id r = i) (rb_redemptions b)"

definition set_redemption :: "int \<Rightarrow> (redemption \<Rightarrow> redemption) \<Rightarrow> bank \<Rightarrow> bank" where
  "set_redemption i f b = b\<lparr> rb_redemptions := map (\<lambda>r. if rd_id r = i then f r else r) (rb_redemptions b) \<rparr>"

definition reserve_reward_redemption :: "string \<Rightarrow> pyval \<Rightarrow> string \<Rightarrow> string \<Rightarrow> (bank, redemption) act" where
  "reserve_reward_redemption ip0 minutes0 actor0 reason0 =
     bank_step (\<lambda>b.
       let ip = py_strip ip0; limits = reward_limits_of b; actor = take 80 (py_strip actor0);
           reason = take 200 (py_strip (str_or reason0 ''reward access'')) in
       ebind (whole_minutes minutes0 ''Reward redemption must be whole minutes'') (\<lambda>minutes.
       ebind (require (rl_enabled limits) ''Reward bank is disabled'') (\<lambda>_.
       ebind (require (minutes \<in> {15, 30, 60}) ''Reward access supports 15, 30 or 60 minutes'') (\<lambda>_.
       ebind (require (\<not> minutes > rl_max_redeem limits)
                (''Reward redemption is limited to '' @ show_int (rl_max_redeem limits) @ '' minutes'')) (\<lambda>_.
       ebind (case find (\<lambda>r. rd_ip r = ip \<and> rd_status r = ''reserved'') (rb_redemptions b) of
                Some r \<Rightarrow> Inl (ValueError (''Reward redemption '' @ show_int (rd_id r) @ '' is still pending recovery for '' @ ip
                            @ ''; resolve it before spending more reward minutes''))
              | None \<Rightarrow> Inr ()) (\<lambda>_.
       let before = balance b ip in
       ebind (require (\<not> before < minutes) (''Insufficient reward balance: '' @ show_int before @ '' minutes available, ''
                @ show_int minutes @ '' required'')) (\<lambda>_.
       let i = rb_next_redemption b; now = bank_now b;
           row = \<lparr> rd_id = i, rd_ip = ip, rd_minutes = minutes, rd_actor = actor, rd_status = ''reserved'', rd_created = now,
                   rd_updated = now, rd_restore_at = [], rd_note = reason \<rparr>
       in Inr (row, post_minutes ip (- minutes) ''redeem'' reason actor (reward_redemption_reference i)
                 (b\<lparr> rb_redemptions := rb_redemptions b @ [row], rb_next_redemption := i + 1 \<rparr>)))))))))"

text \<open>A completion reads the row before its transaction begins.\<close>

definition completion_check :: "int \<Rightarrow> bank \<Rightarrow> redemption res" where
  "completion_check i b =
     (case get_redemption b i of
        None \<Rightarrow> Inl (ValueError ''Reward redemption not found'')
      | Some r \<Rightarrow> if rd_status r = ''applied'' \<or> rd_status r = ''reserved'' then Inr r
                  else Inl (ValueError (''Reward redemption is already '' @ rd_status r)))"

definition completion_write :: "redemption \<Rightarrow> string \<Rightarrow> string \<Rightarrow> bank \<Rightarrow> bank" where
  "completion_write r restore_at note b =
     set_redemption (rd_id r) (\<lambda>x. x\<lparr> rd_status := ''applied'', rd_updated := bank_now b,
       rd_restore_at := take 80 (py_strip restore_at), rd_note := take 200 (py_strip (str_or note (rd_note r))) \<rparr>) b"

definition complete_reward_redemption :: "int \<Rightarrow> string \<Rightarrow> string \<Rightarrow> (bank, redemption) act" where
  "complete_reward_redemption i restore_at note =
     bank_step (\<lambda>b.
       ebind (completion_check i b) (\<lambda>r.
         if rd_status r = ''applied'' then Inr (r, b)
         else let b' = completion_write r restore_at note b
              in case get_redemption b' i of
                   None \<Rightarrow> Inl (ApiFault ([CHR 0x27] @ ''NoneType'' @ [CHR 0x27] @ '' object is not iterable''))
                 | Some x \<Rightarrow> Inr (x, b')))"

definition refund_reward_redemption :: "int \<Rightarrow> string \<Rightarrow> (bank, redemption) act" where
  "refund_reward_redemption i note =
     bank_step (\<lambda>b.
       case get_redemption b i of
         None \<Rightarrow> Inl (ValueError ''Reward redemption not found'')
       | Some r \<Rightarrow>
           if rd_status r = ''refunded'' then Inr (r, b)
           else if rd_status r \<noteq> ''reserved''
           then Inl (ValueError (''Only reserved reward redemptions can be refunded (current: '' @ rd_status r @ '')''))
           else let reason = take 200 (py_strip (str_or note ''Reward redemption failed; minutes returned''));
                    b' = set_redemption i (\<lambda>x. x\<lparr> rd_status := ''refunded'', rd_updated := bank_now b, rd_note := reason \<rparr>)
                           (post_minutes (rd_ip r) (rd_minutes r) ''refund'' reason (take 80 (rd_actor r))
                             (reward_redemption_reference i) b)
                in case get_redemption b' i of None \<Rightarrow> Inl (ApiFault ([CHR 0x27] @ ''NoneType'' @ [CHR 0x27] @ '' object is not iterable'')) | Some x \<Rightarrow> Inr (x, b'))"

definition list_pending_reward_redemptions :: "string \<Rightarrow> bank \<Rightarrow> redemption list" where
  "list_pending_reward_redemptions ip0 b =
     (let ip = py_strip ip0
      in filter (\<lambda>r. rd_status r = ''reserved'' \<and> (ip = [] \<or> rd_ip r = ip)) (rb_redemptions b))"

fun refund_each :: "int list \<Rightarrow> redemption list \<Rightarrow> (bank, redemption list) act" where
  "refund_each [] acc = rret acc"
| "refund_each (i # is) acc =
     rbind (refund_reward_redemption i ''Recovered stale unconfirmed reward redemption after application restart'')
       (\<lambda>r. refund_each is (acc @ [r]))"

definition recover_stale_reward_redemptions :: "pyval \<Rightarrow> (bank, redemption list) act" where
  "recover_stale_reward_redemptions age0 b =
     (let age = (case pyval_int age0 of None \<Rightarrow> 300 | Some n \<Rightarrow> max 60 (min n 3600)); cutoff = bank_now b - age
      in refund_each (map rd_id (filter (\<lambda>r. rd_status r = ''reserved'' \<and> rd_created r \<le> cutoff) (rb_redemptions b))) [] b)"

section \<open>Leaving management\<close>

definition forget_rewards :: "string \<Rightarrow> bank \<Rightarrow> bank" where
  "forget_rewards ip b =
     b\<lparr> rb_redemptions := filter (\<lambda>r. rd_ip r \<noteq> ip) (rb_redemptions b), rb_ledger := filter (\<lambda>r. lr_ip r \<noteq> ip) (rb_ledger b),
        rb_accounts := filter (\<lambda>(k, _). k \<noteq> ip) (rb_accounts b) \<rparr>"

definition delete_reward_account :: "string \<Rightarrow> (bank, unit) act" where
  "delete_reward_account ip0 = bank_step (\<lambda>b. Inr ((), forget_rewards (py_strip ip0) b))"

definition gone :: "('a \<Rightarrow> bool) \<Rightarrow> 'a list \<Rightarrow> nat" where
  "gone P xs = length (filter P xs)"

definition retire_device_state :: "string \<Rightarrow> (bank, nat list) act" where
  "retire_device_state ip0 =
     bank_step (\<lambda>b.
       let ip = py_strip ip0; d = rb_policy b;
           plan_of_device = (\<lambda>p. sp_target_type p = ''device'' \<and> sp_target_value p = ip);
           exception_of_device = (\<lambda>e. de_target_type e = ''device'' \<and> de_target_value e = ip);
           d' = d\<lparr> pd_devices := filter (\<lambda>(k, _). k \<noteq> ip) (pd_devices d),
                   pd_plans := filter (\<lambda>p. \<not> plan_of_device p) (pd_plans d),
                   pd_exceptions := filter (\<lambda>e. \<not> exception_of_device e) (pd_exceptions d),
                   pd_identities := filter (\<lambda>(k, _). k \<noteq> ip) (pd_identities d) \<rparr>
       in ebind (require (ip \<noteq> []) ''Device IP is required'') (\<lambda>_.
            Inr ([gone (\<lambda>(k, _). k = ip) (pd_devices d), gone plan_of_device (pd_plans d), gone exception_of_device (pd_exceptions d),
                  gone (\<lambda>r. rd_ip r = ip) (rb_redemptions b), gone (\<lambda>r. lr_ip r = ip) (rb_ledger b),
                  gone (\<lambda>(k, _). k = ip) (rb_accounts b), gone (\<lambda>(k, _). k = ip) (pd_identities d)],
                 (forget_rewards ip b)\<lparr> rb_policy := d' \<rparr>)))"

end
