(* ===== verification/RewardSafety.thy ===== *)
theory RewardSafety
  imports Rewards
begin

text \<open>
  The invariant of the reward bank under every operation: a balance is what was granted less what the
  redemptions hold, it is never negative, and the ledger accounts for it row by row.
\<close>

section \<open>Sums\<close>

definition minutes_of :: "(ledger_row \<Rightarrow> bool) \<Rightarrow> bank \<Rightarrow> int" where
  "minutes_of P b = sum_list (map lr_delta (filter P (rb_ledger b)))"

definition spending :: "ledger_row \<Rightarrow> bool" where
  "spending r = (lr_kind r \<in> {''redeem'', ''refund''})"

text \<open>What the parents granted and deducted, and what the redemptions of the device hold.\<close>

definition granted_minutes :: "bank \<Rightarrow> string \<Rightarrow> int" where
  "granted_minutes b ip = minutes_of (\<lambda>r. lr_ip r = ip \<and> \<not> spending r) b"

definition spent_minutes :: "bank \<Rightarrow> string \<Rightarrow> int" where
  "spent_minutes b ip = sum_list (map rd_minutes (filter (\<lambda>r. rd_ip r = ip \<and> rd_status r \<noteq> ''refunded'') (rb_redemptions b)))"

text \<open>The ledger of each device is the running sum of its rows.\<close>

fun running :: "(string \<Rightarrow> int) \<Rightarrow> ledger_row list \<Rightarrow> bool" where
  "running f [] = True"
| "running f (r # rs) = (lr_after r = f (lr_ip r) + lr_delta r \<and> running (f(lr_ip r := lr_after r)) rs)"

definition redemption_ok :: "redemption \<Rightarrow> bool" where
  "redemption_ok r = (rd_minutes r \<in> {15, 30, 60} \<and> rd_status r \<in> {''reserved'', ''applied'', ''refunded''})"

definition reserved_of :: "bank \<Rightarrow> string \<Rightarrow> redemption list" where
  "reserved_of b ip = filter (\<lambda>r. rd_ip r = ip \<and> rd_status r = ''reserved'') (rb_redemptions b)"

definition bank_ok :: "bank \<Rightarrow> bool" where
  "bank_ok b =
     ((\<forall>ip. balance b ip = granted_minutes b ip - spent_minutes b ip) \<and> (\<forall>ip. 0 \<le> balance b ip)
      \<and> (running (\<lambda>_. 0) (rb_ledger b) \<and> (\<forall>ip. balance b ip = minutes_of (\<lambda>r. lr_ip r = ip) b))
      \<and> (distinct (map rd_id (rb_redemptions b)) \<and> (\<forall>r \<in> set (rb_redemptions b). rd_id r < rb_next_redemption b \<and> redemption_ok r))
      \<and> (\<forall>ip. length (reserved_of b ip) \<le> 1))"

lemma bank_okD:
  assumes "bank_ok b"
  shows "balance b ip = granted_minutes b ip - spent_minutes b ip" "0 \<le> balance b ip" "running (\<lambda>_. 0) (rb_ledger b)"
    "balance b ip = minutes_of (\<lambda>r. lr_ip r = ip) b" "distinct (map rd_id (rb_redemptions b))"
    "r \<in> set (rb_redemptions b) \<Longrightarrow> rd_id r < rb_next_redemption b \<and> redemption_ok r" "length (reserved_of b ip) \<le> 1"
  using assms unfolding bank_ok_def by blast+

lemma running_append:
  "running f (rs @ [r]) = (running f rs \<and> lr_after r = f (lr_ip r) + sum_list (map lr_delta (filter (\<lambda>x. lr_ip x = lr_ip r) rs)) + lr_delta r)"
  by (induction rs arbitrary: f) auto

lemma running_filter: "running f rs \<Longrightarrow> (\<And>k. k \<noteq> ip \<Longrightarrow> g k = f k) \<Longrightarrow> running g (filter (\<lambda>r. lr_ip r \<noteq> ip) rs)"
  by (induction rs arbitrary: f g) auto

section \<open>One posting\<close>

lemma balance_post: "balance (post_minutes ip delta k rs a rf b) x = balance b x + (if x = ip then delta else 0)"
  by (simp add: balance_def post_minutes_def Let_def update_conv')

lemma post_simps [simp]:
  "rb_redemptions (post_minutes ip delta k rs a rf b) = rb_redemptions b"
  "rb_next_redemption (post_minutes ip delta k rs a rf b) = rb_next_redemption b"
  "rb_policy (post_minutes ip delta k rs a rf b) = rb_policy b"
  by (simp_all add: post_minutes_def Let_def)

lemma spent_post [simp]: "spent_minutes (post_minutes ip delta k rs a rf b) x = spent_minutes b x"
  by (simp add: spent_minutes_def)

lemma reserved_post [simp]: "reserved_of (post_minutes ip delta k rs a rf b) x = reserved_of b x"
  by (simp add: reserved_of_def)

lemma granted_post:
  "granted_minutes (post_minutes ip delta k rs a rf b) x
     = granted_minutes b x + (if x = ip \<and> k \<notin> {''redeem'', ''refund''} then delta else 0)"
  by (simp add: granted_minutes_def minutes_of_def post_minutes_def Let_def spending_def)

lemma ledger_post:
  "minutes_of (\<lambda>r. lr_ip r = x) (post_minutes ip delta k rs a rf b) = minutes_of (\<lambda>r. lr_ip r = x) b + (if x = ip then delta else 0)"
  by (simp add: minutes_of_def post_minutes_def Let_def)

lemma running_post:
  "running (\<lambda>_. 0) (rb_ledger b) \<Longrightarrow> balance b ip = minutes_of (\<lambda>r. lr_ip r = ip) b
     \<Longrightarrow> running (\<lambda>_. 0) (rb_ledger (post_minutes ip delta k rs a rf b))"
  by (simp add: post_minutes_def Let_def running_append minutes_of_def)

section \<open>One redemption\<close>

lemma balance_queue [simp]: "balance (b\<lparr> rb_policy := d \<rparr>) x = balance b x" "balance (b\<lparr> rb_redemptions := rs \<rparr>) x = balance b x"
  "balance (b\<lparr> rb_redemptions := rs, rb_next_redemption := n \<rparr>) x = balance b x"
  by (simp_all add: balance_def)

lemma set_redemption_simps [simp]:
  "balance (set_redemption i f b) x = balance b x" "granted_minutes (set_redemption i f b) x = granted_minutes b x"
  "minutes_of P (set_redemption i f b) = minutes_of P b" "rb_ledger (set_redemption i f b) = rb_ledger b"
  "rb_next_redemption (set_redemption i f b) = rb_next_redemption b" "rb_policy (set_redemption i f b) = rb_policy b"
  by (simp_all add: set_redemption_def balance_def granted_minutes_def minutes_of_def)

lemma get_redemption_mem: "get_redemption b i = Some r \<Longrightarrow> r \<in> set (rb_redemptions b) \<and> rd_id r = i"
  by (auto simp: get_redemption_def dest!: find_Some_mem)

lemma replaced_sum:
  assumes "distinct (map ident rows)" "r \<in> set rows" "ident r = i"
  shows "sum_list (map w (filter P (map (\<lambda>x. if ident x = i then f x else x) rows)))
     = sum_list (map w (filter P rows)) + (if P (f r) then w (f r) else 0) - (if P r then w r else (0::int))"
  using assms
proof (induction rows)
  case (Cons x rows)
  show ?case
  proof (cases "ident x = i")
    case True
    then have "x = r" using Cons.prems by (auto simp: image_iff)
    moreover have "map (\<lambda>x. if ident x = i then f x else x) rows = rows"
      using Cons.prems True by (intro map_idI) (auto simp: image_iff)
    ultimately show ?thesis using True by simp
  next
    case False
    then show ?thesis using Cons by auto
  qed
qed simp

lemma replaced_count:
  assumes "distinct (map ident rows)" "r \<in> set rows" "ident r = i"
  shows "int (length (filter P (map (\<lambda>x. if ident x = i then f x else x) rows)))
     = int (length (filter P rows)) + (if P (f r) then 1 else 0) - (if P r then 1 else 0)"
  using replaced_sum [OF assms, of "\<lambda>_. 1" P f] by (simp add: sum_list_triv)

text \<open>The status of a reserved redemption changes; nothing else of it that counts does.\<close>

lemma settled:
  assumes ok: "bank_ok b" and r: "r \<in> set (rb_redemptions b)" "rd_status r = ''reserved''"
    and f: "rd_id (f r) = rd_id r" "rd_ip (f r) = rd_ip r" "rd_minutes (f r) = rd_minutes r" "rd_status (f r) \<in> {''applied'', ''refunded''}"
  shows "spent_minutes (set_redemption (rd_id r) f b) ip
      = spent_minutes b ip - (if ip = rd_ip r \<and> rd_status (f r) = ''refunded'' then rd_minutes r else 0)"
    "length (reserved_of (set_redemption (rd_id r) f b) ip) \<le> 1"
    "distinct (map rd_id (rb_redemptions (set_redemption (rd_id r) f b)))"
    "\<forall>x \<in> set (rb_redemptions (set_redemption (rd_id r) f b)). rd_id x < rb_next_redemption b \<and> redemption_ok x"
proof -
  let ?rows = "map (\<lambda>x. if rd_id x = rd_id r then f x else x) (rb_redemptions b)"
  note d = bank_okD(5) [OF ok]
  have same: "x = r" if "x \<in> set (rb_redemptions b)" "rd_id x = rd_id r" for x
    using d that r(1) by (auto simp: distinct_map inj_on_def)
  show "spent_minutes (set_redemption (rd_id r) f b) ip
      = spent_minutes b ip - (if ip = rd_ip r \<and> rd_status (f r) = ''refunded'' then rd_minutes r else 0)"
    using replaced_sum [OF d r(1) refl, of rd_minutes "\<lambda>x. rd_ip x = ip \<and> rd_status x \<noteq> ''refunded''" f] f r(2)
    by (auto simp: spent_minutes_def set_redemption_def)
  have "int (length (reserved_of (set_redemption (rd_id r) f b) ip)) \<le> int (length (reserved_of b ip))"
    using replaced_count [OF d r(1) refl, of "\<lambda>x. rd_ip x = ip \<and> rd_status x = ''reserved''" f] f(4)
    by (auto simp: reserved_of_def set_redemption_def)
  then show "length (reserved_of (set_redemption (rd_id r) f b) ip) \<le> 1" using bank_okD(7) [OF ok, of ip] by linarith
  have m: "map rd_id ?rows = map rd_id (rb_redemptions b)"
    unfolding map_map by (rule map_cong [OF refl]) (use same f(1) in auto)
  then show "distinct (map rd_id (rb_redemptions (set_redemption (rd_id r) f b)))" using d by (simp add: set_redemption_def del: map_map)
  have "rd_id (f r) < rb_next_redemption b \<and> redemption_ok (f r)"
    using bank_okD(6) [OF ok r(1)] f by (auto simp: redemption_ok_def)
  then show "\<forall>x \<in> set (rb_redemptions (set_redemption (rd_id r) f b)). rd_id x < rb_next_redemption b \<and> redemption_ok x"
    using bank_okD(6) [OF ok] same by (auto simp: set_redemption_def)
qed

section \<open>The operations\<close>

lemma ok_granted:
  "bank_ok b \<Longrightarrow> k \<notin> {''redeem'', ''refund''} \<Longrightarrow> 0 \<le> balance b ip + delta \<Longrightarrow> bank_ok (post_minutes ip delta k rs a rf b)"
proof -
  assume ok: "bank_ok b" and k: "k \<notin> {''redeem'', ''refund''}" and n: "0 \<le> balance b ip + delta"
  let ?p = "post_minutes ip delta k rs a rf b"
  have "running (\<lambda>_. 0) (rb_ledger ?p)" by (rule running_post) (use bank_okD(3,4) [OF ok] in simp_all)
  moreover have "balance ?p x = granted_minutes ?p x - spent_minutes ?p x" for x
    using bank_okD(1) [OF ok, of x] k by (simp add: balance_post granted_post)
  moreover have "0 \<le> balance ?p x" for x
    using bank_okD(2) [OF ok, of x] n by (simp add: balance_post)
  moreover have "balance ?p x = minutes_of (\<lambda>r. lr_ip r = x) ?p" for x
    using bank_okD(4) [OF ok, of x] by (simp add: balance_post ledger_post)
  ultimately show "bank_ok ?p" using ok unfolding bank_ok_def reserved_post post_simps by blast
qed

lemma ok_reserved:
  assumes "bank_ok b" "reserved_of b ip = []" "n \<in> {15, 30, 60}" "n \<le> balance b ip"
    "rd_id row = rb_next_redemption b" "rd_ip row = ip" "rd_minutes row = n" "rd_status row = ''reserved''"
  shows "bank_ok (post_minutes ip (- n) ''redeem'' rs a rf
    (b\<lparr> rb_redemptions := rb_redemptions b @ [row], rb_next_redemption := rb_next_redemption b + 1 \<rparr>))"
proof -
  let ?b = "b\<lparr> rb_redemptions := rb_redemptions b @ [row], rb_next_redemption := rb_next_redemption b + 1 \<rparr>"
  have g: "granted_minutes ?b x = granted_minutes b x" "minutes_of P ?b = minutes_of P b" for x P
    by (simp_all add: granted_minutes_def minutes_of_def)
  have sp: "spent_minutes ?b x = spent_minutes b x + (if x = ip then n else 0)" for x
    using assms(6-8) by (simp add: spent_minutes_def)
  have rv: "reserved_of ?b x = reserved_of b x @ (if x = ip then [row] else [])" for x
    using assms(6,8) by (simp add: reserved_of_def)
  have f: "rb_next_redemption b \<notin> rd_id ` set (rb_redemptions b)"
    using bank_okD(6) [OF assms(1)] by force
  have rn: "running (\<lambda>_. 0) (rb_ledger (post_minutes ip (- n) ''redeem'' rs a rf ?b))"
    by (rule running_post) (use bank_okD(3,4) [OF assms(1)] g in simp_all)
  show ?thesis
    unfolding bank_ok_def
  proof (intro conjI allI ballI)
    fix x
    let ?p = "post_minutes ip (- n) ''redeem'' rs a rf ?b"
    show "balance ?p x = granted_minutes ?p x - spent_minutes ?p x"
      using bank_okD(1) [OF assms(1), of x] by (simp add: balance_post granted_post g sp)
    show "0 \<le> balance ?p x" using bank_okD(2) [OF assms(1), of x] assms(4) by (simp add: balance_post)
    show "balance ?p x = minutes_of (\<lambda>r. lr_ip r = x) ?p" using bank_okD(4) [OF assms(1), of x] by (simp add: balance_post ledger_post g)
    show "length (reserved_of ?p x) \<le> 1" using bank_okD(7) [OF assms(1), of x] assms(2) by (simp add: rv)
  next
    fix r assume "r \<in> set (rb_redemptions (post_minutes ip (- n) ''redeem'' rs a rf ?b))"
    then have r: "r \<in> set (rb_redemptions b) \<or> r = row" by auto
    show "rd_id r < rb_next_redemption (post_minutes ip (- n) ''redeem'' rs a rf ?b)"
      using r bank_okD(6) [OF assms(1), of r] assms(5) by auto
    show "redemption_ok r" using r bank_okD(6) [OF assms(1), of r] assms(3,7,8) by (auto simp: redemption_ok_def)
  qed (use rn bank_okD(5) [OF assms(1)] assms(5) f in auto)
qed

lemma ok_applied:
  assumes "bank_ok b" "r \<in> set (rb_redemptions b)" "rd_status r = ''reserved''"
    "rd_id (f r) = rd_id r" "rd_ip (f r) = rd_ip r" "rd_minutes (f r) = rd_minutes r" "rd_status (f r) = ''applied''"
  shows "bank_ok (set_redemption (rd_id r) f b)"
proof -
  have a: "rd_status (f r) \<in> {''applied'', ''refunded''}" using assms(7) by simp
  note s = settled [where f = f, OF assms(1-6) a]
  show ?thesis
    unfolding bank_ok_def using s bank_okD(1-4) [OF assms(1)] assms(7) by simp
qed

lemma ok_refunded:
  assumes "bank_ok b" "r \<in> set (rb_redemptions b)" "rd_status r = ''reserved''"
    "rd_id (f r) = rd_id r" "rd_ip (f r) = rd_ip r" "rd_minutes (f r) = rd_minutes r" "rd_status (f r) = ''refunded''"
  shows "bank_ok (set_redemption (rd_id r) f (post_minutes (rd_ip r) (rd_minutes r) ''refund'' rs a rf b))"
proof -
  let ?p = "set_redemption (rd_id r) f (post_minutes (rd_ip r) (rd_minutes r) ''refund'' rs a rf b)"
  have a: "rd_status (f r) \<in> {''applied'', ''refunded''}" using assms(7) by simp
  note s = settled [where f = f, OF assms(1-6) a]
  have q: "rb_redemptions ?p = rb_redemptions (set_redemption (rd_id r) f b)" by (simp add: set_redemption_def)
  have sp: "spent_minutes ?p x = spent_minutes (set_redemption (rd_id r) f b) x"
    "reserved_of ?p x = reserved_of (set_redemption (rd_id r) f b) x" for x
    unfolding spent_minutes_def reserved_of_def q by (rule refl)+
  have n: "0 < rd_minutes r" using bank_okD(6) [OF assms(1,2)] by (auto simp: redemption_ok_def)
  have rn: "running (\<lambda>_. 0) (rb_ledger (post_minutes (rd_ip r) (rd_minutes r) ''refund'' rs a rf b))"
    by (rule running_post) (use bank_okD(3,4) [OF assms(1)] in simp_all)
  show ?thesis
    unfolding bank_ok_def
  proof (intro conjI allI)
    fix x
    show "balance ?p x = granted_minutes ?p x - spent_minutes ?p x"
      using bank_okD(1) [OF assms(1), of x] s(1) [of x] assms(7) by (simp add: sp balance_post granted_post)
    show "0 \<le> balance ?p x" using bank_okD(2) [OF assms(1), of x] n by (simp add: balance_post)
    show "balance ?p x = minutes_of (\<lambda>r. lr_ip r = x) ?p" using bank_okD(4) [OF assms(1), of x] by (simp add: balance_post ledger_post)
    show "length (reserved_of ?p x) \<le> 1" using s(2) by (simp add: sp)
  qed (use rn s(3,4) assms(7) in \<open>simp_all add: q\<close>)
qed

lemma ok_forgotten:
  assumes "bank_ok b"
  shows "bank_ok (forget_rewards ip b)"
proof -
  have bal: "balance (forget_rewards ip b) x = (if x = ip then 0 else balance b x)" for x
  proof -
    have "map_of (filter (\<lambda>(k, _). k \<noteq> ip) xs) x = (if x = ip then None else map_of xs x)" for xs :: "(string \<times> reward_account) list"
      by (induction xs) auto
    then show ?thesis by (simp add: balance_def forget_rewards_def)
  qed
  have led: "minutes_of (\<lambda>r. lr_ip r = x \<and> P r) (forget_rewards ip b) = (if x = ip then 0 else minutes_of (\<lambda>r. lr_ip r = x \<and> P r) b)" for x P
  proof -
    have "filter (\<lambda>r. lr_ip r = x \<and> P r) (filter (\<lambda>r. lr_ip r \<noteq> ip) (rb_ledger b)) = (if x = ip then [] else filter (\<lambda>r. lr_ip r = x \<and> P r) (rb_ledger b))"
      by (auto simp: filter_empty_conv intro: filter_cong)
    then show ?thesis by (simp add: minutes_of_def forget_rewards_def del: filter_filter)
  qed
  have sp: "spent_minutes (forget_rewards ip b) x = (if x = ip then 0 else spent_minutes b x)" for x
  proof -
    have "filter (\<lambda>r. rd_ip r = x \<and> rd_status r \<noteq> ''refunded'') (filter (\<lambda>r. rd_ip r \<noteq> ip) (rb_redemptions b))
        = (if x = ip then [] else filter (\<lambda>r. rd_ip r = x \<and> rd_status r \<noteq> ''refunded'') (rb_redemptions b))"
      by (auto simp: filter_empty_conv intro: filter_cong)
    then show ?thesis by (simp add: spent_minutes_def forget_rewards_def del: filter_filter)
  qed
  have rv: "length (reserved_of (forget_rewards ip b) x) \<le> 1" for x
  proof -
    have "reserved_of (forget_rewards ip b) x = filter (\<lambda>r. rd_ip r \<noteq> ip) (reserved_of b x)"
      by (simp add: reserved_of_def forget_rewards_def conj_commute)
    then show ?thesis unfolding \<open>reserved_of (forget_rewards ip b) x = _\<close> using bank_okD(7) [OF assms, of x] length_filter_le [of "\<lambda>r. rd_ip r \<noteq> ip" "reserved_of b x"] by linarith
  qed
  have rn: "running (\<lambda>_. 0) (rb_ledger (forget_rewards ip b))"
    using running_filter [OF bank_okD(3) [OF assms], of ip "\<lambda>_. 0"] by (simp add: forget_rewards_def)
  have rows: "distinct (map rd_id (rb_redemptions (forget_rewards ip b)))"
    "\<forall>r \<in> set (rb_redemptions (forget_rewards ip b)). rd_id r < rb_next_redemption (forget_rewards ip b) \<and> redemption_ok r"
    using bank_okD(5,6) [OF assms] by (auto simp: forget_rewards_def distinct_map_filter)
  show ?thesis
    unfolding bank_ok_def
    using bank_okD(1,2,4) [OF assms] rn rows rv led [of _ "\<lambda>_. True"]
    by (simp add: bal sp led granted_minutes_def)
qed

lemma ok_policy [simp]: "bank_ok (b\<lparr> rb_policy := d \<rparr>) = bank_ok b"
  by (simp add: bank_ok_def granted_minutes_def spent_minutes_def minutes_of_def reserved_of_def)

section \<open>Operations as data\<close>

text \<open>The adjustments are those of the adjustment route.\<close>

datatype bank_op =
    SaveLimits string pyval pyval pyval "int option" string
  | Adjust string int string string bool
  | Reserve string pyval string string
  | Complete int string string
  | Refund int string
  | RecoverStale pyval
  | DeleteAccount string
  | Retire string

fun after_op :: "bank_op \<Rightarrow> bank \<Rightarrow> bank" where
  "after_op (SaveLimits e m g r x a) b = snd (save_reward_settings e m g r x a b)"
| "after_op (Adjust ip n reason actor cap) b =
     snd (adjust_reward_minutes ip (PInt n) reason actor (if n > 0 then ''grant'' else ''deduct'') [] cap b)"
| "after_op (Reserve ip n actor reason) b = snd (reserve_reward_redemption ip n actor reason b)"
| "after_op (Complete i t n) b = snd (complete_reward_redemption i t n b)"
| "after_op (Refund i n) b = snd (refund_reward_redemption i n b)"
| "after_op (RecoverStale n) b = snd (recover_stale_reward_redemptions n b)"
| "after_op (DeleteAccount ip) b = snd (delete_reward_account ip b)"
| "after_op (Retire ip) b = snd (retire_device_state ip b)"

lemma bank_step_snd: "snd (bank_step f b) = (case f b of Inl e \<Rightarrow> b | Inr (x, b') \<Rightarrow> b')"
  by (simp add: bank_step_def split: sum.split)

text \<open>What an operation does to the bank, when it does anything.\<close>

lemma adjust_cases:
  obtains "snd (adjust_reward_minutes ip0 (PInt n) reason actor k ref cap b) = b"
  | rs a where "snd (adjust_reward_minutes ip0 (PInt n) reason actor k ref cap b)
      = post_minutes (py_strip ip0) n (take 40 (py_strip (str_or k ''adjustment''))) rs a (take 120 (py_strip ref)) b"
    "0 \<le> balance b (py_strip ip0) + n" "cap \<or> balance b (py_strip ip0) + n \<le> rl_max_minutes (reward_limits_of b)"
proof (cases "adjust_reward_minutes ip0 (PInt n) reason actor k ref cap b")
  case (Pair r b')
  show ?thesis
  proof (cases r)
    case (Inl e)
    then show ?thesis using that(1) Pair by (auto simp: adjust_reward_minutes_def bank_step_def split: sum.splits)
  next
    case (Inr x)
    let ?p = "post_minutes (py_strip ip0) n (take 40 (py_strip (str_or k ''adjustment''))) (take 200 (py_strip reason))
      (take 80 (py_strip actor)) (take 120 (py_strip ref)) b"
    have "(Inr x, b') = bank_step (\<lambda>b. ebind (require (\<not> balance b (py_strip ip0) + n < 0)
        (''Insufficient reward balance: '' @ show_int (balance b (py_strip ip0)) @ '' minutes available'')) (\<lambda>_.
      ebind (require (\<not> (balance b (py_strip ip0) + n > rl_max_minutes (reward_limits_of b) \<and> \<not> cap))
        (''Reward bank maximum is '' @ show_int (rl_max_minutes (reward_limits_of b)) @ '' minutes; this adjustment would produce ''
           @ show_int (balance b (py_strip ip0) + n) @ '' minutes'')) (\<lambda>_. Inr (last (rb_ledger ?p), ?p)))) b"
      using Pair unfolding Inr adjust_reward_minutes_def bank_step_def Let_def whole_minutes_def pyval_int_def pyval.case option.case ebind_simps
      by (auto simp: ebind_def require_def split: if_splits)
    then have "b' = ?p \<and> \<not> balance b (py_strip ip0) + n < 0
        \<and> \<not> (balance b (py_strip ip0) + n > rl_max_minutes (reward_limits_of b) \<and> \<not> cap)"
      unfolding bank_step_def by (simp add: ebind_def require_def split: if_splits)
    then show ?thesis using that(2) [of "take 200 (py_strip reason)" "take 80 (py_strip actor)"] Pair by auto
  qed
qed

lemma reserve_result:
  assumes "reserve_reward_redemption ip0 n0 actor reason b = (Inr row, b')"
  shows "\<exists>n. pyval_int n0 = Some n \<and> reserved_of b (py_strip ip0) = [] \<and> n \<in> {15, 30, 60} \<and> n \<le> balance b (py_strip ip0)
    \<and> b' = post_minutes (py_strip ip0) (- n) ''redeem'' (take 200 (py_strip (str_or reason ''reward access''))) (take 80 (py_strip actor))
        (reward_redemption_reference (rb_next_redemption b)) (b\<lparr> rb_redemptions := rb_redemptions b @ [row], rb_next_redemption := rb_next_redemption b + 1 \<rparr>)
    \<and> rd_id row = rb_next_redemption b \<and> rd_ip row = py_strip ip0 \<and> rd_minutes row = n \<and> rd_status row = ''reserved''"
proof -
  have "find (\<lambda>r. rd_ip r = py_strip ip0 \<and> rd_status r = ''reserved'') (rb_redemptions b) = None \<Longrightarrow> reserved_of b (py_strip ip0) = []"
    by (simp add: reserved_of_def find_None_iff filter_empty_conv)
  then show ?thesis
    using assms
    by (auto simp: reserve_reward_redemption_def bank_step_def Let_def ebind_eq_Inr require_Inr whole_minutes_def
        not_less split: sum.splits option.splits)
qed

lemma reserve_cases:
  obtains "snd (reserve_reward_redemption ip0 n0 actor reason b) = b"
  | ip n row rs a where "snd (reserve_reward_redemption ip0 n0 actor reason b)
      = post_minutes ip (- n) ''redeem'' rs a (reward_redemption_reference (rb_next_redemption b))
          (b\<lparr> rb_redemptions := rb_redemptions b @ [row], rb_next_redemption := rb_next_redemption b + 1 \<rparr>)"
    "reserved_of b ip = []" "n \<in> {15, 30, 60}" "n \<le> balance b ip" "rd_id row = rb_next_redemption b" "rd_ip row = ip"
    "rd_minutes row = n" "rd_status row = ''reserved''"
proof (cases "reserve_reward_redemption ip0 n0 actor reason b")
  case (Pair r b')
  show ?thesis
  proof (cases r)
    case (Inl e)
    have "b' = b" using Pair unfolding Inl reserve_reward_redemption_def bank_step_def by (simp split: sum.splits prod.splits)
    then show ?thesis using that(1) Pair by simp
  next
    case (Inr row)
    have s: "snd (reserve_reward_redemption ip0 n0 actor reason b) = b'" using Pair by simp
    from reserve_result [OF Pair [unfolded Inr]] obtain n where
      "reserved_of b (py_strip ip0) = []" "n \<in> {15, 30, 60}" "n \<le> balance b (py_strip ip0)"
      "b' = post_minutes (py_strip ip0) (- n) ''redeem'' (take 200 (py_strip (str_or reason ''reward access''))) (take 80 (py_strip actor))
        (reward_redemption_reference (rb_next_redemption b)) (b\<lparr> rb_redemptions := rb_redemptions b @ [row], rb_next_redemption := rb_next_redemption b + 1 \<rparr>)"
      "rd_id row = rb_next_redemption b" "rd_ip row = py_strip ip0" "rd_minutes row = n" "rd_status row = ''reserved''" by blast
    then show ?thesis using that(2) s by blast
  qed
qed

lemma complete_cases:
  obtains "snd (complete_reward_redemption i t n b) = b"
  | r f where "snd (complete_reward_redemption i t n b) = set_redemption (rd_id r) f b" "get_redemption b i = Some r" "rd_id r = i"
    "rd_status r = ''reserved''" "\<And>x. rd_id (f x) = rd_id x \<and> rd_ip (f x) = rd_ip x \<and> rd_minutes (f x) = rd_minutes x
       \<and> rd_status (f x) = ''applied''"
proof (cases "complete_reward_redemption i t n b")
  case (Pair y b')
  show ?thesis
  proof (cases y)
    case (Inl e)
    then show ?thesis using that(1) Pair by (auto simp: complete_reward_redemption_def bank_step_def split: sum.splits)
  next
    case (Inr x)
    then consider "b' = b" | r where "get_redemption b i = Some r" "rd_status r = ''reserved''" "b' = completion_write r t n b"
      using Pair
      by (auto simp: complete_reward_redemption_def bank_step_def Let_def ebind_eq_Inr completion_check_def
          split: sum.splits option.splits if_splits)
    then show ?thesis
    proof cases
      case 1
      then show ?thesis using that(1) Pair by simp
    next
      case (2 r)
      then show ?thesis using that(2) [of r] Pair get_redemption_mem [OF 2(1)] by (simp add: completion_write_def)
    qed
  qed
qed

lemma refund_result:
  assumes "refund_reward_redemption i n b = (y, b')"
  shows "b' = b \<or> (\<exists>r reason. get_redemption b i = Some r \<and> rd_status r = ''reserved''
    \<and> b' = set_redemption i (\<lambda>x. x\<lparr> rd_status := ''refunded'', rd_updated := bank_now b, rd_note := reason \<rparr>)
        (post_minutes (rd_ip r) (rd_minutes r) ''refund'' reason (take 80 (rd_actor r)) (reward_redemption_reference i) b))"
proof (cases "get_redemption b i")
  case None
  then show ?thesis using assms by (simp add: refund_reward_redemption_def bank_step_def)
next
  case (Some r)
  show ?thesis
  proof (cases "rd_status r = ''reserved''")
    case True
    then show ?thesis using assms Some unfolding refund_reward_redemption_def bank_step_def Let_def by (auto split: option.splits)
  next
    case False
    then show ?thesis
      using assms Some unfolding refund_reward_redemption_def bank_step_def Let_def by (simp split: if_split_asm)
  qed
qed

lemma refund_cases:
  obtains "snd (refund_reward_redemption i n b) = b"
  | r f rs a rf where "snd (refund_reward_redemption i n b)
      = set_redemption (rd_id r) f (post_minutes (rd_ip r) (rd_minutes r) ''refund'' rs a rf b)"
    "get_redemption b i = Some r" "rd_id r = i" "rd_status r = ''reserved''"
    "\<And>x. rd_id (f x) = rd_id x \<and> rd_ip (f x) = rd_ip x \<and> rd_minutes (f x) = rd_minutes x \<and> rd_status (f x) = ''refunded''"
proof (cases "refund_reward_redemption i n b")
  case (Pair y b')
  have s: "snd (refund_reward_redemption i n b) = b'" using Pair by simp
  from refund_result [OF Pair] consider "b' = b" | r reason where "get_redemption b i = Some r" "rd_status r = ''reserved''"
      "b' = set_redemption i (\<lambda>x. x\<lparr> rd_status := ''refunded'', rd_updated := bank_now b, rd_note := reason \<rparr>)
        (post_minutes (rd_ip r) (rd_minutes r) ''refund'' reason (take 80 (rd_actor r)) (reward_redemption_reference i) b)" by blast
  then show ?thesis
  proof cases
    case 1
    then show ?thesis using that(1) s by simp
  next
    case (2 r reason)
    note m = get_redemption_mem [OF 2(1)]
    show ?thesis
      by (rule that(2) [of r "\<lambda>x. x\<lparr> rd_status := ''refunded'', rd_updated := bank_now b, rd_note := reason \<rparr>" reason
            "take 80 (rd_actor r)" "reward_redemption_reference i"]) (use s 2 m in simp_all)
  qed
qed

end
