(* ===== verification/RewardGuarantees.thy ===== *)
theory RewardGuarantees
  imports RewardSafety
begin

text \<open>What holds of the reward bank after any sequence of operations.\<close>

section \<open>Conservation\<close>

lemma ok_refund_op: "bank_ok b \<Longrightarrow> bank_ok (snd (refund_reward_redemption i n b))"
proof (cases rule: refund_cases [of i n b])
  case (2 r f rs a rf)
  assume ok: "bank_ok b"
  show "bank_ok (snd (refund_reward_redemption i n b))"
    unfolding 2(1) by (rule ok_refunded [OF ok]) (use get_redemption_mem [OF 2(2)] 2(4,5) in auto)
qed simp

lemma refund_each_keeps:
  assumes "\<And>b i n. P b \<Longrightarrow> P (snd (refund_reward_redemption i n b))" "P b"
  shows "P (snd (refund_each is acc b))"
  using assms(2)
proof (induction "is" arbitrary: acc b)
  case (Cons i "is")
  let ?n = "''Recovered stale unconfirmed reward redemption after application restart''"
  show ?case
  proof (cases "refund_reward_redemption i ?n b")
    case (Pair r b')
    then have "P b'" using assms(1) [OF Cons.prems, of i ?n] by simp
    then show ?thesis using Pair Cons.IH by (cases r) (simp_all add: rbind_def)
  qed
qed (simp add: rret_def)

lemma recover_keeps:
  "(\<And>b i n. P b \<Longrightarrow> P (snd (refund_reward_redemption i n b))) \<Longrightarrow> P b \<Longrightarrow> P (snd (recover_stale_reward_redemptions n b))"
  unfolding recover_stale_reward_redemptions_def Let_def by (rule refund_each_keeps)

lemma settings_cases:
  obtains "snd (save_reward_settings e m g r x a b) = b" | d where "snd (save_reward_settings e m g r x a b) = b\<lparr> rb_policy := d \<rparr>"
proof (cases "reward_values e m g r")
  case (Inl x)
  then show ?thesis using that(1) by (simp add: save_reward_settings_def bank_step_def)
next
  case (Inr vs)
  obtain q db where "config_write a ''Reward settings updated'' ''settings:rewards'' x (rret ()) (pd_queue (rb_policy b)) = (q, db)"
    by (cases "config_write a ''Reward settings updated'' ''settings:rewards'' x (rret ()) (pd_queue (rb_policy b))")
  then show ?thesis using that Inr by (cases q) (simp_all add: save_reward_settings_def bank_step_def)
qed

lemma retire_cases:
  obtains "snd (retire_device_state ip b) = b"
  | d where "snd (retire_device_state ip b) = (forget_rewards (py_strip ip) b)\<lparr> rb_policy := d \<rparr>"
      "pd_settings d = pd_settings (rb_policy b)"
  by (cases "py_strip ip = []") (auto simp: retire_device_state_def bank_step_def Let_def ebind_def require_def)

lemma delete_account_snd: "snd (delete_reward_account ip b) = forget_rewards (py_strip ip) b"
  by (simp add: delete_reward_account_def bank_step_def)

lemma kind_kept: "take 40 (py_strip (str_or (if n > 0 then ''grant'' else ''deduct'') ''adjustment'')) \<notin> {''redeem'', ''refund''}"
proof -
  have "take 40 (py_strip (str_or ''grant'' ''adjustment'')) \<notin> {''redeem'', ''refund''}"
    "take 40 (py_strip (str_or ''deduct'' ''adjustment'')) \<notin> {''redeem'', ''refund''}"
    by code_simp+
  then show ?thesis by (simp only: split: if_split) simp
qed

lemma op_keeps_ok: "bank_ok b \<Longrightarrow> bank_ok (after_op opn b)"
proof (cases opn)
  case (SaveLimits e m g r x a)
  then show "bank_ok b \<Longrightarrow> ?thesis" by (cases rule: settings_cases [of e m g r x a b]) simp_all
next
  case (Adjust ip n rs a cap)
  assume ok: "bank_ok b"
  show ?thesis
  proof (cases rule: adjust_cases [of ip n rs a "if n > 0 then ''grant'' else ''deduct''" "[]" cap b])
    case (2 rs' a')
    show ?thesis unfolding Adjust after_op.simps 2(1) by (rule ok_granted [OF ok kind_kept 2(2)])
  qed (use ok Adjust in simp)
next
  case (Reserve ip n a rs)
  assume ok: "bank_ok b"
  show ?thesis
  proof (cases rule: reserve_cases [of ip n a rs b])
    case (2 ip' n' row rs' a')
    show ?thesis unfolding Reserve after_op.simps 2(1) by (rule ok_reserved [OF ok 2(2-8)])
  qed (use ok Reserve in simp)
next
  case (Complete i t n)
  assume ok: "bank_ok b"
  show ?thesis
  proof (cases rule: complete_cases [of i t n b])
    case (2 r f)
    show ?thesis
      unfolding Complete after_op.simps 2(1) by (rule ok_applied [OF ok]) (use get_redemption_mem [OF 2(2)] 2(4,5) in auto)
  qed (use ok Complete in simp)
next
  case (Refund i n)
  then show "bank_ok b \<Longrightarrow> ?thesis" by (simp add: ok_refund_op)
next
  case (RecoverStale n)
  then show "bank_ok b \<Longrightarrow> ?thesis" using recover_keeps [of bank_ok, OF ok_refund_op] by simp
next
  case (DeleteAccount ip)
  then show "bank_ok b \<Longrightarrow> ?thesis" by (simp add: delete_account_snd ok_forgotten)
next
  case (Retire ip)
  then show "bank_ok b \<Longrightarrow> ?thesis" by (cases rule: retire_cases [of ip b]) (simp_all add: ok_forgotten)
qed

lemma ops_keep: "(\<And>b opn. P b \<Longrightarrow> opn \<in> set ops \<Longrightarrow> P (after_op opn b)) \<Longrightarrow> P b \<Longrightarrow> P (fold after_op ops b)"
  by (induction ops arbitrary: b) auto

lemma ops_keep_ok: "bank_ok b \<Longrightarrow> bank_ok (fold after_op ops b)"
  by (rule ops_keep) (rule op_keeps_ok)

text \<open>C35: minutes are neither created nor lost: after any sequence of operations, whatever their arguments
  and whichever raise, the balance of a device is what was granted less what its redemptions hold, it
  is never negative, and every row of the ledger carries the running balance of its device.\<close>

theorem reward_minutes_conserved:
  assumes "bank_ok b"
  shows "let b' = fold after_op ops b in
    balance b' ip = granted_minutes b' ip - spent_minutes b' ip \<and> 0 \<le> balance b' ip \<and> running (\<lambda>_. 0) (rb_ledger b')
    \<and> balance b' ip = minutes_of (\<lambda>r. lr_ip r = ip) b'"
  unfolding Let_def using bank_okD(1-4) [OF ops_keep_ok [OF assms]] by blast

section \<open>Settled redemptions\<close>

definition settled_as :: "int \<Rightarrow> redemption \<Rightarrow> bank \<Rightarrow> bool" where
  "settled_as i r b = (i < rb_next_redemption b \<and> get_redemption b i \<in> {None, Some r})"

lemma get_set_redemption: "i \<noteq> j \<Longrightarrow> (\<And>x. rd_id (f x) = rd_id x) \<Longrightarrow> get_redemption (set_redemption j f b) i = get_redemption b i"
proof -
  assume "i \<noteq> j" "\<And>x. rd_id (f x) = rd_id x"
  then have "find (\<lambda>x. rd_id x = i) (map (\<lambda>x. if rd_id x = j then f x else x) rs) = find (\<lambda>x. rd_id x = i) rs" for rs
    by (induction rs) auto
  then show ?thesis by (simp add: get_redemption_def set_redemption_def)
qed

lemma get_post [simp]: "get_redemption (post_minutes ip n k rs a rf b) i = get_redemption b i"
  by (simp add: get_redemption_def)

lemma get_policy [simp]: "get_redemption (b\<lparr> rb_policy := d \<rparr>) i = get_redemption b i"
  by (simp add: get_redemption_def)

lemma find_filter_key:
  "distinct (map key rs) \<Longrightarrow> find (\<lambda>x. key x = i) (filter P rs) = None \<or> find (\<lambda>x. key x = i) (filter P rs) = find (\<lambda>x. key x = i) rs"
proof (induction rs)
  case (Cons x rs)
  then show ?case by (cases "key x = i") (auto simp: find_None_iff image_iff)
qed simp

lemma settled_policy [simp]: "settled_as i r (b\<lparr> rb_policy := d \<rparr>) = settled_as i r b"
  by (simp add: settled_as_def)

lemma settled_forget:
  assumes "distinct (map rd_id (rb_redemptions b))" "settled_as i r b"
  shows "settled_as i r (forget_rewards ip b)"
proof -
  have "get_redemption (forget_rewards ip b) i = find (\<lambda>r. rd_id r = i) (filter (\<lambda>r. rd_ip r \<noteq> ip) (rb_redemptions b))"
    by (simp add: get_redemption_def forget_rewards_def)
  then have "get_redemption (forget_rewards ip b) i = None \<or> get_redemption (forget_rewards ip b) i = get_redemption b i"
    using find_filter_key [OF assms(1), of i "\<lambda>r. rd_ip r \<noteq> ip"] by (simp add: get_redemption_def)
  moreover have "rb_next_redemption (forget_rewards ip b) = rb_next_redemption b" by (simp add: forget_rewards_def)
  ultimately show ?thesis using assms(2) by (auto simp: settled_as_def)
qed

lemma settled_refund: "rd_status r \<noteq> ''reserved'' \<Longrightarrow> settled_as i r b \<Longrightarrow> settled_as i r (snd (refund_reward_redemption j n b))"
proof (cases rule: refund_cases [of j n b])
  case (2 q f rs a rf)
  assume r: "rd_status r \<noteq> ''reserved''" "settled_as i r b"
  then have "i \<noteq> j" using 2(2,4) by (auto simp: settled_as_def)
  then show ?thesis using r(2) 2(1,3,5) get_set_redemption [of i j f] by (simp add: settled_as_def)
qed simp

lemma settled_op: "bank_ok b \<Longrightarrow> rd_status r \<noteq> ''reserved'' \<Longrightarrow> settled_as i r b \<Longrightarrow> settled_as i r (after_op opn b)"
proof (cases opn)
  case (SaveLimits e m g r' x a)
  then show "settled_as i r b \<Longrightarrow> ?thesis" by (cases rule: settings_cases [of e m g r' x a b]) (simp_all add: settled_as_def)
next
  case (Adjust ip n rs a cap)
  then show "settled_as i r b \<Longrightarrow> ?thesis"
    by (cases rule: adjust_cases [of ip n rs a "if n > 0 then ''grant'' else ''deduct''" "[]" cap b]) (auto simp: settled_as_def)
next
  case (Reserve ip n a rs)
  assume s: "settled_as i r b"
  show ?thesis
  proof (cases rule: reserve_cases [of ip n a rs b])
    case (2 ip' n' row rs' a')
    have "find (\<lambda>x. rd_id x = i) (rows @ [row]) = find (\<lambda>x. rd_id x = i) rows" for rows
      using s 2(5) by (induction rows) (auto simp: settled_as_def)
    then show ?thesis using s unfolding Reserve after_op.simps 2(1) by (simp add: settled_as_def) (simp add: get_redemption_def)
  qed (use s Reserve in simp)
next
  case (Complete j t n)
  assume r: "rd_status r \<noteq> ''reserved''" "settled_as i r b"
  show ?thesis
  proof (cases rule: complete_cases [of j t n b])
    case (2 q f)
    then have "i \<noteq> j" using r by (auto simp: settled_as_def)
    then show ?thesis using r(2) 2(1,3,5) get_set_redemption [of i j f] Complete by (simp add: settled_as_def)
  qed (use r Complete in simp)
next
  case (Refund j n)
  then show "rd_status r \<noteq> ''reserved'' \<Longrightarrow> settled_as i r b \<Longrightarrow> ?thesis" by (simp add: settled_refund)
next
  case (RecoverStale n)
  then show "rd_status r \<noteq> ''reserved'' \<Longrightarrow> settled_as i r b \<Longrightarrow> ?thesis"
    using recover_keeps [of "settled_as i r", OF settled_refund] by simp
next
  case (DeleteAccount ip)
  then show "bank_ok b \<Longrightarrow> settled_as i r b \<Longrightarrow> ?thesis" by (simp add: delete_account_snd settled_forget bank_okD(5))
next
  case (Retire ip)
  then show "bank_ok b \<Longrightarrow> settled_as i r b \<Longrightarrow> ?thesis"
    by (cases rule: retire_cases [of ip b]) (simp_all add: settled_forget bank_okD(5))
qed


section \<open>The maximum of the bank\<close>

text \<open>The reserved minutes of a device come back at the most once.\<close>

definition reserved_minutes :: "bank \<Rightarrow> string \<Rightarrow> int" where
  "reserved_minutes b ip = sum_list (map rd_minutes (reserved_of b ip))"

definition capped :: "int \<Rightarrow> bank \<Rightarrow> bool" where
  "capped m b = (bank_ok b \<and> rl_max_minutes (reward_limits_of b) = m \<and> 0 \<le> m \<and> (\<forall>ip. balance b ip + reserved_minutes b ip \<le> m + 60))"

fun within_cap :: "bank_op \<Rightarrow> bool" where
  "within_cap (SaveLimits e m g r x a) = False"
| "within_cap (Adjust ip n rs a cap) = (\<not> cap)"
| "within_cap opn = True"

lemma reserved_minutes_bounds: "bank_ok b \<Longrightarrow> 0 \<le> reserved_minutes b ip \<and> reserved_minutes b ip \<le> 60"
proof -
  assume ok: "bank_ok b"
  have "rd_minutes r \<in> {15, 30, 60}" if "r \<in> set (reserved_of b ip)" for r
    using bank_okD(6) [OF ok, of r] that by (auto simp: reserved_of_def redemption_ok_def)
  moreover have "reserved_of b ip = [] \<or> (\<exists>r. reserved_of b ip = [r])"
    using bank_okD(7) [OF ok, of ip] by (cases "reserved_of b ip") auto
  ultimately show ?thesis by (auto simp: reserved_minutes_def)
qed

lemma limits_kept [simp]:
  "reward_limits_of (post_minutes ip n k rs a rf b) = reward_limits_of b" "reward_limits_of (set_redemption i f b) = reward_limits_of b"
  "reward_limits_of (forget_rewards ip b) = reward_limits_of b"
  "reward_limits_of (b\<lparr> rb_redemptions := rs', rb_next_redemption := m \<rparr>) = reward_limits_of b"
  by (simp_all add: reward_limits_of_def forget_rewards_def)

lemma reserved_minutes_post [simp]: "reserved_minutes (post_minutes ip n k rs a rf b) x = reserved_minutes b x"
  by (simp add: reserved_minutes_def)

lemma reserved_minutes_settled:
  assumes "bank_ok b" "get_redemption b i = Some r" "rd_status r = ''reserved''" "\<And>x. rd_status (f x) \<noteq> ''reserved''"
  shows "reserved_minutes (set_redemption i f b) x = reserved_minutes b x - (if x = rd_ip r then rd_minutes r else 0)"
  using replaced_sum [OF bank_okD(5) [OF assms(1)], of r i rd_minutes "\<lambda>y. rd_ip y = x \<and> rd_status y = ''reserved''" f]
    get_redemption_mem [OF assms(2)] assms(3,4)
  by (auto simp: reserved_minutes_def reserved_of_def set_redemption_def)

lemma capped_refund: "capped m b \<Longrightarrow> capped m (snd (refund_reward_redemption i n b))"
proof (cases rule: refund_cases [of i n b])
  case (2 r f rs a rf)
  assume c: "capped m b"
  let ?p = "post_minutes (rd_ip r) (rd_minutes r) ''refund'' rs a rf b"
  have "reserved_minutes (set_redemption i f ?p) x = reserved_minutes (set_redemption i f b) x" for x
    by (simp add: reserved_minutes_def reserved_of_def set_redemption_def)
  moreover have "reserved_minutes (set_redemption i f b) x = reserved_minutes b x - (if x = rd_ip r then rd_minutes r else 0)" for x
    by (rule reserved_minutes_settled) (use c 2 in \<open>simp_all add: capped_def\<close>)
  ultimately have "balance (set_redemption i f ?p) x + reserved_minutes (set_redemption i f ?p) x = balance b x + reserved_minutes b x" for x
    by (simp add: balance_post)
  moreover have "bank_ok (set_redemption (rd_id r) f ?p)" using ok_refund_op [of b i n] c 2(1) by (simp add: capped_def)
  ultimately show ?thesis using c 2(1,3) by (simp add: capped_def)
qed simp

lemma capped_forget: "capped m b \<Longrightarrow> capped m (forget_rewards ip b)"
proof -
  assume c: "capped m b"
  then have ok: "bank_ok (forget_rewards ip b)" by (simp add: capped_def ok_forgotten)
  have "balance (forget_rewards ip b) x + reserved_minutes (forget_rewards ip b) x \<le> m + 60" for x
  proof (cases "x = ip")
    case True
    have "map_of (filter (\<lambda>(k, _). k \<noteq> ip) xs) ip = None" for xs :: "(string \<times> reward_account) list"
      by (induction xs) auto
    then have "balance (forget_rewards ip b) x = 0" using True by (simp add: balance_def forget_rewards_def)
    then show ?thesis using reserved_minutes_bounds [OF ok, of x] c by (simp add: capped_def)
  next
    case False
    have "map_of (filter (\<lambda>(k, _). k \<noteq> ip) xs) x = map_of xs x" for xs :: "(string \<times> reward_account) list"
      using False by (induction xs) auto
    then have "balance (forget_rewards ip b) x = balance b x" by (simp add: balance_def forget_rewards_def)
    moreover have "filter (\<lambda>r. rd_ip r = x \<and> rd_status r = ''reserved'') (filter (\<lambda>r. rd_ip r \<noteq> ip) (rb_redemptions b)) = reserved_of b x"
      using False by (auto simp: reserved_of_def intro: filter_cong)
    then have "reserved_minutes (forget_rewards ip b) x = reserved_minutes b x"
      by (simp add: reserved_minutes_def reserved_of_def forget_rewards_def del: filter_filter)
    ultimately show ?thesis using c by (simp add: capped_def)
  qed
  then show ?thesis using ok c by (simp add: capped_def)
qed

lemma capped_policy: "capped m b \<Longrightarrow> pd_settings d = pd_settings (rb_policy b) \<Longrightarrow> capped m (b\<lparr> rb_policy := d \<rparr>)"
  by (simp add: capped_def reward_limits_of_def reserved_minutes_def reserved_of_def)

lemma forget_policy: "rb_policy (forget_rewards ip b) = rb_policy b"
  by (simp add: forget_rewards_def)

lemma capped_op: "capped m b \<Longrightarrow> within_cap opn \<Longrightarrow> capped m (after_op opn b)"
proof (cases opn)
  case (Adjust ip n rs a cap)
  assume c: "capped m b" and w: "within_cap opn"
  show ?thesis
  proof (cases rule: adjust_cases [of ip n rs a "if n > 0 then ''grant'' else ''deduct''" "[]" cap b])
    case (2 rs' a')
    have "bank_ok (after_op opn b)" using op_keeps_ok c by (simp add: capped_def)
    moreover have "balance b (py_strip ip) + n + reserved_minutes b (py_strip ip) \<le> m + 60"
      using 2(3) w c reserved_minutes_bounds [of b "py_strip ip"] by (auto simp: Adjust capped_def)
    ultimately show ?thesis using c unfolding Adjust after_op.simps 2(1) by (auto simp: capped_def balance_post)
  qed (use c Adjust in simp)
next
  case (Reserve ip n a rs)
  assume c: "capped m b"
  show ?thesis
  proof (cases rule: reserve_cases [of ip n a rs b])
    case (2 ip' n' row rs' a')
    let ?b = "b\<lparr> rb_redemptions := rb_redemptions b @ [row], rb_next_redemption := rb_next_redemption b + 1 \<rparr>"
    have "bank_ok (after_op opn b)" using op_keeps_ok c by (simp add: capped_def)
    moreover have "reserved_minutes ?b x = reserved_minutes b x + (if x = ip' then n' else 0)" for x
      using 2(6-8) by (simp add: reserved_minutes_def reserved_of_def)
    then have "balance (post_minutes ip' (- n') ''redeem'' rs' a' rf ?b) x + reserved_minutes (post_minutes ip' (- n') ''redeem'' rs' a' rf ?b) x
        = balance b x + reserved_minutes b x" for x rf
      by (simp add: balance_post)
    ultimately show ?thesis using c unfolding Reserve after_op.simps 2(1) by (simp add: capped_def)
  qed (use c Reserve in simp)
next
  case (Complete i t n)
  assume c: "capped m b"
  show ?thesis
  proof (cases rule: complete_cases [of i t n b])
    case (2 r f)
    have "bank_ok (after_op opn b)" using op_keeps_ok c by (simp add: capped_def)
    moreover have "reserved_minutes (set_redemption i f b) x = reserved_minutes b x - (if x = rd_ip r then rd_minutes r else 0)" for x
      by (rule reserved_minutes_settled) (use c 2 in \<open>simp_all add: capped_def\<close>)
    moreover have "0 \<le> rd_minutes r"
      using bank_okD(6) [of b r] c get_redemption_mem [OF 2(2)] by (auto simp: capped_def redemption_ok_def)
    ultimately show ?thesis using c 2(3) unfolding Complete after_op.simps 2(1)
      by (auto simp: capped_def) (smt (verit))
  qed (use c Complete in simp)
next
  case (Refund i n)
  then show "capped m b \<Longrightarrow> ?thesis" by (simp add: capped_refund)
next
  case (RecoverStale n)
  then show "capped m b \<Longrightarrow> ?thesis" using recover_keeps [of "capped m", OF capped_refund] by simp
next
  case (DeleteAccount ip)
  then show "capped m b \<Longrightarrow> ?thesis" by (simp add: delete_account_snd capped_forget)
next
  case (Retire ip)
  then show "capped m b \<Longrightarrow> ?thesis"
    by (cases rule: retire_cases [of ip b]) (simp_all add: capped_policy capped_forget forget_policy)
qed simp

text \<open>C37: while the limits are not changed and every grant respects the maximum of the bank, a balance lies
  between zero and the maximum plus one redemption: a refund may lift it above the maximum, by at most
  the sixty minutes of the one redemption that a device may have reserved.\<close>

theorem reward_balance_bounded:
  assumes "bank_ok b" "\<forall>x. balance b x \<le> rl_max_minutes (reward_limits_of b)" "\<forall>opn \<in> set ops. within_cap opn"
  shows "0 \<le> balance (fold after_op ops b) ip
    \<and> balance (fold after_op ops b) ip \<le> rl_max_minutes (reward_limits_of b) + 60"
proof -
  let ?m = "rl_max_minutes (reward_limits_of b)"
  have "balance b x + reserved_minutes b x \<le> ?m + 60" for x
    using assms(2) reserved_minutes_bounds [OF assms(1), of x] by (smt (verit))
  moreover have "0 \<le> ?m" using bank_okD(2) [OF assms(1)] assms(2) order_trans by blast
  ultimately have "capped ?m b" using assms(1) by (simp add: capped_def)
  then have c: "capped ?m (fold after_op ops b)" by (rule ops_keep [rotated]) (use capped_op assms(3) in blast)
  then show ?thesis
    using reserved_minutes_bounds [of "fold after_op ops b" ip] bank_okD(2) [of "fold after_op ops b" ip]
    by (simp add: capped_def) (smt (verit))
qed

end
