(* ===== verification/RewardRedemption.thy ===== *)
theory RewardRedemption
  imports Rewards Reconciler
begin

text \<open>
  Spending reward minutes (\<open>redeem_device_rewards\<close> and the recovery route of \<open>src/app/main.py\<close>,
  \<open>src/app/reward_recovery.py\<close>). A redemption spans two systems: the bank is debited, then the router
  grants temporary access under the reference of the redemption, then the redemption is completed.
  When a call fails on the way, or the program stops, what the router says about the access decides
  between completing, refunding and leaving the debit as it is. The state is the bank, the world
  behind the router adapter and the audit trail; the plan of the device is an argument.
\<close>

record 's desk =
  dk_bank :: bank
  dk_router :: 's
  dk_audit :: "(string \<times> string \<times> string) list"

definition on_bank :: "(bank, 'a) act \<Rightarrow> ('s desk, 'a) act" where
  "on_bank m s = (case m (dk_bank s) of (r, b) \<Rightarrow> (r, s\<lparr> dk_bank := b \<rparr>))"

definition on_router :: "('s, 'a) act \<Rightarrow> ('s desk, 'a) act" where
  "on_router m s = (case m (dk_router s) of (r, w) \<Rightarrow> (r, s\<lparr> dk_router := w \<rparr>))"

definition audit :: "string \<Rightarrow> string \<Rightarrow> string \<Rightarrow> ('s desk, unit) act" where
  "audit event actor detail s = (Inr (), s\<lparr> dk_audit := dk_audit s @ [(event, actor, detail)] \<rparr>)"

definition temporary_state_proves_reward :: "string option \<Rightarrow> int \<Rightarrow> bool" where
  "temporary_state_proves_reward reference i = (opt_or reference [] = reward_redemption_reference i)"

definition restore_text :: "'a temp_state_scheme \<Rightarrow> string" where
  "restore_text st = str_or (opt_or (ta_restore_at st) []) (opt_or (ta_restore_time st) [])"

section \<open>Recovery\<close>

definition py_bool :: "bool \<Rightarrow> string" where
  "py_bool b = (if b then ''True'' else ''False'')"

datatype recovery = Applied redemption | Refunded redemption | Deferred redemption string

definition recover_one :: "'s adapter \<Rightarrow> string \<Rightarrow> redemption \<Rightarrow> ('s desk, recovery) act" where
  "recover_one ad actor pending s =
     (let i = rd_id pending; ip = rd_ip pending; intro = ''redemption='' @ show_int i @ '' ip='' @ ip in
      case on_router (get_device_temporary_access ad ip) s of
        (Inl (RouterError e), s1) \<Rightarrow>
          rbind (audit ''REWARD_REDEMPTION_RECOVERY_DEFERRED'' actor (intro @ ''; RouterOS state unavailable: '' @ e))
            (\<lambda>_. rret (Deferred pending e)) s1
      | (Inl e, s1) \<Rightarrow> (Inl e, s1)
      | (Inr state, s1) \<Rightarrow>
          (if temporary_state_proves_reward (ta_reference state) i then
             rbind (on_bank (complete_reward_redemption i (restore_text state)
                      ''Recovered confirmed RouterOS reward access after application interruption'')) (\<lambda>completed.
             rbind (audit ''REWARD_REDEMPTION_RECOVERED_APPLIED'' actor
                      (intro @ '' spent='' @ show_int (rd_minutes pending) @ ''m; active='' @ py_bool (ta_active state)
                       @ '' expired='' @ py_bool (ts_expired state))) (\<lambda>_.
               rret (Applied completed)))
           else if ta_active state then
             rbind (audit ''REWARD_REDEMPTION_RECOVERY_DEFERRED'' actor
                      (intro @ ''; active temporary access exists without matching reward reference'')) (\<lambda>_.
               rret (Deferred pending ''unbound active temporary access''))
           else
             rbind (on_bank (refund_reward_redemption i
                      ''Recovered unconfirmed reward redemption; RouterOS grant was not present'')) (\<lambda>refunded.
             rbind (audit ''REWARD_REDEMPTION_RECOVERED_REFUNDED'' actor
                      (intro @ '' refunded='' @ show_int (rd_minutes pending) @ ''m'')) (\<lambda>_.
               rret (Refunded refunded)))) s1)"

fun recover_all :: "'s adapter \<Rightarrow> string \<Rightarrow> redemption list \<Rightarrow> recovery list \<Rightarrow> ('s desk, recovery list) act" where
  "recover_all ad actor [] acc = rret acc"
| "recover_all ad actor (p # ps) acc = rbind (recover_one ad actor p) (\<lambda>r. recover_all ad actor ps (acc @ [r]))"

definition recover_pending_reward_redemptions :: "'s adapter \<Rightarrow> string \<Rightarrow> string \<Rightarrow> ('s desk, recovery list) act" where
  "recover_pending_reward_redemptions ad actor ip s =
     recover_all ad actor (list_pending_reward_redemptions ip (dk_bank s)) [] s"

datatype reply = Succeeded string | Rejected string

definition recover_device_reward_redemptions ::
  "'s adapter \<Rightarrow> bool \<Rightarrow> string \<Rightarrow> string \<Rightarrow> ('s desk, reply) act" where
  "recover_device_reward_redemptions ad csrf user ip =
     (if \<not> csrf then rret (Rejected ''CSRF validation failed'')
      else rbind (recover_pending_reward_redemptions ad user ip) (\<lambda>outcomes.
        if outcomes = [] then rret (Succeeded (''No pending reward recovery for '' @ ip))
        else let applied = length (filter (\<lambda>r. case r of Applied _ \<Rightarrow> True | _ \<Rightarrow> False) outcomes);
                 refunded = length (filter (\<lambda>r. case r of Refunded _ \<Rightarrow> True | _ \<Rightarrow> False) outcomes);
                 deferred = length (filter (\<lambda>r. case r of Deferred _ _ \<Rightarrow> True | _ \<Rightarrow> False) outcomes);
                 message = ''Reward recovery for '' @ ip @ '': applied='' @ show_nat applied @ '', refunded='' @ show_nat refunded
                   @ '', deferred='' @ show_nat deferred
             in rret (if deferred \<noteq> 0 then Rejected message else Succeeded message)))"

section \<open>Redeeming\<close>

text \<open>\<open>except (ValueError, RouterError)\<close>, with the subclasses of \<open>ValueError\<close>.\<close>

definition redeem_caught :: "exc \<Rightarrow> bool" where
  "redeem_caught e = (case e of ValueError _ \<Rightarrow> True | PolicyPlanError _ \<Rightarrow> True | BandwidthRateError _ \<Rightarrow> True
     | RouterError _ \<Rightarrow> True | _ \<Rightarrow> False)"

definition attempt :: "('s, 'a) act \<Rightarrow> (exc \<Rightarrow> ('s, unit) act) \<Rightarrow> ('a \<Rightarrow> ('s, reply) act) \<Rightarrow> ('s, reply) act" where
  "attempt m compensation continue s =
     (case m s of
        (Inl e, s1) \<Rightarrow> if redeem_caught e then rbind (compensation e) (\<lambda>_. rret (Rejected (exc_text e))) s1 else (Inl e, s1)
      | (Inr x, s1) \<Rightarrow> continue x s1)"

definition redeem_reserve ::
  "'s adapter \<Rightarrow> (string \<Rightarrow> ('s desk, device_plan) act) \<Rightarrow> string \<Rightarrow> string \<Rightarrow> int \<Rightarrow> ('s desk, redemption \<times> string) act" where
  "redeem_reserve ad plan user ip minutes =
     rbind (on_router (get_status ad)) (\<lambda>global_mode0.
     let global_mode = py_lower (str_or global_mode0 ''unknown'') in
     if global_mode \<noteq> ''normal'' then
       rraise (RouterError (''Global mode is '' @ py_upper global_mode
         @ ''; reward access cannot bypass the MASTER/global restriction''))
     else
     rbind (on_router (get_device_temporary_access ad ip)) (\<lambda>existing.
     if ta_active existing then
       rraise (RouterError (''Reward time cannot be redeemed while temporary access is already active; ''
         @ ''end the current override first so reward minutes cannot accidentally shorten it''))
     else
     rbind (plan ip) (\<lambda>p.
     if dp_desired_mode p = ''normal'' then
       rraise (ValueError ''Reward time can only be redeemed when the effective device mode is SLOW or BLOCKED'')
     else
     rbind (on_bank (reserve_reward_redemption ip (PInt minutes) user
              ''Reward bank redemption for temporary NORMAL access'')) (\<lambda>reservation.
       rret (reservation, dp_desired_mode p)))))"

definition redeem_grant ::
  "'s adapter \<Rightarrow> string \<Rightarrow> string \<Rightarrow> int \<Rightarrow> redemption \<Rightarrow> string \<Rightarrow> ('s desk, temp_grant) act" where
  "redeem_grant ad user ip minutes reservation restore_mode =
     rbind (on_router (set_device_temporary_normal ad ip (PInt minutes) (''reward:'' @ user) (Some restore_mode)
              (reward_redemption_reference (rd_id reservation)))) (\<lambda>result.
       if temporary_state_proves_reward (ta_reference result) (rd_id reservation) then rret result
       else rraise (RouterError ''RouterOS temporary access became active without the durable reward redemption reference''))"

definition grant_text :: "temp_grant \<Rightarrow> string" where
  "grant_text g = str_or (tg_restore_at_iso g) (opt_or (ta_restore_time g) [])"

definition redeem_finish :: "string \<Rightarrow> string \<Rightarrow> int \<Rightarrow> redemption \<Rightarrow> temp_grant \<Rightarrow> ('s desk, unit) act" where
  "redeem_finish user ip minutes reservation result =
     rbind (on_bank (complete_reward_redemption (rd_id reservation) (grant_text result)
              ''RouterOS temporary access confirmed'')) (\<lambda>completed.
     rbind (on_bank (get_reward_account ip (PInt 0))) (\<lambda>account.
       audit ''REWARD_REDEEMED'' user
         (ip @ '': spent='' @ show_int minutes @ ''m balance='' @ show_int (rw_balance account) @ ''m; redemption=''
          @ show_int (rd_id completed) @ ''; restore='' @ opt_or (ta_restore_mode result) ''None'' @ ''; restore_at=''
          @ grant_text result)))"

text \<open>After a failed grant: one fresh reading decides. A refund that raises is audited, a completion that
  raises is not.\<close>

definition redeem_compensate ::
  "'s adapter \<Rightarrow> string \<Rightarrow> string \<Rightarrow> redemption \<Rightarrow> exc \<Rightarrow> ('s desk, unit) act" where
  "redeem_compensate ad user ip reservation e s =
     (let i = rd_id reservation;
          keep = (\<lambda>why. audit ''REWARD_REDEMPTION_RECOVERY_DEFERRED'' user
            (ip @ '': redemption='' @ show_int i @ '' retained as reserved after uncertain RouterOS result; verify_error='' @ why))
      in case on_router (get_device_temporary_access ad ip) s of
        (Inl (RouterError why), s1) \<Rightarrow> keep (str_or why ''active unbound temporary access'') s1
      | (Inl x, s1) \<Rightarrow> (Inl x, s1)
      | (Inr state, s1) \<Rightarrow>
          (if temporary_state_proves_reward (ta_reference state) i then
             (case on_bank (complete_reward_redemption i (restore_text state)
                     (''RouterOS reward grant recovered after response failure: '' @ exc_text e)) s1 of
                (Inr _, s2) \<Rightarrow> audit ''REWARD_REDEMPTION_RECOVERED_APPLIED'' user
                   (ip @ '': redemption='' @ show_int i @ '' confirmed after response failure'') s2
              | (Inl (ValueError _), s2) \<Rightarrow> (Inr (), s2)
              | (Inl x, s2) \<Rightarrow> (Inl x, s2))
           else if \<not> ta_active state then
             (case on_bank (refund_reward_redemption i
                     (''RouterOS reward access failed before a grant was proven: '' @ exc_text e)) s1 of
                (Inr refunded, s2) \<Rightarrow> audit ''REWARD_REDEMPTION_REFUNDED'' user
                   (ip @ '': redemption='' @ show_int (rd_id refunded) @ '' refunded after proven non-grant: '' @ exc_text e) s2
              | (Inl (ValueError x), s2) \<Rightarrow> audit ''REWARD_REFUND_FAILED'' user
                   (ip @ '': redemption='' @ show_int i @ '' refund failed: '' @ x) s2
              | (Inl x, s2) \<Rightarrow> (Inl x, s2))
           else keep ''active unbound temporary access'' s1))"

definition redeem_device_rewards ::
  "'s adapter \<Rightarrow> (string \<Rightarrow> ('s desk, device_plan) act) \<Rightarrow> bool \<Rightarrow> string \<Rightarrow> string \<Rightarrow> int \<Rightarrow> ('s desk, reply) act" where
  "redeem_device_rewards ad plan csrf user ip minutes =
     (if \<not> csrf then rret (Rejected ''CSRF validation failed'')
      else attempt (redeem_reserve ad plan user ip minutes) (\<lambda>_. rret ()) (\<lambda>(reservation, restore_mode).
           attempt (redeem_grant ad user ip minutes reservation restore_mode) (redeem_compensate ad user ip reservation) (\<lambda>result.
           attempt (redeem_finish user ip minutes reservation result)
             (\<lambda>e. audit ''REWARD_REDEMPTION_RECOVERY_DEFERRED'' user
                (ip @ '': redemption='' @ show_int (rd_id reservation) @ '' RouterOS grant confirmed; local completion pending: ''
                 @ exc_text e)) (\<lambda>_.
             rret (Succeeded (''Redeemed '' @ show_int minutes @ '' reward minutes for '' @ ip))))))"

section \<open>Adjusting\<close>

definition adjust_device_rewards :: "bool \<Rightarrow> string \<Rightarrow> string \<Rightarrow> int \<Rightarrow> string \<Rightarrow> ('s desk, reply) act" where
  "adjust_device_rewards csrf user ip delta reason s =
     (if \<not> csrf then (Inr (Rejected ''CSRF validation failed''), s)
      else case on_bank (adjust_reward_minutes ip (PInt delta) reason user (if delta > 0 then ''grant'' else ''deduct'') [] False) s of
          (Inr row, s1) \<Rightarrow>
            rbind (audit ''REWARD_ADJUSTED'' user
                (ip @ '': '' @ (if lr_delta row \<ge> 0 then ''+'' else []) @ show_int (lr_delta row) @ ''m; balance=''
                 @ show_int (lr_after row) @ ''m; reason='' @ lr_reason row))
              (\<lambda>_. rret (Succeeded (''Reward balance for '' @ ip @ '': '' @ show_int (lr_after row) @ '' minutes''))) s1
        | (Inl (ValueError e), s1) \<Rightarrow> (Inr (Rejected e), s1)
        | (Inl e, s1) \<Rightarrow> (Inl e, s1))"

end
