(* ===== verification/RewardSaga.thy ===== *)
theory RewardSaga
  imports RewardGuarantees RewardRedemption RouterTempSafety ReconcilerPlan
begin

text \<open>
  The redemption as a whole, over the bank and the router: what a success means, on what evidence
  minutes are given back, and that the recovery follows what the router says.
\<close>

section \<open>Effects on the two sides\<close>

definition refunded_ids :: "bank \<Rightarrow> int set" where
  "refunded_ids b = {i. \<exists>r. get_redemption b i = Some r \<and> rd_status r = ''refunded''}"

lemma on_bank_run: "on_bank m s = (r, s') \<longleftrightarrow> (\<exists>b. m (dk_bank s) = (r, b) \<and> s' = s\<lparr> dk_bank := b \<rparr>)"
  by (auto simp: on_bank_def split: prod.splits)

lemma on_router_run: "on_router m s = (r, s') \<longleftrightarrow> (\<exists>w. m (dk_router s) = (r, w) \<and> s' = s\<lparr> dk_router := w \<rparr>)"
  by (auto simp: on_router_def split: prod.splits)

lemma audit_run [simp]: "audit e a t s = (Inr (), s\<lparr> dk_audit := dk_audit s @ [(e, a, t)] \<rparr>)"
  by (simp add: audit_def)

text \<open>\<open>spares P m\<close>: whatever \<open>m\<close> does, the bank keeps \<open>P\<close>.\<close>

definition spares :: "(bank \<Rightarrow> bool) \<Rightarrow> ('s desk, 'a) act \<Rightarrow> bool" where
  "spares P m = (\<forall>s. P (dk_bank s) \<longrightarrow> P (dk_bank (snd (m s))))"

lemma spares_rules:
  "spares P (rret x)" "spares P (rraise e)" "spares P (on_router n)" "spares P (audit a b c)"
  by (auto simp: spares_def rret_def rraise_def on_router_def split: prod.splits)

lemma spares_rbind: "spares P m \<Longrightarrow> (\<And>x. spares P (f x)) \<Longrightarrow> spares P (rbind m f)"
  unfolding spares_def rbind_def by (simp split: prod.splits sum.splits) (metis snd_conv)

lemma spares_bank: "(\<And>b. P b \<Longrightarrow> P (snd (m b))) \<Longrightarrow> spares P (on_bank m)"
  by (auto simp: spares_def on_bank_def split: prod.splits) (metis snd_conv)

lemma spares_run: "spares P m \<Longrightarrow> m s = (r, s') \<Longrightarrow> P (dk_bank s) \<Longrightarrow> P (dk_bank s')"
  unfolding spares_def by (metis snd_conv)

lemma account_read: "snd (get_reward_account ip n b) = b"
  by (cases "py_strip ip = []") (simp_all add: get_reward_account_def bank_step_def Let_def require_def ebind_def)

text \<open>Only a refund refunds, and only its own redemption.\<close>

lemma refunded_reserve: "i \<notin> refunded_ids b \<Longrightarrow> i \<notin> refunded_ids (snd (reserve_reward_redemption ip n a rs b))"
proof (cases rule: reserve_cases [of ip n a rs b])
  case (2 ip' n' row rs' a')
  assume i: "i \<notin> refunded_ids b"
  have "find (\<lambda>x. rd_id x = i) (rows @ [row]) = (case find (\<lambda>x. rd_id x = i) rows of Some x \<Rightarrow> Some x | None \<Rightarrow> if rd_id row = i then Some row else None)"
    for rows by (induction rows) auto
  then show ?thesis
    using i 2(8) unfolding 2(1) refunded_ids_def by (simp add: get_redemption_def split: option.splits)
qed simp

lemma find_set: "find (\<lambda>x. rd_id x = i) (map (\<lambda>x. if rd_id x = i then f x else x) rs) = map_option f (find (\<lambda>x. rd_id x = i) rs)"
  if "\<And>x. rd_id (f x) = rd_id x" for rs
  using that by (induction rs) auto

lemma get_set_same: "(\<And>x. rd_id (f x) = rd_id x) \<Longrightarrow> get_redemption (set_redemption i f b) i = map_option f (get_redemption b i)"
  by (simp add: get_redemption_def set_redemption_def find_set)

lemma refunded_complete: "i \<notin> refunded_ids b \<Longrightarrow> i \<notin> refunded_ids (snd (complete_reward_redemption j t n b))"
proof (cases rule: complete_cases [of j t n b])
  case (2 r f)
  assume i: "i \<notin> refunded_ids b"
  show ?thesis
  proof (cases "i = j")
    case True
    then show ?thesis using i 2 get_set_same [of f j b] by (simp add: refunded_ids_def)
  next
    case False
    then show ?thesis using i 2 get_set_redemption [of i j f b] by (simp add: refunded_ids_def)
  qed
qed simp

lemma refunded_refund: "i \<noteq> j \<Longrightarrow> i \<notin> refunded_ids b \<Longrightarrow> i \<notin> refunded_ids (snd (refund_reward_redemption j n b))"
proof (cases rule: refund_cases [of j n b])
  case (2 r f rs a rf)
  assume i: "i \<noteq> j" "i \<notin> refunded_ids b"
  then show ?thesis using 2 get_set_redemption [of i j f] by (simp add: refunded_ids_def)
qed simp

section \<open>Minutes come back on evidence\<close>

lemma attempt_cases:
  assumes "attempt m c k s = (out, s')"
  obtains e s1 where "m s = (Inl e, s1)" "redeem_caught e" "rbind (c e) (\<lambda>_. rret (Rejected (exc_text e))) s1 = (out, s')"
  | e where "m s = (Inl e, s')" "out = Inl e" "\<not> redeem_caught e"
  | x s1 where "m s = (Inr x, s1)" "k x s1 = (out, s')"
  using assms by (auto simp: attempt_def split: prod.splits sum.splits if_splits)

lemma reserve_spares:
  assumes "\<And>a t. dk_bank (snd (plan a t)) = dk_bank t"
  shows "spares (\<lambda>b. i \<notin> refunded_ids b) (redeem_reserve ad plan user ip n)"
proof -
  have "spares (\<lambda>b. i \<notin> refunded_ids b) (plan a)" for a using assms by (simp add: spares_def)
  then show ?thesis
    unfolding redeem_reserve_def Let_def
    by (auto intro!: spares_rbind spares_rules spares_bank refunded_reserve)
qed

lemma grant_bank: "dk_bank (snd (redeem_grant ad user ip n r m s)) = dk_bank s"
  by (auto simp: redeem_grant_def rbind_def on_router_def rret_def rraise_def split: prod.splits sum.splits)

lemma finish_spares: "spares (\<lambda>b. i \<notin> refunded_ids b) (redeem_finish user ip n r g)"
  unfolding redeem_finish_def
  by (auto intro!: spares_rbind spares_rules spares_bank refunded_complete simp: account_read)

lemma compensation_evidence:
  assumes run: "redeem_compensate ad user ip r e s = (out, s')"
    and i: "i \<in> refunded_ids (dk_bank s')" "i \<notin> refunded_ids (dk_bank s)"
  shows "i = rd_id r \<and> (\<exists>st w. get_device_temporary_access ad ip w = (Inr st, dk_router s') \<and> \<not> ta_active st
    \<and> \<not> temporary_state_proves_reward (ta_reference st) i)"
proof -
  obtain x w where g: "get_device_temporary_access ad ip (dk_router s) = (x, w)" by (cases "get_device_temporary_access ad ip (dk_router s)")
  have o: "on_router (get_device_temporary_access ad ip) s = (x, s\<lparr> dk_router := w \<rparr>)" by (simp add: on_router_def g)
  show ?thesis
  proof (cases x)
    case (Inl y)
    then show ?thesis using run i by (auto simp: redeem_compensate_def Let_def o split: exc.splits)
  next
    case (Inr st)
    show ?thesis
    proof (cases "temporary_state_proves_reward (ta_reference st) (rd_id r)")
      case True
      let ?c = "complete_reward_redemption (rd_id r) (restore_text st) (''RouterOS reward grant recovered after response failure: '' @ exc_text e)"
      have "dk_bank s' = snd (?c (dk_bank s))"
        using run True Inr by (auto simp: redeem_compensate_def Let_def o on_bank_def split: prod.splits sum.splits exc.splits)
      then show ?thesis using refunded_complete [OF i(2)] i(1) by simp
    next
      case False
      note np = False
      show ?thesis
      proof (cases "ta_active st")
        case True
        then show ?thesis using run i False Inr by (auto simp: redeem_compensate_def Let_def o)
      next
        case False
        let ?c = "refund_reward_redemption (rd_id r) (''RouterOS reward access failed before a grant was proven: '' @ exc_text e)"
        have b: "dk_bank s' = snd (?c (dk_bank s)) \<and> dk_router s' = w"
          using run False np Inr by (auto simp: redeem_compensate_def Let_def o on_bank_def split: prod.splits sum.splits exc.splits)
        then have "i = rd_id r" using refunded_refund [OF _ i(2)] i(1) by (cases "i = rd_id r") auto
        then show ?thesis using b g Inr False np by blast
      qed
    qed
  qed
qed

text \<open>C39: whatever calls fail while minutes are redeemed, and however the request ends, a redemption is
  refunded only on evidence: the last thing done on the router was to read the device's temporary
  access, and it was neither active nor under the reference of the redemption.\<close>

theorem refund_needs_evidence:
  assumes "\<And>a t. dk_bank (snd (plan a t)) = dk_bank t" "redeem_device_rewards ad plan csrf user ip n s = (out, s')"
    "i \<in> refunded_ids (dk_bank s')" "i \<notin> refunded_ids (dk_bank s)"
  shows "\<exists>st w. get_device_temporary_access ad ip w = (Inr st, dk_router s') \<and> \<not> ta_active st
    \<and> \<not> temporary_state_proves_reward (ta_reference st) i"
proof -
  let ?P = "\<lambda>b. i \<notin> refunded_ids b"
  let ?rest = "\<lambda>(reservation, restore_mode).
     attempt (redeem_grant ad user ip n reservation restore_mode) (redeem_compensate ad user ip reservation) (\<lambda>result.
     attempt (redeem_finish user ip n reservation result)
       (\<lambda>e. audit ''REWARD_REDEMPTION_RECOVERY_DEFERRED'' user
          (ip @ '': redemption='' @ show_int (rd_id reservation) @ '' RouterOS grant confirmed; local completion pending: ''
           @ exc_text e)) (\<lambda>_.
       rret (Succeeded (''Redeemed '' @ show_int n @ '' reward minutes for '' @ ip))))"
  have c: csrf using assms(2-4) by (auto simp: redeem_device_rewards_def rret_def split: if_splits)
  have run: "attempt (redeem_reserve ad plan user ip n) (\<lambda>_. rret ()) ?rest s = (out, s')"
    using assms(2) c by (simp add: redeem_device_rewards_def)
  note rs = spares_run [OF reserve_spares [where i = i, OF assms(1)]]
  from run show ?thesis
  proof (cases rule: attempt_cases)
    case (1 e s1)
    then show ?thesis using rs [OF 1(1)] assms(3,4) by (simp add: rbind_def rret_def)
  next
    case (2 e)
    then show ?thesis using rs [OF 2(1)] assms(3,4) by simp
  next
    case (3 x s1)
    obtain reservation m where x: "x = (reservation, m)" by (cases x)
    have p1: "?P (dk_bank s1)" using rs [OF 3(1)] assms(4) by simp
    from 3(2) [unfolded x prod.case] show ?thesis
    proof (cases rule: attempt_cases)
      case (1 e s2)
      have p2: "?P (dk_bank s2)" using grant_bank [of ad user ip n reservation m s1] 1(1) p1 by simp
      obtain y s3 where y: "redeem_compensate ad user ip reservation e s2 = (y, s3)" by (cases "redeem_compensate ad user ip reservation e s2")
      have "s3 = s'" using 1(3) y by (cases y) (auto simp: rbind_def rret_def)
      then show ?thesis using compensation_evidence [OF y _ p2] assms(3) by blast
    next
      case (2 e)
      then show ?thesis using grant_bank [of ad user ip n reservation m s1] p1 assms(3) by simp
    next
      case (3 g s2)
      have p2: "?P (dk_bank s2)" using grant_bank [of ad user ip n reservation m s1] 3(1) p1 by simp
      from 3(2) show ?thesis
      proof (cases rule: attempt_cases)
        case (1 e s3)
        then show ?thesis using spares_run [OF finish_spares 1(1) p2] assms(3) by (auto simp: rbind_def rret_def)
      next
        case (2 e)
        then show ?thesis using spares_run [OF finish_spares 2(1) p2] assms(3) by simp
      next
        case (3 u s3)
        then show ?thesis using spares_run [OF finish_spares 3(1) p2] assms(3) by (simp add: rret_def)
      qed
    qed
  qed
qed

section \<open>A successful redemption\<close>

lemma reserved_row:
  assumes "bank_ok b" "reserve_reward_redemption ip0 (PInt n) actor reason b = (Inr row, b')"
  shows "get_redemption b' (rd_id row) = Some row" "balance b' (py_strip ip0) = balance b (py_strip ip0) - n"
proof -
  have "pyval_int (PInt n) = Some n" by (simp add: pyval_int_def)
  then obtain rs a where b': "b' = post_minutes (py_strip ip0) (- n) ''redeem'' rs a (reward_redemption_reference (rb_next_redemption b))
      (b\<lparr> rb_redemptions := rb_redemptions b @ [row], rb_next_redemption := rb_next_redemption b + 1 \<rparr>)"
    and row: "rd_id row = rb_next_redemption b"
    using reserve_result [OF assms(2)] by auto
  have "find (\<lambda>x. rd_id x = rd_id row) (rb_redemptions b) = None"
    using bank_okD(6) [OF assms(1)] row by (force simp: find_None_iff)
  moreover have "find P (xs @ [x]) = (case find P xs of Some y \<Rightarrow> Some y | None \<Rightarrow> if P x then Some x else None)" for P xs and x :: redemption
    by (induction xs) auto
  ultimately show "get_redemption b' (rd_id row) = Some row" by (simp add: b' get_redemption_def)
  show "balance b' (py_strip ip0) = balance b (py_strip ip0) - n" by (simp add: b' balance_post)
qed

lemma completion_run:
  assumes "get_redemption b i = Some r" "rd_status r = ''reserved''"
  shows "\<exists>r'. complete_reward_redemption i t n b = (Inr r', completion_write r t n b) \<and> get_redemption (completion_write r t n b) i = Some r'
    \<and> rd_id r' = i \<and> rd_ip r' = rd_ip r \<and> rd_minutes r' = rd_minutes r \<and> rd_status r' = ''applied''
    \<and> (\<forall>ip. balance (completion_write r t n b) ip = balance b ip)"
proof -
  have i: "rd_id r = i" using get_redemption_mem [OF assms(1)] by simp
  let ?f = "\<lambda>x. x\<lparr> rd_status := ''applied'', rd_updated := bank_now b,
       rd_restore_at := take 80 (py_strip t), rd_note := take 200 (py_strip (str_or n (rd_note r))) \<rparr>"
  have w: "completion_write r t n b = set_redemption i ?f b" by (simp add: completion_write_def i)
  have "get_redemption (completion_write r t n b) i = Some (?f r)"
    unfolding w using get_set_same [of ?f i b] assms(1) by simp
  then show ?thesis
    using assms i by (simp add: complete_reward_redemption_def bank_step_def completion_check_def ebind_def Let_def w)
qed

context device_adapter begin

lemma temp_reads_ids:
  assumes "validate_ipv4 a0 = Inr a"
  shows "triple tab (\<lambda>t. ids_ok t \<and> temp_ids_ok t) (get_device_temporary_access ad a0) (\<lambda>_ t. ids_ok t \<and> temp_ids_ok t) (\<lambda>t. ids_ok t \<and> temp_ids_ok t)"
proof -
  have b: "temp_blind ids_ok" by (rule temp_blindI) (rule mode_tables_same(2))
  show ?thesis by (rule triple_weaken [OF get_temp_any [OF assms b]]) auto
qed

end

lemma reserve_phase:
  assumes A: "device_adapter ad tab" and ids: "ids_ok (tab (dk_router s))" "temp_ids_ok (tab (dk_router s))"
    and plan: "\<And>a t. dk_bank (snd (plan a t)) = dk_bank t"
      "\<And>a t. ids_ok (tab (dk_router t)) \<Longrightarrow> temp_ids_ok (tab (dk_router t))
         \<Longrightarrow> ids_ok (tab (dk_router (snd (plan a t)))) \<and> temp_ids_ok (tab (dk_router (snd (plan a t))))"
    and run: "redeem_reserve ad plan user ip n s = (Inr (r, m), s1)"
  shows "\<exists>reason. reserve_reward_redemption ip (PInt n) user reason (dk_bank s) = (Inr r, dk_bank s1)"
    "ids_ok (tab (dk_router s1)) \<and> temp_ids_ok (tab (dk_router s1))"
proof -
  from run [unfolded redeem_reserve_def Let_def] obtain g sa where a: "on_router (get_status ad) s = (Inr g, sa)"
    and rest: "(if py_lower (str_or g ''unknown'') \<noteq> ''normal'' then rraise (RouterError (''Global mode is ''
         @ py_upper (py_lower (str_or g ''unknown'')) @ ''; reward access cannot bypass the MASTER/global restriction''))
     else rbind (on_router (get_device_temporary_access ad ip)) (\<lambda>existing.
       if ta_active existing then
         rraise (RouterError (''Reward time cannot be redeemed while temporary access is already active; ''
           @ ''end the current override first so reward minutes cannot accidentally shorten it''))
       else rbind (plan ip) (\<lambda>p.
         if dp_desired_mode p = ''normal'' then
           rraise (ValueError ''Reward time can only be redeemed when the effective device mode is SLOW or BLOCKED'')
         else rbind (on_bank (reserve_reward_redemption ip (PInt n) user ''Reward bank redemption for temporary NORMAL access''))
           (\<lambda>reservation. rret (reservation, dp_desired_mode p))))) sa = (Inr (r, m), s1)"
    by (rule rbind_Inr)
  then obtain x sb where b: "on_router (get_device_temporary_access ad ip) sa = (Inr x, sb)"
    and rest2: "rbind (plan ip) (\<lambda>p.
         if dp_desired_mode p = ''normal'' then
           rraise (ValueError ''Reward time can only be redeemed when the effective device mode is SLOW or BLOCKED'')
         else rbind (on_bank (reserve_reward_redemption ip (PInt n) user ''Reward bank redemption for temporary NORMAL access''))
           (\<lambda>reservation. rret (reservation, dp_desired_mode p))) sb = (Inr (r, m), s1)"
    by (auto simp: rraise_iff split: if_splits elim!: rbind_Inr)
  from rest2 obtain p sc where c: "plan ip sb = (Inr p, sc)"
    and rest3: "(if dp_desired_mode p = ''normal'' then
           rraise (ValueError ''Reward time can only be redeemed when the effective device mode is SLOW or BLOCKED'')
         else rbind (on_bank (reserve_reward_redemption ip (PInt n) user ''Reward bank redemption for temporary NORMAL access''))
           (\<lambda>reservation. rret (reservation, dp_desired_mode p))) sc = (Inr (r, m), s1)"
    by (rule rbind_Inr)
  then have d: "on_bank (reserve_reward_redemption ip (PInt n) user ''Reward bank redemption for temporary NORMAL access'') sc = (Inr r, s1)"
    by (auto simp: rraise_iff rret_iff split: if_splits elim!: rbind_Inr)
  have banks: "dk_bank sa = dk_bank s" "dk_bank sb = dk_bank sa" "dk_bank sc = dk_bank sb"
    using a b plan(1) [of ip sb] c by (auto simp: on_router_run)
  then show "\<exists>reason. reserve_reward_redemption ip (PInt n) user reason (dk_bank s) = (Inr r, dk_bank s1)"
    using d by (auto simp: on_bank_run)
  have ia: "ids_ok (tab (dk_router sa)) \<and> temp_ids_ok (tab (dk_router sa))"
  proof -
    obtain w where w: "get_status ad (dk_router s) = (Inr g, w)" "dk_router sa = w" using a by (auto simp: on_router_run)
    then have "tab w = tab (dk_router s)" using keepsD [OF device_adapter.keeps_get_status [OF A]] by blast
    then show ?thesis using ids w(2) by simp
  qed
  obtain w where w: "get_device_temporary_access ad ip (dk_router sa) = (Inr x, w)" "dk_router sb = w" using b by (auto simp: on_router_run)
  then have "\<exists>v. validate_ipv4 ip = Inr v"
    by (cases "validate_ipv4 ip") (auto simp: get_device_temporary_access_def rlift_def rbind_def rraise_def)
  then obtain v where v: "validate_ipv4 ip = Inr v" by blast
  have ib: "ids_ok (tab (dk_router sb)) \<and> temp_ids_ok (tab (dk_router sb))"
    using triple_run [OF device_adapter.temp_reads_ids [OF A v] w(1)] ia w(2) by blast
  have "ids_ok (tab (dk_router sc)) \<and> temp_ids_ok (tab (dk_router sc))" using plan(2) [of sb ip] ib c by simp
  then show "ids_ok (tab (dk_router s1)) \<and> temp_ids_ok (tab (dk_router s1))" using d by (auto simp: on_bank_run)
qed


section \<open>Recovery follows the router\<close>

lemma refund_run:
  assumes "get_redemption b i = Some r" "rd_status r = ''reserved''"
  shows "\<exists>r' b'. refund_reward_redemption i n b = (Inr r', b') \<and> get_redemption b' i = Some r' \<and> rd_status r' = ''refunded''
    \<and> (\<forall>ip. balance b' ip = balance b ip + (if ip = rd_ip r then rd_minutes r else 0))"
proof -
  let ?reason = "take 200 (py_strip (str_or n ''Reward redemption failed; minutes returned''))"
  let ?f = "\<lambda>x. x\<lparr> rd_status := ''refunded'', rd_updated := bank_now b, rd_note := ?reason \<rparr>"
  let ?p = "post_minutes (rd_ip r) (rd_minutes r) ''refund'' ?reason (take 80 (rd_actor r)) (reward_redemption_reference i) b"
  have "get_redemption (set_redemption i ?f ?p) i = Some (?f r)"
    using get_set_same [of ?f i ?p] assms(1) by simp
  then have "refund_reward_redemption i n b = (Inr (?f r), set_redemption i ?f ?p)"
    using assms by (simp add: refund_reward_redemption_def bank_step_def Let_def)
  moreover have "balance (set_redemption i ?f ?p) ip = balance b ip + (if ip = rd_ip r then rd_minutes r else 0)" for ip
    by (simp add: balance_post)
  ultimately show ?thesis using \<open>get_redemption (set_redemption i ?f ?p) i = Some (?f r)\<close> by fastforce
qed


end
