(* ===== verification/RewardExamples.thy ===== *)
theory RewardExamples
  imports RewardSaga RouterTempExamples PolicyEngineExamples
begin

text \<open>
  A small reward bank and a prepared router with a blocked device, and the stages of one redemption on
  them. \<open>RedemptionExamples\<close> puts the stages together.
\<close>

definition empty_policy :: policy_db where
  "empty_policy =
     \<lparr> pd_settings = [], pd_profiles = [], pd_devices = [], pd_identities = [], pd_policy_templates = [], pd_plans = [],
       pd_templates = [], pd_exceptions = [], pd_groups = [], pd_services = [], pd_collections = [], pd_presets = [],
       pd_next_profile = 1, pd_next_policy_template = 1, pd_next_plan = 1, pd_next_template = 1, pd_next_exception = 1,
       pd_next_collection = 1, pd_queue = \<lparr> db_clock = 100, db_micros = 0,
         db_revision = \<lparr> cr_revision = 0, cr_digest = [], cr_updated = 0, cr_actor = [], cr_reason = [] \<rparr>,
         db_journal = [], db_outbox = [], db_jobs = [], db_locks = [], db_requests = [], db_views = [],
         db_next_event = 1, db_next_job = 1, db_next_request = 1, db_notified = [] \<rparr> \<rparr>"

definition new_bank :: bank where
  "new_bank = \<lparr> rb_policy = empty_policy, rb_accounts = [], rb_ledger = [], rb_redemptions = [], rb_next_ledger = 1, rb_next_redemption = 1 \<rparr>"

lemma new_bank_ok: "bank_ok new_bank"
  by (simp add: bank_ok_def new_bank_def balance_def granted_minutes_def spent_minutes_def minutes_of_def reserved_of_def)

definition some_ops :: "bank_op list" where
  "some_ops = [Adjust sample_addr 60 ''chores'' ''ann'' False, Reserve sample_addr (PInt 30) ''ann'' [], Complete 1 [] [],
     Reserve sample_addr (PInt 60) ''ann'' [], Refund 1 [], Adjust sample_addr (- 15) [] ''ann'' False]"

lemma some_ops_run: "let b = fold after_op some_ops new_bank in balance b sample_addr = 15 \<and> length (rb_ledger b) = 3"
  by code_simp

definition lifting_ops :: "bank_op list" where
  "lifting_ops = [Adjust sample_addr 240 [] [] False, Reserve sample_addr (PInt 60) [] [], Adjust sample_addr 60 [] [] False, Refund 1 []]"

lemma lifting_run: "balance (fold after_op lifting_ops new_bank) sample_addr = 300"
  by code_simp

definition master_rule :: fw_rule where
  "master_rule = sample_rule\<lparr> fr_id := ''*2'', fr_comment := MASTER_RULE_COMMENT, fr_disabled := True \<rparr>"

definition slow_queue :: simple_queue where
  "slow_queue = (managed_queue SLOW_QUEUE_NAME sample_addr ''1M/1M'' [])\<lparr> sq_id := ''*Q'', sq_disabled := True \<rparr>"

definition home_tables :: tables where
  "home_tables = blocked_tables\<lparr> t_rules := [sample_rule, master_rule], t_queues := [slow_queue] \<rparr>"

definition sample_desk :: "tables \<Rightarrow> bank \<Rightarrow> sim desk" where
  "sample_desk t b = \<lparr> dk_bank = b, dk_router = (t, []), dk_audit = [] \<rparr>"


definition blocked_policy :: effective_policy where
  "blocked_policy = sample_effective\<lparr> ep_mode := ''blocked'' \<rparr>"

definition sample_plan :: "string \<Rightarrow> (sim desk, device_plan) act" where
  "sample_plan a = rlift (build_device_policy_plan a blocked_policy sample_live None None None ''normal'' [])"

definition funded :: bank where
  "funded = after_op (Adjust sample_addr 60 ''chores'' ''ann'' False) new_bank"


abbreviation shut_ad :: "sim adapter" where
  "shut_ad \<equiv> sim_adapter False False False ''128k/256k''"

lemma attempt_run:
  "m s = (Inr x, s1) \<Longrightarrow> attempt m c k s = k x s1"
  "m s = (Inl (RouterError e), s1) \<Longrightarrow> attempt m c k s = rbind (c (RouterError e)) (\<lambda>_. rret (Rejected e)) s1"
  by (simp_all add: attempt_def redeem_caught_def exc_text_def)

definition reserved_desk :: "sim desk" where
  "reserved_desk = snd (redeem_reserve sample_ad sample_plan ''ann'' sample_addr 30 (sample_desk home_tables funded))"

definition reservation :: redemption where
  "reservation = \<lparr> rd_id = 1, rd_ip = sample_addr, rd_minutes = 30, rd_actor = ''ann'', rd_status = ''reserved'', rd_created = 100,
     rd_updated = 100, rd_restore_at = [], rd_note = ''Reward bank redemption for temporary NORMAL access'' \<rparr>"

lemma reserve_runs:
  "redeem_reserve sample_ad sample_plan ''ann'' sample_addr 30 (sample_desk home_tables funded) = (Inr (reservation, ''blocked''), reserved_desk)"
  "redeem_reserve shut_ad sample_plan ''ann'' sample_addr 30 (sample_desk home_tables funded) = (Inr (reservation, ''blocked''), reserved_desk)"
  "dk_router reserved_desk = (home_tables, [])" "get_redemption (dk_bank reserved_desk) 1 = Some reservation"
  "balance (dk_bank reserved_desk) sample_addr = 30"
  by code_simp+

lemma home_reads:
  "get_device_temporary_access shut_ad sample_addr (home_tables, []) = (Inr inactive_temp, (home_tables, []))"
  "get_device_temporary_access sample_ad sample_addr (home_tables, []) = (Inr inactive_temp, (home_tables, []))"
  "get_device_enforcement sample_ad sample_addr (home_tables, []) = (Inr (table_enforcement sample_addr home_tables), (home_tables, []))"
  "le_mode (table_enforcement sample_addr home_tables) = ''blocked''"
  by code_simp+

lemma home_prepared: "prepare_fail_safe sample_ad sample_addr False src c w (home_tables, []) = (Inr (), (with_fail_safe src c w home_tables, []))"
  by code_simp

definition open_tables :: tables where
  "open_tables = home_tables\<lparr> t_al := [sample_entry ''*A'' ''Restricted_Devices'' sample_addr] \<rparr>"

lemma home_released: "release_for_access sample_ad sample_addr False ''reward:ann'' (with_fail_safe src c w home_tables, [])
    = (Inr (), (with_fail_safe src c w open_tables, []))"
  by code_simp

lemma home_bound: "bind_reference sample_ad sample_addr c' (with_fail_safe src c w open_tables, []) = (Inr (), (with_fail_safe src c' w open_tables, []))"
  by code_simp

end
