(* ===== verification/RedemptionExamples.thy ===== *)
theory RedemptionExamples
  imports RewardExamples
begin

text \<open>
  The properties of the reward bank and of redemptions at a concrete household: a redemption that the
  router refuses, one that it grants, and one whose completion is lost.
\<close>

lemma redeem_arguments:
  "set_device_temporary_normal ad sample_addr (PInt 30) ''reward:ann'' (Some ''blocked'') (reward_redemption_reference 1)
     = grant_temporary_normal ad sample_addr 30 ''reward:ann'' (Some ''blocked'') ''redemption:1''"
proof -
  have "validate_ipv4 sample_addr = Inr sample_addr" "norm_key ''blocked'' = ''blocked''" "take 40 (py_strip ''reward:ann'') = ''reward:ann''"
    "reward_redemption_reference 1 = ''redemption:1''" "py_strip ''redemption:1'' = ''redemption:1''" "is_reference ''redemption:1''"
    by code_simp+
  then show ?thesis by (simp add: set_device_temporary_normal_def pyval_int_def Let_def DEVICE_TEMP_DURATIONS_def)
qed

lemma shut_grant:
  "\<exists>m. set_device_temporary_normal shut_ad sample_addr (PInt 30) ''reward:ann'' (Some ''blocked'') (reward_redemption_reference 1) (home_tables, [])
     = (Inl (RouterError m), (home_tables, []))"
proof -
  have "\<exists>m. require_policy_write_gate shut_ad (home_tables, []) = (Inl (RouterError m), (home_tables, []))"
    by (simp add: require_policy_write_gate_def sim_adapter_def sim_read_def rbind_def rraise_def)
  then show ?thesis unfolding redeem_arguments grant_temporary_normal_def by (auto simp: rbind_def)
qed

lemma desk_router: "dk_router s = (t, []) \<Longrightarrow> s\<lparr> dk_router := (t, []) \<rparr> = s"
  by (cases s) simp

lemma failed_grant:
  "\<exists>m. redeem_grant shut_ad ''ann'' sample_addr 30 reservation ''blocked'' reserved_desk = (Inl (RouterError m), reserved_desk)"
  using shut_grant desk_router [OF reserve_runs(3)]
  by (auto simp: redeem_grant_def rbind_def on_router_def reserve_runs(3) reservation_def)

lemma compensated:
  "\<exists>s'. redeem_compensate shut_ad ''ann'' sample_addr reservation e reserved_desk = (Inr (), s') \<and> dk_router s' = (home_tables, [])
     \<and> 1 \<in> refunded_ids (dk_bank s') \<and> balance (dk_bank s') sample_addr = 60"
proof -
  have r: "rd_status reservation = ''reserved''" "rd_id reservation = 1" "rd_ip reservation = sample_addr" "rd_minutes reservation = 30"
    by (simp_all add: reservation_def)
  have n: "\<not> temporary_state_proves_reward (ta_reference inactive_temp) 1" by code_simp
  have a: "\<not> ta_active inactive_temp" by (simp add: inactive_temp_def)
  obtain r' b' where b: "refund_reward_redemption 1 (''RouterOS reward access failed before a grant was proven: '' @ exc_text e) (dk_bank reserved_desk) = (Inr r', b')"
    "get_redemption b' 1 = Some r'" "rd_status r' = ''refunded''"
      "\<forall>ip. balance b' ip = balance (dk_bank reserved_desk) ip + (if ip = rd_ip reservation then rd_minutes reservation else 0)"
    using refund_run [OF reserve_runs(4) r(1), of "''RouterOS reward access failed before a grant was proven: '' @ exc_text e"] by blast
  have "balance b' sample_addr = 60" using b(4) reserve_runs(5) r(3,4) by simp
  have o: "on_router (get_device_temporary_access shut_ad sample_addr) reserved_desk = (Inr inactive_temp, reserved_desk)"
    by (simp add: on_router_def reserve_runs(3) home_reads(1) desk_router)
  show ?thesis
    unfolding redeem_compensate_def Let_def r(2) o on_bank_def prod.case sum.case if_not_P [OF n] not_False_eq_True if_True a b(1) audit_run
    using b(2,3) \<open>balance b' sample_addr = 60\<close> reserve_runs(3) by (simp add: refunded_ids_def a)
qed

lemma not_refunded_before: "1 \<notin> refunded_ids (dk_bank (sample_desk home_tables funded))"
proof -
  have "get_redemption (dk_bank (sample_desk home_tables funded)) 1 = None" by code_simp
  then show ?thesis by (simp add: refunded_ids_def)
qed

lemma plan_reads: "dk_bank (snd (sample_plan a s)) = dk_bank s" "dk_router (snd (sample_plan a s)) = dk_router s"
  by (simp_all add: sample_plan_def rlift_def)

theorem refund_needs_evidence_witness:
  "\<exists>out s'. redeem_device_rewards shut_ad sample_plan True ''ann'' sample_addr 30 (sample_desk home_tables funded) = (out, s')
     \<and> balance (dk_bank s') sample_addr = 60
     \<and> (\<exists>st w. get_device_temporary_access shut_ad sample_addr w = (Inr st, dk_router s') \<and> \<not> ta_active st
          \<and> \<not> temporary_state_proves_reward (ta_reference st) 1)"
proof -
  obtain m where m: "redeem_grant shut_ad ''ann'' sample_addr 30 reservation ''blocked'' reserved_desk = (Inl (RouterError m), reserved_desk)"
    using failed_grant by blast
  obtain s' where c: "redeem_compensate shut_ad ''ann'' sample_addr reservation (RouterError m) reserved_desk = (Inr (), s')"
    "1 \<in> refunded_ids (dk_bank s')" "balance (dk_bank s') sample_addr = 60"
    using compensated by blast
  have run: "redeem_device_rewards shut_ad sample_plan True ''ann'' sample_addr 30 (sample_desk home_tables funded) = (Inr (Rejected m), s')"
    by (simp add: redeem_device_rewards_def attempt_run(1) [where m = "redeem_reserve shut_ad sample_plan ''ann'' sample_addr 30", OF reserve_runs(2)]
        attempt_run(2) [where m = "redeem_grant shut_ad ''ann'' sample_addr 30 reservation ''blocked''", OF m] c rbind_def rret_def)
  show ?thesis
    using refund_needs_evidence [where plan = sample_plan, OF plan_reads(1) run c(2) not_refunded_before] run c(3) by blast
qed


definition fired_tables :: tables where
  "fired_tables = open_tables\<lparr> t_scheds := [(temp_scheduler (device_temp_scheduler_name sample_addr) (device_temp_script_name sample_addr)
      (temp_comment sample_addr ''blocked'' 30 ''2026-07-04T13:00:00+01:00'' ''redemption:1'') 0)\<lparr> sc_id := ''*S'', sc_run_count := ''1'' \<rparr>] \<rparr>"

lemma fired_read: "case get_device_temporary_access sample_ad sample_addr (fired_tables, []) of
    (Inr st, s) \<Rightarrow> ta_reference st = Some ''redemption:1'' \<and> \<not> ta_active st \<and> s = (open_tables, []) | _ \<Rightarrow> False"
  by code_simp

definition reference_comment :: string where
  "reference_comment = temp_comment sample_addr ''blocked'' 30 (iso_seconds london (from_utc london sample_now)) ''redemption:1''"

definition paid_tables :: tables where
  "paid_tables = with_fail_safe blocked_source reference_comment (aw_local (temp_target london sample_now 30)) open_tables"

lemma paid_read:
  obtains y where "get_device_temporary_access sample_ad sample_addr (paid_tables, []) = (Inr y, (paid_tables, []))" "ta_active y"
proof -
  define s where "s = (temp_scheduler (device_temp_scheduler_name sample_addr) (device_temp_script_name sample_addr)
    reference_comment (aw_local (temp_target london sample_now 30)))\<lparr> sc_id := ''*'' \<rparr>"
  define x where "x = (temp_script (device_temp_script_name sample_addr) sample_addr blocked_source)\<lparr> rs_id := ''*'' \<rparr>"
  have lists: "t_scheds paid_tables = [s]" "t_scripts paid_tables = [x]"
    by (simp_all add: paid_tables_def with_fail_safe_def s_def x_def)
  have s: "sc_name s = device_temp_scheduler_name sample_addr" "rs_name x = device_temp_script_name sample_addr"
    "sc_comment s = reference_comment" "run_count_of s = Inr 0" "\<not> sc_disabled s"
    unfolding s_def by (rule run_count_zero | simp add: temp_scheduler_def x_def temp_script_def)+
  have v: "validate_ipv4 sample_addr = Inr sample_addr" "''blocked'' \<in> {''normal'', ''slow'', ''blocked''}" "is_reference ''redemption:1''"
    "py_lower ''blocked'' = ''blocked''" "30 \<in> set DEVICE_TEMP_DURATIONS"
    by code_simp+
  let ?d = "parse_device_temp_comment reference_comment"
  have d: "map_of ?d ''address'' = Some sample_addr" "map_of ?d ''restore'' = Some ''blocked''"
    using comment_fields [OF v(1,2,5,3), of london "from_utc london sample_now"] by (simp_all add: reference_comment_def Let_def)
  have al: "t_al paid_tables = [sample_entry ''*A'' ''Restricted_Devices'' sample_addr]"
    by (simp add: paid_tables_def with_fail_safe_def open_tables_def)
  have r: "validate_restricted_device sample_ad sample_addr (paid_tables, [])
      = (Inr (sample_entry ''*A'' ''Restricted_Devices'' sample_addr), (paid_tables, []))"
    by (simp add: validate_restricted_device_def rbind_def sim_adapter_def sim_api_def al sample_entry_def RESTRICTED_LIST_def rret_def)
  have o: "opt_or (Some sample_addr) [] = sample_addr" "str_or (opt_or (Some ''blocked'') []) ''unknown'' = ''blocked''" by code_simp+
  have "\<exists>y. read_override sample_ad sample_addr [x] s st = (Inr y, st) \<and> ta_active y" for st
    by (simp add: read_override_def Let_def s d o v(4) rret_def)
  then obtain y where y: "read_override sample_ad sample_addr [x] s (paid_tables, []) = (Inr y, (paid_tables, []))" "ta_active y" by blast
  have g: "r_connect (ad_api sample_ad) (paid_tables, []) = (Inr (), (paid_tables, []))"
    "r_sched_get (ad_api sample_ad) (device_temp_scheduler_name sample_addr) (paid_tables, []) = (Inr [s], (paid_tables, []))"
    "r_script_get (ad_api sample_ad) (device_temp_script_name sample_addr) (paid_tables, []) = (Inr [x], (paid_tables, []))"
    by (simp_all add: sim_adapter_def sim_api_def lists s)
  have "get_device_temporary_access sample_ad sample_addr (paid_tables, []) = (Inr y, (paid_tables, []))"
    by (simp add: get_device_temporary_access_def v(1) rbind_def g rwrap_def rcatch_def r read_temporary_access_def Let_def y(1))
  then show ?thesis using that y by blast
qed

lemma grant_delivered:
  obtains g where "set_device_temporary_normal sample_ad sample_addr (PInt 30) ''reward:ann'' (Some ''blocked'') (reward_redemption_reference 1) (home_tables, [])
      = (Inr g, (paid_tables, []))" "ta_reference g = Some ''redemption:1''"
proof -
  obtain y where y: "get_device_temporary_access sample_ad sample_addr (paid_tables, []) = (Inr y, (paid_tables, []))" "ta_active y"
    by (rule paid_read)
  have i: "\<not> ta_active inactive_temp" "str_or ''blocked'' x = ''blocked''" for x by (simp_all add: inactive_temp_def str_or_def)
  note r = rbind_run [where m = "get_device_temporary_access sample_ad sample_addr", OF home_reads(2)]
    rbind_run [where m = "get_device_enforcement sample_ad sample_addr", OF home_reads(3)]
    rbind_run [where m = "prepare_fail_safe sample_ad sample_addr False src c w" for src c w, OF home_prepared]
    rbind_run [where m = "release_for_access sample_ad sample_addr False ''reward:ann''", OF home_released]
    rbind_run [where m = "bind_reference sample_ad sample_addr c" for c, OF home_bound]
    rbind_run [where m = "get_device_temporary_access sample_ad sample_addr", OF y(1)]
    rbind_run [where m = "require_policy_write_gate sample_ad", OF sample_fields(3)]
    rbind_run [where m = "ad_now sample_ad", OF sample_fields(1)]
  have "\<exists>g. grant_temporary_normal sample_ad sample_addr 30 ''reward:ann'' (Some ''blocked'') ''redemption:1'' (home_tables, [])
      = (Inr g, (paid_tables, [])) \<and> ta_reference g = Some ''redemption:1''"
    unfolding grant_temporary_normal_def
    by (simp only: r Let_def i if_False home_reads(4) opt_or_def option.case source_is rbind_rlift sample_fields(2) rwhen_def
        simp_thms if_True insert_iff not_True_eq_False not_False_eq_True rbind_rret list.distinct
        reference_comment_def [symmetric] paid_tables_def [symmetric] y(2))
       (simp add: rret_def granted_def)
  then show ?thesis using that unfolding redeem_arguments by blast
qed


section \<open>Evidence that an ordinary reading removes\<close>

text \<open>The access of a redemption was granted, used and ended, but its completion failed. The scheduler
  still carries the reference, and the recovery applies the debit. When anything else reads the
  temporary access first (a page, or the worker's plan), the reading removes the fired scheduler, and
  the recovery gives the minutes back.\<close>

lemma reference_read: "temporary_state_proves_reward (Some ''redemption:1'') 1" "\<not> temporary_state_proves_reward None 1"
  by code_simp+

lemma used_access_recovered:
  "\<exists>r s'. recover_one sample_ad ''system'' reservation (reserved_desk\<lparr> dk_router := (fired_tables, []) \<rparr>) = (Inr (Applied r), s')
     \<and> balance (dk_bank s') sample_addr = 30"
proof -
  obtain st where st: "get_device_temporary_access sample_ad sample_addr (fired_tables, []) = (Inr st, (open_tables, []))"
    "ta_reference st = Some ''redemption:1''"
    using fired_read by (auto split: prod.splits sum.splits)
  have r: "rd_status reservation = ''reserved''" "rd_id reservation = 1" "rd_ip reservation = sample_addr"
    by (simp_all add: reservation_def)
  let ?s = "reserved_desk\<lparr> dk_router := (fired_tables, []) \<rparr>"
  have o: "on_router (get_device_temporary_access sample_ad sample_addr) ?s = (Inr st, ?s\<lparr> dk_router := (open_tables, []) \<rparr>)"
    by (simp add: on_router_def st(1))
  have g: "get_redemption (dk_bank ?s) 1 = Some reservation" using reserve_runs(4) by simp
  obtain r' where "complete_reward_redemption 1 (restore_text st) ''Recovered confirmed RouterOS reward access after application interruption'' (dk_bank ?s)
      = (Inr r', completion_write reservation (restore_text st) ''Recovered confirmed RouterOS reward access after application interruption'' (dk_bank ?s))"
    "balance (completion_write reservation (restore_text st) ''Recovered confirmed RouterOS reward access after application interruption'' (dk_bank ?s)) sample_addr
      = balance (dk_bank ?s) sample_addr"
    using completion_run [OF g r(1)] by blast
  then show ?thesis
    using reserve_runs(5)
    unfolding recover_one_def Let_def r(2,3) o prod.case sum.case st(2) if_P [OF reference_read(1)]
    by (simp add: rbind_def on_bank_def rret_def)
qed

lemma used_access_refunded:
  "\<exists>st s1 r s2. get_device_temporary_access sample_ad sample_addr (fired_tables, []) = (Inr st, s1)
     \<and> recover_one sample_ad ''system'' reservation (reserved_desk\<lparr> dk_router := s1 \<rparr>) = (Inr (Refunded r), s2)
     \<and> balance (dk_bank s2) sample_addr = 60"
proof -
  obtain st where st: "get_device_temporary_access sample_ad sample_addr (fired_tables, []) = (Inr st, (open_tables, []))"
    using fired_read by (auto split: prod.splits sum.splits)
  have n: "get_device_temporary_access sample_ad sample_addr (open_tables, []) = (Inr inactive_temp, (open_tables, []))" by code_simp
  have i: "ta_reference inactive_temp = None" "\<not> ta_active inactive_temp" by (simp_all add: inactive_temp_def)
  have r: "rd_status reservation = ''reserved''" "rd_id reservation = 1" "rd_ip reservation = sample_addr" "rd_minutes reservation = 30"
    by (simp_all add: reservation_def)
  let ?s = "reserved_desk\<lparr> dk_router := (open_tables, []) \<rparr>"
  have o: "on_router (get_device_temporary_access sample_ad sample_addr) ?s = (Inr inactive_temp, ?s)"
    by (simp add: on_router_def n)
  have g: "get_redemption (dk_bank ?s) 1 = Some reservation" using reserve_runs(4) by simp
  obtain r' b' where b: "refund_reward_redemption 1 ''Recovered unconfirmed reward redemption; RouterOS grant was not present'' (dk_bank ?s) = (Inr r', b')"
    "\<forall>ip. balance b' ip = balance (dk_bank ?s) ip + (if ip = rd_ip reservation then rd_minutes reservation else 0)"
    using refund_run [OF g r(1)] by blast
  have "balance b' sample_addr = 60" using b(2) reserve_runs(5) r(3,4) by simp
  then have "\<exists>r s2. recover_one sample_ad ''system'' reservation ?s = (Inr (Refunded r), s2) \<and> balance (dk_bank s2) sample_addr = 60"
    using b(1)
    unfolding recover_one_def Let_def r(2,3) o prod.case sum.case i(1) if_not_P [OF reference_read(2)] if_not_P [OF i(2)]
    by (simp add: rbind_def on_bank_def rret_def)
  then show ?thesis using st by blast
qed

section \<open>The bank\<close>

theorem reward_minutes_conserved_witness:
  "let b = fold after_op some_ops new_bank in
     balance b sample_addr = granted_minutes b sample_addr - spent_minutes b sample_addr
     \<and> balance b sample_addr = 15 \<and> granted_minutes b sample_addr = 45 \<and> spent_minutes b sample_addr = 30"
proof -
  have "balance (fold after_op some_ops new_bank) sample_addr = 15" "granted_minutes (fold after_op some_ops new_bank) sample_addr = 45"
    by code_simp+
  then show ?thesis using reward_minutes_conserved [OF new_bank_ok, of some_ops sample_addr] by (simp add: Let_def)
qed


text \<open>The bound is reached: a refund lifts a full bank of 240 minutes to 300.\<close>

theorem reward_balance_bounded_witness:
  "balance (fold after_op lifting_ops new_bank) sample_addr = 300 \<and> rl_max_minutes (reward_limits_of new_bank) = 240
   \<and> balance (fold after_op lifting_ops new_bank) sample_addr \<le> rl_max_minutes (reward_limits_of new_bank) + 60"
proof -
  have v: "balance (fold after_op lifting_ops new_bank) sample_addr = 300" "rl_max_minutes (reward_limits_of new_bank) = 240" by code_simp+
  have "\<forall>x. balance new_bank x \<le> rl_max_minutes (reward_limits_of new_bank)" unfolding v(2) by (simp add: new_bank_def balance_def)
  moreover have "\<forall>opn \<in> set lifting_ops. within_cap opn" by (simp add: lifting_ops_def)
  ultimately show ?thesis using reward_balance_bounded [OF new_bank_ok] v by blast
qed

end
