(* ===== verification/Spec2Isabelle.thy ===== *)
theory Spec2Isabelle
  imports ServiceCatalog Bandwidth PolicyGroups Quota PolicyTime ScheduleResolver EffectivePolicy
    EffectivePolicyExamples PolicyEngine PolicyEngineExamples RouterApi RouterDevice RouterTriples RouterMode RouterSim RouterTemp
    RouterTempSafety RouterTempExamples RouterServices RouterServicesExamples
    JobQueue JobQueueSafety JobQueueGuarantees JobQueueExamples
    Reconciler ReconcilerCycle ReconcilerPlan ReconcilerSafety ReconcilerBreaker ReconcilerRequests ReconcilerExamples
    PolicyEditing PolicyRules PolicyEdits PolicyInvariant PolicySafety PolicyRulesSafety PolicyServicesSafety PolicyGuarantees
    PolicyEditingExamples
    Rewards RewardSafety RewardGuarantees RewardRedemption RewardSaga RewardExamples RedemptionExamples
begin

text \<open>
  Verification library of the household network controller (\<open>src/app\<close>). The program keeps the
  household's policy in an SQL store, resolves the effective policy of each device at an instant,
  compares it with the live state of a RouterOS router and carries out the difference, one device at
  a time, verifying what it wrote. The parts and the theories that model them:

  \<^item> \<open>Prelude\<close>: strings, Python's list, dictionary and text operations, the result type
    \<open>'a res = exc + 'a\<close> with its bind, and the rules the other theories share.
  \<^item> \<open>ServiceCatalog\<close> (\<open>service_catalog.py\<close>, \<open>service_provisioning.py\<close>), \<open>Bandwidth\<close> (\<open>bandwidth.py\<close>),
    \<open>PolicyGroups\<close> (\<open>policy_groups.py\<close>), \<open>Quota\<close> (\<open>quota.py\<close>): the validated data of a policy.
    Tokens, rates, group expansion, percentages and byte arithmetic are as the source computes them.
  \<^item> \<open>PolicyTime\<close> (\<open>policy_time.py\<close>): wall-clock times over an explicit table of UTC offsets.
  \<^item> \<open>ScheduleResolver\<close>, \<open>EffectivePolicy\<close> (\<open>policy_store.py\<close>, the resolvers): occurrences of schedules,
    date exceptions, quotas, overrides, and the policy computed from them; the simulation of a change.
  \<^item> \<open>PolicyEngine\<close> (\<open>policy_engine.py\<close>): the comparison of a policy with the live state of a device.
  \<^item> \<open>RouterApi\<close>, \<open>RouterDevice\<close>, \<open>RouterServices\<close>, \<open>RouterTemp\<close> (\<open>router.py\<close>): the adapter's operations on
    one device: mode, bandwidth queue, service lists, temporary access. The RouterOS client is a
    record of operations on a world; the locale \<open>routeros\<close> states what they promise about the tables
    of the router when they return and when they raise. \<open>RouterSim\<close> is a router of that kind, with
    a schedule of faults, and interprets the locales.
  \<^item> \<open>JobQueue\<close> (\<open>policy_store.py\<close>, revisions to prepared views): configuration revisions, outbox, jobs
    with leases, scope locks, reconciliation requests, prepared views, retention. One operation is
    one transaction on the record \<open>db\<close>.
  \<^item> \<open>Reconciler\<close>, \<open>ReconcilerCycle\<close> (\<open>reconciler.py\<close>, \<open>parallel_observation.py\<close>, the plan loader of
    \<open>main.py\<close>): the plan of a device, its reconciliation, the parallel observation, the automatic
    cycle with its gates and circuit breaker, the durable requests and the turn of the worker. What
    it calls is the record \<open>ports\<close>; \<open>app_ports\<close> fills it with the adapter's operations above.

  \<^item> \<open>PolicyEditing\<close>, \<open>PolicyRules\<close> (\<open>policy_store.py\<close>, profiles to date exceptions): the policy tables with
    all their columns and every operation that changes them, as one configuration transaction of
    \<open>JobQueue\<close>. \<open>store_of\<close> is what the resolvers of \<open>EffectivePolicy\<close> read of these tables.

  \<^item> \<open>Rewards\<close> (\<open>policy_store.py\<close>, reward settings to the retirement of a device), \<open>RewardRedemption\<close>
    (\<open>reward_recovery.py\<close> and the reward routes of \<open>main.py\<close>): the bank of reward minutes with its ledger and
    redemptions, and the redemption over bank and router with its compensation and recovery. Its
    state \<open>desk\<close> pairs the bank with the world of the router adapter.

  Effects are state passing: an action of type \<open>('s, 'a) act = 's \<Rightarrow> 'a res \<times> 's\<close> returns or raises and
  leaves a state in both cases. Loops of the source are structural recursion, except the search of
  \<open>PolicyTime\<close> for the end of a clock gap, which is bounded as in the source.

  What the lemmas show, theory by theory:

  \<^item> \<open>EffectivePolicy\<close>: which layer decides (exception, quota, override, schedule, profile); that quotas
    only tighten; that the simulation agrees with the live computation; \<open>ScheduleResolver\<close>: that the
    schedule in force is the latest and the next one the earliest; \<open>PolicyTime\<close>: that resolution is
    total, monotone, and yields the first valid minute.
  \<^item> \<open>PolicyEngine\<close>: that the status of a plan is exact and its actions converge.
  \<^item> \<open>RouterTriples\<close>: triples over the tables with one postcondition for returns and one for raises;
    \<open>RouterMode\<close>, \<open>RouterServices\<close>: that a change which reports success has established exactly
    what was asked, touched nothing else, and that a restrained device stays restrained when calls
    fail on the way; \<open>RouterTempSafety\<close>: that a grant is backed by its restore script and scheduler.
  \<^item> \<open>JobQueueSafety\<close>, \<open>JobQueueGuarantees\<close>: the invariant of every reachable store, the life cycle of a
    job, fencing by leases and locks, and optimistic concurrency of configuration writes.
  \<^item> \<open>PolicyEdits\<close>: the edits as data, and that each is all or nothing; \<open>PolicyInvariant\<close>: the validity of the
    tables; \<open>PolicySafety\<close>, \<open>PolicyRulesSafety\<close>, \<open>PolicyServicesSafety\<close>: that each edit keeps it;
    \<open>PolicyGuarantees\<close>: that any sequence of edits does, and that the planner accepts what is computed then.
  \<^item> \<open>RewardSafety\<close>, \<open>RewardGuarantees\<close>: minutes are conserved, settled redemptions are final, and the
    bound of a balance. \<open>RewardSaga\<close>: a redemption that succeeds has delivered its access, one that is
    refunded has evidence for it, and the recovery follows what the router says.
  \<^item> \<open>ReconcilerPlan\<close>: a plan without drift describes the tables (locales \<open>plan_source\<close> and
    \<open>policy_router\<close>), hence a reconciliation that reports success has put the policy in force.
    \<open>ReconcilerSafety\<close>, \<open>ReconcilerBreaker\<close>, \<open>ReconcilerRequests\<close>: no writes without authority, the
    circuit breaker, the lock, the settlement of requests.
  \<^item> The theories named \<open>...Examples\<close> evaluate the properties at concrete inputs, on the simulated router
    and on concrete stores, and hold the runs that show where the code falls short.

  Bounds. Numbers are unbounded as in Python; the widths that matter are texts, which are cut where
  the source cuts them. The gap search looks 180 minutes ahead, as the source does. A turn of the
  worker consumes at most four requests.

  Not modelled: HTTP routes, templates and forms; SQL migrations and the records of the policy
  store that no resolver reads; telemetry queries, reports and notifications; sessions and password hashing; the JSON
  text of prepared views and requests, durations and sizes that only inform; the events that wake the
  worker thread. The telemetry and the tables the resolvers read are arguments. Threads of the
  program other than the worker appear as what they may have done to the store by the time a call
  returns (\<open>rp_others\<close>); the order in which parallel readings complete is an argument (\<open>rp_order\<close>).
\<close>

end
